(* ===== verification/Prelude.thy ===== *)
theory Prelude
  imports Main "HOL-Library.AList" "HOL-Library.Sublist"
begin

text \<open>
  The part of Go's standard library that the operator's code uses on plain data, and the
  collections of facts the component theories share.

  Go strings are modelled as HOL strings (a Go string is a byte sequence, a HOL \<open>char\<close> is a
  byte).  A Go map with string keys is an optional association list with distinct keys:
  \<open>None\<close> is the nil map (reading it finds nothing, writing to it panics), and the order of
  the list is one iteration order of the map.
\<close>

named_theorems wp_simps \<open>one-step symbolic execution of handler code\<close>
named_theorems log_simps \<open>projections of the call log\<close>

section \<open>Strings\<close>

definition HasPrefix :: "string \<Rightarrow> string \<Rightarrow> bool" where
  "HasPrefix s p = prefix p s"

fun Contains :: "string \<Rightarrow> string \<Rightarrow> bool" where
  "Contains [] sub = (sub = [])"
| "Contains (c # s) sub = (prefix sub (c # s) \<or> Contains s sub)"

text \<open>\<open>strings.Split\<close> for a separator of one byte: never the empty list.\<close>

fun Split :: "string \<Rightarrow> char \<Rightarrow> string list" where
  "Split [] sep = [[]]"
| "Split (c # s) sep =
     (if c = sep then [] # Split s sep
      else (case Split s sep of [] \<Rightarrow> [[c]] | w # ws \<Rightarrow> (c # w) # ws))"

text \<open>\<open>strings.SplitN(s, sep, 2)\<close>: cut at the first separator only.\<close>

fun SplitN2 :: "string \<Rightarrow> char \<Rightarrow> string list" where
  "SplitN2 [] sep = [[]]"
| "SplitN2 (c # s) sep =
     (if c = sep then [[], s]
      else (case SplitN2 s sep of [] \<Rightarrow> [[c]] | w # ws \<Rightarrow> (c # w) # ws))"

fun Join :: "string list \<Rightarrow> string \<Rightarrow> string" where
  "Join [] sep = []"
| "Join [w] sep = w"
| "Join (w # v # ws) sep = w @ sep @ Join (v # ws) sep"

text \<open>\<open>strings.ReplaceAll(s, "--", "")\<close>.\<close>

fun DropDashes :: "string \<Rightarrow> string" where
  "DropDashes (c # d # s) =
     (if c = CHR ''-'' \<and> d = CHR ''-'' then DropDashes s else c # DropDashes (d # s))"
| "DropDashes s = s"

text \<open>\<open>strings.Trim(s, cutset)\<close>.\<close>

definition TrimLeft :: "string \<Rightarrow> string \<Rightarrow> string" where
  "TrimLeft s cutset = dropWhile (\<lambda>c. c \<in> set cutset) s"

definition Trim :: "string \<Rightarrow> string \<Rightarrow> string" where
  "Trim s cutset = rev (TrimLeft (rev (TrimLeft s cutset)) cutset)"

text \<open>The verb \<open>%d\<close>.\<close>

fun dec_digits :: "nat \<Rightarrow> nat \<Rightarrow> string" where
  "dec_digits 0 n = []"
| "dec_digits (Suc k) n =
     (if n < 10 then [char_of (48 + n)]
      else dec_digits k (n div 10) @ [char_of (48 + n mod 10)])"

definition fmt_d :: "int \<Rightarrow> string" where
  "fmt_d i = (if i < 0 then ''-'' @ dec_digits (Suc (nat (- i))) (nat (- i))
              else dec_digits (Suc (nat i)) (nat i))"

definition nl :: string where
  "nl = [CHR 0x0A]"

text \<open>\<open>'%s'\<close>, and the two characters that are awkward in a literal.\<close>

definition quoted :: "string \<Rightarrow> string" where
  "quoted s = [CHR 0x27] @ s @ [CHR 0x27]"

definition backslash :: string where
  "backslash = [CHR 0x5C]"

definition dquote :: string where
  "dquote = [CHR 0x22]"

section \<open>Maps\<close>

type_synonym 'v gomap = "(string \<times> 'v) list option"

definition go_entries :: "'v gomap \<Rightarrow> (string \<times> 'v) list" where
  "go_entries m = (case m of None \<Rightarrow> [] | Some kvs \<Rightarrow> kvs)"

definition go_get :: "'v gomap \<Rightarrow> string \<Rightarrow> 'v option" where
  "go_get m k = map_of (go_entries m) k"

text \<open>An indexed write; \<open>None\<close> when the map is nil (Go panics).\<close>

definition go_put :: "'v gomap \<Rightarrow> string \<Rightarrow> 'v \<Rightarrow> 'v gomap option" where
  "go_put m k v = (case m of None \<Rightarrow> None | Some kvs \<Rightarrow> Some (Some (AList.update k v kvs)))"

text \<open>\<open>for k, v := range src \<rightarrow> dst[k] = v\<close>.\<close>

fun go_put_all :: "'v gomap \<Rightarrow> (string \<times> 'v) list \<Rightarrow> 'v gomap option" where
  "go_put_all m [] = Some m"
| "go_put_all m ((k, v) # kvs) =
     (case go_put m k v of None \<Rightarrow> None | Some m' \<Rightarrow> go_put_all m' kvs)"

section \<open>Facts about strings\<close>

lemma Split_not_Nil [simp]: "Split s sep \<noteq> []"
  by (induction s) (auto split: list.splits)

lemma Split_no_sep: "w \<in> set (Split s sep) \<Longrightarrow> sep \<notin> set w"
  by (induction s arbitrary: w) (auto split: list.splits if_splits)

lemma Join_Cons: "ws \<noteq> [] \<Longrightarrow> Join (w # ws) sep = w @ sep @ Join ws sep"
  by (cases ws) auto

lemma Join_Cons_head: "Join ((c # w) # ws) sep = c # Join (w # ws) sep"
  by (cases ws) auto

lemma Join_Split: "Join (Split s sep) [sep] = s"
proof (induction s)
  case Nil
  then show ?case by simp
next
  case (Cons c s)
  show ?case
  proof (cases "Split s sep")
    case Nil
    then show ?thesis by simp
  next
    case (Cons w ws)
    with Cons.IH show ?thesis by (simp add: Join_Cons_head)
  qed
qed

lemma SplitN2_cut: "sep \<notin> set a \<Longrightarrow> SplitN2 (a @ sep # b) sep = [a, b]"
  by (induction a) auto

lemma SplitN2_none: "sep \<notin> set a \<Longrightarrow> SplitN2 a sep = [a]"
  by (induction a) auto

lemma SplitN2_two: "SplitN2 s sep = [a, b] \<Longrightarrow> s = a @ sep # b \<and> sep \<notin> set a"
  by (induction s arbitrary: a) (auto split: if_splits list.splits)

lemma Contains_iff: "Contains s sub \<longleftrightarrow> (\<exists>u v. s = u @ sub @ v)"
proof (induction s)
  case Nil
  then show ?case by auto
next
  case (Cons c s)
  have "Contains (c # s) sub \<longleftrightarrow> prefix sub (c # s) \<or> (\<exists>u v. s = u @ sub @ v)"
    using Cons by simp
  also have "\<dots> \<longleftrightarrow> (\<exists>u v. c # s = u @ sub @ v)"
    by (metis append_Cons append_Nil list.exhaust list.inject prefix_def)
  finally show ?case .
qed

lemma Trim_infix: "\<exists>u v. s = u @ Trim s cutset @ v \<and> set u \<subseteq> set cutset \<and> set v \<subseteq> set cutset"
proof -
  let ?P = "\<lambda>c. c \<in> set cutset"
  let ?m = "dropWhile ?P s"
  have 1: "s = takeWhile ?P s @ ?m" by simp
  have "rev ?m = takeWhile ?P (rev ?m) @ dropWhile ?P (rev ?m)" by simp
  then have 2: "?m = rev (dropWhile ?P (rev ?m)) @ rev (takeWhile ?P (rev ?m))"
    by (metis rev_append rev_rev_ident)
  have "s = takeWhile ?P s @ Trim s cutset @ rev (takeWhile ?P (rev ?m))"
    unfolding Trim_def TrimLeft_def using 1 2 by simp
  moreover have "set (takeWhile ?P s) \<subseteq> set cutset" by (auto dest: set_takeWhileD)
  moreover have "set (rev (takeWhile ?P (rev ?m))) \<subseteq> set cutset"
    by (auto dest: set_takeWhileD)
  ultimately show ?thesis by blast
qed

section \<open>Facts about maps\<close>

lemma go_get_None [simp]: "go_get None k = None"
  by (simp add: go_get_def go_entries_def)

lemma go_get_Some: "go_get (Some kvs) k = map_of kvs k"
  by (simp add: go_get_def go_entries_def)

lemma go_put_get: "go_put m k v = Some m' \<Longrightarrow> go_get m' k' = (if k' = k then Some v else go_get m k')"
  by (auto simp: go_put_def go_get_Some update_conv split: option.splits)

lemma go_put_nil_iff [simp]: "go_put m k v = None \<longleftrightarrow> m = None"
  by (auto simp: go_put_def split: option.splits)

lemma go_put_all_Some [simp]: "\<exists>kvs'. go_put_all (Some kvs) es = Some (Some kvs')"
  by (induction es arbitrary: kvs) (auto simp: go_put_def)

lemma go_put_all_None_iff: "go_put_all m es = None \<longleftrightarrow> m = None \<and> es \<noteq> []"
proof (cases m)
  case None
  then show ?thesis by (cases es) (auto simp: go_put_def)
next
  case (Some kvs)
  then show ?thesis using go_put_all_Some [of kvs es] by (metis option.distinct(1))
qed

lemma go_put_all_get:
  "go_put_all m es = Some m' \<Longrightarrow> distinct (map fst es) \<Longrightarrow>
   go_get m' k = (case map_of es k of Some v \<Rightarrow> Some v | None \<Rightarrow> go_get m k)"
proof (induction es arbitrary: m)
  case Nil
  then show ?case by simp
next
  case (Cons e es)
  obtain k0 v0 where e: "e = (k0, v0)" by (cases e)
  from Cons.prems e obtain m1 where m1: "go_put m k0 v0 = Some m1"
    and rest: "go_put_all m1 es = Some m'"
    by (auto split: option.splits)
  from Cons.prems e have d: "distinct (map fst es)" and notin: "k0 \<notin> fst ` set es"
    by auto
  from Cons.IH [OF rest d] go_put_get [OF m1, of k]
  have "go_get m' k = (case map_of es k of Some v \<Rightarrow> Some v
          | None \<Rightarrow> if k = k0 then Some v0 else go_get m k)"
    by (auto split: option.split)
  moreover from notin have "map_of es k0 = None" by (simp add: map_of_eq_None_iff)
  ultimately show ?case using e by simp
qed

end
