(* ===== verification/Kube_Types.thy ===== *)
theory Kube_Types
  imports Prelude
begin

text \<open>
  The data model: the custom resources of \<^verbatim>\<open>api/v1alpha2\<close> and the part of the Kubernetes
  types that the operator reads or fills.  A Go struct is a record with one field per Go field;
  a pointer or a slice whose nil value the code distinguishes is an option; a field that the
  code only copies (a security context, tolerations, ...) has the type \<open>opaque\<close>.  Resource
  quantities are kept in their canonical text form (\<open>''1500m''\<close>, \<open>''3Gi''\<close>), ports are integers.
  All objects that travel through the API client are united in the datatype \<open>kobj\<close>.
\<close>

type_synonym opaque = string
type_synonym gotime = int

section \<open>Kubernetes metadata\<close>

record owner_ref =
  or_apiVersion :: string
  or_kind :: string
  or_name :: string
  or_uid :: string
  or_controller :: "bool option"
  or_blockOwnerDeletion :: "bool option"

record obj_meta =
  om_name :: string
  om_namespace :: string
  om_uid :: string
  om_labels :: "string gomap"
  om_annotations :: "string gomap"
  om_ownerRefs :: "owner_ref list"
  om_resourceVersion :: string
  om_creation :: "gotime option"
  om_deletion :: "gotime option"

definition empty_meta :: obj_meta where
  "empty_meta = \<lparr>om_name = [], om_namespace = [], om_uid = [], om_labels = None,
     om_annotations = None, om_ownerRefs = [], om_resourceVersion = [],
     om_creation = None, om_deletion = None\<rparr>"

record label_selector =
  ls_matchLabels :: "string gomap"
  ls_matchExpressions :: "opaque list"

text \<open>The parsed form of a selector: nothing, everything, or equality requirements.\<close>

datatype selector = SelNothing | SelEverything | SelReqs "(string \<times> string) list"

section \<open>Pods\<close>

record configmap_source =
  cms_name :: string
  cms_mode :: "int option"
  cms_optional :: "bool option"

record secret_source =
  ss_name :: string
  ss_mode :: "int option"
  ss_optional :: "bool option"

record volume =
  vol_name :: string
  vol_emptyDir :: bool
  vol_configMap :: "configmap_source option"
  vol_secret :: "secret_source option"
  vol_pvc :: "string option"
  vol_other :: "opaque option"

record volume_mount =
  vm_name :: string
  vm_mountPath :: string
  vm_subPath :: string
  vm_readOnly :: bool

datatype env_source = FieldRef string string | OtherSource opaque

record env_var =
  ev_name :: string
  ev_value :: string
  ev_from :: "env_source option"

record requirements =
  rr_requests :: "string gomap"
  rr_limits :: "string gomap"

definition no_requirements :: requirements where
  "no_requirements = \<lparr>rr_requests = None, rr_limits = None\<rparr>"

record probe =
  pb_path :: string
  pb_port :: string
  pb_scheme :: string
  pb_initialDelay :: int
  pb_timeout :: int
  pb_failureThreshold :: int
  pb_rest :: opaque

record container_port =
  cp_name :: string
  cp_port :: int
  cp_protocol :: string

text \<open>\<open>postStart\<close> holds the command of a post-start exec action.\<close>

record lifecycle =
  lc_postStart :: "string list option"
  lc_rest :: opaque

record container =
  c_name :: string
  c_image :: string
  c_command :: "string list option"
  c_args :: "string list"
  c_workingDir :: string
  c_ports :: "container_port list"
  c_envFrom :: "opaque list"
  c_env :: "env_var list"
  c_resources :: requirements
  c_volumeMounts :: "volume_mount list"
  c_liveness :: "probe option"
  c_readiness :: "probe option"
  c_lifecycle :: "lifecycle option"
  c_pullPolicy :: string
  c_securityContext :: "opaque option"
  c_stdin :: bool
  c_tty :: bool

record pod_spec =
  psp_serviceAccount :: string
  psp_nodeSelector :: "string gomap"
  psp_initContainers :: "container list"
  psp_containers :: "container list"
  psp_volumes :: "volume list"
  psp_securityContext :: "opaque option"
  psp_imagePullSecrets :: "string list"
  psp_tolerations :: "opaque list"
  psp_priorityClass :: string
  psp_restartPolicy :: string

definition empty_pod_spec :: pod_spec where
  "empty_pod_spec = \<lparr>psp_serviceAccount = [], psp_nodeSelector = None, psp_initContainers = [],
     psp_containers = [], psp_volumes = [], psp_securityContext = None,
     psp_imagePullSecrets = [], psp_tolerations = [], psp_priorityClass = [],
     psp_restartPolicy = []\<rparr>"

text \<open>Of a container status, the termination message when the container has terminated.\<close>

record pod =
  pod_meta :: obj_meta
  pod_spec_of :: pod_spec
  pod_phase :: string
  pod_containerStatuses :: "string option list"

section \<open>Other Kubernetes kinds\<close>

record deployment =
  dp_meta :: obj_meta
  dp_replicas :: int
  dp_strategy :: string
  dp_templateMeta :: obj_meta
  dp_template :: pod_spec
  dp_selector :: "label_selector option"
  dp_available :: int

record replica_set =
  rs_meta :: obj_meta
  rs_selector :: "label_selector option"

record config_map =
  cm_meta :: obj_meta
  cm_data :: "string gomap"

record secret =
  sec_meta :: obj_meta
  sec_data :: "string gomap"

record pvc =
  pvc_meta :: obj_meta
  pvc_accessModes :: "string list"
  pvc_storage :: string

record service_port =
  sp_port :: int
  sp_nodePort :: int

record service =
  svc_meta :: obj_meta
  svc_selector :: "string gomap"
  svc_type :: string
  svc_lbIP :: string
  svc_lbRanges :: "string list option"
  svc_ports :: "service_port list"
  svc_clusterIP :: string

record service_account =
  sa_meta :: obj_meta

record policy_rule =
  pr_apiGroups :: "string list"
  pr_resources :: "string list"
  pr_verbs :: "string list"

record role =
  ro_meta :: obj_meta
  ro_rules :: "policy_rule list"

record role_ref =
  rf_apiGroup :: string
  rf_kind :: string
  rf_name :: string

record subject =
  sj_kind :: string
  sj_name :: string
  sj_namespace :: string

record role_binding =
  rb_meta :: obj_meta
  rb_roleRef :: role_ref
  rb_subjects :: "subject list"

record cluster_role =
  cr_meta :: obj_meta
  cr_kind :: string

record int_or_string =
  ios_isString :: bool
  ios_int :: int
  ios_str :: string

record route =
  rt_meta :: obj_meta
  rt_tls :: "(string \<times> string) option"
  rt_toKind :: string
  rt_toName :: string
  rt_port :: "int_or_string option"

record kns =
  ns_meta :: obj_meta

section \<open>Conditions\<close>

datatype cond_status = CTrue | CFalse | CUnknown

text \<open>
  One record for both condition types in use: \<open>conditions/v1\<close> of the \<open>Jenkins\<close> status and
  \<open>operator-lib/status\<close> of backups and restores (which has no heartbeat time: 0 there).
\<close>

record condition =
  cd_type :: string
  cd_status :: cond_status
  cd_reason :: string
  cd_message :: string
  cd_heartbeat :: gotime
  cd_transition :: gotime

section \<open>Custom resources\<close>

record plugin_spec =
  ps_name :: string
  ps_version :: string
  ps_url :: string

record jcontainer =
  jc_name :: string
  jc_image :: string
  jc_pullPolicy :: string
  jc_resources :: requirements
  jc_command :: "string list option"
  jc_args :: "string list"
  jc_workingDir :: string
  jc_ports :: "container_port list"
  jc_envFrom :: "opaque list"
  jc_env :: "env_var list"
  jc_volumeMounts :: "volume_mount list"
  jc_liveness :: "probe option"
  jc_readiness :: "probe option"
  jc_lifecycle :: "lifecycle option"
  jc_securityContext :: "opaque option"

definition empty_jcontainer :: jcontainer where
  "empty_jcontainer = \<lparr>jc_name = [], jc_image = [], jc_pullPolicy = [],
     jc_resources = no_requirements, jc_command = None, jc_args = [], jc_workingDir = [],
     jc_ports = [], jc_envFrom = [], jc_env = [], jc_volumeMounts = [], jc_liveness = None,
     jc_readiness = None, jc_lifecycle = None, jc_securityContext = None\<rparr>"

record jenkins_master =
  jm_annotations :: "string gomap"
  jm_annotationsDeprecated :: "string gomap"
  jm_labels :: "string gomap"
  jm_nodeSelector :: "string gomap"
  jm_securityContext :: "opaque option"
  jm_containers :: "jcontainer list"
  jm_imagePullSecrets :: "string list"
  jm_volumes :: "volume list"
  jm_tolerations :: "opaque list"
  jm_basePlugins :: "plugin_spec list"
  jm_priorityClass :: string

definition empty_master :: jenkins_master where
  "empty_master = \<lparr>jm_annotations = None, jm_annotationsDeprecated = None, jm_labels = None,
     jm_nodeSelector = None, jm_securityContext = None, jm_containers = [],
     jm_imagePullSecrets = [], jm_volumes = [], jm_tolerations = [], jm_basePlugins = [],
     jm_priorityClass = []\<rparr>"

record jservice =
  sv_annotations :: "string gomap"
  sv_labels :: "string gomap"
  sv_type :: string
  sv_port :: int
  sv_nodePort :: int
  sv_lbRanges :: "string list option"
  sv_lbIP :: string

definition empty_jservice :: jservice where
  "empty_jservice = \<lparr>sv_annotations = None, sv_labels = None, sv_type = [], sv_port = 0,
     sv_nodePort = 0, sv_lbRanges = None, sv_lbIP = []\<rparr>"

record configuration =
  cf_enabled :: bool
  cf_defaultConfig :: bool
  cf_secret :: string
  cf_configurations :: "string list"
  cf_autoReload :: bool

record jenkins_spec =
  js_master :: "jenkins_master option"
  js_imageRef :: string
  js_forceBasePlugins :: bool
  js_service :: jservice
  js_jnlpService :: jservice
  js_roles :: "role_ref list option"
  js_saAnnotations :: "string gomap"
  js_authStrategy :: string
  js_casc :: "configuration option"
  js_backupEnabled :: bool

definition empty_spec :: jenkins_spec where
  "empty_spec = \<lparr>js_master = None, js_imageRef = [], js_forceBasePlugins = False,
     js_service = empty_jservice, js_jnlpService = empty_jservice, js_roles = None,
     js_saAnnotations = None, js_authStrategy = [], js_casc = None, js_backupEnabled = False\<rparr>"

record jenkins_status =
  jst_operatorVersion :: string
  jst_conditions :: "condition list option"
  jst_provisionStart :: "gotime option"
  jst_userHash :: string
  jst_spec :: "jenkins_spec option"

definition empty_status :: jenkins_status where
  "empty_status = \<lparr>jst_operatorVersion = [], jst_conditions = None, jst_provisionStart = None,
     jst_userHash = [], jst_spec = None\<rparr>"

record jenkins =
  j_meta :: obj_meta
  j_spec :: jenkins_spec
  j_status :: "jenkins_status option"

record backup_options =
  bo_jobs :: bool
  bo_plugins :: bool
  bo_config :: bool

record backup_config =
  bc_meta :: obj_meta
  bc_jenkinsRef :: string
  bc_quietDown :: bool
  bc_options :: backup_options
  bc_restartEnabled :: bool
  bc_restartSafe :: bool

record backup =
  bk_meta :: obj_meta
  bk_configRef :: string
  bk_conditions :: "condition list"

record restore =
  re_meta :: obj_meta
  re_backupRef :: string
  re_conditions :: "condition list"

record image =
  im_name :: string
  im_tag :: string
  im_registry :: string
  im_secret :: string

record image_plugin =
  ip_name :: string
  ip_version :: string
  ip_updateCenter :: string

record image_build =
  ib_image :: string
  ib_md5 :: string
  ib_plugins :: string

record jenkins_image =
  ji_meta :: obj_meta
  ji_from :: image
  ji_to :: image
  ji_plugins :: "image_plugin list"
  ji_updateCenter :: string
  ji_phase :: string
  ji_builds :: "image_build list"

section \<open>Objects of the API client\<close>

datatype kind =
    KJenkins | KJenkinsImage | KBackup | KBackupConfig | KRestore | KSecret | KConfigMap
  | KPVC | KService | KServiceAccount | KRole | KRoleBinding | KClusterRole | KDeployment
  | KReplicaSet | KPod | KRoute | KNamespace

datatype kobj =
    OJenkins jenkins | OJenkinsImage jenkins_image | OBackup backup
  | OBackupConfig backup_config | ORestore restore | OSecret secret | OConfigMap config_map
  | OPVC pvc | OService service | OServiceAccount service_account | ORole role
  | ORoleBinding role_binding | OClusterRole cluster_role | ODeployment deployment
  | OReplicaSet replica_set | OPod pod | ORoute route | ONamespace kns

primrec kind_of :: "kobj \<Rightarrow> kind" where
  "kind_of (OJenkins x) = KJenkins"
| "kind_of (OJenkinsImage x) = KJenkinsImage"
| "kind_of (OBackup x) = KBackup"
| "kind_of (OBackupConfig x) = KBackupConfig"
| "kind_of (ORestore x) = KRestore"
| "kind_of (OSecret x) = KSecret"
| "kind_of (OConfigMap x) = KConfigMap"
| "kind_of (OPVC x) = KPVC"
| "kind_of (OService x) = KService"
| "kind_of (OServiceAccount x) = KServiceAccount"
| "kind_of (ORole x) = KRole"
| "kind_of (ORoleBinding x) = KRoleBinding"
| "kind_of (OClusterRole x) = KClusterRole"
| "kind_of (ODeployment x) = KDeployment"
| "kind_of (OReplicaSet x) = KReplicaSet"
| "kind_of (OPod x) = KPod"
| "kind_of (ORoute x) = KRoute"
| "kind_of (ONamespace x) = KNamespace"

primrec meta_of :: "kobj \<Rightarrow> obj_meta" where
  "meta_of (OJenkins x) = j_meta x"
| "meta_of (OJenkinsImage x) = ji_meta x"
| "meta_of (OBackup x) = bk_meta x"
| "meta_of (OBackupConfig x) = bc_meta x"
| "meta_of (ORestore x) = re_meta x"
| "meta_of (OSecret x) = sec_meta x"
| "meta_of (OConfigMap x) = cm_meta x"
| "meta_of (OPVC x) = pvc_meta x"
| "meta_of (OService x) = svc_meta x"
| "meta_of (OServiceAccount x) = sa_meta x"
| "meta_of (ORole x) = ro_meta x"
| "meta_of (ORoleBinding x) = rb_meta x"
| "meta_of (OClusterRole x) = cr_meta x"
| "meta_of (ODeployment x) = dp_meta x"
| "meta_of (OReplicaSet x) = rs_meta x"
| "meta_of (OPod x) = pod_meta x"
| "meta_of (ORoute x) = rt_meta x"
| "meta_of (ONamespace x) = ns_meta x"

primrec map_meta :: "(obj_meta \<Rightarrow> obj_meta) \<Rightarrow> kobj \<Rightarrow> kobj" where
  "map_meta f (OJenkins x) = OJenkins (x\<lparr>j_meta := f (j_meta x)\<rparr>)"
| "map_meta f (OJenkinsImage x) = OJenkinsImage (x\<lparr>ji_meta := f (ji_meta x)\<rparr>)"
| "map_meta f (OBackup x) = OBackup (x\<lparr>bk_meta := f (bk_meta x)\<rparr>)"
| "map_meta f (OBackupConfig x) = OBackupConfig (x\<lparr>bc_meta := f (bc_meta x)\<rparr>)"
| "map_meta f (ORestore x) = ORestore (x\<lparr>re_meta := f (re_meta x)\<rparr>)"
| "map_meta f (OSecret x) = OSecret (x\<lparr>sec_meta := f (sec_meta x)\<rparr>)"
| "map_meta f (OConfigMap x) = OConfigMap (x\<lparr>cm_meta := f (cm_meta x)\<rparr>)"
| "map_meta f (OPVC x) = OPVC (x\<lparr>pvc_meta := f (pvc_meta x)\<rparr>)"
| "map_meta f (OService x) = OService (x\<lparr>svc_meta := f (svc_meta x)\<rparr>)"
| "map_meta f (OServiceAccount x) = OServiceAccount (x\<lparr>sa_meta := f (sa_meta x)\<rparr>)"
| "map_meta f (ORole x) = ORole (x\<lparr>ro_meta := f (ro_meta x)\<rparr>)"
| "map_meta f (ORoleBinding x) = ORoleBinding (x\<lparr>rb_meta := f (rb_meta x)\<rparr>)"
| "map_meta f (OClusterRole x) = OClusterRole (x\<lparr>cr_meta := f (cr_meta x)\<rparr>)"
| "map_meta f (ODeployment x) = ODeployment (x\<lparr>dp_meta := f (dp_meta x)\<rparr>)"
| "map_meta f (OReplicaSet x) = OReplicaSet (x\<lparr>rs_meta := f (rs_meta x)\<rparr>)"
| "map_meta f (OPod x) = OPod (x\<lparr>pod_meta := f (pod_meta x)\<rparr>)"
| "map_meta f (ORoute x) = ORoute (x\<lparr>rt_meta := f (rt_meta x)\<rparr>)"
| "map_meta f (ONamespace x) = ONamespace (x\<lparr>ns_meta := f (ns_meta x)\<rparr>)"

definition obj_key :: "kobj \<Rightarrow> kind \<times> string \<times> string" where
  "obj_key x = (kind_of x, om_namespace (meta_of x), om_name (meta_of x))"

lemma kind_of_map_meta [simp]: "kind_of (map_meta f x) = kind_of x"
  by (cases x) auto

lemma meta_of_map_meta [simp]: "meta_of (map_meta f x) = f (meta_of x)"
  by (cases x) auto

end
