(* ===== verification/Notifications.thy ===== *)
theory Notifications
  imports Kube_Types
begin

text \<open>
  Notifications: the reasons of \<^verbatim>\<open>pkg/notifications/reason/reason.go\<close>, the event record of
  \<^verbatim>\<open>pkg/notifications/event/event.go\<close>, and the loop of \<^verbatim>\<open>pkg/notifications/sender.go\<close> that
  turns them into Kubernetes events through the recorder of \<^verbatim>\<open>pkg/event/event.go\<close>.
\<close>

section \<open>Reasons\<close>

datatype reason_type =
    Undefined | PodRestart | DeploymentEvent | ReconcileLoopFailed
  | GroovyScriptExecutionFailed | BaseConfigurationFailed | BaseConfigurationComplete
  | UserConfigurationFailed | UserConfigurationComplete

record reason =
  rn_type :: reason_type
  rn_source :: string
  rn_short :: "string list"
  rn_verbose :: "string list"

text \<open>
  A value of the interface \<open>Reason\<close>: the methods have value receivers, so both a struct and a
  pointer to one implement it, and \<open>reflect.TypeOf\<close> tells them apart.
\<close>

datatype reason_value = StructOf reason | PointerTo reason

primrec reason_of :: "reason_value \<Rightarrow> reason" where
  "reason_of (StructOf r) = r"
| "reason_of (PointerTo r) = r"

definition OperatorSource :: string where "OperatorSource = ''operator''"
definition KubernetesSource :: string where "KubernetesSource = ''kubernetes''"
definition HumanSource :: string where "HumanSource = ''human''"

definition checkIfVerboseEmpty :: "string list \<Rightarrow> string list \<Rightarrow> string list" where
  "checkIfVerboseEmpty short verbose = (if length verbose = 0 then short else verbose)"

definition new_reason :: "reason_type \<Rightarrow> string \<Rightarrow> string list \<Rightarrow> string list \<Rightarrow> reason_value" where
  "new_reason t source short verbose =
     PointerTo \<lparr>rn_type = t, rn_source = source, rn_short = short,
       rn_verbose = checkIfVerboseEmpty short verbose\<rparr>"

definition NewUndefined :: "string \<Rightarrow> string list \<Rightarrow> string list \<Rightarrow> reason_value" where
  "NewUndefined = new_reason Undefined"

definition podRestartMessage :: "string \<Rightarrow> string" where
  "podRestartMessage source = ''Jenkins master pod restarted by '' @ source @ '':''"

definition prefixMessages :: "string \<Rightarrow> string list \<Rightarrow> string list" where
  "prefixMessages m msgs =
     (if length msgs = 1 then [m @ '' '' @ hd msgs]
      else if length msgs > 1 then m # msgs
      else msgs)"

definition NewPodRestart :: "string \<Rightarrow> string list \<Rightarrow> string list \<Rightarrow> reason_value" where
  "NewPodRestart source short verbose =
     new_reason PodRestart source
       (prefixMessages (podRestartMessage source) short)
       (prefixMessages (podRestartMessage source) verbose)"

definition NewDeploymentEvent :: "string \<Rightarrow> string list \<Rightarrow> string list \<Rightarrow> reason_value" where
  "NewDeploymentEvent = new_reason DeploymentEvent"

definition NewReconcileLoopFailed :: "string \<Rightarrow> string list \<Rightarrow> string list \<Rightarrow> reason_value" where
  "NewReconcileLoopFailed = new_reason ReconcileLoopFailed"

definition NewGroovyScriptExecutionFailed :: "string \<Rightarrow> string list \<Rightarrow> string list \<Rightarrow> reason_value" where
  "NewGroovyScriptExecutionFailed = new_reason GroovyScriptExecutionFailed"

definition NewBaseConfigurationFailed :: "string \<Rightarrow> string list \<Rightarrow> string list \<Rightarrow> reason_value" where
  "NewBaseConfigurationFailed = new_reason BaseConfigurationFailed"

definition NewBaseConfigurationComplete :: "string \<Rightarrow> string list \<Rightarrow> string list \<Rightarrow> reason_value" where
  "NewBaseConfigurationComplete = new_reason BaseConfigurationComplete"

definition NewUserConfigurationFailed :: "string \<Rightarrow> string list \<Rightarrow> string list \<Rightarrow> reason_value" where
  "NewUserConfigurationFailed = new_reason UserConfigurationFailed"

definition NewUserConfigurationComplete :: "string \<Rightarrow> string list \<Rightarrow> string list \<Rightarrow> reason_value" where
  "NewUserConfigurationComplete = new_reason UserConfigurationComplete"

definition Short :: "reason_value \<Rightarrow> string list" where
  "Short r = rn_short (reason_of r)"

definition Verbose :: "reason_value \<Rightarrow> string list" where
  "Verbose r = rn_verbose (reason_of r)"

definition HasMessages :: "reason_value \<Rightarrow> bool" where
  "HasMessages r \<longleftrightarrow> length (rn_short (reason_of r)) > 0 \<or> length (rn_verbose (reason_of r)) > 0"

section \<open>Events\<close>

text \<open>
  Of the notified \<open>Jenkins\<close> the listener uses the name and namespace only; the whole object is
  kept, as in the code.
\<close>

record notification =
  nt_jenkins :: jenkins
  nt_phase :: string
  nt_level :: string
  nt_reason :: reason_value

definition PhaseBase :: string where "PhaseBase = ''base''"
definition NotificationLevelWarning :: string where "NotificationLevelWarning = ''warning''"
definition NotificationLevelInfo :: string where "NotificationLevelInfo = ''info''"

definition TypeNormal :: string where "TypeNormal = ''Normal''"
definition TypeWarning :: string where "TypeWarning = ''Warning''"

definition eventLevelToKubernetesEventType :: "string \<Rightarrow> string" where
  "eventLevelToKubernetesEventType level =
     (if level = NotificationLevelWarning then TypeWarning
      else if level = NotificationLevelInfo then TypeNormal
      else TypeNormal)"

primrec reason_type_name :: "reason_type \<Rightarrow> string" where
  "reason_type_name Undefined = ''Undefined''"
| "reason_type_name PodRestart = ''PodRestart''"
| "reason_type_name DeploymentEvent = ''DeploymentEvent''"
| "reason_type_name ReconcileLoopFailed = ''ReconcileLoopFailed''"
| "reason_type_name GroovyScriptExecutionFailed = ''GroovyScriptExecutionFailed''"
| "reason_type_name BaseConfigurationFailed = ''BaseConfigurationFailed''"
| "reason_type_name BaseConfigurationComplete = ''BaseConfigurationComplete''"
| "reason_type_name UserConfigurationFailed = ''UserConfigurationFailed''"
| "reason_type_name UserConfigurationComplete = ''UserConfigurationComplete''"

text \<open>\<open>reflect.TypeOf(v).Name()\<close>: the declared name of a struct type, empty for a pointer type.\<close>

primrec TypeName :: "reason_value \<Rightarrow> string" where
  "TypeName (StructOf r) = reason_type_name (rn_type r)"
| "TypeName (PointerTo r) = []"

text \<open>What the recorder receives: object, event type, reason, message.\<close>

record k8s_event =
  ke_object :: jenkins
  ke_type :: string
  ke_reason :: string
  ke_message :: string

definition Emit :: "k8s_event list \<Rightarrow> jenkins \<Rightarrow> string \<Rightarrow> string \<Rightarrow> string \<Rightarrow> k8s_event list" where
  "Emit sink obj t r m =
     sink @ [\<lparr>ke_object = obj, ke_type = t, ke_reason = r, ke_message = m\<rparr>]"

text \<open>The body of \<open>Listen\<close> over the events received from the channel, in order.\<close>

fun Listen :: "k8s_event list \<Rightarrow> notification list \<Rightarrow> k8s_event list" where
  "Listen sink [] = sink"
| "Listen sink (e # es) =
     (if \<not> HasMessages (nt_reason e) then Listen sink es
      else Listen (Emit sink (nt_jenkins e) (eventLevelToKubernetesEventType (nt_level e))
                     (TypeName (nt_reason e)) (Join (Short (nt_reason e)) ''; '')) es)"

section \<open>Lemmas\<close>

lemmas new_reasons =
  NewUndefined_def NewPodRestart_def NewDeploymentEvent_def NewReconcileLoopFailed_def
  NewGroovyScriptExecutionFailed_def NewBaseConfigurationFailed_def
  NewBaseConfigurationComplete_def NewUserConfigurationFailed_def
  NewUserConfigurationComplete_def

lemma Short_new [simp]: "Short (new_reason t s sh v) = sh"
  by (simp add: Short_def new_reason_def)

lemma Verbose_new: "Verbose (new_reason t s sh v) = (if v = [] then sh else v)"
  by (simp add: Verbose_def new_reason_def checkIfVerboseEmpty_def)

lemma HasMessages_new: "HasMessages (new_reason t s sh v) \<longleftrightarrow> sh \<noteq> [] \<or> v \<noteq> []"
  by (auto simp: HasMessages_def new_reason_def checkIfVerboseEmpty_def)

lemma prefixMessages_Nil_iff [simp]: "prefixMessages m msgs = [] \<longleftrightarrow> msgs = []"
  by (auto simp: prefixMessages_def split: if_splits)

definition emitted :: "notification \<Rightarrow> k8s_event" where
  "emitted e = \<lparr>ke_object = nt_jenkins e,
     ke_type = (if nt_level e = NotificationLevelWarning then TypeWarning else TypeNormal),
     ke_reason = TypeName (nt_reason e),
     ke_message = Join (Short (nt_reason e)) ''; ''\<rparr>"

lemma Listen_acc:
  "Listen sink es = sink @ map emitted (filter (\<lambda>e. HasMessages (nt_reason e)) es)"
  by (induction sink es rule: Listen.induct)
    (auto simp: Emit_def emitted_def eventLevelToKubernetesEventType_def)

section \<open>Properties\<close>

text \<open>
  The listener drops exactly the events whose reason has no messages and forwards all
  others, once each and in the order of arrival, with the short messages joined, as a warning
  for level \<open>warning\<close> and as a normal event otherwise.
\<close>

theorem Listen_forwards:
  "Listen [] es = map emitted (filter (\<lambda>e. HasMessages (nt_reason e)) es)"
  by (simp add: Listen_acc)

text \<open>
  A pod-restart reason has messages exactly when it was given one; a single message is
  prefixed in place, several messages get the prefix as an extra first message, and without
  verbose messages the verbose list repeats the short one.
\<close>

theorem NewPodRestart_messages:
  "HasMessages (NewPodRestart src short verbose) = (length short + length verbose > 0) \<and>
   Short (NewPodRestart src [m] verbose) = [podRestartMessage src @ '' '' @ m] \<and>
   Short (NewPodRestart src (m # m' # ms) verbose) = podRestartMessage src # m # m' # ms \<and>
   Verbose (NewPodRestart src short []) = Short (NewPodRestart src short [])"
  by (auto simp: NewPodRestart_def HasMessages_new Verbose_new prefixMessages_def)

text \<open>
  Every reason built by a constructor of the package is a pointer, so the name the
  listener takes from its dynamic type is empty: every Kubernetes event it emits has an empty
  reason, whatever the kind of the notification.
\<close>

theorem Listen_reason_empty:
  assumes "\<And>e. e \<in> set es \<Longrightarrow> \<exists>t src short verbose. nt_reason e = new_reason t src short verbose"
    and "k \<in> set (Listen [] es)"
  shows "ke_reason k = []"
proof -
  from assms(2) obtain e where "e \<in> set es" and k: "k = emitted e"
    by (auto simp: Listen_acc)
  with assms(1) obtain t src short verbose where "nt_reason e = new_reason t src short verbose"
    by blast
  with k show ?thesis by (simp add: emitted_def new_reason_def)
qed

theorem Listen_reason_empty_witness:
  "\<exists>k. k \<in> set (Listen [] [\<lparr>nt_jenkins = \<lparr>j_meta = empty_meta, j_spec = empty_spec, j_status = None\<rparr>,
       nt_phase = PhaseBase, nt_level = NotificationLevelInfo,
       nt_reason = NewDeploymentEvent OperatorSource [''Creating a Jenkins Deployment''] []\<rparr>]) \<and>
     ke_message k = ''Creating a Jenkins Deployment'' \<and> ke_reason k = []"
proof -
  let ?e = "\<lparr>nt_jenkins = \<lparr>j_meta = empty_meta, j_spec = empty_spec, j_status = None\<rparr>,
       nt_phase = PhaseBase, nt_level = NotificationLevelInfo,
       nt_reason = NewDeploymentEvent OperatorSource [''Creating a Jenkins Deployment''] []\<rparr>"
  have mem: "emitted ?e \<in> set (Listen [] [?e])"
    by (simp add: Listen_acc NewDeploymentEvent_def HasMessages_new)
  have "ke_reason (emitted ?e) = []"
    by (rule Listen_reason_empty [OF _ mem]) (auto simp: NewDeploymentEvent_def)
  moreover have "ke_message (emitted ?e) = ''Creating a Jenkins Deployment''"
    by (simp add: emitted_def NewDeploymentEvent_def)
  ultimately show ?thesis using mem by blast
qed

end
