(* ===== verification/Effects.thy ===== *)
theory Effects
  imports Notifications
begin

text \<open>
  How the handlers act on the outside.  Everything the operator calls that is not its own code
  (the API server behind the controller-runtime client, the clock, the process environment, the
  kubeconfig loader, the remote command executor, the selector parser) is a field of the record
  \<open>'w env\<close>, over an abstract state \<open>'w\<close> of the outside world: a handler gets it as an argument,
  and every call may answer anything, including an error, and may change the world.

  A handler is a function from the system state (world and call log) to an outcome and a new
  system state.  The log records every API call, every remote command and every notification
  with the error it ended in: it is the observable behaviour of a handler.  A Go panic ends the
  handler with the outcome \<open>Crashed\<close>; a Go error is a value.
\<close>

section \<open>Errors\<close>

datatype api_reason = NotFound | AlreadyExists | Conflict | OtherReason string

datatype goerr =
    StatusErr api_reason string
  | TextErr string
  | GroovyErr string string string string
  | Stacked goerr
  | Wrapped string goerr

primrec err_text :: "goerr \<Rightarrow> string" where
  "err_text (StatusErr r m) = m"
| "err_text (TextErr m) = m"
| "err_text (GroovyErr t s n l) = ''script execution failed''"
| "err_text (Stacked e) = err_text e"
| "err_text (Wrapped m e) = m @ '': '' @ err_text e"

text \<open>\<open>apierrors.ReasonForError\<close> inspects the outermost error only: a wrapped one has no reason.\<close>

fun ReasonForError :: "goerr \<Rightarrow> api_reason option" where
  "ReasonForError (StatusErr r m) = Some r"
| "ReasonForError e = None"

definition IsNotFound :: "goerr \<Rightarrow> bool" where
  "IsNotFound e \<longleftrightarrow> ReasonForError e = Some NotFound"

definition IsAlreadyExists :: "goerr \<Rightarrow> bool" where
  "IsAlreadyExists e \<longleftrightarrow> ReasonForError e = Some AlreadyExists"

definition IsConflict :: "goerr \<Rightarrow> bool" where
  "IsConflict e \<longleftrightarrow> ReasonForError e = Some Conflict"

text \<open>\<open>errors.WithStack\<close>: nil stays nil.\<close>

definition WithStack :: "goerr option \<Rightarrow> goerr option" where
  "WithStack e = map_option Stacked e"

section \<open>The outside\<close>

record exec_request =
  xr_pod :: string
  xr_namespace :: string
  xr_container :: string
  xr_command :: "string list"

record 'w env =
  e_get :: "kind \<Rightarrow> string \<Rightarrow> string \<Rightarrow> 'w \<Rightarrow> (goerr + kobj) \<times> 'w"
  e_list :: "kind \<Rightarrow> string option \<Rightarrow> selector option \<Rightarrow> 'w \<Rightarrow> (goerr + kobj list) \<times> 'w"
  e_create :: "kobj \<Rightarrow> 'w \<Rightarrow> (goerr + kobj) \<times> 'w"
  e_update :: "kobj \<Rightarrow> 'w \<Rightarrow> (goerr + kobj) \<times> 'w"
  e_status :: "kobj \<Rightarrow> 'w \<Rightarrow> (goerr + kobj) \<times> 'w"
  e_delete :: "kobj \<Rightarrow> 'w \<Rightarrow> goerr option \<times> 'w"
  e_selectorOf :: "label_selector option \<Rightarrow> goerr + selector"
  e_now :: "'w \<Rightarrow> gotime \<times> 'w"
  e_getenv :: "string \<Rightarrow> string"
  e_home :: string
  e_buildConfig :: "string \<Rightarrow> 'w \<Rightarrow> (goerr + string) \<times> 'w"
  e_newForConfig :: "string \<Rightarrow> goerr option"
  e_newExecutor :: "string \<Rightarrow> exec_request \<Rightarrow> goerr option"
  e_stream :: "exec_request \<Rightarrow> 'w \<Rightarrow> goerr option \<times> 'w"

datatype call =
    CGet kind string string
  | CList kind "string option" "selector option"
  | CCreate kobj
  | CUpdate kobj
  | CStatus kobj
  | CDelete kobj
  | CExec exec_request
  | CNotify notification

record 'w sys =
  world :: 'w
  log :: "(call \<times> goerr option) list"

section \<open>Handler code\<close>

datatype 'a outcome = Done 'a | Crashed string

type_synonym ('w, 'a) prog = "'w sys \<Rightarrow> 'a outcome \<times> 'w sys"

definition ret :: "'a \<Rightarrow> ('w, 'a) prog" where
  "ret a = (\<lambda>s. (Done a, s))"

definition crash :: "string \<Rightarrow> ('w, 'a) prog" where
  "crash m = (\<lambda>s. (Crashed m, s))"

definition bindP :: "('w, 'a) prog \<Rightarrow> ('a \<Rightarrow> ('w, 'b) prog) \<Rightarrow> ('w, 'b) prog" where
  "bindP m f = (\<lambda>s. case m s of (Done a, s') \<Rightarrow> f a s' | (Crashed c, s') \<Rightarrow> (Crashed c, s'))"

text \<open>\<open>x, err := m; if err != nil { return err }; f(x)\<close>.\<close>

definition bindE :: "('w, goerr + 'a) prog \<Rightarrow> ('a \<Rightarrow> ('w, goerr + 'b) prog) \<Rightarrow> ('w, goerr + 'b) prog" where
  "bindE m f = bindP m (\<lambda>r. case r of Inl e \<Rightarrow> ret (Inl e) | Inr a \<Rightarrow> f a)"

definition err_part :: "goerr + 'a \<Rightarrow> goerr option" where
  "err_part r = (case r of Inl e \<Rightarrow> Some e | Inr a \<Rightarrow> None)"

definition perform :: "call \<Rightarrow> ('w \<Rightarrow> (goerr + 'a) \<times> 'w) \<Rightarrow> ('w, goerr + 'a) prog" where
  "perform c f = (\<lambda>s. case f (world s) of
     (r, w) \<Rightarrow> (Done r, s\<lparr>world := w, log := log s @ [(c, err_part r)]\<rparr>))"

definition unit_result :: "goerr option \<Rightarrow> goerr + unit" where
  "unit_result e = (case e of None \<Rightarrow> Inr () | Some x \<Rightarrow> Inl x)"

text \<open>An answer is decoded into the Go type the caller passed; anything else is an error.\<close>

definition decode :: "(kobj \<Rightarrow> 'a option) \<Rightarrow> goerr + kobj \<Rightarrow> goerr + 'a" where
  "decode sel r = (case r of Inl e \<Rightarrow> Inl e
     | Inr x \<Rightarrow> (case sel x of None \<Rightarrow> Inl (TextErr ''unable to decode'') | Some a \<Rightarrow> Inr a))"

definition decode_list :: "(kobj \<Rightarrow> 'a option) \<Rightarrow> goerr + kobj list \<Rightarrow> goerr + 'a list" where
  "decode_list sel r = (case r of Inl e \<Rightarrow> Inl e
     | Inr xs \<Rightarrow> (if \<forall>x \<in> set xs. sel x \<noteq> None then Inr (map (\<lambda>x. the (sel x)) xs)
                  else Inl (TextErr ''unable to decode'')))"

definition client_get :: "'w env \<Rightarrow> kind \<Rightarrow> (kobj \<Rightarrow> 'a option) \<Rightarrow> string \<Rightarrow> string \<Rightarrow> ('w, goerr + 'a) prog" where
  "client_get E k sel ns n = perform (CGet k ns n) (\<lambda>w. apfst (decode sel) (e_get E k ns n w))"

definition client_list :: "'w env \<Rightarrow> kind \<Rightarrow> (kobj \<Rightarrow> 'a option) \<Rightarrow> string option \<Rightarrow> selector option \<Rightarrow> ('w, goerr + 'a list) prog" where
  "client_list E k sel ns ls = perform (CList k ns ls) (\<lambda>w. apfst (decode_list sel) (e_list E k ns ls w))"

definition client_create :: "'w env \<Rightarrow> (kobj \<Rightarrow> 'a option) \<Rightarrow> kobj \<Rightarrow> ('w, goerr + 'a) prog" where
  "client_create E sel x = perform (CCreate x) (\<lambda>w. apfst (decode sel) (e_create E x w))"

definition client_update :: "'w env \<Rightarrow> (kobj \<Rightarrow> 'a option) \<Rightarrow> kobj \<Rightarrow> ('w, goerr + 'a) prog" where
  "client_update E sel x = perform (CUpdate x) (\<lambda>w. apfst (decode sel) (e_update E x w))"

definition client_status_update :: "'w env \<Rightarrow> (kobj \<Rightarrow> 'a option) \<Rightarrow> kobj \<Rightarrow> ('w, goerr + 'a) prog" where
  "client_status_update E sel x = perform (CStatus x) (\<lambda>w. apfst (decode sel) (e_status E x w))"

definition client_delete :: "'w env \<Rightarrow> kobj \<Rightarrow> ('w, goerr + unit) prog" where
  "client_delete E x = perform (CDelete x) (\<lambda>w. apfst unit_result (e_delete E x w))"

definition notify :: "notification \<Rightarrow> ('w, unit) prog" where
  "notify n = (\<lambda>s. (Done (), s\<lparr>log := log s @ [(CNotify n, None)]\<rparr>))"

definition now :: "'w env \<Rightarrow> ('w, gotime) prog" where
  "now E = (\<lambda>s. case e_now E (world s) of (t, w) \<Rightarrow> (Done t, s\<lparr>world := w\<rparr>))"

text \<open>The selectors that decode an answer.\<close>

definition as_jenkins :: "kobj \<Rightarrow> jenkins option" where
  "as_jenkins x = (case x of OJenkins a \<Rightarrow> Some a | _ \<Rightarrow> None)"
definition as_image :: "kobj \<Rightarrow> jenkins_image option" where
  "as_image x = (case x of OJenkinsImage a \<Rightarrow> Some a | _ \<Rightarrow> None)"
definition as_backup :: "kobj \<Rightarrow> backup option" where
  "as_backup x = (case x of OBackup a \<Rightarrow> Some a | _ \<Rightarrow> None)"
definition as_backup_config :: "kobj \<Rightarrow> backup_config option" where
  "as_backup_config x = (case x of OBackupConfig a \<Rightarrow> Some a | _ \<Rightarrow> None)"
definition as_restore :: "kobj \<Rightarrow> restore option" where
  "as_restore x = (case x of ORestore a \<Rightarrow> Some a | _ \<Rightarrow> None)"
definition as_secret :: "kobj \<Rightarrow> secret option" where
  "as_secret x = (case x of OSecret a \<Rightarrow> Some a | _ \<Rightarrow> None)"
definition as_config_map :: "kobj \<Rightarrow> config_map option" where
  "as_config_map x = (case x of OConfigMap a \<Rightarrow> Some a | _ \<Rightarrow> None)"
definition as_pvc :: "kobj \<Rightarrow> pvc option" where
  "as_pvc x = (case x of OPVC a \<Rightarrow> Some a | _ \<Rightarrow> None)"
definition as_service :: "kobj \<Rightarrow> service option" where
  "as_service x = (case x of OService a \<Rightarrow> Some a | _ \<Rightarrow> None)"
definition as_service_account :: "kobj \<Rightarrow> service_account option" where
  "as_service_account x = (case x of OServiceAccount a \<Rightarrow> Some a | _ \<Rightarrow> None)"
definition as_role_binding :: "kobj \<Rightarrow> role_binding option" where
  "as_role_binding x = (case x of ORoleBinding a \<Rightarrow> Some a | _ \<Rightarrow> None)"
definition as_cluster_role :: "kobj \<Rightarrow> cluster_role option" where
  "as_cluster_role x = (case x of OClusterRole a \<Rightarrow> Some a | _ \<Rightarrow> None)"
definition as_deployment :: "kobj \<Rightarrow> deployment option" where
  "as_deployment x = (case x of ODeployment a \<Rightarrow> Some a | _ \<Rightarrow> None)"
definition as_replica_set :: "kobj \<Rightarrow> replica_set option" where
  "as_replica_set x = (case x of OReplicaSet a \<Rightarrow> Some a | _ \<Rightarrow> None)"
definition as_pod :: "kobj \<Rightarrow> pod option" where
  "as_pod x = (case x of OPod a \<Rightarrow> Some a | _ \<Rightarrow> None)"
definition as_route :: "kobj \<Rightarrow> route option" where
  "as_route x = (case x of ORoute a \<Rightarrow> Some a | _ \<Rightarrow> None)"
definition as_namespace :: "kobj \<Rightarrow> kns option" where
  "as_namespace x = (case x of ONamespace a \<Rightarrow> Some a | _ \<Rightarrow> None)"

text \<open>\<open>ctrl.Result\<close>; the delay in seconds.\<close>

record result =
  requeue :: bool
  requeueAfter :: int

definition empty_result :: result where
  "empty_result = \<lparr>requeue = False, requeueAfter = 0\<rparr>"

definition requeue_result :: result where
  "requeue_result = \<lparr>requeue = True, requeueAfter = 0\<rparr>"

section \<open>Reasoning about handler code\<close>

text \<open>
  \<open>emits P m\<close>: whatever the outside does, \<open>m\<close> only appends to the log, and only entries that
  satisfy \<open>P\<close>.  It is closed under composition, so a safety property of a handler is proved by
  applying the rules below along its structure.
\<close>

definition emits :: "(call \<times> goerr option \<Rightarrow> bool) \<Rightarrow> ('w, 'a) prog \<Rightarrow> bool" where
  "emits P m \<longleftrightarrow> (\<forall>s. \<exists>es. log (snd (m s)) = log s @ es \<and> (\<forall>e \<in> set es. P e))"

named_theorems emits_intros \<open>introduction rules for emits\<close>

lemma emits_ret [emits_intros]: "emits P (ret a)"
  by (simp add: emits_def ret_def)

lemma emits_crash [emits_intros]: "emits P (crash c)"
  by (simp add: emits_def crash_def)

lemma emits_bindP [emits_intros]:
  assumes m: "emits P m" and f: "\<And>a. emits P (f a)"
  shows "emits P (bindP m f)"
  unfolding emits_def
proof
  fix s
  obtain r s1 where ms: "m s = (r, s1)" by (cases "m s")
  from m ms obtain es where es: "log s1 = log s @ es" "\<forall>e \<in> set es. P e"
    unfolding emits_def by (metis snd_conv)
  show "\<exists>es. log (snd (bindP m f s)) = log s @ es \<and> (\<forall>e \<in> set es. P e)"
  proof (cases r)
    case (Crashed c)
    with ms es show ?thesis by (auto simp: bindP_def)
  next
    case (Done a)
    from f [of a] obtain es2 where "log (snd (f a s1)) = log s1 @ es2" "\<forall>e \<in> set es2. P e"
      unfolding emits_def by blast
    with ms es Done show ?thesis
      by (intro exI [of _ "es @ es2"]) (auto simp: bindP_def)
  qed
qed

lemma emits_bindE [emits_intros]:
  assumes "emits P m" and "\<And>a. emits P (f a)"
  shows "emits P (bindE m f)"
  unfolding bindE_def using assms
  by (intro emits_bindP) (auto split: sum.splits intro: emits_ret)

lemma emits_perform [emits_intros]: "(\<And>r. P (c, r)) \<Longrightarrow> emits P (perform c f)"
  by (auto simp: emits_def perform_def split: prod.splits)

lemma emits_now [emits_intros]: "emits P (now E)"
  by (auto simp: emits_def now_def split: prod.splits)

lemma emits_notify [emits_intros]: "P (CNotify n, None) \<Longrightarrow> emits P (notify n)"
  by (auto simp: emits_def notify_def)

lemma emits_client [emits_intros]:
  "(\<And>r. P (CGet k ns n, r)) \<Longrightarrow> emits P (client_get E k sel ns n)"
  "(\<And>r. P (CList k ons ls, r)) \<Longrightarrow> emits P (client_list E k sell ons ls)"
  "(\<And>r. P (CCreate x, r)) \<Longrightarrow> emits P (client_create E selc x)"
  "(\<And>r. P (CUpdate x, r)) \<Longrightarrow> emits P (client_update E selu x)"
  "(\<And>r. P (CStatus x, r)) \<Longrightarrow> emits P (client_status_update E sels x)"
  "(\<And>r. P (CDelete x, r)) \<Longrightarrow> emits P (client_delete E x)"
  unfolding client_get_def client_list_def client_create_def client_update_def
    client_status_update_def client_delete_def
  by (auto intro: emits_perform)

lemma emits_if [emits_intros]:
  "(b \<Longrightarrow> emits P m) \<Longrightarrow> (\<not> b \<Longrightarrow> emits P m') \<Longrightarrow> emits P (if b then m else m')"
  by simp

lemma emits_case_sum [emits_intros]:
  "(\<And>e. emits P (f e)) \<Longrightarrow> (\<And>a. emits P (g a)) \<Longrightarrow>
   emits P (case r of Inl e \<Rightarrow> f e | Inr a \<Rightarrow> g a)"
  by (cases r) auto

lemma emits_case_option [emits_intros]:
  "emits P f \<Longrightarrow> (\<And>a. emits P (g a)) \<Longrightarrow> emits P (case r of None \<Rightarrow> f | Some a \<Rightarrow> g a)"
  by (cases r) auto

lemma emits_case_list [emits_intros]:
  "emits P f \<Longrightarrow> (\<And>a as. emits P (g a as)) \<Longrightarrow> emits P (case r of [] \<Rightarrow> f | a # as \<Rightarrow> g a as)"
  by (cases r) auto

lemma emits_case_prod [emits_intros]:
  "(\<And>a b. emits P (f a b)) \<Longrightarrow> emits P (case r of (a, b) \<Rightarrow> f a b)"
  by (cases r) auto

lemma emits_weaken: "emits P m \<Longrightarrow> (\<And>e. P e \<Longrightarrow> Q e) \<Longrightarrow> emits Q m"
  unfolding emits_def by blast

lemma emitsD:
  assumes "emits P m" and "m s = (r, s')"
  obtains es where "log s' = log s @ es" and "\<And>e. e \<in> set es \<Longrightarrow> P e"
proof -
  from assms have "\<exists>es. log s' = log s @ es \<and> (\<forall>e \<in> set es. P e)"
    unfolding emits_def by (metis snd_conv)
  with that show ?thesis by blast
qed

lemma emits_log:
  "emits P m \<Longrightarrow> m s = (r, s') \<Longrightarrow> \<exists>es. log s' = log s @ es \<and> (\<forall>e \<in> set es. P e)"
  unfolding emits_def by (metis snd_conv)

text \<open>Symbolic execution: running a composition, one call at a time.\<close>

lemma run_ret [wp_simps]: "ret a s = (Done a, s)"
  by (simp add: ret_def)

lemma run_crash [wp_simps]: "crash c s = (Crashed c, s)"
  by (simp add: crash_def)

lemma run_bindP: "bindP m f s = (case m s of (Done a, s') \<Rightarrow> f a s' | (Crashed c, s') \<Rightarrow> (Crashed c, s'))"
  by (simp add: bindP_def)

lemma bindP_ret [simp]: "bindP (ret a) f = f a"
  by (simp add: bindP_def ret_def fun_eq_iff)

lemma bindP_crash [simp]: "bindP (crash c) f = crash c"
  by (simp add: bindP_def crash_def fun_eq_iff)

lemma bindP_ret_right [simp]: "bindP m ret = m"
  by (auto simp: bindP_def ret_def fun_eq_iff split: prod.splits outcome.splits)

lemma bindP_assoc: "bindP (bindP m f) g = bindP m (\<lambda>a. bindP (f a) g)"
  by (auto simp: bindP_def fun_eq_iff split: prod.splits outcome.splits)

lemma bindE_Inl [simp]: "bindE (ret (Inl e)) f = ret (Inl e)"
  by (simp add: bindE_def)

lemma bindE_Inr [simp]: "bindE (ret (Inr a)) f = f a"
  by (simp add: bindE_def)

lemma bindP_Done: "bindP m f s = (Done b, s') \<longleftrightarrow> (\<exists>a s1. m s = (Done a, s1) \<and> f a s1 = (Done b, s'))"
  by (auto simp: bindP_def split: prod.splits outcome.splits)

lemma bindP_Crashed:
  "bindP m f s = (Crashed c, s') \<longleftrightarrow>
     m s = (Crashed c, s') \<or> (\<exists>a s1. m s = (Done a, s1) \<and> f a s1 = (Crashed c, s'))"
  by (auto simp: bindP_def split: prod.splits outcome.splits)

lemma perform_run:
  obtains r w where "perform c f s =
    (Done r, s\<lparr>world := w, log := log s @ [(c, err_part r)]\<rparr>)" and "f (world s) = (r, w)"
  by (cases "f (world s)") (simp add: perform_def)

lemma perform_ex: "\<exists>r w. perform c f s =
    (Done r, s\<lparr>world := w, log := log s @ [(c, err_part r)]\<rparr>)"
  by (cases "f (world s)") (auto simp: perform_def)

text \<open>Each client operation, run: some answer, some new world, one log entry.\<close>

lemma client_get_ex: "\<exists>r w. client_get E k sel ns n s =
    (Done r, s\<lparr>world := w, log := log s @ [(CGet k ns n, err_part r)]\<rparr>)"
  unfolding client_get_def by (rule perform_ex)

lemma client_list_ex: "\<exists>r w. client_list E k sel ons ls s =
    (Done r, s\<lparr>world := w, log := log s @ [(CList k ons ls, err_part r)]\<rparr>)"
  unfolding client_list_def by (rule perform_ex)

lemma client_create_ex: "\<exists>r w. client_create E sel x s =
    (Done r, s\<lparr>world := w, log := log s @ [(CCreate x, err_part r)]\<rparr>)"
  unfolding client_create_def by (rule perform_ex)

lemma client_update_ex: "\<exists>r w. client_update E sel x s =
    (Done r, s\<lparr>world := w, log := log s @ [(CUpdate x, err_part r)]\<rparr>)"
  unfolding client_update_def by (rule perform_ex)

lemma client_status_update_ex: "\<exists>r w. client_status_update E sel x s =
    (Done r, s\<lparr>world := w, log := log s @ [(CStatus x, err_part r)]\<rparr>) \<and>
    (\<forall>a. r = Inr a \<longrightarrow> (\<exists>y. e_status E x (world s) = (Inr y, w) \<and> sel y = Some a))"
proof -
  obtain q w where q: "e_status E x (world s) = (q, w)" by (cases "e_status E x (world s)")
  have "client_status_update E sel x s =
      (Done (decode sel q), s\<lparr>world := w, log := log s @ [(CStatus x, err_part (decode sel q))]\<rparr>)"
    by (simp add: client_status_update_def perform_def q)
  moreover have "\<forall>a. decode sel q = Inr a \<longrightarrow> (\<exists>y. q = Inr y \<and> sel y = Some a)"
    by (auto simp: decode_def split: sum.splits option.splits)
  ultimately show ?thesis
    using q by (intro exI [of _ "decode sel q"] exI [of _ w]) simp
qed

lemma client_get_run:
  obtains r w where "client_get E k sel ns n s =
    (Done r, s\<lparr>world := w, log := log s @ [(CGet k ns n, err_part r)]\<rparr>)"
  using client_get_ex [of E k sel ns n s] by (elim exE) (rule that)

lemma client_list_run:
  obtains r w where "client_list E k sel ons ls s =
    (Done r, s\<lparr>world := w, log := log s @ [(CList k ons ls, err_part r)]\<rparr>)"
  using client_list_ex [of E k sel ons ls s] by (elim exE) (rule that)

lemma client_create_run:
  obtains r w where "client_create E sel x s =
    (Done r, s\<lparr>world := w, log := log s @ [(CCreate x, err_part r)]\<rparr>)"
  using client_create_ex [of E sel x s] by (elim exE) (rule that)

lemma client_update_run:
  obtains r w where "client_update E sel x s =
    (Done r, s\<lparr>world := w, log := log s @ [(CUpdate x, err_part r)]\<rparr>)"
  using client_update_ex [of E sel x s] by (elim exE) (rule that)

lemma client_status_update_run:
  obtains r w where "client_status_update E sel x s =
    (Done r, s\<lparr>world := w, log := log s @ [(CStatus x, err_part r)]\<rparr>)"
    and "\<And>a. r = Inr a \<Longrightarrow> \<exists>y. e_status E x (world s) = (Inr y, w) \<and> sel y = Some a"
proof -
  from client_status_update_ex [of E sel x s] obtain r w where
    run: "client_status_update E sel x s =
      (Done r, s\<lparr>world := w, log := log s @ [(CStatus x, err_part r)]\<rparr>)" and
    ans: "\<forall>a. r = Inr a \<longrightarrow> (\<exists>y. e_status E x (world s) = (Inr y, w) \<and> sel y = Some a)"
    by (elim exE conjE)
  from ans have "\<And>a. r = Inr a \<Longrightarrow> \<exists>y. e_status E x (world s) = (Inr y, w) \<and> sel y = Some a"
    by (elim allE impE)
  with run show thesis by (rule that)
qed

lemma now_run:
  obtains t w where "now E s = (Done t, s\<lparr>world := w\<rparr>)"
  by (cases "e_now E (world s)") (simp add: now_def)

text \<open>
  \<open>traces Q m\<close>: every run of \<open>m\<close> ends in an outcome and appends a piece of log that satisfy \<open>Q\<close>
  together.  It refines \<open>emits\<close> by the outcome and the order of the calls.
\<close>

definition traces :: "('a outcome \<Rightarrow> (call \<times> goerr option) list \<Rightarrow> bool) \<Rightarrow> ('w, 'a) prog \<Rightarrow> bool" where
  "traces Q m \<longleftrightarrow> (\<forall>s. \<exists>out es w. m s = (out, s\<lparr>world := w, log := log s @ es\<rparr>) \<and> Q out es)"

lemma tracesI:
  assumes "\<And>s. \<exists>out es w. m s = (out, s\<lparr>world := w, log := log s @ es\<rparr>) \<and> Q out es"
  shows "traces Q m"
  unfolding traces_def using assms by (intro allI)

lemma tracesE:
  assumes "traces Q m"
  obtains out es w where "m s = (out, s\<lparr>world := w, log := log s @ es\<rparr>)" and "Q out es"
  using assms [unfolded traces_def, THEN spec, of s] by (elim exE conjE) (rule that)

text \<open>What a property of runs gives for one run.\<close>

lemma traces_run:
  assumes "traces Q m" and "m s = (out, s')"
  shows "\<exists>es. log s' = log s @ es \<and> Q out es"
proof -
  obtain out' es w where "m s = (out', s\<lparr>world := w, log := log s @ es\<rparr>)" and "Q out' es"
    using assms(1) by (rule tracesE)
  with assms(2) have "s' = s\<lparr>world := w, log := log s @ es\<rparr>" and "out' = out" by simp_all
  with \<open>Q out' es\<close> show ?thesis by (intro exI [of _ es]) simp
qed

lemma traces_ret:
  assumes "Q (Done a) []"
  shows "traces Q (ret a)"
proof (rule tracesI)
  fix s
  have "ret a s = (Done a, s\<lparr>world := world s, log := log s @ []\<rparr>)"
    by (simp add: ret_def)
  with assms show "\<exists>out es w. ret a s = (out, s\<lparr>world := w, log := log s @ es\<rparr>) \<and> Q out es"
    by (intro exI conjI)
qed

lemma traces_crash:
  assumes "Q (Crashed c) []"
  shows "traces Q (crash c)"
proof (rule tracesI)
  fix s
  have "crash c s = (Crashed c, s\<lparr>world := world s, log := log s @ []\<rparr>)"
    by (simp add: crash_def)
  with assms show "\<exists>out es w. crash c s = (out, s\<lparr>world := w, log := log s @ es\<rparr>) \<and> Q out es"
    by (intro exI conjI)
qed

lemma traces_bindP:
  assumes m: "traces Q m"
    and f: "\<And>a es. Q (Done a) es \<Longrightarrow> traces (\<lambda>out es'. R out (es @ es')) (f a)"
    and c: "\<And>c es. Q (Crashed c) es \<Longrightarrow> R (Crashed c) es"
  shows "traces R (bindP m f)"
proof (rule tracesI)
  fix s
  obtain out es w where run: "m s = (out, s\<lparr>world := w, log := log s @ es\<rparr>)" and q: "Q out es"
    using m by (rule tracesE)
  show "\<exists>out es w. bindP m f s = (out, s\<lparr>world := w, log := log s @ es\<rparr>) \<and> R out es"
  proof (cases out)
    case (Crashed x)
    with q c have r: "R (Crashed x) es" by simp
    have "bindP m f s = (Crashed x, s\<lparr>world := w, log := log s @ es\<rparr>)"
      by (simp add: bindP_def run Crashed)
    with r show ?thesis by (intro exI conjI)
  next
    case (Done a)
    let ?s1 = "s\<lparr>world := w, log := log s @ es\<rparr>"
    from q Done have "traces (\<lambda>out es'. R out (es @ es')) (f a)" by (intro f) simp
    then obtain out2 es2 w2 where run2: "f a ?s1 = (out2, ?s1\<lparr>world := w2, log := log ?s1 @ es2\<rparr>)"
      and r: "R out2 (es @ es2)"
      by (rule tracesE)
    have "bindP m f s = (out2, s\<lparr>world := w2, log := log s @ (es @ es2)\<rparr>)"
      by (simp add: bindP_def run Done run2)
    with r show ?thesis by (intro exI conjI)
  qed
qed

lemma traces_bindE:
  assumes m: "traces Q m"
    and f: "\<And>a es. Q (Done (Inr a)) es \<Longrightarrow> traces (\<lambda>out es'. R out (es @ es')) (f a)"
    and e: "\<And>e es. Q (Done (Inl e)) es \<Longrightarrow> R (Done (Inl e)) es"
    and c: "\<And>c es. Q (Crashed c) es \<Longrightarrow> R (Crashed c) es"
  shows "traces R (bindE m f)"
  unfolding bindE_def
proof (rule traces_bindP [OF m])
  fix r es
  assume q: "Q (Done r) es"
  show "traces (\<lambda>out es'. R out (es @ es')) (case r of Inl e \<Rightarrow> ret (Inl e) | Inr a \<Rightarrow> f a)"
    using q f e by (cases r) (simp_all add: traces_ret)
qed (rule c)

lemma traces_perform: "(\<And>r. Q (Done r) [(c, err_part r)]) \<Longrightarrow> traces Q (perform c f)"
proof (rule tracesI)
  fix s :: "'b sys"
  assume q: "\<And>r. Q (Done r) [(c, err_part r)]"
  obtain r w where "perform c f s = (Done r, s\<lparr>world := w, log := log s @ [(c, err_part r)]\<rparr>)"
    by (rule perform_run)
  with q show "\<exists>out es w. perform c f s = (out, s\<lparr>world := w, log := log s @ es\<rparr>) \<and> Q out es"
    by (intro exI conjI)
qed

lemma traces_get: "(\<And>r. Q (Done r) [(CGet k ns n, err_part r)]) \<Longrightarrow> traces Q (client_get E k sel ns n)"
  unfolding client_get_def by (rule traces_perform)

lemma traces_list: "(\<And>r. Q (Done r) [(CList k ns ls, err_part r)]) \<Longrightarrow> traces Q (client_list E k sel ns ls)"
  unfolding client_list_def by (rule traces_perform)

lemma traces_create: "(\<And>r. Q (Done r) [(CCreate x, err_part r)]) \<Longrightarrow> traces Q (client_create E sel x)"
  unfolding client_create_def by (rule traces_perform)

lemma traces_update: "(\<And>r. Q (Done r) [(CUpdate x, err_part r)]) \<Longrightarrow> traces Q (client_update E sel x)"
  unfolding client_update_def by (rule traces_perform)

lemma traces_delete: "(\<And>r. Q (Done r) [(CDelete x, err_part r)]) \<Longrightarrow> traces Q (client_delete E x)"
  unfolding client_delete_def by (rule traces_perform)

lemma traces_notify:
  assumes "Q (Done ()) [(CNotify n, None)]"
  shows "traces Q (notify n)"
proof (rule tracesI)
  fix s
  have "notify n s = (Done (), s\<lparr>world := world s, log := log s @ [(CNotify n, None)]\<rparr>)"
    by (simp add: notify_def)
  with assms show "\<exists>out es w. notify n s = (out, s\<lparr>world := w, log := log s @ es\<rparr>) \<and> Q out es"
    by (intro exI conjI)
qed

lemma traces_status:
  assumes "\<And>r. (\<forall>a. r = Inr a \<longrightarrow> (\<exists>y w w'. e_status E x w = (Inr y, w') \<and> sel y = Some a)) \<Longrightarrow>
    Q (Done r) [(CStatus x, err_part r)]"
  shows "traces Q (client_status_update E sel x)"
proof (rule tracesI)
  fix s
  from client_status_update_ex [of E sel x s] obtain r w where
    run: "client_status_update E sel x s =
      (Done r, s\<lparr>world := w, log := log s @ [(CStatus x, err_part r)]\<rparr>)" and
    a: "\<forall>a. r = Inr a \<longrightarrow> (\<exists>y. e_status E x (world s) = (Inr y, w) \<and> sel y = Some a)"
    by (elim exE conjE)
  from a have "\<forall>a. r = Inr a \<longrightarrow> (\<exists>y w w'. e_status E x w = (Inr y, w') \<and> sel y = Some a)"
    by blast
  with assms have "Q (Done r) [(CStatus x, err_part r)]" by simp
  with run show "\<exists>out es w. client_status_update E sel x s =
      (out, s\<lparr>world := w, log := log s @ es\<rparr>) \<and> Q out es"
    by (intro exI conjI)
qed

text \<open>A read with a known answer.\<close>

lemma client_get_answer:
  assumes "e_get E k ns n (world s) = (Inr x, w)" and "sel x = Some a"
  shows "client_get E k sel ns n s =
    (Done (Inr a), s\<lparr>world := w, log := log s @ [(CGet k ns n, None)]\<rparr>)"
  using assms by (simp add: client_get_def perform_def decode_def err_part_def)

lemma traces_now: "(\<And>t. Q (Done t) []) \<Longrightarrow> traces Q (now E)"
proof (rule tracesI)
  fix s
  assume q: "\<And>t. Q (Done t) []"
  obtain t w where "now E s = (Done t, s\<lparr>world := w\<rparr>)" by (rule now_run)
  then have "now E s = (Done t, s\<lparr>world := w, log := log s @ []\<rparr>)" by simp
  with q show "\<exists>out es w. now E s = (out, s\<lparr>world := w, log := log s @ es\<rparr>) \<and> Q out es"
    by (intro exI conjI)
qed

lemma traces_weaken:
  assumes "traces Q m" and "\<And>out es. Q out es \<Longrightarrow> R out es"
  shows "traces R m"
proof (rule tracesI)
  fix s
  obtain out es w where "m s = (out, s\<lparr>world := w, log := log s @ es\<rparr>)" and "Q out es"
    using assms(1) by (rule tracesE)
  with assms(2) show "\<exists>out es w. m s = (out, s\<lparr>world := w, log := log s @ es\<rparr>) \<and> R out es"
    by (intro exI conjI)
qed

lemma traces_emits: "traces (\<lambda>out es. \<forall>e \<in> set es. P e) m \<Longrightarrow> emits P m"
  unfolding emits_def
proof
  fix s
  assume "traces (\<lambda>out es. \<forall>e \<in> set es. P e) m"
  then obtain out es w where "m s = (out, s\<lparr>world := w, log := log s @ es\<rparr>)" and "\<forall>e \<in> set es. P e"
    by (rule tracesE)
  then show "\<exists>es. log (snd (m s)) = log s @ es \<and> (\<forall>e \<in> set es. P e)" by auto
qed

lemma traces_reads:
  assumes "\<And>s. \<exists>out w. m s = (out, s\<lparr>world := w\<rparr>) \<and> Q out []"
  shows "traces Q m"
proof (rule tracesI)
  fix s
  from assms [of s] obtain out w where "m s = (out, s\<lparr>world := w\<rparr>)" and "Q out []"
    by (elim exE conjE)
  then have "m s = (out, s\<lparr>world := w, log := log s @ []\<rparr>)" by simp
  with \<open>Q out []\<close> show "\<exists>out es w. m s = (out, s\<lparr>world := w, log := log s @ es\<rparr>) \<and> Q out es"
    by (intro exI conjI)
qed

lemma err_part_simps [simp]: "err_part (Inl e) = Some e" "err_part (Inr a) = None"
  by (simp_all add: err_part_def)

lemma unit_result_simps [simp]: "unit_result None = Inr ()" "unit_result (Some e) = Inl e"
  by (simp_all add: unit_result_def)

lemma WithStack_simps [simp]: "WithStack None = None" "WithStack (Some e) = Some (Stacked e)"
  by (simp_all add: WithStack_def)

lemma decode_Inl [simp]: "decode sel (Inl e) = Inl e"
  by (simp add: decode_def)

lemma decode_Inr: "decode sel (Inr x) = Inr a \<longleftrightarrow> sel x = Some a"
  by (auto simp: decode_def split: option.splits)

lemmas as_defs =
  as_jenkins_def as_image_def as_backup_def as_backup_config_def as_restore_def as_secret_def
  as_config_map_def as_pvc_def as_service_def as_service_account_def as_role_binding_def
  as_cluster_role_def as_deployment_def as_replica_set_def as_pod_def as_route_def
  as_namespace_def

end
