(* ===== verification/Conditions.thy ===== *)
theory Conditions
  imports Kube_Types
begin

text \<open>
  Status conditions.  Two libraries of the source tree maintain them: \<open>SetStatusCondition\<close> of
  \<^verbatim>\<open>openshift/custom-resource-status/conditions/v1\<close> for the \<open>Jenkins\<close> status, and
  \<open>Conditions.SetCondition\<close> of \<^verbatim>\<open>operator-lib/status\<close> for backups and restores.  Both meet the
  contract \<open>condition_set\<close>; what the controllers rely on is proved once from the contract.
\<close>

section \<open>The two implementations\<close>

fun FindStatusCondition :: "condition list \<Rightarrow> string \<Rightarrow> condition option" where
  "FindStatusCondition [] ty = None"
| "FindStatusCondition (c # cs) ty = (if cd_type c = ty then Some c else FindStatusCondition cs ty)"

text \<open>Write through the pointer that \<open>FindStatusCondition\<close> returns: to the first match.\<close>

fun update_first :: "('a \<Rightarrow> bool) \<Rightarrow> ('a \<Rightarrow> 'a) \<Rightarrow> 'a list \<Rightarrow> 'a list" where
  "update_first p f [] = []"
| "update_first p f (x # xs) = (if p x then f x # xs else x # update_first p f xs)"

text \<open>\<open>t1\<close> and \<open>t2\<close> are the two readings of the clock, for the transition and the heartbeat.\<close>

definition SetStatusCondition :: "gotime \<Rightarrow> gotime \<Rightarrow> condition list \<Rightarrow> condition \<Rightarrow> condition list" where
  "SetStatusCondition t1 t2 cs new =
     (case FindStatusCondition cs (cd_type new) of
        None \<Rightarrow> cs @ [new\<lparr>cd_transition := t1, cd_heartbeat := t2\<rparr>]
      | Some old \<Rightarrow>
          update_first (\<lambda>c. cd_type c = cd_type new)
            (\<lambda>c. (if cd_status c \<noteq> cd_status new
                   then c\<lparr>cd_status := cd_status new, cd_transition := t1\<rparr> else c)
                  \<lparr>cd_reason := cd_reason new, cd_message := cd_message new, cd_heartbeat := t2\<rparr>)
            cs)"

fun SetCondition :: "gotime \<Rightarrow> condition list \<Rightarrow> condition \<Rightarrow> condition list \<times> bool" where
  "SetCondition t [] new = ([new\<lparr>cd_transition := t\<rparr>], True)"
| "SetCondition t (c # cs) new =
     (if cd_type c = cd_type new then
        (new\<lparr>cd_transition := (if cd_status c = cd_status new then cd_transition c else t)\<rparr> # cs,
         cd_status c \<noteq> cd_status new \<or> cd_reason c \<noteq> cd_reason new \<or> cd_message c \<noteq> cd_message new)
      else (case SetCondition t cs new of (cs', changed) \<Rightarrow> (c # cs', changed)))"

section \<open>The contract\<close>

definition wf_conds :: "condition list \<Rightarrow> bool" where
  "wf_conds cs \<longleftrightarrow> distinct (map cd_type cs)"

locale condition_set =
  fixes put :: "gotime \<Rightarrow> gotime \<Rightarrow> condition list \<Rightarrow> condition \<Rightarrow> condition list"
  assumes put_types: "map cd_type (put t1 t2 cs c) =
      (if cd_type c \<in> set (map cd_type cs) then map cd_type cs else map cd_type cs @ [cd_type c])"
    and put_same: "\<exists>c'. FindStatusCondition (put t1 t2 cs c) (cd_type c) = Some c' \<and>
      cd_status c' = cd_status c \<and> cd_reason c' = cd_reason c \<and> cd_message c' = cd_message c"
    and put_other: "ty \<noteq> cd_type c \<Longrightarrow>
      FindStatusCondition (put t1 t2 cs c) ty = FindStatusCondition cs ty"
    and put_keeps_transition: "FindStatusCondition cs (cd_type c) = Some old \<Longrightarrow>
      cd_status old = cd_status c \<Longrightarrow>
      \<exists>c'. FindStatusCondition (put t1 t2 cs c) (cd_type c) = Some c' \<and>
        cd_transition c' = cd_transition old"
    and put_new_transition: "(\<And>old. FindStatusCondition cs (cd_type c) = Some old \<Longrightarrow>
        cd_status old \<noteq> cd_status c) \<Longrightarrow>
      \<exists>c'. FindStatusCondition (put t1 t2 cs c) (cd_type c) = Some c' \<and> cd_transition c' = t1"
begin

lemma put_wf: "wf_conds cs \<Longrightarrow> wf_conds (put t1 t2 cs c)"
  unfolding wf_conds_def by (subst put_types) auto

lemma put_nonempty: "put t1 t2 cs c \<noteq> []"
proof
  assume "put t1 t2 cs c = []"
  with put_same [of t1 t2 cs c] show False by simp
qed

definition put_all :: "condition list \<Rightarrow> (gotime \<times> gotime \<times> condition) list \<Rightarrow> condition list" where
  "put_all cs ups = foldl (\<lambda>cs (t1, t2, c). put t1 t2 cs c) cs ups"

lemma put_all_Nil [simp]: "put_all cs [] = cs"
  by (simp add: put_all_def)

lemma put_all_Cons [simp]: "put_all cs ((t1, t2, c) # ups) = put_all (put t1 t2 cs c) ups"
  by (simp add: put_all_def)

lemma put_all_wf: "wf_conds cs \<Longrightarrow> wf_conds (put_all cs ups)"
  by (induction ups arbitrary: cs) (auto simp: put_wf)

lemma put_all_other:
  "\<forall>(t1, t2, c) \<in> set ups. cd_type c \<noteq> ty \<Longrightarrow>
   FindStatusCondition (put_all cs ups) ty = FindStatusCondition cs ty"
  by (induction ups arbitrary: cs) (auto simp: put_other)

text \<open>The last write to a type decides its status, reason and message.\<close>

lemma put_all_last:
  assumes "\<forall>(t1, t2, c') \<in> set ups2. cd_type c' \<noteq> cd_type c"
  shows "\<exists>c'. FindStatusCondition (put_all cs (ups1 @ (t1, t2, c) # ups2)) (cd_type c) = Some c' \<and>
     cd_status c' = cd_status c \<and> cd_reason c' = cd_reason c \<and> cd_message c' = cd_message c"
proof -
  have "put_all cs (ups1 @ (t1, t2, c) # ups2) = put_all (put t1 t2 (put_all cs ups1) c) ups2"
    by (simp add: put_all_def)
  then show ?thesis
    using put_all_other [OF assms, of "put t1 t2 (put_all cs ups1) c"]
      put_same [of t1 t2 "put_all cs ups1" c] by simp
qed

lemma put_all_types:
  "set (map cd_type (put_all cs ups)) = set (map cd_type cs) \<union> {cd_type c |t1 t2 c. (t1, t2, c) \<in> set ups}"
proof (induction ups arbitrary: cs)
  case Nil
  then show ?case by simp
next
  case (Cons u ups)
  obtain t1 t2 c where u: "u = (t1, t2, c)" by (cases u)
  have "set (map cd_type (put t1 t2 cs c)) = insert (cd_type c) (set (map cd_type cs))"
    by (subst put_types) auto
  with Cons.IH [of "put t1 t2 cs c"] u show ?case by auto
qed

end

section \<open>Both implementations meet it\<close>

lemma FindStatusCondition_None: "FindStatusCondition cs ty = None \<longleftrightarrow> ty \<notin> cd_type ` set cs"
  by (induction cs) auto

lemma FindStatusCondition_type: "FindStatusCondition cs ty = Some c \<Longrightarrow> cd_type c = ty"
  by (induction cs) (auto split: if_splits)

lemma FindStatusCondition_append:
  "FindStatusCondition (cs @ ds) ty =
     (case FindStatusCondition cs ty of None \<Rightarrow> FindStatusCondition ds ty | Some c \<Rightarrow> Some c)"
  by (induction cs) auto

lemma map_update_first:
  "(\<And>x. g (f x) = g x) \<Longrightarrow> map g (update_first p f xs) = map g xs"
  by (induction xs) auto

lemma Find_update_first:
  assumes "\<And>c. cd_type (f c) = cd_type c"
  shows "FindStatusCondition (update_first (\<lambda>c. cd_type c = ty) f cs) ty' =
     (if ty' = ty then map_option f (FindStatusCondition cs ty) else FindStatusCondition cs ty')"
  by (induction cs) (auto simp: assms)

lemma SetStatusCondition_types:
  "map cd_type (SetStatusCondition t1 t2 cs c) =
     (if cd_type c \<in> set (map cd_type cs) then map cd_type cs else map cd_type cs @ [cd_type c])"
proof (cases "FindStatusCondition cs (cd_type c)")
  case None
  then have "cd_type c \<notin> cd_type ` set cs" by (simp add: FindStatusCondition_None)
  with None show ?thesis by (simp add: SetStatusCondition_def)
next
  case (Some old)
  then have "cd_type c \<in> cd_type ` set cs"
    using FindStatusCondition_None [of cs "cd_type c"] by auto
  with Some show ?thesis by (simp add: SetStatusCondition_def map_update_first)
qed

lemma SetStatusCondition_find:
  "FindStatusCondition (SetStatusCondition t1 t2 cs c) ty =
     (if ty = cd_type c then
        Some (case FindStatusCondition cs ty of
            None \<Rightarrow> c\<lparr>cd_transition := t1, cd_heartbeat := t2\<rparr>
          | Some old \<Rightarrow> old\<lparr>cd_status := cd_status c, cd_reason := cd_reason c,
              cd_message := cd_message c, cd_heartbeat := t2,
              cd_transition := (if cd_status old = cd_status c then cd_transition old else t1)\<rparr>)
      else FindStatusCondition cs ty)"
  by (cases "FindStatusCondition cs (cd_type c)")
    (auto simp: SetStatusCondition_def FindStatusCondition_append Find_update_first
      split: option.splits)

lemma SetCondition_types:
  "map cd_type (fst (SetCondition t cs c)) =
     (if cd_type c \<in> set (map cd_type cs) then map cd_type cs else map cd_type cs @ [cd_type c])"
  by (induction t cs c rule: SetCondition.induct) (auto split: prod.splits)

lemma SetCondition_find:
  "FindStatusCondition (fst (SetCondition t cs c)) ty =
     (if ty = cd_type c then
        Some (c\<lparr>cd_transition :=
          (case FindStatusCondition cs ty of
             None \<Rightarrow> t
           | Some old \<Rightarrow> if cd_status old = cd_status c then cd_transition old else t)\<rparr>)
      else FindStatusCondition cs ty)"
  by (induction t cs c rule: SetCondition.induct) (auto split: prod.splits)

interpretation openshift: condition_set SetStatusCondition
  by unfold_locales
    (auto simp: SetStatusCondition_types SetStatusCondition_find split: option.splits)

interpretation operator_lib: condition_set "\<lambda>t1 t2 cs c. fst (SetCondition t1 cs c)"
  by unfold_locales (auto simp: SetCondition_types SetCondition_find split: option.splits)

text \<open>The result of \<open>SetCondition\<close> says whether anything but the time changed.\<close>

lemma SetCondition_changed:
  "snd (SetCondition t cs c) \<longleftrightarrow>
     (case FindStatusCondition cs (cd_type c) of None \<Rightarrow> True
      | Some old \<Rightarrow> cd_status old \<noteq> cd_status c \<or> cd_reason old \<noteq> cd_reason c \<or>
          cd_message old \<noteq> cd_message c)"
  by (induction t cs c rule: SetCondition.induct) (auto split: prod.splits)

section \<open>Properties\<close>

text \<open>
  C23. Setting a condition of the \<open>Jenkins\<close> status keeps the list well-formed (one entry per
  type), makes the entry of its type carry the new status, reason and message, leaves every
  other type alone, and keeps the transition time exactly when the status did not change.
\<close>

theorem SetStatusCondition_correct:
  assumes "wf_conds cs"
  shows "wf_conds (SetStatusCondition t1 t2 cs c) \<and>
    (\<exists>c'. FindStatusCondition (SetStatusCondition t1 t2 cs c) (cd_type c) = Some c' \<and>
       cd_status c' = cd_status c \<and> cd_reason c' = cd_reason c \<and> cd_message c' = cd_message c \<and>
       cd_transition c' =
         (case FindStatusCondition cs (cd_type c) of
            None \<Rightarrow> t1
          | Some old \<Rightarrow> if cd_status old = cd_status c then cd_transition old else t1)) \<and>
    (\<forall>ty. ty \<noteq> cd_type c \<longrightarrow>
       FindStatusCondition (SetStatusCondition t1 t2 cs c) ty = FindStatusCondition cs ty)"
  using openshift.put_wf [OF assms, of t1 t2 c]
  by (auto simp: SetStatusCondition_find split: option.splits)

theorem SetStatusCondition_correct_witness:
  "let c = \<lparr>cd_type = ''Available'', cd_status = CTrue, cd_reason = ''r'', cd_message = ''m'',
        cd_heartbeat = 0, cd_transition = 0\<rparr>
   in wf_conds [c] \<and> wf_conds (SetStatusCondition 7 8 [c] (c\<lparr>cd_status := CFalse\<rparr>))"
proof -
  let ?c = "\<lparr>cd_type = ''Available'', cd_status = CTrue, cd_reason = ''r'', cd_message = ''m'',
        cd_heartbeat = 0, cd_transition = 0\<rparr>"
  have wf: "wf_conds [?c]" by (simp add: wf_conds_def)
  show ?thesis
    using wf SetStatusCondition_correct [OF wf, of 7 8 "?c\<lparr>cd_status := CFalse\<rparr>"]
    by (simp add: Let_def)
qed



end
