(* ===== verification/Resource_Names.thy ===== *)
theory Resource_Names
  imports Kube_Types
begin

text \<open>
  Names, labels and metadata of the resources the operator creates
  (\<^verbatim>\<open>pkg/configuration/base/resources/meta.go\<close> and the \<open>Get...Name\<close> functions beside it), with
  the constants of \<^verbatim>\<open>pkg/constants\<close> and \<^verbatim>\<open>resources/pod.go\<close> they use.
\<close>

definition LabelAppKey :: string where "LabelAppKey = ''app''"
definition LabelAppValue :: string where "LabelAppValue = ''jenkins''"
definition LabelJenkinsCRKey :: string where "LabelJenkinsCRKey = ''jenkins-cr''"

definition j_name :: "jenkins \<Rightarrow> string" where
  "j_name j = om_name (j_meta j)"

definition j_namespace :: "jenkins \<Rightarrow> string" where
  "j_namespace j = om_namespace (j_meta j)"

definition GetResourceName :: "jenkins \<Rightarrow> string" where
  "GetResourceName j = LabelAppValue @ ''-'' @ j_name j"

definition BuildResourceLabels :: "jenkins \<Rightarrow> (string \<times> string) list" where
  "BuildResourceLabels j = [(LabelAppKey, LabelAppValue), (LabelJenkinsCRKey, j_name j)]"

definition NewResourceObjectMeta :: "jenkins \<Rightarrow> obj_meta" where
  "NewResourceObjectMeta j = empty_meta\<lparr>om_name := GetResourceName j,
     om_namespace := j_namespace j, om_labels := Some (BuildResourceLabels j)\<rparr>"

definition GetExtraRoleBindingName :: "jenkins \<Rightarrow> role_ref \<Rightarrow> string" where
  "GetExtraRoleBindingName j rf =
     om_name (NewResourceObjectMeta j) @ ''-'' @
     (if rf_kind rf = ''ClusterRole'' then ''cr'' else ''r'') @ ''-'' @ rf_name rf"

definition GetJenkinsDeploymentName :: "jenkins \<Rightarrow> string" where
  "GetJenkinsDeploymentName j = ''jenkins-'' @ j_name j"

definition GetJenkinsHTTPServiceName :: "jenkins \<Rightarrow> string" where
  "GetJenkinsHTTPServiceName j = LabelAppValue @ ''-'' @ j_name j"

definition GetJenkinsJNLPServiceName :: "jenkins \<Rightarrow> string" where
  "GetJenkinsJNLPServiceName j = LabelAppValue @ ''-'' @ j_name j @ ''-jnlp''"

definition getScriptsConfigMapName :: "jenkins \<Rightarrow> string" where
  "getScriptsConfigMapName j = LabelAppValue @ ''-'' @ j_name j @ ''-scripts''"

definition GetInitConfigurationConfigMapName :: "jenkins \<Rightarrow> string" where
  "GetInitConfigurationConfigMapName j = LabelAppValue @ ''-'' @ j_name j @ ''-init-configuration''"

definition GetBasePluginsVolumeNameConfigMapName :: "jenkins \<Rightarrow> string" where
  "GetBasePluginsVolumeNameConfigMapName j = LabelAppValue @ ''-'' @ j_name j @ ''-base-plugins''"

definition GetOperatorCredentialsSecretName :: "jenkins \<Rightarrow> string" where
  "GetOperatorCredentialsSecretName j = LabelAppValue @ ''-'' @ j_name j @ ''-credentials''"

definition GetJenkinsBackupPVCName :: "jenkins \<Rightarrow> string" where
  "GetJenkinsBackupPVCName j = j_name j @ ''-jenkins-backup''"

definition JenkinsBackupVolumePath :: string where
  "JenkinsBackupVolumePath = ''/jenkins-backups''"
definition ScriptsVolumePath :: string where
  "ScriptsVolumePath = ''/jenkins-operator-scripts''"
definition QuietDownScriptPath :: string where
  "QuietDownScriptPath = ScriptsVolumePath @ ''/quietdown.sh''"
definition CancelQuietDownScriptPath :: string where
  "CancelQuietDownScriptPath = ScriptsVolumePath @ ''/cancelquietdown.sh''"
definition RestartScriptPath :: string where
  "RestartScriptPath = ScriptsVolumePath @ ''/restart.sh''"
definition SafeRestartScriptPath :: string where
  "SafeRestartScriptPath = ScriptsVolumePath @ ''/saferestart.sh''"

lemmas name_defs =
  GetResourceName_def GetExtraRoleBindingName_def GetJenkinsDeploymentName_def
  GetJenkinsHTTPServiceName_def GetJenkinsJNLPServiceName_def getScriptsConfigMapName_def
  GetInitConfigurationConfigMapName_def GetBasePluginsVolumeNameConfigMapName_def
  GetOperatorCredentialsSecretName_def GetJenkinsBackupPVCName_def LabelAppValue_def
  LabelAppKey_def LabelJenkinsCRKey_def NewResourceObjectMeta_def BuildResourceLabels_def

lemmas script_paths =
  JenkinsBackupVolumePath_def ScriptsVolumePath_def QuietDownScriptPath_def
  CancelQuietDownScriptPath_def RestartScriptPath_def SafeRestartScriptPath_def

end
