(* ===== verification/Exec_Client.thy ===== *)
theory Exec_Client
  imports Effects
begin

text \<open>
  Remote commands (\<^verbatim>\<open>pkg/exec/exec.go\<close>): building the client configuration, building the request
  for the \<open>backup\<close> container, and the hand-over of the stream's result between the goroutine
  that runs it and the caller, over two channels of capacity one.

  The caller's view of a request is the sequential \<open>MakeRequest\<close>; the hand-over itself is the
  step relation \<open>exec_step\<close>, for which it is proved that every schedule returns the stream's
  result, none deadlocks, and the channels are empty again for the next request.
\<close>

section \<open>Configuration\<close>

text \<open>
  The result is the new value of the field \<open>client\<close>: nil (\<open>None\<close>) when the process is neither
  in a cluster nor has a home directory.
\<close>

definition InitKubeGoClient :: "'w env \<Rightarrow> ('w, goerr + string option) prog" where
  "InitKubeGoClient E = (\<lambda>s.
     if e_getenv E ''KUBERNETES_SERVICE_HOST'' \<noteq> [] \<and> e_getenv E ''KUBERNETES_SERVICE_PORT'' \<noteq> [] then
       (case e_buildConfig E [] (world s) of
          (Inl e, w) \<Rightarrow> (Done (Inl e), s\<lparr>world := w\<rparr>)
        | (Inr c, w) \<Rightarrow> (Done (Inr (Some c)), s\<lparr>world := w\<rparr>))
     else if e_home E \<noteq> [] then
       (case e_buildConfig E (e_home E @ ''/.kube/config'') (world s) of
          (Inl e, w) \<Rightarrow> (Done (Inl e), s\<lparr>world := w\<rparr>)
        | (Inr c, w) \<Rightarrow> (Done (Inr (Some c)), s\<lparr>world := w\<rparr>))
     else (Done (Inr None), s))"

section \<open>A request\<close>

definition newScriptRequest :: "pod \<Rightarrow> string \<Rightarrow> exec_request" where
  "newScriptRequest p script =
     \<lparr>xr_pod = om_name (pod_meta p), xr_namespace = om_namespace (pod_meta p),
      xr_container = ''backup'', xr_command = [''sh'', ''-c'', script]\<rparr>"

text \<open>\<open>NewForConfig\<close> dereferences the configuration: a nil one panics.\<close>

definition MakeRequest :: "'w env \<Rightarrow> string option \<Rightarrow> pod \<Rightarrow> string \<Rightarrow> string \<Rightarrow> ('w, goerr + unit) prog" where
  "MakeRequest E cl p resourceName script =
     (case cl of
        None \<Rightarrow> crash ''nil pointer dereference: rest.Config''
      | Some c \<Rightarrow>
          (let req = newScriptRequest p script in
           perform (CExec req) (\<lambda>w.
             case e_newForConfig E c of
               Some e \<Rightarrow> (Inl e, w)
             | None \<Rightarrow>
                 (case e_newExecutor E c req of
                    Some e \<Rightarrow> (Inl e, w)
                  | None \<Rightarrow> apfst unit_result (e_stream E req w)))))"

section \<open>The hand-over of the result\<close>

datatype runner_pc = RStream | RSendErr | RSendComplete | RExit
datatype caller_pc = CWaitComplete | CWaitErr | CReturn "goerr option"

record handover =
  execErr :: "goerr option list"
  execComplete :: "bool list"
  runner :: runner_pc
  caller :: caller_pc
  errVar :: "goerr option"

definition handover_start :: handover where
  "handover_start = \<lparr>execErr = [], execComplete = [], runner = RStream,
     caller = CWaitComplete, errVar = None\<rparr>"

text \<open>\<open>res\<close> is what \<open>remoteCommand.Stream\<close> returns.  Both channels have capacity one.\<close>

inductive exec_step :: "goerr option \<Rightarrow> handover \<Rightarrow> handover \<Rightarrow> bool" for res where
  stream: "runner h = RStream \<Longrightarrow>
     exec_step res h (h\<lparr>errVar := res, runner := RSendErr\<rparr>)"
| send_err: "runner h = RSendErr \<Longrightarrow> length (execErr h) < 1 \<Longrightarrow>
     exec_step res h (h\<lparr>execErr := execErr h @ [errVar h], runner := RSendComplete\<rparr>)"
| send_complete: "runner h = RSendComplete \<Longrightarrow> length (execComplete h) < 1 \<Longrightarrow>
     exec_step res h (h\<lparr>execComplete := execComplete h @ [True], runner := RExit\<rparr>)"
| recv_complete: "caller h = CWaitComplete \<Longrightarrow> execComplete h = b # bs \<Longrightarrow>
     exec_step res h (h\<lparr>execComplete := bs, caller := CWaitErr\<rparr>)"
| recv_err: "caller h = CWaitErr \<Longrightarrow> execErr h = e # es \<Longrightarrow>
     exec_step res h (h\<lparr>execErr := es, errVar := e, caller := CReturn e\<rparr>)"

inductive exec_reachable :: "goerr option \<Rightarrow> handover \<Rightarrow> bool" for res where
  start: "exec_reachable res handover_start"
| step: "exec_reachable res h \<Longrightarrow> exec_step res h h' \<Longrightarrow> exec_reachable res h'"

inductive_cases exec_stepE: "exec_step res h h'"

text \<open>What the two threads have done so far determines the channels.\<close>

definition handover_inv :: "goerr option \<Rightarrow> handover \<Rightarrow> bool" where
  "handover_inv res h \<longleftrightarrow>
     (runner h \<noteq> RStream \<longrightarrow> errVar h = res) \<and>
     (case caller h of
        CWaitComplete \<Rightarrow>
          execErr h = (if runner h \<in> {RStream, RSendErr} then [] else [res]) \<and>
          execComplete h = (if runner h = RExit then [True] else [])
      | CWaitErr \<Rightarrow> runner h = RExit \<and> execErr h = [res] \<and> execComplete h = []
      | CReturn e \<Rightarrow> runner h = RExit \<and> execErr h = [] \<and> execComplete h = [] \<and> e = res)"

definition handover_measure :: "handover \<Rightarrow> nat" where
  "handover_measure h =
     (case runner h of RStream \<Rightarrow> 3 | RSendErr \<Rightarrow> 2 | RSendComplete \<Rightarrow> 1 | RExit \<Rightarrow> 0) +
     (case caller h of CWaitComplete \<Rightarrow> 2 | CWaitErr \<Rightarrow> 1 | CReturn e \<Rightarrow> 0)"

section \<open>Lemmas\<close>

lemma handover_inv_start: "handover_inv res handover_start"
  by (simp add: handover_inv_def handover_start_def)

lemma exec_step_inv: "exec_step res h h' \<Longrightarrow> handover_inv res h \<Longrightarrow> handover_inv res h'"
  by (erule exec_stepE) (auto simp: handover_inv_def split: caller_pc.splits if_splits)

lemma exec_reachable_inv: "exec_reachable res h \<Longrightarrow> handover_inv res h"
  by (induction rule: exec_reachable.induct) (auto intro: handover_inv_start exec_step_inv)

lemma exec_step_measure: "exec_step res h h' \<Longrightarrow> handover_measure h' < handover_measure h"
  by (erule exec_stepE) (auto simp: handover_measure_def split: caller_pc.splits runner_pc.splits)

lemma handover_progress:
  assumes "handover_inv res h" and "\<forall>e. caller h \<noteq> CReturn e"
  shows "\<exists>h'. exec_step res h h'"
proof (cases "caller h")
  case CWaitComplete
  with assms(1) have "execErr h = (if runner h \<in> {RStream, RSendErr} then [] else [res])"
    "execComplete h = (if runner h = RExit then [True] else [])"
    by (auto simp: handover_inv_def)
  with CWaitComplete show ?thesis
    by (cases "runner h") (auto intro: exec_step.intros)
next
  case CWaitErr
  with assms(1) show ?thesis by (auto simp: handover_inv_def intro: exec_step.intros)
next
  case (CReturn e)
  with assms(2) show ?thesis by simp
qed

lemma MakeRequest_run:
  assumes "cl = Some c"
  obtains r w where "MakeRequest E cl p rn script s =
      (Done r, s\<lparr>world := w, log := log s @ [(CExec (newScriptRequest p script), err_part r)]\<rparr>)"
  using assms that by (auto simp: MakeRequest_def Let_def intro: perform_run)

lemma MakeRequest_nil: "MakeRequest E None p rn script = crash ''nil pointer dereference: rest.Config''"
  by (simp add: MakeRequest_def)

lemma emits_MakeRequest [emits_intros]:
  "(\<And>r. P (CExec (newScriptRequest p script), r)) \<Longrightarrow> emits P (MakeRequest E cl p rn script)"
  unfolding MakeRequest_def Let_def by (auto intro!: emits_intros split: option.splits)

lemma emits_InitKubeGoClient [emits_intros]: "emits P (InitKubeGoClient E)"
  by (auto simp: emits_def InitKubeGoClient_def split: prod.splits sum.splits)

lemma InitKubeGoClient_run:
  obtains r w where "InitKubeGoClient E s = (Done r, s\<lparr>world := w\<rparr>)"
    and "r = Inr None \<Longrightarrow> e_home E = []"
proof (cases "InitKubeGoClient E s")
  case (Pair out s')
  then have "\<exists>r w. out = Done r \<and> s' = s\<lparr>world := w\<rparr> \<and> (r = Inr None \<longrightarrow> e_home E = [])"
    by (auto simp: InitKubeGoClient_def split: prod.splits sum.splits if_splits
        intro: exI [of _ "world s"])
  with Pair that show ?thesis by blast
qed

section \<open>Properties\<close>

text \<open>
  C21. Under every schedule of the goroutine and the caller, a caller that has returned has
  returned the stream's own result, and both channels are empty, so the next request through
  the same client starts from the same state.
\<close>

theorem handover_returns_stream_result:
  assumes "exec_reachable res h" and "caller h = CReturn e"
  shows "e = res \<and> execErr h = [] \<and> execComplete h = []"
  using exec_reachable_inv [OF assms(1)] assms(2) by (simp add: handover_inv_def)

theorem handover_returns_stream_result_witness:
  "\<exists>h. exec_reachable (Some (TextErr ''exit 1'')) h \<and> caller h = CReturn (Some (TextErr ''exit 1'')) \<and>
     execErr h = []"
proof -
  let ?r = "Some (TextErr ''exit 1'')"
  let ?h1 = "handover_start\<lparr>errVar := ?r, runner := RSendErr\<rparr>"
  let ?h2 = "?h1\<lparr>execErr := execErr ?h1 @ [errVar ?h1], runner := RSendComplete\<rparr>"
  let ?h3 = "?h2\<lparr>execComplete := execComplete ?h2 @ [True], runner := RExit\<rparr>"
  let ?h4 = "?h3\<lparr>execComplete := [], caller := CWaitErr\<rparr>"
  let ?h5 = "?h4\<lparr>execErr := [], errVar := ?r, caller := CReturn ?r\<rparr>"
  have "exec_reachable ?r ?h1"
    by (rule exec_reachable.step [OF exec_reachable.start exec_step.stream])
      (simp add: handover_start_def)
  then have "exec_reachable ?r ?h2"
    by (rule exec_reachable.step [OF _ exec_step.send_err]) (simp_all add: handover_start_def)
  then have "exec_reachable ?r ?h3"
    by (rule exec_reachable.step [OF _ exec_step.send_complete]) (simp_all add: handover_start_def)
  then have "exec_reachable ?r ?h4"
    by (rule exec_reachable.step [OF _ exec_step.recv_complete])
      (simp_all add: handover_start_def)
  then have r: "exec_reachable ?r ?h5"
    by (rule exec_reachable.step [OF _ exec_step.recv_err]) (simp_all add: handover_start_def)
  have c: "caller ?h5 = CReturn ?r" by simp
  show ?thesis using r c handover_returns_stream_result [OF r c] by blast
qed

text \<open>
  C22. The hand-over cannot deadlock and always ends: a reachable state whose caller has not
  returned has a step, and every step decreases a measure that is 5 at the start.
\<close>

theorem handover_terminates:
  assumes "exec_reachable res h"
  shows "((\<exists>e. caller h = CReturn e) \<or> (\<exists>h'. exec_step res h h')) \<and>
     (\<forall>h'. exec_step res h h' \<longrightarrow> handover_measure h' < handover_measure h) \<and>
     handover_measure handover_start = 5"
proof -
  have "(\<exists>e. caller h = CReturn e) \<or> (\<exists>h'. exec_step res h h')"
    using handover_progress [OF exec_reachable_inv [OF assms]] by blast
  then show ?thesis
    using exec_step_measure by (auto simp: handover_measure_def handover_start_def)
qed

theorem handover_terminates_witness:
  "exec_reachable None handover_start \<and> (\<exists>h'. exec_step None handover_start h')"
  using handover_terminates [OF exec_reachable.start [of None]] exec_reachable.start [of None]
  by (auto simp: handover_start_def)

end
