(* ===== verification/Fake_Client.thy ===== *)
theory Fake_Client
  imports Effects
begin

text \<open>
  An API server.  The locale \<open>kube_server\<close> states the behaviour the handlers rely on when
  nobody else writes (reads return what was written, a create fails exactly on an existing
  object, an update exactly on a missing one); lemmas about what a handler achieves are proved
  inside it.  Its instance is the in-memory client of the repository's own tests: the object
  tracker of \<^verbatim>\<open>vendor/k8s.io/client-go/testing/fixture.go\<close> behind
  \<^verbatim>\<open>vendor/sigs.k8s.io/controller-runtime/pkg/client/fake/client.go\<close>, whose counter of resource
  versions is left out: it never makes a call fail, and the handlers do not read it.
\<close>

section \<open>The interface\<close>

text \<open>Kinds without a namespace.\<close>

definition cluster_scoped :: "kind \<Rightarrow> bool" where
  "cluster_scoped k \<longleftrightarrow> k = KClusterRole \<or> k = KNamespace"

definition proper_key :: "kind \<times> string \<times> string \<Rightarrow> bool" where
  "proper_key key \<longleftrightarrow> (case key of (k, ns, n) \<Rightarrow> n \<noteq> [] \<and> (ns = [] \<longleftrightarrow> cluster_scoped k))"

locale kube_server =
  fixes E :: "'w env"
    and valid :: "'w \<Rightarrow> bool"
    and stored :: "'w \<Rightarrow> kind \<times> string \<times> string \<Rightarrow> kobj option"
  assumes stored_key: "valid w \<Longrightarrow> stored w key = Some x \<Longrightarrow> obj_key x = key"
    and get_found: "valid w \<Longrightarrow> proper_key (k, ns, n) \<Longrightarrow> stored w (k, ns, n) = Some x \<Longrightarrow>
      e_get E k ns n w = (Inr x, w)"
    and get_missing: "valid w \<Longrightarrow> proper_key (k, ns, n) \<Longrightarrow> stored w (k, ns, n) = None \<Longrightarrow>
      \<exists>e. e_get E k ns n w = (Inl e, w) \<and> IsNotFound e"
    and create_new: "valid w \<Longrightarrow> proper_key (obj_key x) \<Longrightarrow> stored w (obj_key x) = None \<Longrightarrow>
      \<exists>w'. e_create E x w = (Inr x, w') \<and> valid w' \<and> stored w' = (stored w)(obj_key x \<mapsto> x)"
    and create_old: "valid w \<Longrightarrow> proper_key (obj_key x) \<Longrightarrow> stored w (obj_key x) \<noteq> None \<Longrightarrow>
      \<exists>e. e_create E x w = (Inl e, w) \<and> IsAlreadyExists e"
    and update_old: "valid w \<Longrightarrow> proper_key (obj_key x) \<Longrightarrow> stored w (obj_key x) \<noteq> None \<Longrightarrow>
      \<exists>w'. e_update E x w = (Inr x, w') \<and> valid w' \<and> stored w' = (stored w)(obj_key x \<mapsto> x)"
    and update_missing: "valid w \<Longrightarrow> proper_key (obj_key x) \<Longrightarrow> stored w (obj_key x) = None \<Longrightarrow>
      \<exists>e. e_update E x w = (Inl e, w) \<and> IsNotFound e"
    and status_old: "valid w \<Longrightarrow> proper_key (obj_key x) \<Longrightarrow> stored w (obj_key x) \<noteq> None \<Longrightarrow>
      \<exists>w'. e_status E x w = (Inr x, w') \<and> valid w' \<and> stored w' = (stored w)(obj_key x \<mapsto> x)"
    and delete_old: "valid w \<Longrightarrow> proper_key (obj_key x) \<Longrightarrow> stored w (obj_key x) \<noteq> None \<Longrightarrow>
      \<exists>w'. e_delete E x w = (None, w') \<and> valid w' \<and> stored w' = (stored w)(obj_key x := None)"
    and list_found: "valid w \<Longrightarrow> ns \<noteq> [] \<Longrightarrow> \<not> cluster_scoped k \<Longrightarrow>
      \<exists>xs. e_list E k (Some ns) None w = (Inr xs, w) \<and> distinct (map obj_key xs) \<and>
        set xs = {x. \<exists>n. stored w (k, ns, n) = Some x}"
    and now_keeps: "valid w \<Longrightarrow> e_now E w = (t, w') \<Longrightarrow> valid w' \<and> stored w' = stored w"

section \<open>The tracker\<close>

record cluster =
  objects :: "kobj list"
  clock :: gotime

definition matches :: "kind \<Rightarrow> string \<Rightarrow> string \<Rightarrow> kobj \<Rightarrow> bool" where
  "matches k ns n x \<longleftrightarrow> kind_of x = k \<and> (ns = [] \<or> om_namespace (meta_of x) = ns) \<and>
     (n = [] \<or> om_name (meta_of x) = n)"

definition filterByNamespaceAndName :: "kobj list \<Rightarrow> kind \<Rightarrow> string \<Rightarrow> string \<Rightarrow> kobj list" where
  "filterByNamespaceAndName xs k ns n = filter (matches k ns n) xs"

definition tracker_get :: "kind \<Rightarrow> string \<Rightarrow> string \<Rightarrow> cluster \<Rightarrow> (goerr + kobj) \<times> cluster" where
  "tracker_get k ns n w =
     ((case filterByNamespaceAndName (objects w) k ns n of
         [] \<Rightarrow> Inl (StatusErr NotFound (n @ '' not found''))
       | [x] \<Rightarrow> Inr x
       | _ \<Rightarrow> Inl (TextErr ''more than one object matched'')), w)"

definition selector_matches :: "selector \<Rightarrow> string gomap \<Rightarrow> bool" where
  "selector_matches sel labels = (case sel of
      SelNothing \<Rightarrow> False
    | SelEverything \<Rightarrow> True
    | SelReqs kvs \<Rightarrow> (\<forall>(k, v) \<in> set kvs. go_get labels k = Some v))"

definition tracker_list :: "kind \<Rightarrow> string option \<Rightarrow> selector option \<Rightarrow> cluster \<Rightarrow> (goerr + kobj list) \<times> cluster" where
  "tracker_list k ns sel w =
     (let xs = filterByNamespaceAndName (objects w) k (case ns of None \<Rightarrow> [] | Some n \<Rightarrow> n) [] in
      (Inr (case sel of None \<Rightarrow> xs
            | Some s \<Rightarrow> filter (\<lambda>x. selector_matches s (om_labels (meta_of x))) xs), w))"

text \<open>The loop of \<open>add\<close>: the position of the object is kept by an update.\<close>

fun tracker_add :: "bool \<Rightarrow> kobj \<Rightarrow> kobj list \<Rightarrow> goerr + kobj list" where
  "tracker_add replaceExisting x [] =
     (if replaceExisting then Inl (StatusErr NotFound (om_name (meta_of x) @ '' not found''))
      else Inr [x])"
| "tracker_add replaceExisting x (y # ys) =
     (if obj_key y = obj_key x then
        (if replaceExisting then Inr (x # ys)
         else Inl (StatusErr AlreadyExists (om_name (meta_of x) @ '' already exists'')))
      else (case tracker_add replaceExisting x ys of Inl e \<Rightarrow> Inl e | Inr zs \<Rightarrow> Inr (y # zs)))"

definition tracker_put :: "bool \<Rightarrow> kobj \<Rightarrow> cluster \<Rightarrow> (goerr + kobj) \<times> cluster" where
  "tracker_put replaceExisting x w =
     (case tracker_add replaceExisting x (objects w) of
        Inl e \<Rightarrow> (Inl e, w)
      | Inr xs \<Rightarrow> (Inr x, w\<lparr>objects := xs\<rparr>))"

definition tracker_delete :: "kobj \<Rightarrow> cluster \<Rightarrow> goerr option \<times> cluster" where
  "tracker_delete x w =
     (if obj_key x \<in> obj_key ` set (objects w) then
        (None, w\<lparr>objects := filter (\<lambda>y. obj_key y \<noteq> obj_key x) (objects w)\<rparr>)
      else (Some (StatusErr NotFound (om_name (meta_of x) @ '' not found'')), w))"

text \<open>\<open>LabelSelectorAsSelector\<close> on equality requirements; label keys are not validated.\<close>

definition LabelSelectorAsSelector :: "label_selector option \<Rightarrow> goerr + selector" where
  "LabelSelectorAsSelector ps = (case ps of
      None \<Rightarrow> Inr SelNothing
    | Some ls \<Rightarrow>
        (if ls_matchExpressions ls \<noteq> [] then Inl (TextErr ''not a valid pod selector operator'')
         else if go_entries (ls_matchLabels ls) = [] then Inr SelEverything
         else Inr (SelReqs (go_entries (ls_matchLabels ls)))))"

text \<open>The environment: the tracker, a ticking clock, and the given answer to remote commands.\<close>

definition fake_env :: "(exec_request \<Rightarrow> goerr option) \<Rightarrow> cluster env" where
  "fake_env runs = \<lparr>e_get = tracker_get, e_list = tracker_list, e_create = tracker_put False,
     e_update = tracker_put True, e_status = tracker_put True, e_delete = tracker_delete,
     e_selectorOf = LabelSelectorAsSelector,
     e_now = (\<lambda>w. (clock w, w\<lparr>clock := clock w + 1\<rparr>)),
     e_getenv = (\<lambda>v. []), e_home = ''/root'', e_buildConfig = (\<lambda>path w. (Inr path, w)),
     e_newForConfig = (\<lambda>c. None), e_newExecutor = (\<lambda>c q. None),
     e_stream = (\<lambda>q w. (runs q, w))\<rparr>"

section \<open>It is an API server\<close>

definition wf_cluster :: "cluster \<Rightarrow> bool" where
  "wf_cluster w \<longleftrightarrow> distinct (map obj_key (objects w)) \<and> (\<forall>x \<in> set (objects w). proper_key (obj_key x))"

definition lookup :: "cluster \<Rightarrow> kind \<times> string \<times> string \<Rightarrow> kobj option" where
  "lookup w key = find (\<lambda>x. obj_key x = key) (objects w)"

lemma lookup_key: "lookup w key = Some x \<Longrightarrow> obj_key x = key \<and> x \<in> set (objects w)"
  by (auto simp: lookup_def find_Some_iff)

lemma lookup_None: "lookup w key = None \<longleftrightarrow> key \<notin> obj_key ` set (objects w)"
  by (auto simp: lookup_def find_None_iff)

lemma find_SomeD: "find P xs = Some x \<Longrightarrow> P x \<and> x \<in> set xs"
  by (induction xs) (auto split: if_splits)

lemma filter_unique:
  "distinct (map f xs) \<Longrightarrow>
   filter (\<lambda>x. f x = key) xs = (case find (\<lambda>x. f x = key) xs of None \<Rightarrow> [] | Some x \<Rightarrow> [x])"
proof (induction xs)
  case (Cons a xs)
  show ?case
  proof (cases "f a = key")
    case True
    with Cons.prems have "filter (\<lambda>x. f x = key) xs = []"
      unfolding filter_empty_conv by (metis distinct.simps(2) image_eqI list.map(2) set_map)
    with True show ?thesis by simp
  next
    case False
    with Cons show ?thesis by simp
  qed
qed simp

lemma matches_proper:
  assumes "wf_cluster w" and "proper_key (k, ns, n)" and "x \<in> set (objects w)"
  shows "matches k ns n x \<longleftrightarrow> obj_key x = (k, ns, n)"
  using assms by (auto simp: matches_def obj_key_def wf_cluster_def proper_key_def)

lemma tracker_get_lookup:
  assumes "wf_cluster w" and "proper_key (k, ns, n)"
  shows "tracker_get k ns n w = (case lookup w (k, ns, n) of
     None \<Rightarrow> (Inl (StatusErr NotFound (n @ '' not found'')), w) | Some x \<Rightarrow> (Inr x, w))"
proof -
  have "filterByNamespaceAndName (objects w) k ns n = filter (\<lambda>x. obj_key x = (k, ns, n)) (objects w)"
    unfolding filterByNamespaceAndName_def
    by (rule filter_cong) (auto simp: matches_proper [OF assms])
  also have "\<dots> = (case lookup w (k, ns, n) of None \<Rightarrow> [] | Some x \<Rightarrow> [x])"
    using assms(1) unfolding lookup_def wf_cluster_def by (intro filter_unique) simp
  finally show ?thesis by (simp add: tracker_get_def split: option.splits)
qed

lemma tracker_add_new:
  "obj_key x \<notin> obj_key ` set xs \<Longrightarrow> tracker_add False x xs = Inr (xs @ [x])"
  by (induction xs) auto

lemma tracker_add_old:
  "obj_key x \<in> obj_key ` set xs \<Longrightarrow>
   tracker_add False x xs = Inl (StatusErr AlreadyExists (om_name (meta_of x) @ '' already exists''))"
  by (induction xs) (auto simp: obj_key_def)

lemma tracker_replace_missing:
  "obj_key x \<notin> obj_key ` set xs \<Longrightarrow>
   tracker_add True x xs = Inl (StatusErr NotFound (om_name (meta_of x) @ '' not found''))"
  by (induction xs) auto

lemma tracker_replace:
  "obj_key x \<in> obj_key ` set xs \<Longrightarrow> \<exists>ys. tracker_add True x xs = Inr ys \<and>
     map obj_key ys = map obj_key xs \<and>
     (\<forall>key. find (\<lambda>y. obj_key y = key) ys =
       (if key = obj_key x then Some x else find (\<lambda>y. obj_key y = key) xs))"
proof (induction xs)
  case (Cons y xs)
  show ?case
  proof (cases "obj_key y = obj_key x")
    case True
    then show ?thesis by simp
  next
    case False
    with Cons.prems have "obj_key x \<in> obj_key ` set xs" by auto
    from Cons.IH [OF this] obtain ys where "tracker_add True x xs = Inr ys"
      "map obj_key ys = map obj_key xs"
      "\<And>key. find (\<lambda>y. obj_key y = key) ys =
         (if key = obj_key x then Some x else find (\<lambda>y. obj_key y = key) xs)"
      by blast
    with False show ?thesis by simp
  qed
qed simp

lemma find_new:
  "obj_key x \<notin> obj_key ` set xs \<Longrightarrow> find (\<lambda>y. obj_key y = key) (xs @ [x]) =
     (if key = obj_key x then Some x else find (\<lambda>y. obj_key y = key) xs)"
  by (induction xs) auto

lemma find_filter_key:
  "find (\<lambda>y. obj_key y = key) (filter (\<lambda>y. obj_key y \<noteq> key') xs) =
     (if key = key' then None else find (\<lambda>y. obj_key y = key) xs)"
  by (induction xs) auto

lemma fake_create_new:
  assumes "wf_cluster w" and "proper_key (obj_key x)" and "lookup w (obj_key x) = None"
  shows "\<exists>w'. tracker_put False x w = (Inr x, w') \<and> wf_cluster w' \<and> lookup w' = (lookup w)(obj_key x \<mapsto> x)"
proof -
  from assms(3) have new: "obj_key x \<notin> obj_key ` set (objects w)" by (simp add: lookup_None)
  let ?w = "w\<lparr>objects := objects w @ [x]\<rparr>"
  have "lookup ?w = (lookup w)(obj_key x \<mapsto> x)"
    by (rule ext) (simp add: lookup_def find_new [OF new])
  moreover have "wf_cluster ?w" using assms(1,2) new by (auto simp: wf_cluster_def)
  ultimately show ?thesis by (simp add: tracker_put_def tracker_add_new [OF new])
qed

lemma fake_update_old:
  assumes wf: "wf_cluster w" and k: "proper_key (obj_key x)" and l: "lookup w (obj_key x) \<noteq> None"
  shows "\<exists>w'. tracker_put True x w = (Inr x, w') \<and> wf_cluster w' \<and> lookup w' = (lookup w)(obj_key x \<mapsto> x)"
proof -
  from l have "obj_key x \<in> obj_key ` set (objects w)" by (simp add: lookup_None)
  from tracker_replace [OF this] obtain ys where ys: "tracker_add True x (objects w) = Inr ys"
    and keys: "map obj_key ys = map obj_key (objects w)"
    and f: "\<And>key. find (\<lambda>y. obj_key y = key) ys =
      (if key = obj_key x then Some x else find (\<lambda>y. obj_key y = key) (objects w))" by blast
  have all: "(\<forall>x \<in> set xs. proper_key (obj_key x)) = (\<forall>key \<in> set (map obj_key xs). proper_key key)" for xs
    by simp
  have "wf_cluster (w\<lparr>objects := ys\<rparr>)"
    using wf unfolding wf_cluster_def all by (simp add: keys del: set_map)
  moreover have "lookup (w\<lparr>objects := ys\<rparr>) = (lookup w)(obj_key x \<mapsto> x)"
    by (rule ext) (simp add: lookup_def f)
  ultimately show ?thesis by (simp add: tracker_put_def ys)
qed

lemma fake_delete_old:
  assumes "wf_cluster w" and "lookup w (obj_key x) \<noteq> None"
  shows "\<exists>w'. tracker_delete x w = (None, w') \<and> wf_cluster w' \<and> lookup w' = (lookup w)(obj_key x := None)"
proof -
  let ?w = "w\<lparr>objects := filter (\<lambda>y. obj_key y \<noteq> obj_key x) (objects w)\<rparr>"
  from assms(2) have "obj_key x \<in> obj_key ` set (objects w)" by (simp add: lookup_None)
  moreover have "lookup ?w = (lookup w)(obj_key x := None)"
    by (rule ext) (simp add: lookup_def find_filter_key)
  moreover have "wf_cluster ?w"
    using assms(1) by (auto simp: wf_cluster_def distinct_map_filter)
  ultimately show ?thesis by (simp add: tracker_delete_def)
qed

lemma err_classes [simp]:
  "IsNotFound (StatusErr r m) \<longleftrightarrow> r = NotFound"
  "IsAlreadyExists (StatusErr r m) \<longleftrightarrow> r = AlreadyExists"
  "\<not> IsNotFound (TextErr m)"
  by (simp_all add: IsNotFound_def IsAlreadyExists_def)

lemma lookup_Some:
  assumes "wf_cluster w"
  shows "lookup w (obj_key x) = Some x \<longleftrightarrow> x \<in> set (objects w)"
proof
  assume x: "x \<in> set (objects w)"
  then obtain y where y: "lookup w (obj_key x) = Some y"
    using lookup_None [of w "obj_key x"] by (cases "lookup w (obj_key x)") auto
  with lookup_key [OF y] x assms have "y = x"
    by (auto simp: wf_cluster_def distinct_map inj_on_def)
  with y show "lookup w (obj_key x) = Some x" by simp
qed (auto dest: lookup_key)

lemma tracker_list_lookup:
  assumes "wf_cluster w" and "ns \<noteq> []"
  shows "\<exists>xs. tracker_list k (Some ns) None w = (Inr xs, w) \<and> distinct (map obj_key xs) \<and>
    set xs = {x. \<exists>n. lookup w (k, ns, n) = Some x}"
proof -
  let ?xs = "filterByNamespaceAndName (objects w) k ns []"
  have "tracker_list k (Some ns) None w = (Inr ?xs, w)" by (simp add: tracker_list_def)
  moreover have "distinct (map obj_key ?xs)"
    using assms(1) by (simp add: filterByNamespaceAndName_def wf_cluster_def distinct_map_filter)
  moreover have "set ?xs = {x. \<exists>n. lookup w (k, ns, n) = Some x}"
  proof -
    have "x \<in> set ?xs \<longleftrightarrow> x \<in> set (objects w) \<and> obj_key x = (k, ns, om_name (meta_of x))" for x
      using assms(2) by (auto simp: filterByNamespaceAndName_def matches_def obj_key_def)
    moreover have "lookup w (k, ns, n) = Some x \<longleftrightarrow> x \<in> set (objects w) \<and> obj_key x = (k, ns, n)" for x n
      using lookup_Some [OF assms(1), of x] lookup_key [of w "(k, ns, n)" x] by metis
    ultimately show ?thesis by (auto simp: obj_key_def)
  qed
  ultimately show ?thesis by (intro exI [of _ ?xs]) simp
qed

interpretation fake: kube_server "fake_env runs" wf_cluster lookup
proof
  fix w :: cluster and x :: kobj and k ns n key
  assume wf: "wf_cluster w"
  show "lookup w key = Some x \<Longrightarrow> obj_key x = key" by (simp add: lookup_key)
  show "proper_key (k, ns, n) \<Longrightarrow> lookup w (k, ns, n) = Some x \<Longrightarrow>
      e_get (fake_env runs) k ns n w = (Inr x, w)"
    by (simp add: fake_env_def tracker_get_lookup [OF wf])
  show "proper_key (k, ns, n) \<Longrightarrow> lookup w (k, ns, n) = None \<Longrightarrow>
      \<exists>e. e_get (fake_env runs) k ns n w = (Inl e, w) \<and> IsNotFound e"
    by (simp add: fake_env_def tracker_get_lookup [OF wf])
  show "proper_key (obj_key x) \<Longrightarrow> lookup w (obj_key x) = None \<Longrightarrow>
      \<exists>w'. e_create (fake_env runs) x w = (Inr x, w') \<and> wf_cluster w' \<and> lookup w' = (lookup w)(obj_key x \<mapsto> x)"
    using fake_create_new [OF wf] by (simp add: fake_env_def)
  show "proper_key (obj_key x) \<Longrightarrow> lookup w (obj_key x) \<noteq> None \<Longrightarrow>
      \<exists>e. e_create (fake_env runs) x w = (Inl e, w) \<and> IsAlreadyExists e"
    by (simp add: fake_env_def tracker_put_def lookup_None tracker_add_old)
  show "proper_key (obj_key x) \<Longrightarrow> lookup w (obj_key x) \<noteq> None \<Longrightarrow>
      \<exists>w'. e_update (fake_env runs) x w = (Inr x, w') \<and> wf_cluster w' \<and> lookup w' = (lookup w)(obj_key x \<mapsto> x)"
    using fake_update_old [OF wf] by (simp add: fake_env_def)
  show "proper_key (obj_key x) \<Longrightarrow> lookup w (obj_key x) = None \<Longrightarrow>
      \<exists>e. e_update (fake_env runs) x w = (Inl e, w) \<and> IsNotFound e"
    by (simp add: fake_env_def tracker_put_def lookup_None tracker_replace_missing)
  show "proper_key (obj_key x) \<Longrightarrow> lookup w (obj_key x) \<noteq> None \<Longrightarrow>
      \<exists>w'. e_status (fake_env runs) x w = (Inr x, w') \<and> wf_cluster w' \<and> lookup w' = (lookup w)(obj_key x \<mapsto> x)"
    using fake_update_old [OF wf] by (simp add: fake_env_def)
  show "proper_key (obj_key x) \<Longrightarrow> lookup w (obj_key x) \<noteq> None \<Longrightarrow>
      \<exists>w'. e_delete (fake_env runs) x w = (None, w') \<and> wf_cluster w' \<and> lookup w' = (lookup w)(obj_key x := None)"
    using fake_delete_old [OF wf] by (simp add: fake_env_def)
  show "ns \<noteq> [] \<Longrightarrow> \<not> cluster_scoped k \<Longrightarrow>
      \<exists>xs. e_list (fake_env runs) k (Some ns) None w = (Inr xs, w) \<and> distinct (map obj_key xs) \<and>
        set xs = {x. \<exists>n. lookup w (k, ns, n) = Some x}"
    using tracker_list_lookup [OF wf] by (simp add: fake_env_def)
next
  fix w t w'
  assume "wf_cluster w" and "e_now (fake_env runs) w = (t, w')"
  then show "wf_cluster w' \<and> lookup w' = lookup w"
    by (auto simp: fake_env_def wf_cluster_def lookup_def [abs_def])
qed

end
