(* ===== verification/Sample_Cluster.thy ===== *)
theory Sample_Cluster
  imports Fake_Client
begin

text \<open>
  A small concrete cluster for the witnesses: a \<open>Jenkins\<close> named \<open>ex\<close> in the namespace \<open>ns\<close>, its
  deployment, one replica set and one pod.
\<close>

definition sample_meta :: "string \<Rightarrow> obj_meta" where
  "sample_meta n = empty_meta\<lparr>om_name := n, om_namespace := ''ns'',
     om_labels := Some [(''app'', ''jenkins'')]\<rparr>"

definition sample_selector :: "label_selector option" where
  "sample_selector = Some \<lparr>ls_matchLabels = Some [(''app'', ''jenkins'')], ls_matchExpressions = []\<rparr>"

definition sample_jenkins :: jenkins where
  "sample_jenkins = \<lparr>j_meta = sample_meta ''ex'', j_spec = empty_spec, j_status = None\<rparr>"

definition sample_deployment :: deployment where
  "sample_deployment = \<lparr>dp_meta = sample_meta ''jenkins-ex'', dp_replicas = 1, dp_strategy = [],
     dp_templateMeta = empty_meta, dp_template = empty_pod_spec, dp_selector = sample_selector,
     dp_available = 1\<rparr>"

definition sample_replica_set :: replica_set where
  "sample_replica_set = \<lparr>rs_meta = sample_meta ''jenkins-ex-1'', rs_selector = sample_selector\<rparr>"

definition sample_pod :: pod where
  "sample_pod = \<lparr>pod_meta = sample_meta ''jenkins-ex-1-a'', pod_spec_of = empty_pod_spec,
     pod_phase = ''Running'', pod_containerStatuses = []\<rparr>"

definition sample_objects :: "kobj list" where
  "sample_objects = [OJenkins sample_jenkins, ODeployment sample_deployment,
     OReplicaSet sample_replica_set, OPod sample_pod]"

text \<open>The start state of a handler in the sample cluster with some more objects.\<close>

definition sample_start :: "kobj list \<Rightarrow> cluster sys" where
  "sample_start xs = \<lparr>world = \<lparr>objects = sample_objects @ xs, clock = 0\<rparr>, log = []\<rparr>"

lemma run_split: "fst run = out \<Longrightarrow> run = (out, snd run)"
  by (cases run) simp

end
