(* ===== verification/Pod_Lookup.thy ===== *)
theory Pod_Lookup
  imports Resource_Names Sample_Cluster
begin

text \<open>
  From a \<open>Jenkins\<close> resource to its pod: \<open>GetJenkinsDeployment\<close>, \<open>GetReplicaSetByDeployment\<close> and
  \<open>GetPodByDeployment\<close>.  The same three functions stand, statement for statement, in
  \<^verbatim>\<open>pkg/configuration/configuration.go\<close>, \<^verbatim>\<open>controllers/backup_controller.go\<close> and
  \<^verbatim>\<open>controllers/restore_controller.go\<close>; one model serves all three.
\<close>

definition GetJenkinsDeployment :: "'w env \<Rightarrow> jenkins \<Rightarrow> ('w, goerr + deployment) prog" where
  "GetJenkinsDeployment E j =
     client_get E KDeployment as_deployment (j_namespace j) (GetJenkinsDeploymentName j)"

definition fmt_err :: "goerr option \<Rightarrow> string" where
  "fmt_err e = (case e of None \<Rightarrow> ''<nil>'' | Some x \<Rightarrow> err_text x)"

text \<open>
  The error of \<open>GetJenkinsDeployment\<close> is dropped and the deployment dereferenced; an error of the
  selector parser is only logged, and leaves a nil selector, which selects everything.  The list
  options name no namespace.
\<close>

definition GetReplicaSetByDeployment :: "'w env \<Rightarrow> jenkins \<Rightarrow> ('w, goerr + replica_set) prog" where
  "GetReplicaSetByDeployment E j =
     bindP (GetJenkinsDeployment E j) (\<lambda>dr.
       case dr of
         Inl e \<Rightarrow> crash ''nil pointer dereference: deployment''
       | Inr d \<Rightarrow>
           bindP (client_list E KReplicaSet as_replica_set None
                    (case e_selectorOf E (dp_selector d) of Inl e \<Rightarrow> None | Inr sel \<Rightarrow> Some sel))
             (\<lambda>lr. case lr of
                Inl e \<Rightarrow> ret (Inl (TextErr (''Deployment has no replicaSet attached yet: Error was: ''
                            @ fmt_err (Some e))))
              | Inr items \<Rightarrow>
                  (case items of
                     [] \<Rightarrow> ret (Inl (TextErr (''Deployment has no replicaSet attached yet: Error was: ''
                            @ fmt_err None)))
                   | rs # rest \<Rightarrow> ret (Inr rs))))"

definition GetPodByDeployment :: "'w env \<Rightarrow> jenkins \<Rightarrow> ('w, goerr + pod) prog" where
  "GetPodByDeployment E j =
     bindE (GetReplicaSetByDeployment E j) (\<lambda>rs.
       case e_selectorOf E (rs_selector rs) of
         Inl e \<Rightarrow> ret (Inl e)
       | Inr sel \<Rightarrow>
           bindP (client_list E KPod as_pod None (Some sel)) (\<lambda>lr. case lr of
              Inl e \<Rightarrow> ret (Inl (TextErr (''Deployment has no pod attached yet: Error was: ''
                          @ fmt_err (Some e))))
            | Inr items \<Rightarrow>
                (case items of
                   [] \<Rightarrow> ret (Inl (TextErr (''Deployment has no pod attached yet: Error was: ''
                          @ fmt_err None)))
                 | p # rest \<Rightarrow> ret (Inr p))))"

section \<open>Lemmas\<close>

definition is_read :: "call \<Rightarrow> bool" where
  "is_read c \<longleftrightarrow> (case c of CGet k ns n \<Rightarrow> True | CList k ns sel \<Rightarrow> True | _ \<Rightarrow> False)"

lemma is_read_simps [simp]: "is_read (CGet k ns n)" "is_read (CList k ons sel)"
  "\<not> is_read (CCreate x)" "\<not> is_read (CUpdate x)" "\<not> is_read (CStatus x)"
  "\<not> is_read (CDelete x)" "\<not> is_read (CExec q)" "\<not> is_read (CNotify nt)"
  by (simp_all add: is_read_def)

lemma emits_GetJenkinsDeployment [emits_intros]:
  "(\<And>k ns n r. P (CGet k ns n, r)) \<Longrightarrow> emits P (GetJenkinsDeployment E j)"
  unfolding GetJenkinsDeployment_def by (intro emits_intros)

lemma emits_GetReplicaSetByDeployment [emits_intros]:
  assumes "\<And>k ns n r. P (CGet k ns n, r)" and "\<And>k ns sel r. P (CList k ns sel, r)"
  shows "emits P (GetReplicaSetByDeployment E j)"
  unfolding GetReplicaSetByDeployment_def by (intro emits_intros assms)

lemma emits_GetPodByDeployment [emits_intros]:
  assumes "\<And>k ns n r. P (CGet k ns n, r)" and "\<And>k ns sel r. P (CList k ns sel, r)"
  shows "emits P (GetPodByDeployment E j)"
  unfolding GetPodByDeployment_def by (intro emits_intros assms)

text \<open>Only a failed lookup of the deployment crashes.\<close>

lemma GetPodByDeployment_crash:
  "(\<exists>c s'. GetPodByDeployment E j s = (Crashed c, s')) \<longleftrightarrow>
   (\<exists>e s'. GetJenkinsDeployment E j s = (Done (Inl e), s'))"
proof -
  obtain r w where run: "GetJenkinsDeployment E j s =
      (Done r, s\<lparr>world := w, log := log s @ [(CGet KDeployment (j_namespace j)
         (GetJenkinsDeploymentName j), err_part r)]\<rparr>)"
    unfolding GetJenkinsDeployment_def by (rule client_get_run)
  show ?thesis
    by (auto simp: GetPodByDeployment_def GetReplicaSetByDeployment_def bindE_def bindP_def run
        ret_def crash_def client_list_def perform_def split: sum.splits prod.splits list.splits)
qed

lemma GetPodByDeployment_log:
  "emits (\<lambda>(c, e). (\<exists>n. c = CGet KDeployment (j_namespace j) n) \<or> (\<exists>k sel. c = CList k None sel))
     (GetPodByDeployment E j)"
  unfolding GetPodByDeployment_def GetReplicaSetByDeployment_def GetJenkinsDeployment_def
  by (intro emits_intros) simp_all

definition reads_only :: "(call \<times> goerr option) list \<Rightarrow> bool" where
  "reads_only es \<longleftrightarrow> (\<forall>(c, e) \<in> set es. is_read c)"

lemma reads_only_simps [simp]:
  "reads_only []"
  "reads_only (es @ fs) \<longleftrightarrow> reads_only es \<and> reads_only fs"
  "reads_only ((c, e) # es) \<longleftrightarrow> is_read c \<and> reads_only es"
  by (auto simp: reads_only_def)

text \<open>The log of a lookup; a panic leaves the failed read of the deployment as its last entry.\<close>

definition lookup_ok :: "'a outcome \<Rightarrow> (call \<times> goerr option) list \<Rightarrow> bool" where
  "lookup_ok out es \<longleftrightarrow> reads_only es \<and>
     (\<forall>c. out = Crashed c \<longrightarrow> (\<exists>ns n e. es = [(CGet KDeployment ns n, Some e)]))"

lemma GetReplicaSet_traces: "traces lookup_ok (GetReplicaSetByDeployment E j)"
  unfolding GetReplicaSetByDeployment_def GetJenkinsDeployment_def
proof (rule traces_bindP [OF traces_get [where Q = "\<lambda>out es. \<exists>r. out = Done r \<and>
    es = [(CGet KDeployment (j_namespace j) (GetJenkinsDeploymentName j), err_part r)]"]])
  let ?g = "CGet KDeployment (j_namespace j) (GetJenkinsDeploymentName j)"
  fix r :: "goerr + deployment" and es
  assume "\<exists>r'. Done r = Done r' \<and> es = [(?g, err_part r')]"
  then have es: "es = [(?g, err_part r)]" by simp
  show "traces (\<lambda>out es'. lookup_ok out (es @ es')) (case r of
       Inl e \<Rightarrow> crash ''nil pointer dereference: deployment''
     | Inr d \<Rightarrow> bindP (client_list E KReplicaSet as_replica_set None
           (case e_selectorOf E (dp_selector d) of Inl e \<Rightarrow> None | Inr sel \<Rightarrow> Some sel))
         (\<lambda>lr. case lr of
            Inl e \<Rightarrow> ret (Inl (TextErr (''Deployment has no replicaSet attached yet: Error was: ''
                        @ fmt_err (Some e))))
          | Inr items \<Rightarrow>
              (case items of
                 [] \<Rightarrow> ret (Inl (TextErr (''Deployment has no replicaSet attached yet: Error was: ''
                        @ fmt_err None)))
               | rs # rest \<Rightarrow> ret (Inr rs))))"
    by (cases r) (auto simp: es lookup_ok_def split: sum.splits list.splits
        intro!: traces_crash traces_ret
        traces_bindP [OF traces_list [where Q = "\<lambda>out es. reads_only es \<and> (\<exists>r. out = Done r)"]])
qed simp_all

lemma GetPodByDeployment_traces: "traces lookup_ok (GetPodByDeployment E j)"
  unfolding GetPodByDeployment_def
proof (rule traces_bindE [OF GetReplicaSet_traces])
  fix rs :: replica_set and es
  assume "lookup_ok (Done (Inr rs) :: (goerr + replica_set) outcome) es"
  then have es: "reads_only es" by (simp add: lookup_ok_def)
  show "traces (\<lambda>out es'. lookup_ok out (es @ es')) (case e_selectorOf E (rs_selector rs) of
         Inl e \<Rightarrow> ret (Inl e)
       | Inr sel \<Rightarrow>
           bindP (client_list E KPod as_pod None (Some sel)) (\<lambda>lr. case lr of
              Inl e \<Rightarrow> ret (Inl (TextErr (''Deployment has no pod attached yet: Error was: ''
                          @ fmt_err (Some e))))
            | Inr items \<Rightarrow>
                (case items of
                   [] \<Rightarrow> ret (Inl (TextErr (''Deployment has no pod attached yet: Error was: ''
                          @ fmt_err None)))
                 | p # rest \<Rightarrow> ret (Inr p))))"
    by (auto simp: es lookup_ok_def split: sum.splits list.splits intro!: traces_ret
        traces_bindP [OF traces_list [where Q = "\<lambda>out es. reads_only es \<and> (\<exists>r. out = Done r)"]])
qed (simp_all add: lookup_ok_def)

section \<open>Properties\<close>

text \<open>
  C20. Looking up the pod of a \<open>Jenkins\<close> panics exactly when reading its deployment fails, for
  whatever reason: the error is dropped and the missing deployment dereferenced.
\<close>

theorem pod_lookup_panics_iff:
  "(\<exists>c s'. GetPodByDeployment E j s = (Crashed c, s')) =
   (\<exists>e s'. GetJenkinsDeployment E j s = (Done (Inl e), s'))"
  by (rule GetPodByDeployment_crash)

text \<open>
  The lookup only reads, and while the deployment is read from the namespace of the
  \<open>Jenkins\<close>, both lists it makes (replica sets, pods) are requested over all namespaces.
\<close>

theorem pod_lookup_lists_all_namespaces:
  assumes "GetPodByDeployment E j s = (out, s')"
  shows "\<exists>es. log s' = log s @ es \<and>
    (\<forall>(c, e) \<in> set es. (\<exists>n. c = CGet KDeployment (j_namespace j) n) \<or>
       (\<exists>k sel. c = CList k None sel))"
  using GetPodByDeployment_log assms by (rule emits_log)

text \<open>A pod with the same labels in another namespace, listed first, is the one returned.\<close>

theorem pod_lookup_lists_all_namespaces_witness:
  "let other = sample_pod\<lparr>pod_meta := (sample_meta ''jenkins-x-1-a'')\<lparr>om_namespace := ''elsewhere''\<rparr>\<rparr>;
       s = sample_start [];
       s0 = s\<lparr>world := (world s)\<lparr>objects := OPod other # objects (world s)\<rparr>\<rparr>
   in fst (GetPodByDeployment (fake_env (\<lambda>q. None)) sample_jenkins s0) = Done (Inr other) \<and>
      (\<exists>es. log (snd (GetPodByDeployment (fake_env (\<lambda>q. None)) sample_jenkins s0)) = es \<and>
         (\<forall>(c, e) \<in> set es. (\<exists>n. c = CGet KDeployment ''ns'' n) \<or> (\<exists>k sel. c = CList k None sel)))"
proof -
  let ?other = "sample_pod\<lparr>pod_meta := (sample_meta ''jenkins-x-1-a'')\<lparr>om_namespace := ''elsewhere''\<rparr>\<rparr>"
  let ?s = "(sample_start [])\<lparr>world := (world (sample_start []))
     \<lparr>objects := OPod ?other # objects (world (sample_start []))\<rparr>\<rparr>"
  let ?run = "GetPodByDeployment (fake_env (\<lambda>q. None)) sample_jenkins ?s"
  have out: "fst ?run = Done (Inr ?other)" by code_simp
  from pod_lookup_lists_all_namespaces [OF run_split [OF out]]
  have "\<exists>es. log (snd ?run) = log ?s @ es \<and> (\<forall>(c, e) \<in> set es.
      (\<exists>n. c = CGet KDeployment (j_namespace sample_jenkins) n) \<or> (\<exists>k sel. c = CList k None sel))" .
  moreover have "log ?s = []" by (simp add: sample_start_def)
  moreover have "j_namespace sample_jenkins = ''ns''"
    by (simp add: j_namespace_def sample_jenkins_def sample_meta_def)
  ultimately show ?thesis using out by (simp add: Let_def)
qed

end
