(* ===== verification/Exec_Protocol.thy ===== *)
theory Exec_Protocol
  imports Conditions Exec_Client Pod_Lookup
begin

text \<open>
  What the backup and the restore controller share: conditions reported through status updates,
  commands run in the pod, and the facts about their logs.  The locale \<open>status_object\<close> is the
  interface between a controller and the kind of object whose status it maintains; both
  controllers interpret it on their own resource.
\<close>

section \<open>Conditions\<close>

definition new_condition :: "string \<Rightarrow> cond_status \<Rightarrow> string \<Rightarrow> condition" where
  "new_condition ty st rs = \<lparr>cd_type = ty, cd_status = st, cd_reason = rs, cd_message = [],
     cd_heartbeat = 0, cd_transition = 0\<rparr>"

text \<open>\<open>return ctrl.Result{}, nil\<close> for a missing object, \<open>return ctrl.Result{}, err\<close> otherwise.\<close>

definition ignore_not_found :: "goerr \<Rightarrow> ('w, result \<times> goerr option) prog" where
  "ignore_not_found e = ret (empty_result, if IsNotFound e then None else Some e)"

section \<open>Logs of a protocol\<close>

text \<open>The remote commands in a log, each with the error it ended in.\<close>

fun scripts :: "(call \<times> goerr option) list \<Rightarrow> (string \<times> goerr option) list" where
  "scripts [] = []"
| "scripts ((c, e) # es) =
     (case c of CExec q \<Rightarrow> (last (xr_command q), e) # scripts es | _ \<Rightarrow> scripts es)"

text \<open>
  A run of a plan that stops at the first failing command: every command before the last one
  run succeeded, and if the last one succeeded too, the plan is complete.
\<close>

fun runs_until_failure :: "string list \<Rightarrow> (string \<times> goerr option) list \<Rightarrow> bool" where
  "runs_until_failure [] rs = (rs = [])"
| "runs_until_failure (c # cs) rs =
     (case rs of [] \<Rightarrow> False
      | (c', e) # rs' \<Rightarrow> c' = c \<and> (if e = None then runs_until_failure cs rs' else rs' = []))"

definition status_failed :: "(call \<times> goerr option) list \<Rightarrow> bool" where
  "status_failed es \<longleftrightarrow> (\<exists>x e. (CStatus x, Some e) \<in> set es)"

text \<open>Documented behaviour of the API server: a status update answers with the same object.\<close>

definition status_keeps_name :: "'w env \<Rightarrow> bool" where
  "status_keeps_name E \<longleftrightarrow> (\<forall>x w y w'. e_status E x w = (Inr y, w') \<longrightarrow> obj_key y = obj_key x)"

text \<open>
  How a step of a protocol may end, \<open>same\<close> being what it keeps of the object.  It never panics,
  it ends in an error exactly when its last status update failed, and nothing follows that one.
\<close>

definition step_ok :: "('a \<Rightarrow> bool) \<Rightarrow> (goerr + 'a) outcome \<Rightarrow> (call \<times> goerr option) list \<Rightarrow> bool" where
  "step_ok same out es \<longleftrightarrow>
     (case out of
        Crashed c \<Rightarrow> False
      | Done (Inl e) \<Rightarrow> (\<exists>es' x. es = es' @ [(CStatus x, Some e)] \<and> \<not> status_failed es')
      | Done (Inr b) \<Rightarrow> \<not> status_failed es \<and> same b)"

section \<open>Lemmas\<close>

lemma scripts_append [simp]: "scripts (es @ fs) = scripts es @ scripts fs"
  by (induction es rule: scripts.induct) (auto split: call.splits)

lemma scripts_status [simp]: "scripts [(CStatus x, e)] = []"
  by simp

lemma last_command [simp]: "last (xr_command (newScriptRequest p sc)) = sc"
  by (simp add: newScriptRequest_def)

lemma scripts_exec [simp]: "scripts [(CExec (newScriptRequest p sc), e)] = [(sc, e)]"
  by (simp add: newScriptRequest_def)

lemma status_failed_simps [simp]:
  "\<not> status_failed []"
  "status_failed (es @ fs) \<longleftrightarrow> status_failed es \<or> status_failed fs"
  "status_failed ((CStatus x, e) # es) \<longleftrightarrow> e \<noteq> None \<or> status_failed es"
  "status_failed ((CExec q, e) # es) \<longleftrightarrow> status_failed es"
  "status_failed ((CGet k ns n, e) # es) \<longleftrightarrow> status_failed es"
  "status_failed ((CList k ons ls, e) # es) \<longleftrightarrow> status_failed es"
  by (auto simp: status_failed_def)

lemma step_ok_simps [simp]:
  "\<not> step_ok same (Crashed c) es"
  "step_ok same (Done (Inl e)) es \<longleftrightarrow> (\<exists>es' x. es = es' @ [(CStatus x, Some e)] \<and> \<not> status_failed es')"
  "step_ok same (Done (Inr b)) es \<longleftrightarrow> \<not> status_failed es \<and> same b"
  by (simp_all add: step_ok_def)

lemma step_ok_prefix:
  assumes ok: "step_ok same out es" and nf: "\<not> status_failed fs" and "\<And>b. same b \<Longrightarrow> same' b"
  shows "step_ok same' out (fs @ es)"
proof (cases out)
  case (Crashed c)
  with ok show ?thesis by simp
next
  case (Done r)
  show ?thesis
  proof (cases r)
    case (Inl e)
    with ok Done obtain es' x where "es = es' @ [(CStatus x, Some e)]" "\<not> status_failed es'"
      by auto
    with nf have "fs @ es = (fs @ es') @ [(CStatus x, Some e)] \<and> \<not> status_failed (fs @ es')"
      by simp
    then show ?thesis unfolding Done Inl step_ok_simps by (intro exI)
  next
    case (Inr b)
    with assms Done show ?thesis by simp
  qed
qed

lemma step_ok_Inl: "step_ok same out es \<Longrightarrow> status_failed es \<longleftrightarrow> (\<exists>e. out = Done (Inl e))"
  by (auto simp: step_ok_def split: outcome.splits sum.splits)

text \<open>Two steps of a protocol in sequence; \<open>R\<close> is what a run without a failed report has done.\<close>

lemma step_ok_seq:
  assumes m: "traces (\<lambda>out es. step_ok (same b) out es \<and> P es) m"
    and f: "\<And>b' es. \<not> status_failed es \<Longrightarrow> P es \<Longrightarrow> same b b' \<Longrightarrow>
      traces (\<lambda>out es'. step_ok (same b') out es' \<and> (\<forall>b''. out = Done (Inr b'') \<longrightarrow> R (es @ es'))) (f b')"
    and trans: "\<And>b' b''. same b b' \<Longrightarrow> same b' b'' \<Longrightarrow> same b b''"
  shows "traces (\<lambda>out es. step_ok (same b) out es \<and> (\<forall>b''. out = Done (Inr b'') \<longrightarrow> R es)) (bindE m f)"
proof (rule traces_bindE [OF m])
  fix b' es
  assume "step_ok (same b) (Done (Inr b')) es \<and> P es"
  then have nf: "\<not> status_failed es" and p: "P es" and s: "same b b'" by simp_all
  show "traces (\<lambda>out es'. step_ok (same b) out (es @ es') \<and>
      (\<forall>b''. out = Done (Inr b'') \<longrightarrow> R (es @ es'))) (f b')"
    by (rule traces_weaken [OF f [OF nf p s]]) (use trans [OF s] nf in \<open>auto intro: step_ok_prefix\<close>)
qed auto

lemma MakeRequest_traces:
  "traces (\<lambda>out es. \<exists>r. out = Done r \<and> es = [(CExec (newScriptRequest p script), err_part r)])
     (MakeRequest E (Some c) p rn script)"
  unfolding MakeRequest_def Let_def option.case by (rule traces_perform) simp

lemma scripts_reads: "reads_only rs \<Longrightarrow> scripts rs = []"
  by (induction rs rule: scripts.induct) (auto split: call.splits)

text \<open>A remote command followed by one report.\<close>

lemma exec_report_traces:
  assumes failed: "\<And>err. traces (\<lambda>out es. step_ok same out es \<and> scripts es = []) (g err)"
    and ok: "traces (\<lambda>out es. step_ok same out es \<and> scripts es = []) m"
  shows "traces (\<lambda>out es. step_ok same out es \<and> (\<exists>e. scripts es = [(sc, e)]))
     (bindP (MakeRequest E (Some c) p rn sc) (\<lambda>r. case r of Inl err \<Rightarrow> g err | Inr u \<Rightarrow> m))"
proof (rule traces_bindP [OF MakeRequest_traces])
  fix r es
  assume "\<exists>r'. Done r = Done r' \<and> es = [(CExec (newScriptRequest p sc), err_part r')]"
  then have es: "es = [(CExec (newScriptRequest p sc), err_part r)]" by simp
  let ?Q = "\<lambda>out es'. step_ok same out (es @ es') \<and> (\<exists>e. scripts (es @ es') = [(sc, e)])"
  have weak: "step_ok same out es' \<and> scripts es' = [] \<Longrightarrow> ?Q out es'" for out es'
    by (auto simp: es intro: step_ok_prefix [where fs = "[(c, e)]" for c e, simplified])
  show "traces ?Q (case r of Inl err \<Rightarrow> g err | Inr u \<Rightarrow> m)"
    using traces_weaken [OF failed weak] traces_weaken [OF ok weak]
    by (cases r) (simp_all only: sum.case)
qed simp

text \<open>A remote command that is the next one of a plan: on failure a report ends the run.\<close>

lemma plan_step:
  assumes failed: "\<And>err. traces (\<lambda>out es. step_ok same out es \<and> scripts es = [] \<and> F es) (g err)"
    and next_ok: "traces (\<lambda>out es. step_ok same out es \<and> runs_until_failure cs (scripts es) \<and> G es) m"
    and F: "\<And>es e. scripts es = [] \<Longrightarrow> F es \<Longrightarrow> H ((CExec (newScriptRequest p sc), Some e) # es)"
    and G: "\<And>es. G es \<Longrightarrow> H ((CExec (newScriptRequest p sc), None) # es)"
  shows "traces (\<lambda>out es. step_ok same out es \<and> runs_until_failure (sc # cs) (scripts es) \<and> H es)
     (bindP (MakeRequest E (Some c) p rn sc) (\<lambda>r. case r of Inl err \<Rightarrow> g err | Inr u \<Rightarrow> m))"
proof (rule traces_bindP [OF MakeRequest_traces])
  fix r es
  assume "\<exists>r'. Done r = Done r' \<and> es = [(CExec (newScriptRequest p sc), err_part r')]"
  then have es: "es = [(CExec (newScriptRequest p sc), err_part r)]" by simp
  let ?Q = "\<lambda>out es'. step_ok same out (es @ es') \<and>
      runs_until_failure (sc # cs) (scripts (es @ es')) \<and> H (es @ es')"
  show "traces ?Q (case r of Inl err \<Rightarrow> g err | Inr u \<Rightarrow> m)"
  proof (cases r)
    case (Inl err)
    have "traces ?Q (g err)"
      by (rule traces_weaken [OF failed])
        (auto simp: es Inl F intro: step_ok_prefix [where fs = "[(c, e)]" for c e, simplified])
    with Inl show ?thesis by simp
  next
    case (Inr u)
    have "traces ?Q m"
      by (rule traces_weaken [OF next_ok])
        (auto simp: es Inr G intro: step_ok_prefix [where fs = "[(c, e)]" for c e, simplified])
    with Inr show ?thesis by simp
  qed
qed simp

lemma plan_step_traces:
  assumes "\<And>err. traces (\<lambda>out es. step_ok same out es \<and> scripts es = []) (g err)"
    and "traces (\<lambda>out es. step_ok same out es \<and> runs_until_failure cs (scripts es)) m"
  shows "traces (\<lambda>out es. step_ok same out es \<and> runs_until_failure (sc # cs) (scripts es))
     (bindP (MakeRequest E (Some c) p rn sc) (\<lambda>r. case r of Inl err \<Rightarrow> g err | Inr u \<Rightarrow> m))"
  using plan_step [where same = same and cs = cs and sc = sc and g = g and m = m and
      F = "\<lambda>es. True" and G = "\<lambda>es. True" and H = "\<lambda>es. True"] assms
  by (simp del: runs_until_failure.simps)

text \<open>Code that never panics.\<close>

abbreviation never_panics :: "('w, 'a) prog \<Rightarrow> bool" where
  "never_panics \<equiv> traces (\<lambda>out es. \<exists>r. out = Done r)"

lemma never_panics_bindE: "never_panics m \<Longrightarrow> (\<And>a. never_panics (f a)) \<Longrightarrow> never_panics (bindE m f)"
  by (rule traces_bindE, assumption) auto

lemma step_ok_never_panics: "traces (\<lambda>out es. step_ok same out es \<and> P out es) m \<Longrightarrow> never_panics m"
  by (rule traces_weaken, assumption) (auto simp: step_ok_def split: outcome.splits)

text \<open>A command in a log that starts with reads comes after what guards it in the rest.\<close>

lemma reads_only_no_exec: "reads_only es \<Longrightarrow> es = es1 @ (CExec q, r) # es2 \<Longrightarrow> False"
  by simp

lemma reads_only_guard:
  assumes "reads_only rs" and "rs @ rest = es1 @ (CExec q, r) # es2"
  shows "\<exists>es1'. es1 = rs @ es1' \<and> rest = es1' @ (CExec q, r) # es2"
proof -
  from assms(2) have "(\<exists>us. rs = es1 @ us \<and> us @ rest = (CExec q, r) # es2) \<or>
      (\<exists>us. rs @ us = es1 \<and> rest = us @ (CExec q, r) # es2)"
    unfolding append_eq_append_conv2 by blast
  then show ?thesis
  proof
    assume "\<exists>us. rs = es1 @ us \<and> us @ rest = (CExec q, r) # es2"
    then obtain us where us: "rs = es1 @ us" "us @ rest = (CExec q, r) # es2" by blast
    with assms(1) show ?thesis by (cases us) auto
  qed blast
qed

section \<open>Reporting a condition\<close>

locale status_object =
  fixes wrap :: "'a \<Rightarrow> kobj"
    and unwrap :: "kobj \<Rightarrow> 'a option"
    and conds :: "'a \<Rightarrow> condition list"
    and with_conds :: "condition list \<Rightarrow> 'a \<Rightarrow> 'a"
    and obj_name :: "'a \<Rightarrow> string"
  assumes unwrap: "unwrap x = Some a \<longleftrightarrow> x = wrap a"
    and conds_with: "conds (with_conds cs a) = cs"
    and name_with: "obj_name (with_conds cs a) = obj_name a"
    and name_meta: "obj_name a = om_name (meta_of (wrap a))"
begin

lemma update_traces:
  "traces (\<lambda>out es. step_ok (\<lambda>a'. status_keeps_name E \<longrightarrow> obj_name a' = obj_name a) out es \<and>
       (\<exists>r. out = Done r \<and> es = [(CStatus (wrap a), err_part r)]))
     (client_status_update E unwrap (wrap a))"
proof (rule traces_status)
  fix r :: "goerr + 'a"
  assume ans: "\<forall>a'. r = Inr a' \<longrightarrow> (\<exists>y w w'. e_status E (wrap a) w = (Inr y, w') \<and> unwrap y = Some a')"
  have "obj_name a' = obj_name a" if "status_keeps_name E" and "r = Inr a'" for a'
  proof -
    from ans that(2) obtain w w' where "e_status E (wrap a) w = (Inr (wrap a'), w')"
      by (auto simp: unwrap)
    with that(1) have "obj_key (wrap a') = obj_key (wrap a)"
      unfolding status_keeps_name_def by blast
    then show ?thesis by (simp add: obj_key_def name_meta)
  qed
  then show "step_ok (\<lambda>a'. status_keeps_name E \<longrightarrow> obj_name a' = obj_name a) (Done r)
        [(CStatus (wrap a), err_part r)] \<and>
      (\<exists>r'. Done r = Done r' \<and> [(CStatus (wrap a), err_part r)] = [(CStatus (wrap a), err_part r')])"
    by (cases r) auto
qed

text \<open>Setting a condition at some time and updating the status.\<close>

lemma report_traces:
  "traces (\<lambda>out es. step_ok (\<lambda>a'. status_keeps_name E \<longrightarrow> obj_name a' = obj_name a) out es \<and>
       (\<exists>r t. out = Done r \<and>
          es = [(CStatus (wrap (with_conds (fst (SetCondition t (conds a) c)) a)), err_part r)]))
     (bindP (now E) (\<lambda>t.
        client_status_update E unwrap (wrap (with_conds (fst (SetCondition t (conds a) c)) a))))"
proof (rule traces_bindP [OF traces_now [where Q = "\<lambda>out es. es = [] \<and> (\<exists>t. out = Done t)"]])
  fix t :: gotime and es :: "(call \<times> goerr option) list"
  assume "es = [] \<and> (\<exists>t'. Done t = Done t')"
  then have es: "es = []" by simp
  let ?x = "wrap (with_conds (fst (SetCondition t (conds a) c)) a)"
  show "traces (\<lambda>out es'. step_ok (\<lambda>a'. status_keeps_name E \<longrightarrow> obj_name a' = obj_name a) out (es @ es') \<and>
       (\<exists>r t. out = Done r \<and>
          es @ es' = [(CStatus (wrap (with_conds (fst (SetCondition t (conds a) c)) a)), err_part r)]))
     (client_status_update E unwrap ?x)"
    by (rule traces_weaken [OF update_traces]) (auto simp: es name_with)
qed simp_all

end

section \<open>A whole reconciliation\<close>

text \<open>
  A run: reads only, a panic on the missing deployment, one report (of which \<open>I\<close> holds) that the
  exec client could not be initialised, or the protocol, of which \<open>P\<close> holds.
\<close>

inductive protocol_trace ::
    "(call \<Rightarrow> bool) \<Rightarrow> ((goerr + 'a) outcome \<Rightarrow> (call \<times> goerr option) list \<Rightarrow> bool) \<Rightarrow>
     (result \<times> goerr option) outcome \<Rightarrow> (call \<times> goerr option) list \<Rightarrow> bool" for I P where
  reads: "reads_only rs \<Longrightarrow> protocol_trace I P (Done (empty_result, e)) rs"
| panic: "reads_only rs \<Longrightarrow> rs = rs' @ [(CGet KDeployment ns n, Some e)] \<Longrightarrow> protocol_trace I P (Crashed c) rs"
| init_failed: "reads_only rs \<Longrightarrow> I x \<Longrightarrow> protocol_trace I P (Done (empty_result, e)) (rs @ [(x, e)])"
| protocol: "reads_only rs \<Longrightarrow> P (Done r) rest \<Longrightarrow>
    protocol_trace I P (Done (empty_result, err_part r)) (rs @ rest)"

lemmas protocol_trace_init0 = protocol_trace.init_failed [where rs = "[]", simplified]
lemmas protocol_trace_protocol0 = protocol_trace.protocol [where rs = "[]", simplified]

lemma protocol_trace_prefix:
  assumes "protocol_trace I P out es" and fs: "reads_only fs"
  shows "protocol_trace I P out (fs @ es)"
  using assms(1)
proof cases
  case (reads e)
  with fs show ?thesis by (auto intro: protocol_trace.reads)
next
  case (panic rs' ns n e c)
  with fs have "reads_only (fs @ es)" by simp
  moreover from panic have "fs @ es = (fs @ rs') @ [(CGet KDeployment ns n, Some e)]" by simp
  ultimately show ?thesis unfolding panic(1) by (rule protocol_trace.panic)
next
  case (init_failed rs x e)
  with fs have "reads_only (fs @ rs)" by simp
  then have "protocol_trace I P (Done (empty_result, e)) ((fs @ rs) @ [(x, e)])"
    using init_failed by (intro protocol_trace.init_failed)
  with init_failed show ?thesis by simp
next
  case (protocol rs r rest)
  with fs have "reads_only (fs @ rs)" by simp
  then have "protocol_trace I P (Done (empty_result, err_part r)) ((fs @ rs) @ rest)"
    using protocol by (intro protocol_trace.protocol)
  with protocol show ?thesis by simp
qed

lemma ignore_not_found_traces:
  "reads_only fs \<Longrightarrow> traces (\<lambda>out es. protocol_trace I P out (fs @ es)) (ignore_not_found e)"
  unfolding ignore_not_found_def by (rule traces_ret) (simp add: protocol_trace.reads)

lemma InitKubeGoClient_traces:
  "e_home E \<noteq> [] \<Longrightarrow> traces (\<lambda>out es. es = [] \<and> (\<exists>r. out = Done r \<and> r \<noteq> Inr None)) (InitKubeGoClient E)"
  by (rule traces_reads) (metis InitKubeGoClient_run)

lemma with_client_traces:
  assumes home: "e_home E \<noteq> []"
    and report: "\<And>err. traces (\<lambda>out es. \<exists>r x. out = Done r \<and> es = [(x, err_part r)] \<and> I x) (g err)"
    and run: "\<And>c. traces P (f (Some c))"
    and no_crash: "\<And>c es. \<not> P (Crashed c) es"
  shows "traces (protocol_trace I P) (bindP (InitKubeGoClient E) (\<lambda>ir. case ir of
       Inl err \<Rightarrow> bindP (g err) (\<lambda>ur. ret (empty_result, err_part ur))
     | Inr cl \<Rightarrow> bindP (f cl) (\<lambda>rr. ret (empty_result, err_part rr))))"
proof (rule traces_bindP [OF InitKubeGoClient_traces [OF home]])
  fix ir :: "goerr + string option" and es :: "(call \<times> goerr option) list"
  assume "es = [] \<and> (\<exists>r. Done ir = Done r \<and> r \<noteq> Inr None)"
  then have es: "es = []" and nn: "ir \<noteq> Inr None" by simp_all
  have init: "traces (protocol_trace I P) (bindP (g err) (\<lambda>ur. ret (empty_result, err_part ur)))" for err
    by (rule traces_bindP [OF report], rule traces_ret) (auto intro: protocol_trace_init0)
  have prot: "traces (protocol_trace I P) (bindP (f (Some c)) (\<lambda>rr. ret (empty_result, err_part rr)))" for c
    by (rule traces_bindP [OF run], rule traces_ret)
      (auto simp: no_crash intro: protocol_trace_protocol0)
  show "traces (\<lambda>out es'. protocol_trace I P out (es @ es')) (case ir of
       Inl err \<Rightarrow> bindP (g err) (\<lambda>ur. ret (empty_result, err_part ur))
     | Inr cl \<Rightarrow> bindP (f cl) (\<lambda>rr. ret (empty_result, err_part rr)))"
    using nn init prot es by (cases ir; cases "projr ir") auto
qed simp

lemma with_pod_traces:
  assumes f: "\<And>p. traces (protocol_trace I P) (f p)"
  shows "traces (protocol_trace I P) (bindP (GetPodByDeployment E j)
     (\<lambda>pr. case pr of Inl e \<Rightarrow> ret (empty_result, Some e) | Inr p \<Rightarrow> f p))"
proof (rule traces_bindP [OF GetPodByDeployment_traces])
  fix pr :: "goerr + pod" and es
  assume "lookup_ok (Done pr) es"
  then have pre: "reads_only es" by (simp add: lookup_ok_def)
  have "traces (\<lambda>out es'. protocol_trace I P out (es @ es')) (f p)" for p
    by (rule traces_weaken [OF f]) (rule protocol_trace_prefix [OF _ pre])
  with pre show "traces (\<lambda>out es'. protocol_trace I P out (es @ es')) (case pr of
      Inl e \<Rightarrow> ret (empty_result, Some e) | Inr p \<Rightarrow> f p)"
    by (cases pr) (auto intro!: traces_ret protocol_trace.reads)
next
  fix c es
  assume l: "lookup_ok (Crashed c :: (goerr + pod) outcome) es"
  then obtain ns n e where "es = [(CGet KDeployment ns n, Some e)]"
    by (auto simp: lookup_ok_def)
  with l show "protocol_trace I P (Crashed c) es"
    by (intro protocol_trace.panic [where rs' = "[]"]) (simp_all add: lookup_ok_def)
qed

lemma get_or_ignore_traces:
  fixes f :: "'a \<Rightarrow> ('w, result \<times> goerr option) prog"
  assumes f: "\<And>a. traces (protocol_trace I P) (f a)"
  shows "traces (protocol_trace I P) (bindP (client_get E k sel ns n)
     (\<lambda>r. case r of Inl e \<Rightarrow> ignore_not_found e | Inr a \<Rightarrow> f a))"
proof (rule traces_bindP [OF traces_get [where Q = "\<lambda>out es. reads_only es \<and> (\<exists>r. out = Done r)"]])
  fix r :: "goerr + 'a" and es :: "(call \<times> goerr option) list"
  assume "reads_only es \<and> (\<exists>r'. Done r = Done r')"
  then have es: "reads_only es" by simp
  have "traces (\<lambda>out es'. protocol_trace I P out (es @ es')) (f a)" for a
    by (rule traces_weaken [OF f]) (rule protocol_trace_prefix [OF _ es])
  then show "traces (\<lambda>out es'. protocol_trace I P out (es @ es')) (case r of
      Inl e \<Rightarrow> ignore_not_found e | Inr a \<Rightarrow> f a)"
    using es by (cases r) (simp_all add: ignore_not_found_traces)
qed simp_all

end
