(* ===== verification/Backup_Controller.thy ===== *)
theory Backup_Controller
  imports Exec_Protocol
begin

text \<open>
  The backup controller (\<^verbatim>\<open>controllers/backup_controller.go\<close>): one reconciliation of a \<open>Backup\<close>.
  It reads the backup, its configuration and the \<open>Jenkins\<close>, finds the pod, prepares the exec
  client, and then runs the protocol \<open>backup_run\<close>: optionally quiet the instance down, create
  the backup directory and copy each selected location, lift the quiet-down, report completion.
  A status update replaces the in-memory object by the server's answer, as the client does.
\<close>

section \<open>Condition types\<close>

definition BackupInitialized :: string where "BackupInitialized = ''BackupInitialized''"
definition QuietDownStarted :: string where "QuietDownStarted = ''QuietDownStarted''"
definition BackupCompleted :: string where "BackupCompleted = ''BackupCompleted''"
definition QuietDownCancelled :: string where "QuietDownCancelled = ''QuietDownCancelled''"

definition defaultJenkinsHome :: string where "defaultJenkinsHome = ''/var/lib/jenkins''"
definition DefaultBackupConfigName :: string where "DefaultBackupConfigName = ''default''"

section \<open>Operations\<close>

definition bk_name :: "backup \<Rightarrow> string" where
  "bk_name b = om_name (bk_meta b)"

definition bk_with :: "gotime \<Rightarrow> backup \<Rightarrow> string \<Rightarrow> cond_status \<Rightarrow> string \<Rightarrow> backup" where
  "bk_with t b ty st rs =
     b\<lparr>bk_conditions := fst (SetCondition t (bk_conditions b) (new_condition ty st rs))\<rparr>"

definition bk_update :: "'w env \<Rightarrow> backup \<Rightarrow> ('w, goerr + backup) prog" where
  "bk_update E b = client_status_update E as_backup (OBackup b)"

text \<open>Set a condition, then update the status; the result is the server's object.\<close>

definition bk_report :: "'w env \<Rightarrow> backup \<Rightarrow> string \<Rightarrow> cond_status \<Rightarrow> string \<Rightarrow> ('w, goerr + backup) prog" where
  "bk_report E b ty st rs = bindP (now E) (\<lambda>t. bk_update E (bk_with t b ty st rs))"

definition performJenkinsQuietDown :: "'w env \<Rightarrow> string option \<Rightarrow> pod \<Rightarrow> backup \<Rightarrow> ('w, goerr + backup) prog" where
  "performJenkinsQuietDown E cl p b =
     bindP (MakeRequest E cl p (bk_name b) (Join [''sh'', QuietDownScriptPath] '' ''))
       (\<lambda>r. case r of
          Inl err \<Rightarrow> bk_report E b QuietDownStarted CFalse (err_text err)
        | Inr _ \<Rightarrow> bk_report E b QuietDownStarted CTrue [])"

definition performJenkinsCancelQuietDown :: "'w env \<Rightarrow> string option \<Rightarrow> pod \<Rightarrow> backup \<Rightarrow> ('w, goerr + backup) prog" where
  "performJenkinsCancelQuietDown E cl p b =
     bindP (MakeRequest E cl p (bk_name b) (Join [''sh'', CancelQuietDownScriptPath] '' ''))
       (\<lambda>r. case r of
          Inl err \<Rightarrow> bk_report E b QuietDownCancelled CFalse
                      (''CancelQuietDown failed with error '' @ err_text err)
        | Inr _ \<Rightarrow> bk_report E b QuietDownCancelled CTrue [])"

definition backupToLocation :: "backup \<Rightarrow> string" where
  "backupToLocation b = JenkinsBackupVolumePath @ ''/'' @ bk_name b @ ''/''"

definition sub_locations :: "backup_options \<Rightarrow> string list" where
  "sub_locations opts =
     (if bo_config opts then [''*.xml''] else []) @
     (if bo_jobs opts then [''jobs''] else []) @
     (if bo_plugins opts then [''plugins''] else [])"

definition backupFromSubLocation :: "string \<Rightarrow> string" where
  "backupFromSubLocation sl = Join [defaultJenkinsHome, sl] ''/''"

definition execBackupSubLocation :: "string \<Rightarrow> string \<Rightarrow> string" where
  "execBackupSubLocation to_loc sl = Join [''cp'', ''-r'', backupFromSubLocation sl, to_loc] '' ''"

text \<open>The loop over the locations; \<open>to_loc\<close> was computed before the first request.\<close>

fun backup_copy_loop :: "'w env \<Rightarrow> string option \<Rightarrow> pod \<Rightarrow> backup \<Rightarrow> string \<Rightarrow> string list \<Rightarrow> ('w, goerr + backup) prog" where
  "backup_copy_loop E cl p b to_loc [] = bk_update E b"
| "backup_copy_loop E cl p b to_loc (sl # sls) =
     bindP (MakeRequest E cl p (bk_name b) (execBackupSubLocation to_loc sl))
       (\<lambda>r. case r of
          Inl err \<Rightarrow> bk_report E b BackupCompleted CFalse
                      (''Failed to backup from '' @ backupFromSubLocation sl @ '' '' @ err_text err)
        | Inr _ \<Rightarrow> backup_copy_loop E cl p b to_loc sls)"

definition performJenkinsBackup :: "'w env \<Rightarrow> string option \<Rightarrow> pod \<Rightarrow> backup \<Rightarrow> backup_config \<Rightarrow> ('w, goerr + backup) prog" where
  "performJenkinsBackup E cl p b cfg =
     (let to_loc = backupToLocation b in
      bindP (MakeRequest E cl p (bk_name b) (Join [''mkdir'', to_loc] '' ''))
        (\<lambda>r. case r of
           Inl err \<Rightarrow> bk_report E b BackupCompleted CFalse
                       (''Failed to create backup directory '' @ to_loc @ '' '' @ err_text err)
         | Inr _ \<Rightarrow>
             (let sls = sub_locations (bc_options cfg) in
              if length sls > 0 then backup_copy_loop E cl p b to_loc sls else ret (Inr b))))"

text \<open>The part of \<open>Reconcile\<close> after the exec client has been initialised.\<close>

definition backup_run :: "'w env \<Rightarrow> string option \<Rightarrow> pod \<Rightarrow> backup_config \<Rightarrow> backup \<Rightarrow> ('w, goerr + backup) prog" where
  "backup_run E cl p cfg b =
     bindE (bk_report E b BackupInitialized CTrue []) (\<lambda>b.
     bindE (if bc_quietDown cfg then performJenkinsQuietDown E cl p b else ret (Inr b)) (\<lambda>b.
     bindE (performJenkinsBackup E cl p b cfg) (\<lambda>b.
     bindE (if bc_quietDown cfg then performJenkinsCancelQuietDown E cl p b else ret (Inr b)) (\<lambda>b.
     bk_report E b BackupCompleted CTrue []))))"

definition backup_config_name :: "backup \<Rightarrow> string" where
  "backup_config_name b = (if bk_configRef b \<noteq> [] then bk_configRef b else DefaultBackupConfigName)"

text \<open>From the initialisation of the exec client on.\<close>

definition backup_client :: "'w env \<Rightarrow> backup_config \<Rightarrow> backup \<Rightarrow> pod \<Rightarrow> ('w, result \<times> goerr option) prog" where
  "backup_client E cfg b p =
     bindP (InitKubeGoClient E) (\<lambda>ir. case ir of
       Inl err \<Rightarrow>
         bindP (bk_report E b BackupInitialized CFalse (err_text err))
           (\<lambda>ur. ret (empty_result, err_part ur))
     | Inr cl \<Rightarrow>
         bindP (backup_run E cl p cfg b) (\<lambda>rr. ret (empty_result, err_part rr)))"

text \<open>From reading the \<open>Jenkins\<close> on.\<close>

definition backup_prepare :: "'w env \<Rightarrow> string \<Rightarrow> backup_config \<Rightarrow> backup \<Rightarrow> ('w, result \<times> goerr option) prog" where
  "backup_prepare E ns cfg b =
     bindP (client_get E KJenkins as_jenkins ns (bc_jenkinsRef cfg)) (\<lambda>jr.
       case jr of Inl e \<Rightarrow> ignore_not_found e
     | Inr j \<Rightarrow>
         bindP (GetPodByDeployment E j) (\<lambda>pr. case pr of
           Inl e \<Rightarrow> ret (empty_result, Some e)
         | Inr p \<Rightarrow> backup_client E cfg b p))"

definition BackupReconcile :: "'w env \<Rightarrow> string \<Rightarrow> string \<Rightarrow> ('w, result \<times> goerr option) prog" where
  "BackupReconcile E ns name =
     bindP (client_get E KBackup as_backup ns name) (\<lambda>br. case br of Inl e \<Rightarrow> ignore_not_found e
     | Inr b \<Rightarrow>
       if length (bk_conditions b) > 0 then ret (empty_result, None) else
       bindP (client_get E KBackupConfig as_backup_config ns (backup_config_name b)) (\<lambda>cr.
         case cr of Inl e \<Rightarrow> ignore_not_found e
       | Inr cfg \<Rightarrow> backup_prepare E ns cfg b))"

section \<open>The commands of a backup\<close>

text \<open>What a backup should run: the abstract plan.\<close>

definition copy_plan :: "string \<Rightarrow> backup_options \<Rightarrow> string list" where
  "copy_plan name opts =
     (let to_loc = JenkinsBackupVolumePath @ ''/'' @ name @ ''/'' in
      (''mkdir '' @ to_loc) # map (execBackupSubLocation to_loc) (sub_locations opts))"

text \<open>A recorded status update whose object reports the given condition.\<close>

definition reports :: "string \<Rightarrow> cond_status \<Rightarrow> call \<Rightarrow> bool" where
  "reports ty st c \<longleftrightarrow> (\<exists>b cd. c = CStatus (OBackup b) \<and>
     FindStatusCondition (bk_conditions b) ty = Some cd \<and> cd_status cd = st)"

section \<open>Lemmas\<close>

interpretation backup_obj: status_object OBackup as_backup bk_conditions
    "\<lambda>cs b. b\<lparr>bk_conditions := cs\<rparr>" bk_name
  by unfold_locales (auto simp: as_backup_def bk_name_def split: kobj.splits)

lemma reports_bk_with [simp]: "reports ty st (CStatus (OBackup (bk_with t b ty st rs)))"
  by (simp add: reports_def bk_with_def SetCondition_find new_condition_def)

lemma bk_update_traces:
  "traces (\<lambda>out es. step_ok (\<lambda>b'. status_keeps_name E \<longrightarrow> bk_name b' = bk_name b) out es \<and>
      (\<exists>r. out = Done r \<and> es = [(CStatus (OBackup b), err_part r)]))
     (bk_update E b)"
  unfolding bk_update_def by (rule backup_obj.update_traces)

lemma bk_report_traces:
  "traces (\<lambda>out es. step_ok (\<lambda>b'. status_keeps_name E \<longrightarrow> bk_name b' = bk_name b) out es \<and>
      (\<exists>r t. out = Done r \<and> es = [(CStatus (OBackup (bk_with t b ty st rs)), err_part r)]))
     (bk_report E b ty st rs)"
  unfolding bk_report_def bk_update_def bk_with_def by (rule backup_obj.report_traces)

abbreviation bk_same :: "'w env \<Rightarrow> backup \<Rightarrow> backup \<Rightarrow> bool" where
  "bk_same E b b' \<equiv> (status_keeps_name E \<longrightarrow> bk_name b' = bk_name b)"

text \<open>A report, without its details.\<close>

lemma bk_report_step: "traces (\<lambda>out es. step_ok (bk_same E b) out es \<and> scripts es = []) (bk_report E b ty st rs)"
  by (rule traces_weaken [OF bk_report_traces]) auto

abbreviation quiet_script :: string where
  "quiet_script \<equiv> Join [''sh'', QuietDownScriptPath] '' ''"

abbreviation cancel_script :: string where
  "cancel_script \<equiv> Join [''sh'', CancelQuietDownScriptPath] '' ''"

lemma QuietDown_traces:
  "traces (\<lambda>out es. step_ok (bk_same E b) out es \<and> (\<exists>e. scripts es = [(quiet_script, e)]))
     (performJenkinsQuietDown E (Some c) p b)"
  unfolding performJenkinsQuietDown_def by (intro exec_report_traces bk_report_step)

lemma CancelQuietDown_traces:
  "traces (\<lambda>out es. step_ok (bk_same E b) out es \<and> (\<exists>e. scripts es = [(cancel_script, e)]))
     (performJenkinsCancelQuietDown E (Some c) p b)"
  unfolding performJenkinsCancelQuietDown_def by (intro exec_report_traces bk_report_step)

lemma backup_copy_loop_traces:
  "traces (\<lambda>out es. step_ok (bk_same E b) out es \<and>
      runs_until_failure (map (execBackupSubLocation to_loc) sls) (scripts es))
     (backup_copy_loop E (Some c) p b to_loc sls)"
proof (induction sls)
  case Nil
  show ?case unfolding backup_copy_loop.simps
    by (rule traces_weaken [OF bk_update_traces]) auto
next
  case (Cons sl sls)
  show ?case unfolding backup_copy_loop.simps list.map
    by (rule plan_step_traces [OF bk_report_step Cons.IH])
qed

lemma Backup_traces:
  "traces (\<lambda>out es. step_ok (bk_same E b) out es \<and>
      runs_until_failure (copy_plan (bk_name b) (bc_options cfg)) (scripts es))
     (performJenkinsBackup E (Some c) p b cfg)"
proof -
  let ?to = "JenkinsBackupVolumePath @ ''/'' @ bk_name b @ ''/''"
  let ?sls = "sub_locations (bc_options cfg)"
  have "traces (\<lambda>out es. step_ok (bk_same E b) out es \<and>
      runs_until_failure (map (execBackupSubLocation ?to) ?sls) (scripts es))
     (if length ?sls > 0 then backup_copy_loop E (Some c) p b ?to ?sls else ret (Inr b))"
  proof (cases "?sls")
    case Nil
    then show ?thesis by (simp add: traces_ret)
  next
    case (Cons a as)
    then show ?thesis using backup_copy_loop_traces [of E b ?to ?sls c p] by simp
  qed
  note rest = this
  have mkdir: "Join [''mkdir'', ?to] '' '' = ''mkdir '' @ ?to" by simp
  show ?thesis
    unfolding performJenkinsBackup_def backupToLocation_def copy_plan_def Let_def mkdir
    by (rule plan_step_traces [OF bk_report_step rest])
qed

text \<open>What a run has done when no status update failed.\<close>

definition backup_done :: "string \<Rightarrow> backup_config \<Rightarrow> (call \<times> goerr option) list \<Rightarrow> bool" where
  "backup_done name cfg es \<longleftrightarrow>
     (\<exists>pre rs suf. scripts es = pre @ rs @ suf \<and>
        map fst pre = (if bc_quietDown cfg then [''sh /jenkins-operator-scripts/quietdown.sh''] else []) \<and>
        runs_until_failure (copy_plan name (bc_options cfg)) rs \<and>
        map fst suf = (if bc_quietDown cfg then [''sh /jenkins-operator-scripts/cancelquietdown.sh''] else [])) \<and>
     (\<exists>es' c. es = es' @ [(c, None)] \<and> reports BackupCompleted CTrue c)"

lemma backup_done_reads: "backup_done name cfg es \<Longrightarrow> reads_only rs \<Longrightarrow> backup_done name cfg (rs @ es)"
  unfolding backup_done_def by (simp add: scripts_reads) (metis append.assoc)

lemma quiet_scripts:
  "quiet_script = ''sh /jenkins-operator-scripts/quietdown.sh''"
  "cancel_script = ''sh /jenkins-operator-scripts/cancelquietdown.sh''"
  by (simp_all add: script_paths)

lemma quiet_step:
  "traces (\<lambda>out es. step_ok (bk_same E b) out es \<and>
      map fst (scripts es) = (if q then [''sh /jenkins-operator-scripts/quietdown.sh''] else []))
     (if q then performJenkinsQuietDown E (Some c) p b else ret (Inr b))"
  "traces (\<lambda>out es. step_ok (bk_same E b) out es \<and>
      map fst (scripts es) = (if q then [''sh /jenkins-operator-scripts/cancelquietdown.sh''] else []))
     (if q then performJenkinsCancelQuietDown E (Some c) p b else ret (Inr b))"
proof -
  show "traces (\<lambda>out es. step_ok (bk_same E b) out es \<and>
      map fst (scripts es) = (if q then [''sh /jenkins-operator-scripts/quietdown.sh''] else []))
     (if q then performJenkinsQuietDown E (Some c) p b else ret (Inr b))"
    using traces_weaken [OF QuietDown_traces] quiet_scripts(1)
    by (cases q) (auto intro!: traces_ret traces_weaken [OF QuietDown_traces])
  show "traces (\<lambda>out es. step_ok (bk_same E b) out es \<and>
      map fst (scripts es) = (if q then [''sh /jenkins-operator-scripts/cancelquietdown.sh''] else []))
     (if q then performJenkinsCancelQuietDown E (Some c) p b else ret (Inr b))"
    using quiet_scripts(2)
    by (cases q) (auto intro!: traces_ret traces_weaken [OF CancelQuietDown_traces])
qed

text \<open>The last report, after \<open>pre\<close> and \<open>rs\<close> have been run.\<close>

lemma backup_finish_traces:
  assumes keep: "status_keeps_name E"
    and pre: "map fst (scripts es1) = (if bc_quietDown cfg then [''sh /jenkins-operator-scripts/quietdown.sh''] else [])"
    and rs: "runs_until_failure (copy_plan name (bc_options cfg)) (scripts es2)"
  shows "traces (\<lambda>out es. step_ok (\<lambda>b'. bk_name b' = bk_name b) out es \<and>
      (\<forall>b'. out = Done (Inr b') \<longrightarrow> backup_done name cfg (es1 @ es2 @ es)))
    (bindE (if bc_quietDown cfg then performJenkinsCancelQuietDown E (Some c) p b else ret (Inr b))
      (\<lambda>b. bk_report E b BackupCompleted CTrue []))"
proof (rule step_ok_seq [where same = "\<lambda>b b'. bk_name b' = bk_name b"])
  show "traces (\<lambda>out es. step_ok (\<lambda>b'. bk_name b' = bk_name b) out es \<and>
      map fst (scripts es) =
        (if bc_quietDown cfg then [''sh /jenkins-operator-scripts/cancelquietdown.sh''] else []))
     (if bc_quietDown cfg then performJenkinsCancelQuietDown E (Some c) p b else ret (Inr b))"
    by (rule traces_weaken [OF quiet_step(2)]) (simp add: keep)
next
  fix b' es
  assume suf: "map fst (scripts es) =
      (if bc_quietDown cfg then [''sh /jenkins-operator-scripts/cancelquietdown.sh''] else [])"
  have "backup_done name cfg (es1 @ es2 @ es @ [(CStatus (OBackup (bk_with t b' BackupCompleted CTrue [])), None)])"
    for t
    unfolding backup_done_def
  proof
    let ?es = "es1 @ es2 @ es @ [(CStatus (OBackup (bk_with t b' BackupCompleted CTrue [])), None)]"
    have "scripts ?es = scripts es1 @ scripts es2 @ scripts es" by simp
    with pre rs suf show "\<exists>pre rs suf. scripts ?es = pre @ rs @ suf \<and>
        map fst pre = (if bc_quietDown cfg then [''sh /jenkins-operator-scripts/quietdown.sh''] else []) \<and>
        runs_until_failure (copy_plan name (bc_options cfg)) rs \<and>
        map fst suf = (if bc_quietDown cfg then [''sh /jenkins-operator-scripts/cancelquietdown.sh''] else [])"
      by (intro exI conjI)
    show "\<exists>es' c. ?es = es' @ [(c, None)] \<and> reports BackupCompleted CTrue c"
      by (rule exI [of _ "es1 @ es2 @ es"],
        rule exI [of _ "CStatus (OBackup (bk_with t b' BackupCompleted CTrue []))"]) simp
  qed
  then show "traces (\<lambda>out es'. step_ok (\<lambda>b''. bk_name b'' = bk_name b') out es' \<and>
      (\<forall>b''. out = Done (Inr b'') \<longrightarrow> backup_done name cfg (es1 @ es2 @ es @ es')))
     (bk_report E b' BackupCompleted CTrue [])"
    by (intro traces_weaken [OF bk_report_traces]) (auto simp: keep)
qed simp

lemma backup_run_traces:
  assumes keep: "status_keeps_name E"
  shows "traces (\<lambda>out es. step_ok (\<lambda>b'. bk_name b' = bk_name b) out es \<and>
      (\<forall>b'. out = Done (Inr b') \<longrightarrow> backup_done (bk_name b) cfg es))
    (backup_run E (Some c) p cfg b)"
  unfolding backup_run_def
proof (rule step_ok_seq [where same = "\<lambda>b b'. bk_name b' = bk_name b" and P = "\<lambda>es. scripts es = []"])
  show "traces (\<lambda>out es. step_ok (\<lambda>b'. bk_name b' = bk_name b) out es \<and> scripts es = [])
     (bk_report E b BackupInitialized CTrue [])"
    by (rule traces_weaken [OF bk_report_traces]) (auto simp: keep)
next
  fix b1 es0
  assume es0: "scripts es0 = []" and n1: "bk_name b1 = bk_name b"
  show "traces (\<lambda>out es'. step_ok (\<lambda>b'. bk_name b' = bk_name b1) out es' \<and>
      (\<forall>b''. out = Done (Inr b'') \<longrightarrow> backup_done (bk_name b) cfg (es0 @ es')))
    (bindE (if bc_quietDown cfg then performJenkinsQuietDown E (Some c) p b1 else ret (Inr b1)) (\<lambda>b.
     bindE (performJenkinsBackup E (Some c) p b cfg) (\<lambda>b.
     bindE (if bc_quietDown cfg then performJenkinsCancelQuietDown E (Some c) p b else ret (Inr b)) (\<lambda>b.
     bk_report E b BackupCompleted CTrue []))))"
  proof (rule step_ok_seq [where same = "\<lambda>b b'. bk_name b' = bk_name b"])
    show "traces (\<lambda>out es. step_ok (\<lambda>b'. bk_name b' = bk_name b1) out es \<and>
        map fst (scripts es) =
          (if bc_quietDown cfg then [''sh /jenkins-operator-scripts/quietdown.sh''] else []))
       (if bc_quietDown cfg then performJenkinsQuietDown E (Some c) p b1 else ret (Inr b1))"
      by (rule traces_weaken [OF quiet_step(1)]) (simp add: keep)
  next
    fix b2 es1
    assume es1: "map fst (scripts es1) =
          (if bc_quietDown cfg then [''sh /jenkins-operator-scripts/quietdown.sh''] else [])"
      and n2: "bk_name b2 = bk_name b1"
    show "traces (\<lambda>out es'. step_ok (\<lambda>b'. bk_name b' = bk_name b2) out es' \<and>
        (\<forall>b''. out = Done (Inr b'') \<longrightarrow> backup_done (bk_name b) cfg (es0 @ es1 @ es')))
      (bindE (performJenkinsBackup E (Some c) p b2 cfg) (\<lambda>b.
       bindE (if bc_quietDown cfg then performJenkinsCancelQuietDown E (Some c) p b else ret (Inr b)) (\<lambda>b.
       bk_report E b BackupCompleted CTrue [])))"
    proof (rule step_ok_seq [where same = "\<lambda>b b'. bk_name b' = bk_name b"])
      show "traces (\<lambda>out es. step_ok (\<lambda>b'. bk_name b' = bk_name b2) out es \<and>
          runs_until_failure (copy_plan (bk_name b) (bc_options cfg)) (scripts es))
         (performJenkinsBackup E (Some c) p b2 cfg)"
        by (rule traces_weaken [OF Backup_traces]) (simp add: keep n1 n2)
    next
      fix b3 es2
      assume "runs_until_failure (copy_plan (bk_name b) (bc_options cfg)) (scripts es2)"
      with backup_finish_traces [OF keep, of "es0 @ es1" cfg "bk_name b" es2 b3] es0 es1
      show "traces (\<lambda>out es'. step_ok (\<lambda>b'. bk_name b' = bk_name b3) out es' \<and>
          (\<forall>b''. out = Done (Inr b'') \<longrightarrow> backup_done (bk_name b) cfg (es0 @ es1 @ es2 @ es')))
        (bindE (if bc_quietDown cfg then performJenkinsCancelQuietDown E (Some c) p b3 else ret (Inr b3))
          (\<lambda>b. bk_report E b BackupCompleted CTrue []))"
        by simp
    qed simp
  qed simp
qed simp

abbreviation backup_trace ::
    "((goerr + backup) outcome \<Rightarrow> (call \<times> goerr option) list \<Rightarrow> bool) \<Rightarrow>
     (result \<times> goerr option) outcome \<Rightarrow> (call \<times> goerr option) list \<Rightarrow> bool" where
  "backup_trace P \<equiv> protocol_trace (reports BackupInitialized CFalse) P"

lemma backup_prepare_traces:
  assumes home: "e_home E \<noteq> []"
    and run: "\<And>c p. traces P (backup_run E (Some c) p cfg b)"
    and no_crash: "\<And>c es. \<not> P (Crashed c) es"
  shows "traces (backup_trace P) (backup_prepare E ns cfg b)"
  unfolding backup_prepare_def backup_client_def
  by (intro get_or_ignore_traces with_pod_traces with_client_traces
      traces_weaken [OF bk_report_traces] home run no_crash) auto

lemma BackupReconcile_traces:
  assumes home: "e_home E \<noteq> []"
    and run: "\<And>c p cfg b. traces P (backup_run E (Some c) p cfg b)"
    and no_crash: "\<And>c es. \<not> P (Crashed c) es"
  shows "traces (backup_trace P) (BackupReconcile E ns name)"
  unfolding BackupReconcile_def
  by (intro get_or_ignore_traces)
    (auto intro!: traces_ret protocol_trace.reads get_or_ignore_traces
      backup_prepare_traces [OF home run no_crash])

text \<open>A run for a backup that has not been started and whose configuration exists.\<close>

lemma BackupReconcile_start:
  assumes "e_get E KBackup ns name (world s) = (Inr (OBackup b), w1)" and "bk_conditions b = []"
    and "e_get E KBackupConfig ns (backup_config_name b) w1 = (Inr (OBackupConfig cfg), w2)"
  shows "BackupReconcile E ns name s = backup_prepare E ns cfg b (s\<lparr>world := w2,
     log := log s @ [(CGet KBackup ns name, None), (CGet KBackupConfig ns (backup_config_name b), None)]\<rparr>)"
  using client_get_answer [OF assms(1), of as_backup] assms(2)
    client_get_answer [of E KBackupConfig ns "backup_config_name b"
      "s\<lparr>world := w1, log := log s @ [(CGet KBackup ns name, None)]\<rparr>" "OBackupConfig cfg" w2
      as_backup_config cfg] assms(3)
  by (simp add: BackupReconcile_def run_bindP as_backup_def as_backup_config_def)

lemma BackupReconcile_start_traces:
  assumes "e_get E KBackup ns name (world s) = (Inr (OBackup b), w1)" and "bk_conditions b = []"
    and "e_get E KBackupConfig ns (backup_config_name b) w1 = (Inr (OBackupConfig cfg), w2)"
    and run: "BackupReconcile E ns name s = (out, s')"
    and tr: "traces (backup_trace P) (backup_prepare E ns cfg b)"
  shows "\<exists>es. log s' = log s @ es \<and> backup_trace P out es"
proof -
  let ?rs = "[(CGet KBackup ns name, None), (CGet KBackupConfig ns (backup_config_name b), None)]"
  from run [unfolded BackupReconcile_start [OF assms(1-3)]] tr
  obtain es where "log s' = (log s @ ?rs) @ es" and "backup_trace P out es"
    using traces_run [OF tr] by fastforce
  then show ?thesis
    using protocol_trace_prefix [of _ P out es ?rs] by (intro exI [of _ "?rs @ es"]) simp
qed

text \<open>The protocol starts with the report that the backup is initialised.\<close>

definition starts_with_report :: "(call \<times> goerr option) list \<Rightarrow> bool" where
  "starts_with_report es \<longleftrightarrow>
     (\<exists>x e es'. es = (x, e) # es' \<and> reports BackupInitialized CTrue x \<and> (e \<noteq> None \<longrightarrow> es' = []))"

lemma bk_report_starts:
  assumes "\<And>b'. never_panics (f b')"
  shows "traces (\<lambda>out es. (\<exists>r. out = Done r) \<and> starts_with_report es)
     (bindE (bk_report E b BackupInitialized CTrue []) f)"
proof (rule traces_bindE [OF bk_report_traces])
  fix b' es
  assume "step_ok (bk_same E b) (Done (Inr b')) es \<and> (\<exists>r t. Done (Inr b') = Done r \<and>
      es = [(CStatus (OBackup (bk_with t b BackupInitialized CTrue [])), err_part r)])"
  then obtain t where "es = [(CStatus (OBackup (bk_with t b BackupInitialized CTrue [])), None)]"
    by auto
  then have "starts_with_report (es @ es')" for es'
    by (simp add: starts_with_report_def)
  then show "traces (\<lambda>out es'. (\<exists>r. out = Done r) \<and> starts_with_report (es @ es')) (f b')"
    using assms by simp
qed (auto simp: starts_with_report_def)

lemma backup_run_starts:
  "traces (\<lambda>out es. (\<exists>r. out = Done r) \<and> starts_with_report es) (backup_run E (Some c) p cfg b)"
  unfolding backup_run_def
  by (intro bk_report_starts never_panics_bindE step_ok_never_panics [OF quiet_step(1)] step_ok_never_panics [OF quiet_step(2)]
      step_ok_never_panics [OF Backup_traces] step_ok_never_panics [OF bk_report_traces])

lemma starts_with_report_guard:
  assumes "starts_with_report (es1 @ (CExec q, r) # es2)"
  shows "\<exists>x. reports BackupInitialized CTrue x \<and> (x, None) \<in> set es1"
proof -
  from assms obtain x e es' where es: "es1 @ (CExec q, r) # es2 = (x, e) # es'"
    and x: "reports BackupInitialized CTrue x" and e: "e \<noteq> None \<longrightarrow> es' = []"
    unfolding starts_with_report_def by blast
  from x have "x \<noteq> CExec q" by (auto simp: reports_def)
  with es obtain fs where es1: "es1 = (x, e) # fs" and "es' = fs @ (CExec q, r) # es2"
    by (cases es1) auto
  with e have "e = None" by auto
  with x es1 show ?thesis by auto
qed

text \<open>What \<open>backup_trace\<close> says of panics and commands.\<close>

lemma backup_trace_guard:
  assumes "backup_trace (\<lambda>out es. (\<exists>r. out = Done r) \<and> starts_with_report es) out es"
  shows "\<And>c. out = Crashed c \<Longrightarrow> \<exists>es' ns n e. es = es' @ [(CGet KDeployment ns n, Some e)]"
    and "\<And>es1 q r es2. es = es1 @ (CExec q, r) # es2 \<Longrightarrow>
      \<exists>x. reports BackupInitialized CTrue x \<and> (x, None) \<in> set es1"
proof -
  fix c assume "out = Crashed c"
  with assms show "\<exists>es' ns n e. es = es' @ [(CGet KDeployment ns n, Some e)]"
    by cases auto
next
  fix es1 q r es2 assume es: "es = es1 @ (CExec q, r) # es2"
  from assms show "\<exists>x. reports BackupInitialized CTrue x \<and> (x, None) \<in> set es1"
  proof cases
    case (init_failed rs x e)
    with es reads_only_guard [of rs "[(x, e)]" es1 q r es2] obtain es1'
      where "[(x, e)] = es1' @ (CExec q, r) # es2" by metis
    then have "x = CExec q" by (cases es1') auto
    with init_failed(4) show ?thesis by (auto simp: reports_def)
  next
    case (protocol rs r' rest)
    with es reads_only_guard [of rs rest es1 q r es2] obtain es1'
      where "es1 = rs @ es1'" and "rest = es1' @ (CExec q, r) # es2" by metis
    with protocol starts_with_report_guard [of es1' q r es2] show ?thesis by auto
  qed (use es reads_only_no_exec in blast)+
qed

text \<open>The entries of a run.\<close>

definition backup_entry :: "call \<times> goerr option \<Rightarrow> bool" where
  "backup_entry ce \<longleftrightarrow> (case fst ce of
      CGet k ns n \<Rightarrow> True
    | CList k ns sel \<Rightarrow> True
    | CStatus x \<Rightarrow> kind_of x = KBackup
    | CExec q \<Rightarrow> xr_container q = ''backup'' \<and> xr_command q = [''sh'', ''-c'', last (xr_command q)]
    | _ \<Rightarrow> False)"

lemma backup_entry_simps [simp]:
  "backup_entry (CGet k ns n, r)" "backup_entry (CList k ons sel, r)"
  "backup_entry (CStatus (OBackup b), r)" "backup_entry (CExec (newScriptRequest p sc), r)"
  by (simp_all add: backup_entry_def newScriptRequest_def)

lemma emits_bk_report [emits_intros]: "emits backup_entry (bk_report E b ty st rs)"
  unfolding bk_report_def bk_update_def by (intro emits_intros) simp

lemma emits_backup_copy_loop [emits_intros]: "emits backup_entry (backup_copy_loop E cl p b to_loc sls)"
  by (induction sls) (auto simp: bk_update_def intro!: emits_intros)

lemma emits_BackupReconcile: "emits backup_entry (BackupReconcile E ns name)"
  unfolding BackupReconcile_def backup_prepare_def backup_client_def backup_run_def
    performJenkinsQuietDown_def performJenkinsCancelQuietDown_def performJenkinsBackup_def
    ignore_not_found_def Let_def
  by (intro emits_intros) simp_all

text \<open>Without a client configuration no protocol is run.\<close>

lemma backup_client_unavailable:
  fixes E :: "'w env"
  assumes "e_home E \<noteq> []" and "\<And>path w. \<exists>err w'. e_buildConfig E path w = (Inl err, w')"
  shows "traces (backup_trace (\<lambda>out es. False)) (backup_client E cfg b p)"
  unfolding backup_client_def
proof (rule traces_bindP [where Q = "\<lambda>out es. es = [] \<and> (\<exists>err. out = Done (Inl err))"])
  show "traces (\<lambda>out es. es = [] \<and> (\<exists>err. out = Done (Inl err))) (InitKubeGoClient E)"
  proof (rule traces_reads)
    fix s :: "'w sys"
    obtain err1 w1 where "e_buildConfig E [] (world s) = (Inl err1, w1)" using assms(2) by blast
    moreover obtain err2 w2 where "e_buildConfig E (e_home E @ ''/.kube/config'') (world s) = (Inl err2, w2)"
      using assms(2) by blast
    ultimately show "\<exists>out w. InitKubeGoClient E s = (out, s\<lparr>world := w\<rparr>) \<and>
        ([]::(call \<times> goerr option) list) = [] \<and> (\<exists>err. out = Done (Inl err))"
      using assms(1) by (cases "e_getenv E ''KUBERNETES_SERVICE_HOST'' \<noteq> [] \<and>
          e_getenv E ''KUBERNETES_SERVICE_PORT'' \<noteq> []")
        (auto simp: InitKubeGoClient_def intro: exI [of _ w1] exI [of _ w2])
  qed
next
  fix ir :: "goerr + string option" and es :: "(call \<times> goerr option) list"
  assume "es = [] \<and> (\<exists>err. Done ir = Done (Inl err))"
  then obtain err where es: "es = []" and ir: "ir = Inl err" by auto
  have "traces (backup_trace (\<lambda>out es. False))
      (bindP (bk_report E b BackupInitialized CFalse (err_text err)) (\<lambda>ur. ret (empty_result, err_part ur)))"
    by (rule traces_bindP [OF bk_report_traces], rule traces_ret) (auto intro: protocol_trace_init0)
  then show "traces (\<lambda>out es'. backup_trace (\<lambda>out es. False) out (es @ es')) (case ir of
      Inl err \<Rightarrow> bindP (bk_report E b BackupInitialized CFalse (err_text err)) (\<lambda>ur. ret (empty_result, err_part ur))
    | Inr cl \<Rightarrow> bindP (backup_run E cl p cfg b) (\<lambda>rr. ret (empty_result, err_part rr)))"
    by (simp add: es ir)
qed simp

lemma BackupReconcile_unavailable:
  assumes "e_home E \<noteq> []" and "\<And>path w. \<exists>err w'. e_buildConfig E path w = (Inl err, w')"
  shows "traces (backup_trace (\<lambda>out es. False)) (BackupReconcile E ns name)"
proof -
  have "traces (backup_trace (\<lambda>out es. False)) (backup_prepare E ns cfg b)" for cfg b
    unfolding backup_prepare_def
    by (intro get_or_ignore_traces with_pod_traces backup_client_unavailable assms)
  then have "traces (backup_trace (\<lambda>out es. False)) (if length (bk_conditions b) > 0 then ret (empty_result, None) else
       bindP (client_get E KBackupConfig as_backup_config ns (backup_config_name b)) (\<lambda>cr.
         case cr of Inl e \<Rightarrow> ignore_not_found e | Inr cfg \<Rightarrow> backup_prepare E ns cfg b))" for b
    by (auto intro!: traces_ret protocol_trace.reads get_or_ignore_traces)
  then show ?thesis unfolding BackupReconcile_def by (intro get_or_ignore_traces)
qed

section \<open>A concrete backup\<close>

definition sample_backup_config :: backup_config where
  "sample_backup_config = \<lparr>bc_meta = sample_meta ''default'', bc_jenkinsRef = ''ex'', bc_quietDown = True,
     bc_options = \<lparr>bo_jobs = True, bo_plugins = False, bo_config = True\<rparr>,
     bc_restartEnabled = True, bc_restartSafe = False\<rparr>"

definition sample_backup :: backup where
  "sample_backup = \<lparr>bk_meta = sample_meta ''b1'', bk_configRef = [], bk_conditions = []\<rparr>"

definition backup_start :: "cluster sys" where
  "backup_start = sample_start [OBackup sample_backup, OBackupConfig sample_backup_config]"

text \<open>A pod in which the copy of the configuration fails.\<close>

definition cp_fails :: "exec_request \<Rightarrow> goerr option" where
  "cp_fails q = (if last (xr_command q) = ''cp -r /var/lib/jenkins/*.xml /jenkins-backups/b1/''
     then Some (TextErr ''exit code 1'') else None)"

lemma fake_keeps_name: "status_keeps_name (fake_env runs)"
  by (auto simp: status_keeps_name_def fake_env_def tracker_put_def split: sum.splits)

lemma sample_backup_run:
  "fst (BackupReconcile (fake_env cp_fails) ''ns'' ''b1'' backup_start) = Done (empty_result, None)"
  "scripts (log (snd (BackupReconcile (fake_env cp_fails) ''ns'' ''b1'' backup_start))) =
     [(''sh /jenkins-operator-scripts/quietdown.sh'', None), (''mkdir /jenkins-backups/b1/'', None),
      (''cp -r /var/lib/jenkins/*.xml /jenkins-backups/b1/'', Some (TextErr ''exit code 1'')),
      (''sh /jenkins-operator-scripts/cancelquietdown.sh'', None)]"
  by code_simp+

lemma sample_backup_reads:
  "e_get (fake_env cp_fails) KBackup ''ns'' ''b1'' (world backup_start) =
     (Inr (OBackup sample_backup), world backup_start)"
  "e_get (fake_env cp_fails) KBackupConfig ''ns'' (backup_config_name sample_backup) (world backup_start) =
     (Inr (OBackupConfig sample_backup_config), world backup_start)"
  "bk_conditions sample_backup = []" "bk_name sample_backup = ''b1''" "log backup_start = []"
  by code_simp+

section \<open>Properties\<close>

text \<open>
  C25. Whatever the API server and the pod answer, a backup reconciliation does nothing but read,
  update the status of \<open>Backup\<close> objects, and run shell commands in the \<open>backup\<close> container: it
  creates, updates and deletes nothing.
\<close>

theorem backup_effects:
  "emits backup_entry (BackupReconcile E ns name)"
  by (rule emits_BackupReconcile)







text \<open>
  When no client configuration can be built, no command is run; the error is written to the
  status condition only: what the reconciliation returns is the outcome of that status update,
  so that after a successful update it returns no error and is not retried.
\<close>

theorem backup_init_error_not_returned:
  assumes "e_home E \<noteq> []" and "\<And>path w. \<exists>err w'. e_buildConfig E path w = (Inl err, w')"
    and "BackupReconcile E ns name s = (out, s')"
  shows "\<exists>es. log s' = log s @ es \<and> scripts es = [] \<and>
    (reads_only es \<or> (\<exists>rs x e. es = rs @ [(x, e)] \<and> reads_only rs \<and>
       reports BackupInitialized CFalse x \<and> out = Done (empty_result, e)))"
proof -
  from traces_run [OF BackupReconcile_unavailable [OF assms(1,2)] assms(3)] obtain es
    where log: "log s' = log s @ es" and tr: "backup_trace (\<lambda>out es. False) out es" by blast
  from tr have "scripts es = [] \<and> (reads_only es \<or> (\<exists>rs x e. es = rs @ [(x, e)] \<and> reads_only rs \<and>
       reports BackupInitialized CFalse x \<and> out = Done (empty_result, e)))"
  proof cases
    case (init_failed rs x e)
    then have "scripts es = []" by (auto simp: scripts_reads reports_def)
    with init_failed show ?thesis by blast
  qed (auto simp: scripts_reads)
  with log show ?thesis by blast
qed

theorem backup_init_error_not_returned_witness:
  "let E = (fake_env cp_fails)\<lparr>e_buildConfig := (\<lambda>path w. (Inl (TextErr ''no kubeconfig''), w))\<rparr>;
       run = BackupReconcile E ''ns'' ''b1'' backup_start
   in fst run = Done (empty_result, None) \<and> scripts (log (snd run)) = []"
proof -
  let ?E = "(fake_env cp_fails)\<lparr>e_buildConfig := (\<lambda>path w. (Inl (TextErr ''no kubeconfig''), w))\<rparr>"
  have run: "fst (BackupReconcile ?E ''ns'' ''b1'' backup_start) = Done (empty_result, None)"
    by code_simp
  have "e_home ?E \<noteq> []" by (simp add: fake_env_def)
  moreover have "\<And>path w. \<exists>err w'. e_buildConfig ?E path w = (Inl err, w')" by simp
  ultimately show ?thesis
    using backup_init_error_not_returned [OF _ _ run_split [OF run]] run
    by (auto simp: Let_def sample_backup_reads(5))
qed

text \<open>
  A backup that has any condition is never run again: the reconciliation only reads it.
\<close>

theorem backup_not_repeated:
  assumes "e_get E KBackup ns name (world s) = (Inr (OBackup b), w1)" and "bk_conditions b \<noteq> []"
  shows "BackupReconcile E ns name s =
    (Done (empty_result, None), s\<lparr>world := w1, log := log s @ [(CGet KBackup ns name, None)]\<rparr>)"
  using client_get_answer [OF assms(1), of as_backup b] assms(2)
  by (simp add: BackupReconcile_def run_bindP as_backup_def ret_def)

theorem backup_not_repeated_witness:
  "let b = sample_backup\<lparr>bk_conditions := [new_condition BackupInitialized CFalse ''no kubeconfig'']\<rparr>;
       s = sample_start [OBackup b, OBackupConfig sample_backup_config]
   in log (snd (BackupReconcile (fake_env cp_fails) ''ns'' ''b1'' s)) = [(CGet KBackup ''ns'' ''b1'', None)]"
proof -
  let ?b = "sample_backup\<lparr>bk_conditions := [new_condition BackupInitialized CFalse ''no kubeconfig'']\<rparr>"
  let ?s = "sample_start [OBackup ?b, OBackupConfig sample_backup_config]"
  have "e_get (fake_env cp_fails) KBackup ''ns'' ''b1'' (world ?s) = (Inr (OBackup ?b), world ?s)"
    by code_simp
  from backup_not_repeated [OF this] show ?thesis by (simp add: Let_def sample_start_def)
qed

end
