(* ===== verification/Restore_Controller.thy ===== *)
theory Restore_Controller
  imports Backup_Controller
begin

text \<open>
  The restore controller (\<^verbatim>\<open>controllers/restore_controller.go\<close>): one reconciliation of a
  \<open>Restore\<close>.  It follows the restore to its backup, the backup's configuration, the \<open>Jenkins\<close> and
  the pod, copies each selected location back, and restarts the instance when configured.
\<close>

section \<open>Condition types\<close>

definition RestoreInitialized :: string where "RestoreInitialized = ''RestoreInitialized''"
definition RestoreCompleted :: string where "RestoreCompleted = ''RestoreCompleted''"
definition RestartStarted :: string where "RestartStarted = ''RestartStarted''"
definition SafeRestartStarted :: string where "SafeRestartStarted = ''SafeRestartStarted''"

section \<open>Operations\<close>

definition re_name :: "restore \<Rightarrow> string" where
  "re_name r = om_name (re_meta r)"

definition re_with :: "gotime \<Rightarrow> restore \<Rightarrow> string \<Rightarrow> cond_status \<Rightarrow> string \<Rightarrow> restore" where
  "re_with t r ty st rs =
     r\<lparr>re_conditions := fst (SetCondition t (re_conditions r) (new_condition ty st rs))\<rparr>"

definition re_update :: "'w env \<Rightarrow> restore \<Rightarrow> ('w, goerr + restore) prog" where
  "re_update E r = client_status_update E as_restore (ORestore r)"

definition re_report :: "'w env \<Rightarrow> restore \<Rightarrow> string \<Rightarrow> cond_status \<Rightarrow> string \<Rightarrow> ('w, goerr + restore) prog" where
  "re_report E r ty st rs = bindP (now E) (\<lambda>t. re_update E (re_with t r ty st rs))"

text \<open>A successful restart only changes the object in memory; the caller updates the status.\<close>

definition re_set :: "'w env \<Rightarrow> restore \<Rightarrow> string \<Rightarrow> ('w, goerr + restore) prog" where
  "re_set E r ty = bindP (now E) (\<lambda>t. ret (Inr (re_with t r ty CTrue [])))"

definition performJenkinsRestart :: "'w env \<Rightarrow> string option \<Rightarrow> pod \<Rightarrow> restore \<Rightarrow> ('w, goerr + restore) prog" where
  "performJenkinsRestart E cl p r =
     bindP (MakeRequest E cl p (re_name r) (Join [''sh'', RestartScriptPath] '' ''))
       (\<lambda>x. case x of
          Inl err \<Rightarrow> re_report E r RestartStarted CFalse (''Failed to restart Jenkins '' @ err_text err)
        | Inr _ \<Rightarrow> re_set E r RestartStarted)"

definition performJenkinsSafeRestart :: "'w env \<Rightarrow> string option \<Rightarrow> pod \<Rightarrow> restore \<Rightarrow> ('w, goerr + restore) prog" where
  "performJenkinsSafeRestart E cl p r =
     bindP (MakeRequest E cl p (re_name r) (Join [''sh'', SafeRestartScriptPath] '' ''))
       (\<lambda>x. case x of
          Inl err \<Rightarrow> re_report E r SafeRestartStarted CFalse
                      (''Failed to safe restart Jenkins '' @ err_text err)
        | Inr _ \<Rightarrow> re_set E r SafeRestartStarted)"

text \<open>The two halves of a copy command, for one location.\<close>

definition restoreFromSubLocation :: "string \<Rightarrow> string \<Rightarrow> string" where
  "restoreFromSubLocation from_loc sl =
     (if sl = ''*.xml'' then Join [from_loc, sl] ''/'' else Join [from_loc, sl @ ''/*''] ''/'')"

definition restoreToSubLocation :: "string \<Rightarrow> string" where
  "restoreToSubLocation sl =
     (if sl = ''*.xml'' then Join [defaultJenkinsHome, ''''] ''/'' else Join [defaultJenkinsHome, sl] ''/'')"

definition execRestoreSubLocation :: "string \<Rightarrow> string \<Rightarrow> string" where
  "execRestoreSubLocation from_loc sl =
     Join [''cp'', ''-r'', restoreFromSubLocation from_loc sl, restoreToSubLocation sl] '' ''"

fun restore_copy_loop :: "'w env \<Rightarrow> string option \<Rightarrow> pod \<Rightarrow> restore \<Rightarrow> string \<Rightarrow> string list \<Rightarrow> ('w, goerr + restore) prog" where
  "restore_copy_loop E cl p r from_loc [] = re_report E r RestoreCompleted CTrue []"
| "restore_copy_loop E cl p r from_loc (sl # sls) =
     bindP (MakeRequest E cl p (re_name r) (execRestoreSubLocation from_loc sl))
       (\<lambda>x. case x of
          Inl err \<Rightarrow> re_report E r RestoreCompleted CFalse
                      (''Failed to restore from '' @ restoreFromSubLocation from_loc sl @ '' '' @ err_text err)
        | Inr _ \<Rightarrow> restore_copy_loop E cl p r from_loc sls)"

definition performJenkinsRestore :: "'w env \<Rightarrow> string option \<Rightarrow> pod \<Rightarrow> backup \<Rightarrow> backup_config \<Rightarrow> restore \<Rightarrow> ('w, goerr + restore) prog" where
  "performJenkinsRestore E cl p b cfg r =
     (let from_loc = JenkinsBackupVolumePath @ ''/'' @ bk_name b;
          sls = sub_locations (bc_options cfg) in
      if length sls > 0 then restore_copy_loop E cl p r from_loc sls else ret (Inr r))"

definition restore_restart :: "'w env \<Rightarrow> string option \<Rightarrow> pod \<Rightarrow> backup_config \<Rightarrow> restore \<Rightarrow> ('w, goerr + restore) prog" where
  "restore_restart E cl p cfg r =
     (if bc_restartEnabled cfg \<and> bc_restartSafe cfg then performJenkinsSafeRestart E cl p r
      else if bc_restartEnabled cfg then performJenkinsRestart E cl p r
      else ret (Inr r))"

definition restore_run :: "'w env \<Rightarrow> string option \<Rightarrow> pod \<Rightarrow> backup \<Rightarrow> backup_config \<Rightarrow> restore \<Rightarrow> ('w, goerr + restore) prog" where
  "restore_run E cl p b cfg r =
     bindE (re_report E r RestoreInitialized CTrue []) (\<lambda>r.
     bindE (performJenkinsRestore E cl p b cfg r) (\<lambda>r.
     bindE (restore_restart E cl p cfg r) (\<lambda>r.
     re_update E r)))"

definition restore_client :: "'w env \<Rightarrow> backup \<Rightarrow> backup_config \<Rightarrow> restore \<Rightarrow> pod \<Rightarrow> ('w, result \<times> goerr option) prog" where
  "restore_client E b cfg r p =
     bindP (InitKubeGoClient E) (\<lambda>ir. case ir of
       Inl err \<Rightarrow>
         bindP (re_report E r RestoreInitialized CFalse (err_text err))
           (\<lambda>ur. ret (empty_result, err_part ur))
     | Inr cl \<Rightarrow>
         bindP (restore_run E cl p b cfg r) (\<lambda>rr. ret (empty_result, err_part rr)))"

definition restore_prepare :: "'w env \<Rightarrow> string \<Rightarrow> backup \<Rightarrow> backup_config \<Rightarrow> restore \<Rightarrow> ('w, result \<times> goerr option) prog" where
  "restore_prepare E ns b cfg r =
     bindP (client_get E KJenkins as_jenkins ns (bc_jenkinsRef cfg)) (\<lambda>jr.
       case jr of Inl e \<Rightarrow> ignore_not_found e
     | Inr j \<Rightarrow>
         bindP (GetPodByDeployment E j) (\<lambda>pr. case pr of
           Inl e \<Rightarrow> ret (empty_result, Some e)
         | Inr p \<Rightarrow> restore_client E b cfg r p))"

definition RestoreReconcile :: "'w env \<Rightarrow> string \<Rightarrow> string \<Rightarrow> ('w, result \<times> goerr option) prog" where
  "RestoreReconcile E ns name =
     bindP (client_get E KRestore as_restore ns name) (\<lambda>rr. case rr of Inl e \<Rightarrow> ignore_not_found e
     | Inr r \<Rightarrow>
       if length (re_conditions r) > 0 then ret (empty_result, None) else
       bindP (client_get E KBackup as_backup ns (re_backupRef r)) (\<lambda>br.
         case br of Inl e \<Rightarrow> ignore_not_found e
       | Inr b \<Rightarrow>
         bindP (client_get E KBackupConfig as_backup_config ns (backup_config_name b)) (\<lambda>cr.
           case cr of Inl e \<Rightarrow> ignore_not_found e
         | Inr cfg \<Rightarrow> restore_prepare E ns b cfg r)))"

section \<open>The commands of a restore\<close>

definition restore_plan :: "string \<Rightarrow> backup_options \<Rightarrow> string list" where
  "restore_plan name opts =
     map (execRestoreSubLocation (JenkinsBackupVolumePath @ ''/'' @ name)) (sub_locations opts)"

definition restart_plan :: "backup_config \<Rightarrow> string list" where
  "restart_plan cfg =
     (if bc_restartEnabled cfg then
        (if bc_restartSafe cfg then [''sh /jenkins-operator-scripts/saferestart.sh'']
         else [''sh /jenkins-operator-scripts/restart.sh''])
      else [])"

definition restore_reports :: "string \<Rightarrow> cond_status \<Rightarrow> call \<Rightarrow> bool" where
  "restore_reports ty st c \<longleftrightarrow> (\<exists>r cd. c = CStatus (ORestore r) \<and>
     FindStatusCondition (re_conditions r) ty = Some cd \<and> cd_status cd = st)"

text \<open>All commands of a run succeeded.\<close>

definition all_ok :: "(string \<times> goerr option) list \<Rightarrow> bool" where
  "all_ok rs \<longleftrightarrow> (\<forall>(c, e) \<in> set rs. e = None)"

text \<open>What a run has done when no status update failed.\<close>

definition restore_done :: "string \<Rightarrow> backup_config \<Rightarrow> (call \<times> goerr option) list \<Rightarrow> bool" where
  "restore_done name cfg es \<longleftrightarrow>
     (\<exists>rs suf. scripts es = rs @ suf \<and>
        runs_until_failure (restore_plan name (bc_options cfg)) rs \<and>
        map fst suf = restart_plan cfg \<and>
        (restore_plan name (bc_options cfg) \<noteq> [] \<longrightarrow>
           (\<exists>x. restore_reports RestoreCompleted (if all_ok rs then CTrue else CFalse) x \<and> (x, None) \<in> set es)))"

section \<open>Lemmas\<close>

interpretation restore_obj: status_object ORestore as_restore re_conditions
    "\<lambda>cs r. r\<lparr>re_conditions := cs\<rparr>" re_name
  by unfold_locales (auto simp: as_restore_def re_name_def split: kobj.splits)

lemma restore_reports_with [simp]: "restore_reports ty st (CStatus (ORestore (re_with t r ty st rs)))"
  by (simp add: restore_reports_def re_with_def SetCondition_find new_condition_def)

lemma re_with_name [simp]: "re_name (re_with t r ty st rs) = re_name r"
  by (simp add: re_name_def re_with_def)

abbreviation re_same :: "'w env \<Rightarrow> restore \<Rightarrow> restore \<Rightarrow> bool" where
  "re_same E r r' \<equiv> (status_keeps_name E \<longrightarrow> re_name r' = re_name r)"

lemma re_update_traces:
  "traces (\<lambda>out es. step_ok (re_same E r) out es \<and>
      (\<exists>x. out = Done x \<and> es = [(CStatus (ORestore r), err_part x)]))
     (re_update E r)"
  unfolding re_update_def by (rule restore_obj.update_traces)

lemma re_report_traces:
  "traces (\<lambda>out es. step_ok (re_same E r) out es \<and>
      (\<exists>x t. out = Done x \<and> es = [(CStatus (ORestore (re_with t r ty st rs)), err_part x)]))
     (re_report E r ty st rs)"
  unfolding re_report_def re_update_def re_with_def by (rule restore_obj.report_traces)

lemma re_report_step: "traces (\<lambda>out es. step_ok (re_same E r) out es \<and> scripts es = []) (re_report E r ty st rs)"
  by (rule traces_weaken [OF re_report_traces]) auto

lemma re_set_step: "traces (\<lambda>out es. step_ok (re_same E r) out es \<and> scripts es = []) (re_set E r ty)"
  unfolding re_set_def
  by (rule traces_bindP [OF traces_now [where Q = "\<lambda>out es. es = [] \<and> (\<exists>t. out = Done t)"]])
    (auto intro!: traces_ret)

lemma restart_traces:
  "traces (\<lambda>out es. step_ok (re_same E r) out es \<and> map fst (scripts es) = restart_plan cfg)
     (restore_restart E (Some c) p cfg r)"
proof -
  have scripts: "Join [''sh'', RestartScriptPath] '' '' = ''sh /jenkins-operator-scripts/restart.sh''"
    "Join [''sh'', SafeRestartScriptPath] '' '' = ''sh /jenkins-operator-scripts/saferestart.sh''"
    by (simp_all add: script_paths)
  have "traces (\<lambda>out es. step_ok (re_same E r) out es \<and>
      (\<exists>e. scripts es = [(''sh /jenkins-operator-scripts/restart.sh'', e)])) (performJenkinsRestart E (Some c) p r)"
    "traces (\<lambda>out es. step_ok (re_same E r) out es \<and>
      (\<exists>e. scripts es = [(''sh /jenkins-operator-scripts/saferestart.sh'', e)])) (performJenkinsSafeRestart E (Some c) p r)"
    unfolding performJenkinsRestart_def performJenkinsSafeRestart_def scripts
    by (intro exec_report_traces re_report_step re_set_step)+
  then show ?thesis
    by (auto simp: restore_restart_def restart_plan_def intro!: traces_ret elim!: traces_weaken)
qed

text \<open>The copies, and the report of their outcome as the last call.\<close>

definition restore_outcome :: "(call \<times> goerr option) list \<Rightarrow> bool" where
  "restore_outcome es \<longleftrightarrow>
     (\<exists>es' x e. es = es' @ [(x, e)] \<and>
        restore_reports RestoreCompleted (if all_ok (scripts es) then CTrue else CFalse) x)"

lemma restore_outcome_ok:
  assumes "restore_outcome es"
  shows "restore_outcome ((CExec q, None) # es)"
proof -
  from assms obtain es' x e where "es = es' @ [(x, e)]"
    and "restore_reports RestoreCompleted (if all_ok (scripts es) then CTrue else CFalse) x"
    unfolding restore_outcome_def by blast
  moreover have "all_ok (scripts ((CExec q, None) # es)) = all_ok (scripts es)"
    by (simp add: all_ok_def)
  ultimately have "(CExec q, None) # es = ((CExec q, None) # es') @ [(x, e)] \<and>
      restore_reports RestoreCompleted (if all_ok (scripts ((CExec q, None) # es)) then CTrue else CFalse) x"
    by (simp only: append_Cons simp_thms)
  then show ?thesis unfolding restore_outcome_def by (intro exI)
qed

lemma restore_outcome_failed:
  assumes "restore_reports RestoreCompleted CFalse x"
  shows "restore_outcome [(CExec q, Some e), (x, e')]"
  unfolding restore_outcome_def
  by (rule exI [of _ "[(CExec q, Some e)]"], rule exI [of _ x], rule exI [of _ e'])
    (use assms in \<open>auto simp: all_ok_def restore_reports_def\<close>)

lemma restore_copy_loop_traces:
  "traces (\<lambda>out es. step_ok (re_same E r) out es \<and>
      runs_until_failure (map (execRestoreSubLocation from_loc) sls) (scripts es) \<and> restore_outcome es)
     (restore_copy_loop E (Some c) p r from_loc sls)"
proof (induction sls)
  case Nil
  show ?case unfolding restore_copy_loop.simps
    by (rule traces_weaken [OF re_report_traces]) (auto simp: restore_outcome_def all_ok_def)
next
  case (Cons sl sls)
  show ?case unfolding restore_copy_loop.simps list.map
  proof (rule plan_step [OF _ Cons.IH])
    show "traces (\<lambda>out es. step_ok (re_same E r) out es \<and> scripts es = [] \<and>
         (\<exists>x e. es = [(x, e)] \<and> restore_reports RestoreCompleted CFalse x))
       (re_report E r RestoreCompleted CFalse
          (''Failed to restore from '' @ restoreFromSubLocation from_loc sl @ '' '' @ err_text err))" for err
      by (rule traces_weaken [OF re_report_traces]) auto
  qed (auto intro: restore_outcome_ok restore_outcome_failed)
qed

lemma Restore_traces:
  "traces (\<lambda>out es. step_ok (re_same E r) out es \<and>
      runs_until_failure (restore_plan (bk_name b) (bc_options cfg)) (scripts es) \<and>
      (restore_plan (bk_name b) (bc_options cfg) \<noteq> [] \<longrightarrow> restore_outcome es))
     (performJenkinsRestore E (Some c) p b cfg r)"
proof (cases "sub_locations (bc_options cfg)")
  case Nil
  then show ?thesis by (simp add: performJenkinsRestore_def restore_plan_def traces_ret)
next
  case (Cons a as)
  have "traces (\<lambda>out es. step_ok (re_same E r) out es \<and>
      runs_until_failure (restore_plan (bk_name b) (bc_options cfg)) (scripts es) \<and> restore_outcome es)
     (restore_copy_loop E (Some c) p r (JenkinsBackupVolumePath @ ''/'' @ bk_name b)
        (sub_locations (bc_options cfg)))"
    unfolding restore_plan_def by (rule restore_copy_loop_traces)
  moreover have "performJenkinsRestore E (Some c) p b cfg r =
      restore_copy_loop E (Some c) p r (JenkinsBackupVolumePath @ ''/'' @ bk_name b)
        (sub_locations (bc_options cfg))"
    unfolding performJenkinsRestore_def Let_def by (simp add: Cons)
  ultimately show ?thesis by (auto elim: traces_weaken)
qed

abbreviation any_restore :: "restore \<Rightarrow> restore \<Rightarrow> bool" where
  "any_restore r r' \<equiv> True"

text \<open>In the protocol nothing depends on the restore the server answers with.\<close>

lemma step_any: "traces (\<lambda>out es. step_ok same out es \<and> P es) m \<Longrightarrow>
    traces (\<lambda>out es. step_ok (any_restore r) out es \<and> P es) m"
  by (rule traces_weaken, assumption) (auto simp: step_ok_def split: outcome.splits sum.splits)

text \<open>What the copies have left, the restart completes.\<close>

lemma restore_done_append:
  fixes cfg :: backup_config and name :: string
  defines "plan \<equiv> restore_plan name (bc_options cfg)"
  assumes es0: "scripts es0 = []" and nf: "\<not> status_failed es1"
    and p: "runs_until_failure plan (scripts es1)" "plan \<noteq> [] \<Longrightarrow> restore_outcome es1"
    and suf: "map fst (scripts es2) = restart_plan cfg" and es3: "scripts es3 = []"
  shows "restore_done name cfg (es0 @ es1 @ es2 @ es3)"
  unfolding restore_done_def plan_def [symmetric]
proof (rule exI [of _ "scripts es1"], rule exI [of _ "scripts es2"], intro conjI impI)
  show "scripts (es0 @ es1 @ es2 @ es3) = scripts es1 @ scripts es2" by (simp add: es0 es3)
  show "runs_until_failure plan (scripts es1)" by (rule p(1))
  show "map fst (scripts es2) = restart_plan cfg" by (rule suf)
  assume "plan \<noteq> []"
  with p(2) obtain es' x e where es1: "es1 = es' @ [(x, e)]" and
    x: "restore_reports RestoreCompleted (if all_ok (scripts es1) then CTrue else CFalse) x"
    unfolding restore_outcome_def by blast
  from x nf es1 have "e = None" by (auto simp: restore_reports_def)
  with x es1 show "\<exists>x. restore_reports RestoreCompleted (if all_ok (scripts es1) then CTrue else CFalse) x \<and>
      (x, None) \<in> set (es0 @ es1 @ es2 @ es3)"
    by (intro exI [of _ x]) (simp only: set_append, simp)
qed

lemma restore_run_traces:
  "traces (\<lambda>out es. step_ok (any_restore r) out es \<and>
      (\<forall>r'. out = Done (Inr r') \<longrightarrow> restore_done (bk_name b) cfg es))
    (restore_run E (Some c) p b cfg r)"
  unfolding restore_run_def
proof (rule step_ok_seq [where same = any_restore and P = "\<lambda>es. scripts es = []"])
  show "traces (\<lambda>out es. step_ok (any_restore r) out es \<and> scripts es = [])
     (re_report E r RestoreInitialized CTrue [])"
    by (rule step_any [OF re_report_step])
next
  fix r1 es0
  assume es0: "scripts es0 = []"
  let ?plan = "restore_plan (bk_name b) (bc_options cfg)"
  let ?P = "\<lambda>es. runs_until_failure ?plan (scripts es) \<and> (?plan \<noteq> [] \<longrightarrow> restore_outcome es) \<and> \<not> status_failed es"
  show "traces (\<lambda>out es'. step_ok (any_restore r1) out es' \<and>
      (\<forall>r'. out = Done (Inr r') \<longrightarrow> restore_done (bk_name b) cfg (es0 @ es')))
    (bindE (performJenkinsRestore E (Some c) p b cfg r1) (\<lambda>r.
     bindE (restore_restart E (Some c) p cfg r) (\<lambda>r. re_update E r)))"
  proof (rule step_ok_seq [where same = any_restore,
        OF step_any [OF Restore_traces]])
    fix r2 es1
    assume nf: "\<not> status_failed es1"
      and p: "runs_until_failure ?plan (scripts es1) \<and> (?plan \<noteq> [] \<longrightarrow> restore_outcome es1)"
    have done_if: "restore_done (bk_name b) cfg (es0 @ es1 @ es2 @ es3)"
      if "map fst (scripts es2) = restart_plan cfg" and "scripts es3 = []" for es2 es3
      using p by (intro restore_done_append [OF es0 nf _ _ that]) simp_all
    show "traces (\<lambda>out es'. step_ok (any_restore r2) out es' \<and>
        (\<forall>r'. out = Done (Inr r') \<longrightarrow> restore_done (bk_name b) cfg (es0 @ es1 @ es')))
      (bindE (restore_restart E (Some c) p cfg r2) (\<lambda>r. re_update E r))"
    proof (rule step_ok_seq [where same = any_restore, OF step_any [OF restart_traces]])
      fix r3 es2
      assume "map fst (scripts es2) = restart_plan cfg"
      with done_if show "traces (\<lambda>out es'. step_ok (any_restore r3) out es' \<and>
          (\<forall>r'. out = Done (Inr r') \<longrightarrow> restore_done (bk_name b) cfg (es0 @ es1 @ es2 @ es')))
        (re_update E r3)"
        by (intro step_any traces_weaken [OF re_update_traces])
          (auto simp: step_ok_def split: outcome.splits sum.splits)
    qed simp
  qed simp
qed simp

abbreviation restore_trace ::
    "((goerr + restore) outcome \<Rightarrow> (call \<times> goerr option) list \<Rightarrow> bool) \<Rightarrow>
     (result \<times> goerr option) outcome \<Rightarrow> (call \<times> goerr option) list \<Rightarrow> bool" where
  "restore_trace P \<equiv> protocol_trace (restore_reports RestoreInitialized CFalse) P"

lemma restore_prepare_traces:
  assumes home: "e_home E \<noteq> []"
    and run: "\<And>c p. traces P (restore_run E (Some c) p b cfg r)"
    and no_crash: "\<And>c es. \<not> P (Crashed c) es"
  shows "traces (restore_trace P) (restore_prepare E ns b cfg r)"
  unfolding restore_prepare_def restore_client_def
  by (intro get_or_ignore_traces with_pod_traces with_client_traces
      traces_weaken [OF re_report_traces] home run no_crash) auto

text \<open>A run for a restore that has not been started and whose backup and configuration exist.\<close>

definition restore_reads :: "string \<Rightarrow> string \<Rightarrow> restore \<Rightarrow> backup \<Rightarrow> (call \<times> goerr option) list" where
  "restore_reads ns name r b = [(CGet KRestore ns name, None), (CGet KBackup ns (re_backupRef r), None),
     (CGet KBackupConfig ns (backup_config_name b), None)]"

lemma RestoreReconcile_start:
  assumes r: "e_get E KRestore ns name (world s) = (Inr (ORestore r), w1)" "re_conditions r = []"
    and b: "e_get E KBackup ns (re_backupRef r) w1 = (Inr (OBackup b), w2)"
    and cfg: "e_get E KBackupConfig ns (backup_config_name b) w2 = (Inr (OBackupConfig cfg), w3)"
  shows "RestoreReconcile E ns name s = restore_prepare E ns b cfg r
     (s\<lparr>world := w3, log := log s @ restore_reads ns name r b\<rparr>)"
  using client_get_answer [OF r(1), of as_restore] r(2)
    client_get_answer [of E KBackup ns "re_backupRef r"
      "s\<lparr>world := w1, log := log s @ [(CGet KRestore ns name, None)]\<rparr>" "OBackup b" w2 as_backup b] b
    client_get_answer [of E KBackupConfig ns "backup_config_name b"
      "s\<lparr>world := w2, log := log s @ [(CGet KRestore ns name, None), (CGet KBackup ns (re_backupRef r), None)]\<rparr>"
      "OBackupConfig cfg" w3 as_backup_config cfg] cfg
  by (simp add: RestoreReconcile_def run_bindP as_restore_def as_backup_def as_backup_config_def
      restore_reads_def)

lemma RestoreReconcile_start_traces:
  assumes "e_get E KRestore ns name (world s) = (Inr (ORestore r), w1)" and "re_conditions r = []"
    and "e_get E KBackup ns (re_backupRef r) w1 = (Inr (OBackup b), w2)"
    and "e_get E KBackupConfig ns (backup_config_name b) w2 = (Inr (OBackupConfig cfg), w3)"
    and run: "RestoreReconcile E ns name s = (out, s')"
    and tr: "traces (restore_trace P) (restore_prepare E ns b cfg r)"
  shows "\<exists>es. log s' = log s @ es \<and> restore_trace P out es"
proof -
  let ?rs = "restore_reads ns name r b"
  have rs: "reads_only ?rs" by (simp add: restore_reads_def)
  from run [unfolded RestoreReconcile_start [OF assms(1-4)]] tr
  obtain es where "log s' = (log s @ ?rs) @ es" and "restore_trace P out es"
    using traces_run [OF tr] by fastforce
  then show ?thesis
    using protocol_trace_prefix [OF _ rs] by (intro exI [of _ "?rs @ es"]) simp
qed

lemma restore_done_reads: "restore_done name cfg es \<Longrightarrow> reads_only rs \<Longrightarrow> restore_done name cfg (rs @ es)"
  unfolding restore_done_def by (elim exE conjE, rule exI, rule exI) (auto simp: scripts_reads)

text \<open>The entries of a run.\<close>

definition restore_entry :: "call \<times> goerr option \<Rightarrow> bool" where
  "restore_entry ce \<longleftrightarrow> (case fst ce of
      CGet k ns n \<Rightarrow> True
    | CList k ns sel \<Rightarrow> True
    | CStatus x \<Rightarrow> kind_of x = KRestore
    | CExec q \<Rightarrow> xr_container q = ''backup'' \<and> xr_command q = [''sh'', ''-c'', last (xr_command q)]
    | _ \<Rightarrow> False)"

lemma restore_entry_simps [simp]:
  "restore_entry (CGet k ns n, r)" "restore_entry (CList k ons sel, r)"
  "restore_entry (CStatus (ORestore b), r)" "restore_entry (CExec (newScriptRequest p sc), r)"
  by (simp_all add: restore_entry_def newScriptRequest_def)

lemma emits_re_report [emits_intros]: "emits restore_entry (re_report E r ty st rs)"
  unfolding re_report_def re_update_def by (intro emits_intros) simp

lemma emits_restore_copy_loop [emits_intros]: "emits restore_entry (restore_copy_loop E cl p r from_loc sls)"
  by (induction sls) (auto intro!: emits_intros)

lemma emits_RestoreReconcile: "emits restore_entry (RestoreReconcile E ns name)"
  unfolding RestoreReconcile_def restore_prepare_def restore_client_def restore_run_def restore_restart_def
    performJenkinsRestart_def performJenkinsSafeRestart_def performJenkinsRestore_def re_set_def
    ignore_not_found_def re_update_def Let_def
  by (intro emits_intros) simp_all

section \<open>A restore without options\<close>

text \<open>Documented behaviour of the API server: a status update keeps the conditions it is given.\<close>

definition keeps_conditions :: "'w env \<Rightarrow> bool" where
  "keeps_conditions E \<longleftrightarrow> (\<forall>r w y w'. e_status E (ORestore r) w = (Inr y, w') \<longrightarrow>
     (\<exists>r'. y = ORestore r' \<and> re_conditions r' = re_conditions r))"

definition incomplete :: "restore \<Rightarrow> bool" where
  "incomplete r \<longleftrightarrow> FindStatusCondition (re_conditions r) RestoreCompleted = None"

definition stays_incomplete :: "(goerr + restore) outcome \<Rightarrow> (call \<times> goerr option) list \<Rightarrow> bool" where
  "stays_incomplete out es \<longleftrightarrow>
     (\<forall>r e. (CStatus (ORestore r), e) \<in> set es \<longrightarrow> incomplete r) \<and>
     (\<forall>r. out = Done (Inr r) \<longrightarrow> incomplete r) \<and> (\<exists>x. out = Done x)"

lemma incomplete_with: "incomplete r \<Longrightarrow> ty \<noteq> RestoreCompleted \<Longrightarrow> incomplete (re_with t r ty st rs)"
  by (simp add: incomplete_def re_with_def SetCondition_find new_condition_def)

lemma incomplete_update:
  assumes keep: "keeps_conditions E" and r: "incomplete r"
  shows "traces stays_incomplete (re_update E r)"
  unfolding re_update_def
proof (rule traces_status)
  fix x :: "goerr + restore"
  assume ans: "\<forall>a. x = Inr a \<longrightarrow> (\<exists>y w w'. e_status E (ORestore r) w = (Inr y, w') \<and> as_restore y = Some a)"
  have "incomplete r'" if x: "x = Inr r'" for r'
  proof -
    from ans x obtain w w' where "e_status E (ORestore r) w = (Inr (ORestore r'), w')"
      by (auto simp: restore_obj.unwrap)
    with keep have "re_conditions r' = re_conditions r" unfolding keeps_conditions_def by blast
    with r show ?thesis by (simp add: incomplete_def)
  qed
  with r show "stays_incomplete (Done x) [(CStatus (ORestore r), err_part x)]"
    by (auto simp: stays_incomplete_def)
qed

lemma stays_incomplete_seq:
  assumes "traces stays_incomplete m" and "\<And>r. incomplete r \<Longrightarrow> traces stays_incomplete (f r)"
  shows "traces stays_incomplete (bindE m f)"
proof (rule traces_bindE [OF assms(1)])
  fix r es
  assume es: "stays_incomplete (Done (Inr r)) es"
  then have "incomplete r" by (simp add: stays_incomplete_def)
  from assms(2) [OF this] show "traces (\<lambda>out es'. stays_incomplete out (es @ es')) (f r)"
    by (rule traces_weaken) (use es in \<open>auto simp: stays_incomplete_def\<close>)
qed (auto simp: stays_incomplete_def)

lemma incomplete_report:
  assumes keep: "keeps_conditions E" and r: "incomplete r" and ty: "ty \<noteq> RestoreCompleted"
  shows "traces stays_incomplete (re_report E r ty st rs)" and "traces stays_incomplete (re_set E r ty)"
proof -
  note now = traces_now [where Q = "\<lambda>out es. es = [] \<and> (\<exists>t. out = Done t)"]
  show "traces stays_incomplete (re_report E r ty st rs)"
    unfolding re_report_def
    by (rule traces_bindP [OF now]) (auto intro: incomplete_update [OF keep incomplete_with [OF r ty]])
  show "traces stays_incomplete (re_set E r ty)"
    unfolding re_set_def
    by (rule traces_bindP [OF now])
      (auto simp: stays_incomplete_def intro!: traces_ret incomplete_with r ty)
qed

lemma incomplete_exec:
  assumes "\<And>err. traces stays_incomplete (g err)" and "traces stays_incomplete m"
  shows "traces stays_incomplete (bindP (MakeRequest E (Some c) p rn sc)
     (\<lambda>r. case r of Inl err \<Rightarrow> g err | Inr u \<Rightarrow> m))"
proof (rule traces_bindP [OF MakeRequest_traces])
  fix r es
  assume "\<exists>r'. Done r = Done r' \<and> es = [(CExec (newScriptRequest p sc), err_part r')]"
  then have "es = [(CExec (newScriptRequest p sc), err_part r)]" by simp
  then have weak: "\<And>out es'. stays_incomplete out es' \<Longrightarrow> stays_incomplete out (es @ es')"
    by (auto simp: stays_incomplete_def)
  show "traces (\<lambda>out es'. stays_incomplete out (es @ es')) (case r of Inl err \<Rightarrow> g err | Inr u \<Rightarrow> m)"
    using traces_weaken [OF assms(1) weak] traces_weaken [OF assms(2) weak]
    by (cases r) (simp_all only: sum.case)
qed simp

lemma restore_run_incomplete:
  assumes keep: "keeps_conditions E" and r: "incomplete r" and none: "sub_locations (bc_options cfg) = []"
  shows "traces stays_incomplete (restore_run E (Some c) p b cfg r)"
proof -
  have types: "RestoreInitialized \<noteq> RestoreCompleted" "RestartStarted \<noteq> RestoreCompleted"
    "SafeRestartStarted \<noteq> RestoreCompleted"
    by (simp_all add: RestoreInitialized_def RestoreCompleted_def RestartStarted_def SafeRestartStarted_def)
  have ret: "incomplete r \<Longrightarrow> traces stays_incomplete (ret (Inr r))" for r
    by (rule traces_ret) (simp add: stays_incomplete_def)
  have restart: "traces stays_incomplete (restore_restart E (Some c) p cfg r)" if "incomplete r" for r
    unfolding restore_restart_def performJenkinsRestart_def performJenkinsSafeRestart_def
    using that types by (auto intro!: incomplete_exec incomplete_report [OF keep] ret)
  have "performJenkinsRestore E (Some c) p b cfg r = ret (Inr r)" for r
    by (simp add: performJenkinsRestore_def none Let_def)
  then show ?thesis
    unfolding restore_run_def
    by (auto intro!: stays_incomplete_seq incomplete_report [OF keep] r types restart ret
        incomplete_update [OF keep])
qed

section \<open>A concrete restore\<close>

definition sample_restore :: restore where
  "sample_restore = \<lparr>re_meta = sample_meta ''r1'', re_backupRef = ''b1'', re_conditions = []\<rparr>"

definition restore_start :: "backup_config \<Rightarrow> cluster sys" where
  "restore_start cfg = sample_start [ORestore sample_restore, OBackup sample_backup, OBackupConfig cfg]"

text \<open>A pod in which the copy of the jobs fails.\<close>

definition jobs_fail :: "exec_request \<Rightarrow> goerr option" where
  "jobs_fail q = (if last (xr_command q) = ''cp -r /jenkins-backups/b1/jobs/* /var/lib/jenkins/jobs''
     then Some (TextErr ''exit code 1'') else None)"

lemma sample_restore_run:
  "fst (RestoreReconcile (fake_env jobs_fail) ''ns'' ''r1'' (restore_start sample_backup_config)) =
     Done (empty_result, None)"
  "scripts (log (snd (RestoreReconcile (fake_env jobs_fail) ''ns'' ''r1'' (restore_start sample_backup_config)))) =
     [(''cp -r /jenkins-backups/b1/*.xml /var/lib/jenkins/'', None),
      (''cp -r /jenkins-backups/b1/jobs/* /var/lib/jenkins/jobs'', Some (TextErr ''exit code 1'')),
      (''sh /jenkins-operator-scripts/restart.sh'', None)]"
  by code_simp+

lemma sample_restore_reads:
  "e_get (fake_env jobs_fail) KRestore ''ns'' ''r1'' (world (restore_start cfg)) =
     (Inr (ORestore sample_restore), world (restore_start cfg))"
  "e_get (fake_env jobs_fail) KBackup ''ns'' (re_backupRef sample_restore) (world (restore_start cfg)) =
     (Inr (OBackup sample_backup), world (restore_start cfg))"
  "re_conditions sample_restore = []" "log (restore_start cfg) = []"
  by code_simp+

lemma sample_restore_config:
  "e_get (fake_env jobs_fail) KBackupConfig ''ns'' (backup_config_name sample_backup)
     (world (restore_start sample_backup_config)) =
     (Inr (OBackupConfig sample_backup_config), world (restore_start sample_backup_config))"
  by code_simp

lemma fake_keeps_conditions: "keeps_conditions (fake_env runs)"
  by (auto simp: keeps_conditions_def fake_env_def tracker_put_def split: sum.splits)

section \<open>Properties\<close>



text \<open>
  A restore whose configuration selects nothing never gets a \<open>RestoreCompleted\<close> condition:
  no status it writes contains one, whereas the backup controller completes such a backup.
\<close>

theorem restore_never_completed:
  assumes "e_home E \<noteq> []" and "keeps_conditions E"
    and "e_get E KRestore ns name (world s) = (Inr (ORestore r), w1)" and "re_conditions r = []"
    and "e_get E KBackup ns (re_backupRef r) w1 = (Inr (OBackup b), w2)"
    and "e_get E KBackupConfig ns (backup_config_name b) w2 = (Inr (OBackupConfig cfg), w3)"
    and "\<not> bo_config (bc_options cfg)" and "\<not> bo_jobs (bc_options cfg)" and "\<not> bo_plugins (bc_options cfg)"
    and run: "RestoreReconcile E ns name s = (Done (res, None), s')"
  shows "\<exists>es. log s' = log s @ es \<and>
    ((\<exists>rs x. es = rs @ [(x, None)] \<and> reads_only rs \<and> restore_reports RestoreInitialized CFalse x) \<or>
     (\<forall>st x e. (x, e) \<in> set es \<longrightarrow> \<not> restore_reports RestoreCompleted st x))"
proof -
  have "sub_locations (bc_options cfg) = []" using assms(7-9) by (simp add: sub_locations_def)
  moreover have "incomplete r" using assms(4) by (simp add: incomplete_def)
  ultimately have "traces (restore_trace stays_incomplete) (restore_prepare E ns b cfg r)"
    using assms(1,2) by (intro restore_prepare_traces restore_run_incomplete) (auto simp: stays_incomplete_def)
  from RestoreReconcile_start_traces [OF assms(3-6) run this] obtain es where
    log: "log s' = log s @ es" and tr: "restore_trace stays_incomplete (Done (res, None)) es" by blast
  from tr have "(\<exists>rs x. es = rs @ [(x, None)] \<and> reads_only rs \<and> restore_reports RestoreInitialized CFalse x) \<or>
     (\<forall>st x e. (x, e) \<in> set es \<longrightarrow> \<not> restore_reports RestoreCompleted st x)"
  proof cases
    case reads
    then show ?thesis by (auto simp: reads_only_def restore_reports_def)
  next
    case (protocol rs x rest)
    then have "\<forall>st x e. (x, e) \<in> set (rs @ rest) \<longrightarrow> \<not> restore_reports RestoreCompleted st x"
      by (auto simp: reads_only_def restore_reports_def stays_incomplete_def incomplete_def)
    with protocol show ?thesis by blast
  qed auto
  with log show ?thesis by blast
qed

theorem restore_never_completed_witness:
  "let cfg = sample_backup_config\<lparr>bc_options := \<lparr>bo_jobs = False, bo_plugins = False, bo_config = False\<rparr>\<rparr>;
       s' = snd (RestoreReconcile (fake_env jobs_fail) ''ns'' ''r1'' (restore_start cfg))
   in length (scripts (log s')) = 1 \<and>
      (\<forall>st x e. (x, e) \<in> set (log s') \<longrightarrow> \<not> restore_reports RestoreCompleted st x)"
proof -
  let ?cfg = "sample_backup_config\<lparr>bc_options := \<lparr>bo_jobs = False, bo_plugins = False, bo_config = False\<rparr>\<rparr>"
  let ?run = "RestoreReconcile (fake_env jobs_fail) ''ns'' ''r1'' (restore_start ?cfg)"
  have run: "fst ?run = Done (empty_result, None)" "length (scripts (log (snd ?run))) = 1" by code_simp+
  have cfg: "e_get (fake_env jobs_fail) KBackupConfig ''ns'' (backup_config_name sample_backup)
     (world (restore_start ?cfg)) = (Inr (OBackupConfig ?cfg), world (restore_start ?cfg))" by code_simp
  have "e_home (fake_env jobs_fail) \<noteq> []" by (simp add: fake_env_def)
  from restore_never_completed [OF this fake_keeps_conditions sample_restore_reads(1,3,2) cfg _ _ _
      run_split [OF run(1)]]
  have "(\<exists>rs x. log (snd ?run) = rs @ [(x, None)] \<and> reads_only rs \<and> restore_reports RestoreInitialized CFalse x) \<or>
     (\<forall>st x e. (x, e) \<in> set (log (snd ?run)) \<longrightarrow> \<not> restore_reports RestoreCompleted st x)"
    by (simp add: sample_restore_reads(4))
  moreover have "log (snd ?run) \<noteq> rs @ [(x, None)]"
    if "reads_only rs" and "restore_reports RestoreInitialized CFalse x" for rs x
    using run(2) that by (auto simp: scripts_reads restore_reports_def)
  ultimately have "\<forall>st x e. (x, e) \<in> set (log (snd ?run)) \<longrightarrow> \<not> restore_reports RestoreCompleted st x"
    by blast
  with run(2) show ?thesis unfolding Let_def by (intro conjI)
qed

text \<open>
  A restore reconciliation does nothing but read, update the status of \<open>Restore\<close> objects and
  run shell commands in the \<open>backup\<close> container.
\<close>

theorem restore_effects:
  "emits restore_entry (RestoreReconcile E ns name)"
  by (rule emits_RestoreReconcile)


end
