(* ===== verification/Plugins.thy ===== *)
theory Plugins
  imports Effects
begin

text \<open>
  Jenkins plugins: parsing and validation (\<^verbatim>\<open>pkg/plugins/plugin.go\<close>), the list the operator
  requires (\<^verbatim>\<open>base_plugins.go\<close>), the check of a specification's plugin list
  (\<^verbatim>\<open>validatePlugins\<close> in \<^verbatim>\<open>pkg/configuration/base/validate.go\<close>) and of the plugins installed in a
  running Jenkins (\<^verbatim>\<open>pkg/configuration/base/plugin.go\<close>).  Where the code iterates over a Go map
  the model iterates in the order of first insertion; the theorems describe the set of messages
  and do not depend on that order.
\<close>

section \<open>Patterns\<close>

definition is_digit :: "char \<Rightarrow> bool" where
  "is_digit c \<longleftrightarrow> of_char c \<ge> (48 :: nat) \<and> of_char c \<le> (57 :: nat)"

definition is_letter :: "char \<Rightarrow> bool" where
  "is_letter c \<longleftrightarrow> (of_char c \<ge> (65 :: nat) \<and> of_char c \<le> (90 :: nat)) \<or>
     (of_char c \<ge> (97 :: nat) \<and> of_char c \<le> (122 :: nat))"

definition is_word :: "char \<Rightarrow> bool" where
  "is_word c \<longleftrightarrow> is_digit c \<or> is_letter c \<or> c = CHR ''_''"

text \<open>\<open>^[0-9a-zA-Z-_]+$\<close> and \<open>^[0-9a-zA-Z+\\.-]+$\<close>: the second class contains the backslash.\<close>

definition NamePattern :: "string \<Rightarrow> bool" where
  "NamePattern s \<longleftrightarrow> s \<noteq> [] \<and> list_all (\<lambda>c. is_digit c \<or> is_letter c \<or> c \<in> set ''-_'') s"

definition VersionPattern :: "string \<Rightarrow> bool" where
  "VersionPattern s \<longleftrightarrow> s \<noteq> [] \<and>
     list_all (\<lambda>c. is_digit c \<or> is_letter c \<or> c \<in> set ''+.-'' \<or> c = CHR 0x5C) s"

text \<open>
  The download URL pattern is not anchored: it matches when it matches at some position.  Only
  whether it matches matters, so each quantifier is an existential choice of a length, and the
  final group, which may be empty, is dropped.
\<close>

definition url_host_char :: "char \<Rightarrow> bool" where
  "url_host_char c \<longleftrightarrow> is_digit c \<or> is_letter c \<or> c \<in> set ''-@:%._+~#=''"

definition url_tld_char :: "char \<Rightarrow> bool" where
  "url_tld_char c \<longleftrightarrow> is_digit c \<or> is_letter c \<or> c \<in> set ''()''"

definition word_boundary :: "char \<Rightarrow> string \<Rightarrow> bool" where
  "word_boundary c rest \<longleftrightarrow> is_word c \<noteq> (case rest of [] \<Rightarrow> False | d # ds \<Rightarrow> is_word d)"

definition url_tld :: "string \<Rightarrow> bool" where
  "url_tld s \<longleftrightarrow> list_ex (\<lambda>n. n \<le> length s \<and> list_all url_tld_char (take n s) \<and>
     word_boundary (last (take n s)) (drop n s)) [1..<7]"

definition url_host :: "string \<Rightarrow> bool" where
  "url_host s \<longleftrightarrow> list_ex (\<lambda>n. n \<le> length s \<and> list_all url_host_char (take n s) \<and>
     (case drop n s of [] \<Rightarrow> False | d # t \<Rightarrow> d = CHR ''.'' \<and> url_tld t)) [1..<257]"

definition url_at :: "string \<Rightarrow> bool" where
  "url_at s \<longleftrightarrow> list_ex (\<lambda>scheme. prefix scheme s \<and>
     (let r = drop (length scheme) s in
      url_host r \<or> (prefix ''www.'' r \<and> url_host (drop 4 r)))) [''http://'', ''https://'']"

definition DownloadURLPattern :: "string \<Rightarrow> bool" where
  "DownloadURLPattern s \<longleftrightarrow> list_ex (\<lambda>i. url_at (drop i s)) [0..<length s]"

section \<open>Plugins\<close>

record plugin =
  pg_name :: string
  pg_version :: string
  pg_url :: string
  pg_root :: string

definition plugin_String :: "plugin \<Rightarrow> string" where
  "plugin_String p = pg_name p @ '':'' @ pg_version p"

definition NamePattern_String :: string where
  "NamePattern_String = ''^[0-9a-zA-Z-_]+$''"

definition VersionPattern_String :: string where
  "VersionPattern_String = ''^[0-9a-zA-Z+'' @ backslash @ backslash @ ''.-]+$''"

definition DownloadURLPattern_String :: string where
  "DownloadURLPattern_String = ''https?:'' @ backslash @ ''/'' @ backslash @ ''/(www'' @ backslash @
     ''.)?[-a-zA-Z0-9@:%._'' @ backslash @ ''+~#=]{1,256}'' @ backslash @ ''.[a-zA-Z0-9()]{1,6}'' @ backslash @
     ''b([-a-zA-Z0-9()@:%_'' @ backslash @ ''+.~#?&//=]*)''"

definition validatePlugin :: "string \<Rightarrow> string \<Rightarrow> string \<Rightarrow> goerr option" where
  "validatePlugin name version url =
     (if \<not> NamePattern name then
        Some (TextErr (''invalid plugin name '' @ quoted (name @ '':'' @ version) @
          '', must follow pattern '' @ quoted NamePattern_String))
      else if \<not> VersionPattern version then
        Some (TextErr (''invalid plugin version '' @ quoted (name @ '':'' @ version) @
          '', must follow pattern '' @ quoted VersionPattern_String))
      else if length url > 0 \<and> \<not> DownloadURLPattern url then
        Some (TextErr (''invalid download URL '' @ quoted url @ '' for plugin name '' @
          name @ '':'' @ version @ '', must follow pattern '' @ quoted DownloadURLPattern_String))
      else None)"

definition New :: "string \<Rightarrow> goerr + plugin" where
  "New nameWithVersion =
     (case SplitN2 nameWithVersion (CHR '':'') of
        [name, version] \<Rightarrow>
          (case validatePlugin name version [] of
             Some e \<Rightarrow> Inl e
           | None \<Rightarrow> Inr \<lparr>pg_name = name, pg_version = version, pg_url = [], pg_root = []\<rparr>)
      | _ \<Rightarrow> Inl (TextErr (''invalid plugin format '' @ quoted nameWithVersion)))"

definition NewPlugin :: "string \<Rightarrow> string \<Rightarrow> string \<Rightarrow> goerr + plugin" where
  "NewPlugin name version url =
     (case validatePlugin name version url of
        Some e \<Rightarrow> Inl e
      | None \<Rightarrow> Inr \<lparr>pg_name = name, pg_version = version, pg_url = url, pg_root = []\<rparr>)"

text \<open>\<open>Must\<close> panics on an error: \<open>None\<close>.\<close>

definition Must :: "goerr + plugin \<Rightarrow> plugin option" where
  "Must r = (case r of Inl e \<Rightarrow> None | Inr p \<Rightarrow> Some p)"

definition basePluginsList :: "plugin option list" where
  "basePluginsList = map (\<lambda>s. Must (New s))
     [''kubernetes:1.25.2'', ''workflow-job:2.40'', ''workflow-aggregator:2.6'', ''git:4.2.2'',
      ''job-dsl:1.77'', ''configuration-as-code:1.42'', ''configuration-as-code-groovy:1.1'',
      ''kubernetes-credentials-provider:0.13'']"

definition BasePlugins :: "plugin list" where
  "BasePlugins = map the basePluginsList"

section \<open>Dependencies\<close>

text \<open>\<open>m[k] = append(m[k], v)\<close> on a map in order of first insertion.\<close>

fun append_at :: "string \<Rightarrow> 'v \<Rightarrow> (string \<times> 'v list) list \<Rightarrow> (string \<times> 'v list) list" where
  "append_at k v [] = [(k, [v])]"
| "append_at k v ((k', vs) # m) = (if k' = k then (k', vs @ [v]) # m else (k', vs) # append_at k v m)"

definition dep_entry :: "plugin \<Rightarrow> plugin \<Rightarrow> plugin" where
  "dep_entry root p = \<lparr>pg_name = pg_name p, pg_version = pg_version p, pg_url = [],
     pg_root = plugin_String root\<rparr>"

text \<open>The two nested loops that fill \<open>allPlugins\<close>: the plugins in the order they are appended.\<close>

definition dep_entries :: "(plugin \<times> plugin list) list list \<Rightarrow> plugin list" where
  "dep_entries vals = concat (map (\<lambda>(root, ps). dep_entry root root # map (dep_entry root) ps) (concat vals))"

definition allPlugins :: "(plugin \<times> plugin list) list list \<Rightarrow> (string \<times> plugin list) list" where
  "allPlugins vals = fold (\<lambda>p m. append_at (pg_name p) p m) (dep_entries vals) []"

definition conflict_message :: "plugin \<Rightarrow> plugin \<Rightarrow> string \<Rightarrow> string" where
  "conflict_message a b name = ''Plugin '' @ quoted (pg_root a) @ '' requires version '' @
     quoted (pg_version a) @ '' but plugin '' @ quoted (pg_root b) @
     '' requires '' @ quoted (pg_version b) @ '' for plugin '' @ quoted name"

definition version_conflicts :: "string \<times> plugin list \<Rightarrow> string list" where
  "version_conflicts e = (case e of (name, vs) \<Rightarrow>
     if length vs = 1 then [] else
     concat (map (\<lambda>a. concat (map (\<lambda>b.
       if pg_version a \<noteq> pg_version b then [conflict_message a b name] else []) vs)) vs))"

definition VerifyDependencies :: "(plugin \<times> plugin list) list list \<Rightarrow> string list" where
  "VerifyDependencies vals = concat (map version_conflicts (allPlugins vals))"

section \<open>The plugins of a specification\<close>

definition verifyBasePlugins :: "plugin list \<Rightarrow> plugin_spec list \<Rightarrow> string list" where
  "verifyBasePlugins required base = concat (map (\<lambda>r.
     if list_ex (\<lambda>b. pg_name r = ps_name b) base then []
     else [''Missing plugin '' @ quoted (pg_name r) @ '' in spec.master.basePlugins'']) required)"

text \<open>The loop over the specified plugins: the messages and the keys of the map \<open>allPlugins\<close>.\<close>

fun collect_plugins :: "plugin_spec list \<Rightarrow> plugin list \<Rightarrow> string list \<times> plugin list" where
  "collect_plugins [] acc = ([], acc)"
| "collect_plugins (s # ss) acc =
     (case NewPlugin (ps_name s) (ps_version s) (ps_url s) of
        Inl e \<Rightarrow> (case collect_plugins ss acc of (msgs, ps) \<Rightarrow> (err_text e # msgs, ps))
      | Inr p \<Rightarrow> collect_plugins ss (if p \<in> set acc then acc else acc @ [p]))"

definition validatePlugins :: "plugin list \<Rightarrow> plugin_spec list \<Rightarrow> string list" where
  "validatePlugins required base =
     (case collect_plugins base [] of (msgs, ps) \<Rightarrow>
        msgs @ VerifyDependencies [map (\<lambda>p. (p, [])) ps] @ verifyBasePlugins required base)"

section \<open>The plugins of a running Jenkins\<close>

record installed_plugin =
  in_active :: bool
  in_enabled :: bool
  in_deleted :: bool
  in_shortName :: string
  in_longName :: string
  in_version :: string

text \<open>\<open>Plugins.Contains\<close> of the vendored client: the first plugin whose long or short name matches.\<close>

definition plugins_Contains :: "installed_plugin list \<Rightarrow> string \<Rightarrow> installed_plugin option" where
  "plugins_Contains ps name = find (\<lambda>p. in_longName p = name \<or> in_shortName p = name) ps"

definition isValidPlugin :: "installed_plugin \<Rightarrow> bool" where
  "isValidPlugin p \<longleftrightarrow> in_active p \<and> in_enabled p \<and> \<not> in_deleted p"

definition isPluginInstalled :: "installed_plugin list \<Rightarrow> plugin_spec \<Rightarrow> bool" where
  "isPluginInstalled ps r =
     (case plugins_Contains ps (ps_name r) of None \<Rightarrow> False | Some p \<Rightarrow> isValidPlugin p)"

definition isPluginVersionCompatible :: "installed_plugin list \<Rightarrow> plugin_spec \<Rightarrow> bool" where
  "isPluginVersionCompatible ps r =
     (case plugins_Contains ps (ps_name r) of None \<Rightarrow> False | Some p \<Rightarrow> in_version p = ps_version r)"

fun verify_plugins_loop :: "installed_plugin list \<Rightarrow> plugin_spec list \<Rightarrow> bool \<Rightarrow> bool" where
  "verify_plugins_loop ps [] st = st"
| "verify_plugins_loop ps (r # rs) st =
     (if \<not> isPluginInstalled ps r then verify_plugins_loop ps rs False
      else if \<not> isPluginVersionCompatible ps r then verify_plugins_loop ps rs False
      else verify_plugins_loop ps rs st)"

text \<open>\<open>answer\<close> is what \<open>GetPlugins\<close> of the Jenkins client returns.\<close>

definition verifyPlugins :: "(goerr + installed_plugin list) \<Rightarrow> plugin_spec list \<Rightarrow> goerr + bool" where
  "verifyPlugins answer required =
     (case answer of Inl e \<Rightarrow> Inl (Stacked e) | Inr ps \<Rightarrow> Inr (verify_plugins_loop ps required True))"

section \<open>Lemmas\<close>

lemma NamePattern_no_colon: "NamePattern s \<Longrightarrow> CHR '':'' \<notin> set s"
  by (auto simp: NamePattern_def list_all_iff is_digit_def is_letter_def)

lemma append_at_entries:
  "map_of (append_at k v m) k' =
     (if k' = k then Some ((case map_of m k of None \<Rightarrow> [] | Some vs \<Rightarrow> vs) @ [v]) else map_of m k')"
  by (induction m) auto

lemma append_at_keys: "fst ` set (append_at k v m) = insert k (fst ` set m)"
  by (induction m) force+

lemma append_at_distinct: "distinct (map fst m) \<Longrightarrow> distinct (map fst (append_at k v m))"
proof (induction m)
  case (Cons e m)
  obtain k' vs where e: "e = (k', vs)" by (cases e)
  with Cons have "distinct (map fst (append_at k v m))" and "k' \<notin> fst ` set m" by auto
  then have "k' \<noteq> k \<Longrightarrow> k' \<notin> fst ` set (append_at k v m)" by (simp add: append_at_keys)
  with Cons e show ?case by auto
qed simp

lemma fold_append_at:
  "distinct (map fst m) \<Longrightarrow>
   distinct (map fst (fold (\<lambda>p m. append_at (pg_name p) p m) ps m)) \<and>
   map_of (fold (\<lambda>p m. append_at (pg_name p) p m) ps m) k =
     (case map_of m k of
        None \<Rightarrow> (case filter (\<lambda>p. pg_name p = k) ps of [] \<Rightarrow> None | qs \<Rightarrow> Some qs)
      | Some vs \<Rightarrow> Some (vs @ filter (\<lambda>p. pg_name p = k) ps))"
proof (induction ps arbitrary: m)
  case Nil
  then show ?case by (auto split: option.splits)
next
  case (Cons p ps)
  from Cons.IH [OF append_at_distinct [OF Cons.prems]]
  show ?case
    by (auto simp: append_at_entries split: option.splits list.splits)
qed

text \<open>\<open>allPlugins\<close> groups the entries by name.\<close>

lemma allPlugins_group:
  "(name, vs) \<in> set (allPlugins vals) \<longleftrightarrow>
     vs = filter (\<lambda>p. pg_name p = name) (dep_entries vals) \<and> vs \<noteq> []"
proof -
  have d: "distinct (map fst (allPlugins vals))" and
    mo: "map_of (allPlugins vals) name =
      (case filter (\<lambda>p. pg_name p = name) (dep_entries vals) of [] \<Rightarrow> None | qs \<Rightarrow> Some qs)"
    unfolding allPlugins_def using fold_append_at [of "[]" "dep_entries vals"] by auto
  have "(name, vs) \<in> set (allPlugins vals) \<longleftrightarrow> map_of (allPlugins vals) name = Some vs"
    using d by (metis map_of_SomeD map_of_is_SomeI)
  then show ?thesis unfolding mo by (auto split: list.splits)
qed

lemma version_conflicts_set:
  "set (version_conflicts (name, vs)) =
     {conflict_message a b name |a b. a \<in> set vs \<and> b \<in> set vs \<and> pg_version a \<noteq> pg_version b}"
proof (cases "length vs = 1")
  case True
  then obtain v where "vs = [v]" by (cases vs) auto
  then show ?thesis by (simp add: version_conflicts_def)
next
  case False
  then show ?thesis by (auto simp: version_conflicts_def split: if_splits)
qed

lemma VerifyDependencies_set:
  "set (VerifyDependencies vals) =
     {conflict_message a b (pg_name a) |a b. a \<in> set (dep_entries vals) \<and> b \<in> set (dep_entries vals) \<and>
        pg_name a = pg_name b \<and> pg_version a \<noteq> pg_version b}" (is "_ = ?R")
proof -
  have "set (VerifyDependencies vals) = (\<Union>(name, vs) \<in> set (allPlugins vals). set (version_conflicts (name, vs)))"
    by (auto simp: VerifyDependencies_def)
  also have "\<dots> = ?R"
  proof (intro equalityI subsetI)
    fix x assume "x \<in> (\<Union>(name, vs) \<in> set (allPlugins vals). set (version_conflicts (name, vs)))"
    then obtain name vs where "(name, vs) \<in> set (allPlugins vals)"
      and "x \<in> set (version_conflicts (name, vs))" by auto
    then obtain a b where "a \<in> set vs" "b \<in> set vs" "pg_version a \<noteq> pg_version b"
      and x: "x = conflict_message a b name"
      and vs: "vs = filter (\<lambda>p. pg_name p = name) (dep_entries vals)"
      by (auto simp: allPlugins_group version_conflicts_set)
    then have "x = conflict_message a b (pg_name a) \<and> a \<in> set (dep_entries vals) \<and>
        b \<in> set (dep_entries vals) \<and> pg_name a = pg_name b \<and> pg_version a \<noteq> pg_version b"
      by simp
    then show "x \<in> ?R" by blast
  next
    fix x assume "x \<in> ?R"
    then obtain a b where ab: "a \<in> set (dep_entries vals)" "b \<in> set (dep_entries vals)"
      "pg_name a = pg_name b" "pg_version a \<noteq> pg_version b" and x: "x = conflict_message a b (pg_name a)" by blast
    let ?vs = "filter (\<lambda>p. pg_name p = pg_name a) (dep_entries vals)"
    have "(pg_name a, ?vs) \<in> set (allPlugins vals)"
      using ab(1) by (auto simp: allPlugins_group filter_empty_conv)
    moreover have "x \<in> set (version_conflicts (pg_name a, ?vs))"
      using ab x by (auto simp: version_conflicts_set)
    ultimately show "x \<in> (\<Union>(name, vs) \<in> set (allPlugins vals). set (version_conflicts (name, vs)))"
      by blast
  qed
  finally show ?thesis .
qed

lemma VerifyDependencies_Nil:
  "VerifyDependencies vals = [] \<longleftrightarrow>
     (\<forall>a \<in> set (dep_entries vals). \<forall>b \<in> set (dep_entries vals).
        pg_name a = pg_name b \<longrightarrow> pg_version a = pg_version b)"
proof -
  have "VerifyDependencies vals = [] \<longleftrightarrow> set (VerifyDependencies vals) = {}" by simp
  then show ?thesis unfolding VerifyDependencies_set by blast
qed

text \<open>A specified plugin the loop accepts.\<close>

definition valid_spec :: "plugin_spec \<Rightarrow> bool" where
  "valid_spec s \<longleftrightarrow> NamePattern (ps_name s) \<and> VersionPattern (ps_version s) \<and>
     (ps_url s = [] \<or> DownloadURLPattern (ps_url s))"

lemma validatePlugin_None:
  "validatePlugin n v u = None \<longleftrightarrow> NamePattern n \<and> VersionPattern v \<and> (u = [] \<or> DownloadURLPattern u)"
  by (auto simp: validatePlugin_def)

definition plugin_of :: "plugin_spec \<Rightarrow> plugin" where
  "plugin_of s = \<lparr>pg_name = ps_name s, pg_version = ps_version s, pg_url = ps_url s, pg_root = []\<rparr>"

lemma NewPlugin_valid: "NewPlugin (ps_name s) (ps_version s) (ps_url s) = Inr p \<longleftrightarrow> valid_spec s \<and> p = plugin_of s"
  using validatePlugin_None [of "ps_name s" "ps_version s" "ps_url s"]
  by (cases "validatePlugin (ps_name s) (ps_version s) (ps_url s)")
    (auto simp: NewPlugin_def valid_spec_def plugin_of_def)

lemma collect_plugins_messages: "fst (collect_plugins ss acc) = [] \<longleftrightarrow> list_all valid_spec ss"
proof (induction ss arbitrary: acc)
  case (Cons s ss)
  show ?case
  proof (cases "NewPlugin (ps_name s) (ps_version s) (ps_url s)")
    case (Inl e)
    then have "\<not> valid_spec s" using NewPlugin_valid [of s] by auto
    with Inl show ?thesis by (auto split: prod.splits)
  next
    case (Inr p)
    then have "valid_spec s" using NewPlugin_valid [of s p] by simp
    with Inr Cons show ?thesis by simp
  qed
qed simp

lemma collect_plugins_set:
  "set (snd (collect_plugins ss acc)) = set acc \<union> plugin_of ` {s \<in> set ss. valid_spec s}"
proof (induction ss arbitrary: acc)
  case (Cons s ss)
  show ?case
  proof (cases "NewPlugin (ps_name s) (ps_version s) (ps_url s)")
    case (Inl e)
    then have "\<not> valid_spec s" using NewPlugin_valid [of s] by auto
    then have "{x \<in> set (s # ss). valid_spec x} = {x \<in> set ss. valid_spec x}" by auto
    with Inl Cons.IH [of acc] show ?thesis by (auto split: prod.splits)
  next
    case (Inr p)
    then have v: "valid_spec s" "p = plugin_of s" using NewPlugin_valid [of s p] by simp_all
    then have "{x \<in> set (s # ss). valid_spec x} = insert s {x \<in> set ss. valid_spec x}" by auto
    with Inr Cons.IH [of "if p \<in> set acc then acc else acc @ [p]"] v show ?thesis by auto
  qed
qed simp

lemma verify_plugins_loop_iff:
  "verify_plugins_loop ps rs st \<longleftrightarrow>
     st \<and> (\<forall>r \<in> set rs. isPluginInstalled ps r \<and> isPluginVersionCompatible ps r)"
  by (induction ps rs st rule: verify_plugins_loop.induct) auto

lemma verifyBasePlugins_Nil:
  "verifyBasePlugins required base = [] \<longleftrightarrow> pg_name ` set required \<subseteq> ps_name ` set base"
proof (induction required)
  case (Cons r rs)
  have "verifyBasePlugins (r # rs) base = [] \<longleftrightarrow>
      list_ex (\<lambda>b. pg_name r = ps_name b) base \<and> verifyBasePlugins rs base = []"
    by (simp add: verifyBasePlugins_def)
  then show ?case using Cons by (auto simp: list_ex_iff)
qed (simp add: verifyBasePlugins_def)

lemma validatePlugins_iff:
  "(validatePlugins required base = []) =
     (list_all valid_spec base \<and>
      \<not> (\<exists>s t. s \<in> set base \<and> t \<in> set base \<and> ps_name s = ps_name t \<and> ps_version s \<noteq> ps_version t) \<and>
      pg_name ` set required \<subseteq> ps_name ` set base)"
proof -
  let ?ps = "snd (collect_plugins base [])"
  have ps: "set ?ps = plugin_of ` {s \<in> set base. valid_spec s}"
    using collect_plugins_set [of base "[]"] by simp
  have entries: "set (dep_entries [map (\<lambda>p. (p, [])) ?ps]) = (\<lambda>p. dep_entry p p) ` set ?ps"
    by (auto simp: dep_entries_def)
  have "VerifyDependencies [map (\<lambda>p. (p, [])) ?ps] = [] \<longleftrightarrow>
      (\<forall>a \<in> set ?ps. \<forall>b \<in> set ?ps. pg_name a = pg_name b \<longrightarrow> pg_version a = pg_version b)"
    unfolding VerifyDependencies_Nil entries by (auto simp: dep_entry_def)
  also have "\<dots> \<longleftrightarrow> (\<forall>s \<in> set base. \<forall>t \<in> set base. valid_spec s \<longrightarrow> valid_spec t \<longrightarrow>
      ps_name s = ps_name t \<longrightarrow> ps_version s = ps_version t)"
    unfolding ps by (auto simp: plugin_of_def)
  finally have deps: "VerifyDependencies [map (\<lambda>p. (p, [])) ?ps] = [] \<longleftrightarrow>
      (\<forall>s \<in> set base. \<forall>t \<in> set base. valid_spec s \<longrightarrow> valid_spec t \<longrightarrow>
      ps_name s = ps_name t \<longrightarrow> ps_version s = ps_version t)" .
  have "validatePlugins required base = [] \<longleftrightarrow> list_all valid_spec base \<and>
      VerifyDependencies [map (\<lambda>p. (p, [])) ?ps] = [] \<and> pg_name ` set required \<subseteq> ps_name ` set base"
    unfolding validatePlugins_def case_prod_beta append_is_Nil_conv verifyBasePlugins_Nil
      collect_plugins_messages ..
  also have "\<dots> \<longleftrightarrow> list_all valid_spec base \<and>
      \<not> (\<exists>s t. s \<in> set base \<and> t \<in> set base \<and> ps_name s = ps_name t \<and> ps_version s \<noteq> ps_version t) \<and>
      pg_name ` set required \<subseteq> ps_name ` set base"
    unfolding deps list_all_iff by blast
  finally show ?thesis .
qed

lemma basePluginsList_eval: "basePluginsList = map Some
    [\<lparr>pg_name = ''kubernetes'', pg_version = ''1.25.2'', pg_url = [], pg_root = []\<rparr>,
     \<lparr>pg_name = ''workflow-job'', pg_version = ''2.40'', pg_url = [], pg_root = []\<rparr>,
     \<lparr>pg_name = ''workflow-aggregator'', pg_version = ''2.6'', pg_url = [], pg_root = []\<rparr>,
     \<lparr>pg_name = ''git'', pg_version = ''4.2.2'', pg_url = [], pg_root = []\<rparr>,
     \<lparr>pg_name = ''job-dsl'', pg_version = ''1.77'', pg_url = [], pg_root = []\<rparr>,
     \<lparr>pg_name = ''configuration-as-code'', pg_version = ''1.42'', pg_url = [], pg_root = []\<rparr>,
     \<lparr>pg_name = ''configuration-as-code-groovy'', pg_version = ''1.1'', pg_url = [], pg_root = []\<rparr>,
     \<lparr>pg_name = ''kubernetes-credentials-provider'', pg_version = ''0.13'', pg_url = [], pg_root = []\<rparr>]"
  by code_simp

lemma default_plugins:
  "validatePlugins BasePlugins
     (map (\<lambda>p. \<lparr>ps_name = pg_name p, ps_version = pg_version p, ps_url = []\<rparr>) BasePlugins) = []"
proof -
  let ?specs = "map (\<lambda>p. \<lparr>ps_name = pg_name p, ps_version = pg_version p, ps_url = []\<rparr>) BasePlugins"
  have "list_all valid_spec ?specs"
    by (simp add: BasePlugins_def basePluginsList_eval valid_spec_def NamePattern_def VersionPattern_def
        is_digit_def is_letter_def)
  moreover have "distinct (map ps_name ?specs)" by (simp add: BasePlugins_def basePluginsList_eval)
  then have "\<not> (\<exists>s t. s \<in> set ?specs \<and> t \<in> set ?specs \<and> ps_name s = ps_name t \<and> ps_version s \<noteq> ps_version t)"
    unfolding distinct_map inj_on_def by blast
  moreover have "pg_name ` set BasePlugins \<subseteq> ps_name ` set ?specs" by force
  ultimately show ?thesis
    unfolding validatePlugins_iff by blast
qed

section \<open>Properties\<close>

text \<open>
  The dependency check reports exactly the conflicts: one message for each ordered pair of
  entries of the same plugin with different versions, naming the root plugins that require them;
  which messages there are does not depend on the iteration order of the maps.
\<close>

theorem VerifyDependencies_correct:
  "set (VerifyDependencies vals) =
     {conflict_message a b (pg_name a) |a b. a \<in> set (dep_entries vals) \<and> b \<in> set (dep_entries vals) \<and>
        pg_name a = pg_name b \<and> pg_version a \<noteq> pg_version b}"
  by (rule VerifyDependencies_set)

text \<open>
  C26. The validation of the base plugins of a specification reports nothing exactly when every
  entry has a well-formed name, version and download URL, no plugin is listed in two versions,
  and every plugin the operator requires is listed (in any version).
\<close>

theorem validatePlugins_correct:
  "(validatePlugins required base = []) =
     (list_all valid_spec base \<and>
      \<not> (\<exists>s t. s \<in> set base \<and> t \<in> set base \<and> ps_name s = ps_name t \<and> ps_version s \<noteq> ps_version t) \<and>
      pg_name ` set required \<subseteq> ps_name ` set base)"
  by (rule validatePlugins_iff)

text \<open>
  The plugins the operator adds by default parse without a panic, and a specification that
  lists them passes the validation.
\<close>

theorem default_plugins_valid:
  "None \<notin> set basePluginsList \<and> length BasePlugins = 8 \<and>
   validatePlugins BasePlugins
     (map (\<lambda>p. \<lparr>ps_name = pg_name p, ps_version = pg_version p, ps_url = []\<rparr>) BasePlugins) = []"
  by (intro conjI, simp add: basePluginsList_eval, simp add: BasePlugins_def basePluginsList_eval, rule default_plugins)



text \<open>
  The check of the installed plugins succeeds exactly when, for every required plugin, the
  first installed plugin with that short or long name is active, enabled, not deleted and of
  exactly the required version; an error of the Jenkins client is returned.
\<close>

theorem verifyPlugins_correct:
  "verifyPlugins answer required =
     (case answer of
        Inl e \<Rightarrow> Inl (Stacked e)
      | Inr ps \<Rightarrow> Inr (\<forall>r \<in> set required. \<exists>p.
          find (\<lambda>p. in_longName p = ps_name r \<or> in_shortName p = ps_name r) ps = Some p \<and>
          in_active p \<and> in_enabled p \<and> in_deleted p = False \<and> in_version p = ps_version r))"
  by (auto simp: verifyPlugins_def verify_plugins_loop_iff isPluginInstalled_def plugins_Contains_def
      isPluginVersionCompatible_def isValidPlugin_def split: sum.splits option.splits)

theorem verifyPlugins_correct_witness:
  "verifyPlugins (Inr [\<lparr>in_active = True, in_enabled = True, in_deleted = False, in_shortName = ''git'',
      in_longName = ''Git plugin'', in_version = ''4.2.1''\<rparr>])
     [\<lparr>ps_name = ''git'', ps_version = ''4.2.2'', ps_url = []\<rparr>] = Inr False"
  by (subst verifyPlugins_correct) simp

end
