(* ===== verification/Pod_Resources.thy ===== *)
theory Pod_Resources
  imports Resource_Names "HOL-Library.Monad_Syntax"
begin

text \<open>
  The Jenkins deployment the operator builds: \<^verbatim>\<open>pkg/configuration/base/resources/pod.go\<close>,
  \<^verbatim>\<open>deployment.go\<close>, \<^verbatim>\<open>probe.go\<close> and \<^verbatim>\<open>resource.go\<close>.  A nil dereference or an index out of
  range panics in Go; here the result is \<open>None\<close>.  Quantities are given by their text, which is
  already canonical for every constant of the code.  The environment of the operator process is
  the parameter \<open>getenv\<close>.
\<close>

section \<open>Constants\<close>

definition JenkinsHomeVolumeName :: string where "JenkinsHomeVolumeName = ''jenkins-home''"
definition jenkinsPath :: string where "jenkinsPath = ''/var/jenkins''"
definition jenkinsScriptsVolumeName :: string where "jenkinsScriptsVolumeName = ''scripts''"
definition JenkinsScriptsVolumePath :: string where "JenkinsScriptsVolumePath = jenkinsPath @ ''/scripts''"
definition InitScriptName :: string where "InitScriptName = ''init.sh''"
definition basePluginsVolumeName :: string where "basePluginsVolumeName = ''base-plugins''"
definition basePluginsFileName :: string where "basePluginsFileName = ''base-plugins''"
definition BasePluginsVolumePath :: string where
  "BasePluginsVolumePath = jenkinsPath @ ''/'' @ basePluginsFileName"
definition jenkinsOperatorCredentialsVolumeName :: string where
  "jenkinsOperatorCredentialsVolumeName = ''operator-credentials''"
definition jenkinsOperatorCredentialsVolumePath :: string where
  "jenkinsOperatorCredentialsVolumePath = jenkinsPath @ ''/operator-credentials''"
definition jenkinsInitConfigurationVolumeName :: string where
  "jenkinsInitConfigurationVolumeName = ''init-configuration''"
definition jenkinsInitConfigurationVolumePath :: string where
  "jenkinsInitConfigurationVolumePath = jenkinsPath @ ''/init-configuration''"
definition ConfigurationAsCodeVolumeName :: string where "ConfigurationAsCodeVolumeName = ''casc-config''"
definition ConfigurationAsCodeVolumePath :: string where
  "ConfigurationAsCodeVolumePath = jenkinsPath @ ''/configuration-as-code''"
definition ConfigurationAsCodeSecretVolumeName :: string where
  "ConfigurationAsCodeSecretVolumeName = ''casc-secret''"
definition ConfigurationAsCodeSecretVolumePath :: string where
  "ConfigurationAsCodeSecretVolumePath = ''/tmp'' @ ''/configuration-as-code-secrets''"
definition JenkinsDefaultConfigMapName :: string where
  "JenkinsDefaultConfigMapName = ''jenkins-default-configuration''"
definition JenkinsSCConfigReqURL :: string where
  "JenkinsSCConfigReqURL = ''http://localhost:8080/reload-configuration-as-code/?casc-reload-token=$(POD_NAME)''"
definition JenkinsBackupVolumeMountName :: string where "JenkinsBackupVolumeMountName = ''backup-pool''"
definition ScriptsVolumeMountName :: string where "ScriptsVolumeMountName = ''helper-scripts''"

lemmas volume_names =
  JenkinsHomeVolumeName_def jenkinsScriptsVolumeName_def basePluginsVolumeName_def
  jenkinsOperatorCredentialsVolumeName_def jenkinsInitConfigurationVolumeName_def
  ConfigurationAsCodeVolumeName_def ConfigurationAsCodeSecretVolumeName_def
  JenkinsBackupVolumeMountName_def ScriptsVolumeMountName_def JenkinsDefaultConfigMapName_def

section \<open>Probes and quantities\<close>

text \<open>The scheme argument is not used: the probe is always plain HTTP.\<close>

definition NewSimpleProbe :: "string \<Rightarrow> string \<Rightarrow> string \<Rightarrow> int \<Rightarrow> probe" where
  "NewSimpleProbe uri port scheme initialDelaySeconds =
     \<lparr>pb_path = uri, pb_port = port, pb_scheme = ''HTTP'', pb_initialDelay = initialDelaySeconds,
      pb_timeout = 0, pb_failureThreshold = 0, pb_rest = []\<rparr>"

definition NewProbe :: "string \<Rightarrow> string \<Rightarrow> string \<Rightarrow> int \<Rightarrow> int \<Rightarrow> int \<Rightarrow> probe" where
  "NewProbe uri port scheme initialDelaySeconds timeoutSeconds failureThreshold =
     (NewSimpleProbe uri port scheme initialDelaySeconds)
       \<lparr>pb_timeout := timeoutSeconds, pb_failureThreshold := failureThreshold\<rparr>"

definition GetResourceList :: "string \<Rightarrow> string \<Rightarrow> string gomap" where
  "GetResourceList cpu mem = Some [(''cpu'', cpu), (''memory'', mem)]"

definition GetResourceRequirements :: "string \<Rightarrow> string \<Rightarrow> string \<Rightarrow> string \<Rightarrow> requirements" where
  "GetResourceRequirements cpuRequest memRequest cpuLimit memLimit =
     \<lparr>rr_requests = GetResourceList cpuRequest memRequest, rr_limits = GetResourceList cpuLimit memLimit\<rparr>"

definition NewResourceRequirements :: "string \<Rightarrow> string \<Rightarrow> string \<Rightarrow> string \<Rightarrow> requirements" where
  "NewResourceRequirements cpuRequest memoryRequest cpuLimit memoryLimit =
     \<lparr>rr_requests = Some [(''cpu'', cpuRequest), (''memory'', memoryRequest)],
      rr_limits = Some [(''cpu'', cpuLimit), (''memory'', memoryLimit)]\<rparr>"

definition DefaultResourceRequirement :: requirements where
  "DefaultResourceRequirement = NewResourceRequirements ''50m'' ''50Mi'' ''100m'' ''100Mi''"

definition sidecar_resources :: requirements where
  "sidecar_resources = GetResourceRequirements ''50m'' ''50Mi'' ''100m'' ''100Mi''"

section \<open>Volumes and mounts\<close>

definition getEmptyDirVolume :: "string \<Rightarrow> volume" where
  "getEmptyDirVolume n = \<lparr>vol_name = n, vol_emptyDir = True, vol_configMap = None,
     vol_secret = None, vol_pvc = None, vol_other = None\<rparr>"

text \<open>The default mode is 0644 = 420.\<close>

definition getConfigMapVolume :: "string \<Rightarrow> string \<Rightarrow> int list \<Rightarrow> volume" where
  "getConfigMapVolume n cm mode = \<lparr>vol_name = n, vol_emptyDir = False,
     vol_configMap = Some \<lparr>cms_name = cm,
       cms_mode = Some (if length mode \<noteq> 0 then mode ! 0 else 420), cms_optional = None\<rparr>,
     vol_secret = None, vol_pvc = None, vol_other = None\<rparr>"

definition getSecretVolume :: "string \<Rightarrow> string \<Rightarrow> volume" where
  "getSecretVolume n sec = \<lparr>vol_name = n, vol_emptyDir = False, vol_configMap = None,
     vol_secret = Some \<lparr>ss_name = sec, ss_mode = Some 420, ss_optional = None\<rparr>,
     vol_pvc = None, vol_other = None\<rparr>"

definition getSubPathVolumeMount :: "string \<Rightarrow> string \<Rightarrow> string \<Rightarrow> bool \<Rightarrow> volume_mount" where
  "getSubPathVolumeMount n path subPath ro =
     \<lparr>vm_name = n, vm_mountPath = path, vm_subPath = subPath, vm_readOnly = ro\<rparr>"

definition getVolumeMount :: "string \<Rightarrow> string \<Rightarrow> bool \<Rightarrow> volume_mount" where
  "getVolumeMount n path ro =
     \<lparr>vm_name = n, vm_mountPath = path, vm_subPath = [], vm_readOnly = ro\<rparr>"

section \<open>Environment\<close>

definition env_value :: "string \<Rightarrow> string \<Rightarrow> env_var" where
  "env_value n v = \<lparr>ev_name = n, ev_value = v, ev_from = None\<rparr>"

text \<open>\<open>jenkins.Status.Spec\<close> and \<open>spec.Master.Containers[0]\<close>.\<close>

definition status_spec :: "jenkins \<Rightarrow> jenkins_spec option" where
  "status_spec j = do { st \<leftarrow> j_status j; jst_spec st }"

definition first_container :: "jenkins_spec \<Rightarrow> jcontainer option" where
  "first_container spec = do {
     m \<leftarrow> js_master spec;
     case jm_containers m of [] \<Rightarrow> None | c # cs \<Rightarrow> Some c }"

definition home_path_of :: "jcontainer \<Rightarrow> string" where
  "home_path_of c = (case find (\<lambda>e. ev_name e = ''JENKINS_HOME'') (jc_env c) of
     Some e \<Rightarrow> ev_value e | None \<Rightarrow> ''/var/lib/jenkins'')"

definition getJenkinsHomePath :: "jenkins \<Rightarrow> string option" where
  "getJenkinsHomePath j = do {
     spec \<leftarrow> status_spec j;
     c \<leftarrow> first_container spec;
     Some (home_path_of c) }"

definition GetJenkinsMasterContainerBaseEnvs :: "jenkins \<Rightarrow> env_var list option" where
  "GetJenkinsMasterContainerBaseEnvs j = do {
     home \<leftarrow> getJenkinsHomePath j;
     spec \<leftarrow> status_spec j;
     Some ([\<lparr>ev_name = ''POD_NAME'', ev_value = [], ev_from = Some (FieldRef ''v1'' ''metadata.name'')\<rparr>,
         env_value ''OPENSHIFT_ENABLE_OAUTH'' ''true'',
         env_value ''JENKINS_SERVICE_NAME'' (GetJenkinsHTTPServiceName j),
         env_value ''JNLP_SERVICE_NAME'' (GetJenkinsJNLPServiceName j),
         env_value ''OPENSHIFT_ENABLE_REDIRECT_PROMPT'' ''true'',
         env_value ''COPY_REFERENCE_FILE_LOG'' (home @ ''/'' @ ''copy_reference_file.log'')] @
       (case js_casc spec of None \<Rightarrow> [] | Some casc \<Rightarrow>
         (if length (cf_secret casc) > 0
          then [env_value ''SECRETS'' ConfigurationAsCodeSecretVolumePath] else []) @
         (if cf_enabled casc
          then [env_value ''CASC_JENKINS_CONFIG'' ConfigurationAsCodeVolumePath] else []))) }"

section \<open>Volumes of the pod\<close>

text \<open>The block under \<open>jenkins.Status.Spec.ConfigurationAsCode != nil\<close>.\<close>

definition casc_volumes :: "configuration \<Rightarrow> volume list" where
  "casc_volumes casc =
     (if cf_enabled casc then
        [getEmptyDirVolume ConfigurationAsCodeVolumeName] @
        (if cf_defaultConfig casc
         then [getConfigMapVolume (''casc-default-'' @ JenkinsDefaultConfigMapName) JenkinsDefaultConfigMapName []]
         else []) @
        map (\<lambda>cm. getConfigMapVolume (''casc-init-'' @ cm) cm []) (cf_configurations casc) @
        (if length (cf_secret casc) > 0
         then [getSecretVolume ConfigurationAsCodeSecretVolumeName (cf_secret casc)] else [])
      else [])"

definition GetJenkinsMasterPodBaseVolumes :: "jenkins \<Rightarrow> volume list" where
  "GetJenkinsMasterPodBaseVolumes j =
     [getEmptyDirVolume JenkinsHomeVolumeName,
      getConfigMapVolume jenkinsScriptsVolumeName (getScriptsConfigMapName j) [511],
      getConfigMapVolume jenkinsInitConfigurationVolumeName (GetInitConfigurationConfigMapName j) [],
      getConfigMapVolume basePluginsVolumeName (GetBasePluginsVolumeNameConfigMapName j) [],
      getSecretVolume jenkinsOperatorCredentialsVolumeName (GetOperatorCredentialsSecretName j)] @
     (case status_spec j of None \<Rightarrow> [] | Some spec \<Rightarrow>
       (case js_casc spec of None \<Rightarrow> [] | Some casc \<Rightarrow> casc_volumes casc))"

definition GetJenkinsMasterContainerBaseVolumeMounts :: "jenkins \<Rightarrow> jenkins_spec \<Rightarrow> volume_mount list option" where
  "GetJenkinsMasterContainerBaseVolumeMounts j spec = do {
     home \<leftarrow> getJenkinsHomePath j;
     Some ([getVolumeMount JenkinsHomeVolumeName home False,
        getVolumeMount jenkinsScriptsVolumeName JenkinsScriptsVolumePath True,
        getVolumeMount jenkinsInitConfigurationVolumeName jenkinsInitConfigurationVolumePath True,
        getSubPathVolumeMount basePluginsVolumeName BasePluginsVolumePath basePluginsFileName False] @
       (case js_casc spec of None \<Rightarrow> [] | Some casc \<Rightarrow>
         (if cf_enabled casc then
            getVolumeMount ConfigurationAsCodeVolumeName ConfigurationAsCodeVolumePath False #
            (if length (cf_secret casc) > 0
             then [getVolumeMount ConfigurationAsCodeSecretVolumeName ConfigurationAsCodeSecretVolumePath False]
             else [])
          else []))) }"

section \<open>Containers\<close>

definition empty_container :: container where
  "empty_container = \<lparr>c_name = [], c_image = [], c_command = None, c_args = [], c_workingDir = [],
     c_ports = [], c_envFrom = [], c_env = [], c_resources = no_requirements, c_volumeMounts = [],
     c_liveness = None, c_readiness = None, c_lifecycle = None, c_pullPolicy = [],
     c_securityContext = None, c_stdin = False, c_tty = False\<rparr>"

definition GetTCPContainerPort :: "string \<Rightarrow> int \<Rightarrow> container_port" where
  "GetTCPContainerPort n p = \<lparr>cp_name = n, cp_port = p, cp_protocol = ''TCP''\<rparr>"

definition GetJenkinsContainer :: "jenkins \<Rightarrow> jcontainer \<Rightarrow> env_var list \<Rightarrow> container option" where
  "GetJenkinsContainer j jc envs = do {
     spec \<leftarrow> status_spec j;
     mounts \<leftarrow> GetJenkinsMasterContainerBaseVolumeMounts j spec;
     let container = empty_container\<lparr>c_name := ''jenkins'',
       c_image := jc_image jc,
       c_lifecycle := Some (if js_forceBasePlugins (j_spec j)
         then \<lparr>lc_postStart = Some [''bash'', ''-c'', JenkinsScriptsVolumePath @ ''/'' @ InitScriptName], lc_rest = []\<rparr>
         else \<lparr>lc_postStart = None, lc_rest = []\<rparr>),
       c_pullPolicy := jc_pullPolicy jc,
       c_liveness := jc_liveness jc,
       c_readiness := jc_readiness jc,
       c_ports := [GetTCPContainerPort ''http'' 8080, GetTCPContainerPort ''jnlp'' 50000],
       c_securityContext := jc_securityContext jc,
       c_env := envs,
       c_resources := jc_resources jc,
       c_volumeMounts := mounts @ jc_volumeMounts jc\<rparr>;
     Some (case jc_command jc of None \<Rightarrow> container | Some cmd \<Rightarrow> container\<lparr>c_command := Some cmd\<rparr>) }"

definition NewJenkinsMasterContainer :: "jenkins \<Rightarrow> container option" where
  "NewJenkinsMasterContainer j = do {
     spec \<leftarrow> status_spec j;
     jc \<leftarrow> first_container spec;
     base \<leftarrow> GetJenkinsMasterContainerBaseEnvs j;
     home \<leftarrow> getJenkinsHomePath j;
     let envs = base @ jc_env jc;
     GetJenkinsContainer j jc
       (if list_ex (\<lambda>e. ev_name e = ''JENKINS_HOME'') (jc_env jc) then envs
        else envs @ [env_value ''JENKINS_HOME'' home]) }"

definition getJenkinsSideCarImage :: "(string \<Rightarrow> string) \<Rightarrow> string" where
  "getJenkinsSideCarImage getenv =
     (if length (getenv ''JENKINS_SIDECAR_IMAGE'') = 0
      then ''quay.io/redhat-developer/jenkins-kubernetes-sidecar:0.1.144''
      else getenv ''JENKINS_SIDECAR_IMAGE'')"

definition getJenkinsBackupImage :: "(string \<Rightarrow> string) \<Rightarrow> string" where
  "getJenkinsBackupImage getenv =
     (if length (getenv ''JENKINS_BACKUP_IMAGE'') = 0 then ''ubi8/ubi-minimal:latest''
      else getenv ''JENKINS_BACKUP_IMAGE'')"

text \<open>The order of the variables is the iteration order of a Go map; the model lists the literal.\<close>

definition NewJenkinsConfigContainer :: "(string \<Rightarrow> string) \<Rightarrow> jenkins \<Rightarrow> container option" where
  "NewJenkinsConfigContainer getenv j = do {
     home \<leftarrow> getJenkinsHomePath j;
     let envs = [(''LABEL'', ''type''), (''LABEL_VALUE'', j_name j @ ''-jenkins-config''),
        (''FOLDER'', ConfigurationAsCodeVolumePath), (''REQ_URL'', JenkinsSCConfigReqURL),
        (''REQ_METHOD'', ''POST''), (''REQ_RETRY_CONNECT'', ''10'')];
     Some (empty_container\<lparr>c_name := ''config'',
       c_image := getJenkinsSideCarImage getenv,
       c_pullPolicy := ''IfNotPresent'',
       c_env := \<lparr>ev_name = ''POD_NAME'', ev_value = [], ev_from = Some (FieldRef [] ''metadata.name'')\<rparr> #
         map (\<lambda>(k, v). env_value k v) envs,
       c_resources := sidecar_resources,
       c_volumeMounts := [getVolumeMount ConfigurationAsCodeVolumeName ConfigurationAsCodeSecretVolumePath False,
         getVolumeMount JenkinsHomeVolumeName home True,
         getVolumeMount jenkinsScriptsVolumeName JenkinsScriptsVolumePath True]\<rparr>) }"

definition NewJenkinsBackupContainer :: "(string \<Rightarrow> string) \<Rightarrow> jenkins \<Rightarrow> container option" where
  "NewJenkinsBackupContainer getenv j = do {
     home \<leftarrow> getJenkinsHomePath j;
     Some (empty_container\<lparr>c_name := ''backup'',
       c_image := getJenkinsBackupImage getenv,
       c_pullPolicy := ''IfNotPresent'',
       c_command := Some [''/bin/sh'', ''-c'', ''--''],
       c_args := [''while true; do sleep 30; done;''],
       c_volumeMounts := [getVolumeMount JenkinsBackupVolumeMountName JenkinsBackupVolumePath False,
         getVolumeMount ScriptsVolumeMountName ScriptsVolumePath False,
         getVolumeMount JenkinsHomeVolumeName home False],
       c_stdin := True,
       c_tty := True\<rparr>) }"

definition NewJenkinsPluginsInitContainer :: "jenkins_spec \<Rightarrow> container option" where
  "NewJenkinsPluginsInitContainer spec = do {
     jc \<leftarrow> first_container spec;
     Some (empty_container\<lparr>c_name := ''plugins-init'',
       c_image := jc_image jc,
       c_pullPolicy := jc_pullPolicy jc,
       c_command := Some [''bash'', ''-c'', ''ls''],
       c_resources := sidecar_resources,
       c_volumeMounts := [getVolumeMount jenkinsScriptsVolumeName JenkinsScriptsVolumePath False,
         getVolumeMount basePluginsVolumeName BasePluginsVolumePath False]\<rparr>) }"

definition NewJenkinsConfigInitContainer :: "jenkins_spec \<Rightarrow> container option" where
  "NewJenkinsConfigInitContainer spec = do {
     jc \<leftarrow> first_container spec;
     let defaults =
       (if (case js_casc spec of None \<Rightarrow> True | Some casc \<Rightarrow> cf_defaultConfig casc)
        then [getVolumeMount (''casc-default-'' @ JenkinsDefaultConfigMapName)
                (jenkinsPath @ ''/casc-default-'' @ JenkinsDefaultConfigMapName) False]
        else []);
     let inits = (case js_casc spec of None \<Rightarrow> [] | Some casc \<Rightarrow>
        (if cf_enabled casc
         then map (\<lambda>cm. getVolumeMount (''casc-init-'' @ cm) (jenkinsPath @ ''/casc-init-'' @ cm) False)
           (cf_configurations casc)
         else []));
     Some (empty_container\<lparr>c_name := ''config-init'',
       c_image := jc_image jc,
       c_pullPolicy := jc_pullPolicy jc,
       c_command := Some [''bash'', ''-c'',
         ''if [ `ls '' @ jenkinsPath @ ''/casc-* > /dev/null 2>&1; echo $?` -eq 0 ]; then find '' @
         jenkinsPath @ ''/casc-* -type f -exec cp -fL {} '' @ ConfigurationAsCodeVolumePath @
         '' '' @ backslash @ '';; fi''],
       c_resources := sidecar_resources,
       c_volumeMounts := getVolumeMount ConfigurationAsCodeVolumeName ConfigurationAsCodeVolumePath False #
         defaults @ inits\<rparr>) }"

text \<open>The script template of the backup helper: path, here-document label, action, label.\<close>

definition helper_script :: "string \<Rightarrow> string \<Rightarrow> string \<Rightarrow> string" where
  "helper_script path label action =
     ''cat > '' @ path @ '' << '' @ label @ nl @
     ''SERVER=http://localhost:8080'' @ nl @
     ''CRUMB='' @ backslash @ ''$(curl --user '' @ backslash @ ''$USER:'' @ backslash @ ''$APITOKEN '' @
       backslash @ ''$SERVER/crumbIssuer/api/xml?xpath=concat'' @ backslash @
       ''(//crumbRequestField,%22:%22,//crumb'' @ backslash @ '')) '' @ nl @
     ''curl -X POST --user '' @ backslash @ ''$USER:'' @ backslash @ ''$APITOKEN -H '' @ dquote @ backslash @
       ''$CRUMB'' @ dquote @ '' '' @ backslash @ ''$SERVER/'' @ action @ nl @
     label @ nl"

definition NewJenkinsBackupInitContainer :: "jenkins_spec \<Rightarrow> container option" where
  "NewJenkinsBackupInitContainer spec = do {
     jc \<leftarrow> first_container spec;
     let quietDownScript = helper_script QuietDownScriptPath ''quietDownheredoc'' ''quietDown'';
     let cancelQuietDownScript = helper_script CancelQuietDownScriptPath ''cancelQuietDownheredoc'' ''cancelQuietDown'';
     let restartScript = helper_script RestartScriptPath ''restartheredoc'' ''restart'';
     let safeRestartScript = helper_script SafeRestartScriptPath ''safeRestartheredoc'' ''safeRestart'';
     let commandString = quietDownScript @ nl @ cancelQuietDownScript @ '' '' @ nl @
       restartScript @ nl @ safeRestartScript @ nl;
     Some (empty_container\<lparr>c_name := ''backup-init'',
       c_image := jc_image jc,
       c_pullPolicy := jc_pullPolicy jc,
       c_command := Some [''bash'', ''-c'', commandString],
       c_resources := sidecar_resources,
       c_volumeMounts := [getVolumeMount JenkinsBackupVolumeMountName JenkinsBackupVolumePath False,
         getVolumeMount ScriptsVolumeMountName ScriptsVolumePath False]\<rparr>) }"

definition convertJenkinsContainerToKubernetesContainer :: "jcontainer \<Rightarrow> container" where
  "convertJenkinsContainerToKubernetesContainer c =
     \<lparr>c_name = jc_name c, c_image = jc_image c, c_command = jc_command c, c_args = jc_args c,
      c_workingDir = jc_workingDir c, c_ports = jc_ports c, c_envFrom = jc_envFrom c, c_env = jc_env c,
      c_resources = jc_resources c, c_volumeMounts = jc_volumeMounts c, c_liveness = jc_liveness c,
      c_readiness = jc_readiness c, c_lifecycle = jc_lifecycle c, c_pullPolicy = jc_pullPolicy c,
      c_securityContext = jc_securityContext c, c_stdin = False, c_tty = False\<rparr>"

definition newContainers :: "(string \<Rightarrow> string) \<Rightarrow> jenkins \<Rightarrow> jenkins_spec \<Rightarrow> container list option" where
  "newContainers getenv j spec = do {
     master \<leftarrow> NewJenkinsMasterContainer j;
     extra \<leftarrow> (case js_casc spec of
         None \<Rightarrow> Some []
       | Some casc \<Rightarrow> do {
           side \<leftarrow> (if cf_enabled casc \<and> cf_autoReload casc
             then map_option (\<lambda>c. [c]) (NewJenkinsConfigContainer getenv j) else Some []);
           m \<leftarrow> js_master spec;
           rest \<leftarrow> (case jm_containers m of [] \<Rightarrow> None | c # cs \<Rightarrow> Some cs);
           Some (side @ map convertJenkinsContainerToKubernetesContainer rest) });
     backup \<leftarrow> (if js_backupEnabled spec
       then map_option (\<lambda>c. [c]) (NewJenkinsBackupContainer getenv j) else Some []);
     Some (master # extra @ backup) }"

definition newInitContainers :: "jenkins_spec \<Rightarrow> container list option" where
  "newInitContainers spec = do {
     plugins \<leftarrow> NewJenkinsPluginsInitContainer spec;
     config \<leftarrow> (if (case js_casc spec of None \<Rightarrow> True | Some casc \<Rightarrow> cf_enabled casc)
       then map_option (\<lambda>c. [c]) (NewJenkinsConfigInitContainer spec) else Some []);
     backup \<leftarrow> (if js_backupEnabled spec
       then map_option (\<lambda>c. [c]) (NewJenkinsBackupInitContainer spec) else Some []);
     Some (plugins # config @ backup) }"

section \<open>The deployment\<close>

definition getJenkinsVolumes :: "jenkins \<Rightarrow> jenkins_spec \<Rightarrow> volume list option" where
  "getJenkinsVolumes j spec = do {
     m \<leftarrow> js_master spec;
     Some (GetJenkinsMasterPodBaseVolumes j @ jm_volumes m @
       (if js_backupEnabled (j_spec j) then
          [\<lparr>vol_name = JenkinsBackupVolumeMountName, vol_emptyDir = False, vol_configMap = None,
             vol_secret = None, vol_pvc = Some (GetJenkinsBackupPVCName j), vol_other = None\<rparr>,
           getEmptyDirVolume ScriptsVolumeMountName]
        else [])) }"

definition NewJenkinsDeployment :: "(string \<Rightarrow> string) \<Rightarrow> obj_meta \<Rightarrow> jenkins \<Rightarrow> jenkins_spec \<Rightarrow> deployment option" where
  "NewJenkinsDeployment getenv objectMeta j spec = do {
     m \<leftarrow> js_master spec;
     let serviceAccountName = om_name objectMeta;
     let meta = objectMeta\<lparr>om_annotations := jm_annotations m, om_name := GetJenkinsDeploymentName j\<rparr>;
     inits \<leftarrow> newInitContainers spec;
     containers \<leftarrow> newContainers getenv j spec;
     volumes \<leftarrow> getJenkinsVolumes j spec;
     Some \<lparr>dp_meta = empty_meta\<lparr>om_name := om_name meta, om_namespace := om_namespace meta,
         om_labels := om_labels meta\<rparr>,
       dp_replicas = 1,
       dp_strategy = ''RollingUpdate'',
       dp_templateMeta = meta,
       dp_template = \<lparr>psp_serviceAccount = serviceAccountName,
         psp_nodeSelector = jm_nodeSelector m,
         psp_initContainers = inits,
         psp_containers = containers,
         psp_volumes = volumes,
         psp_securityContext = jm_securityContext m,
         psp_imagePullSecrets = jm_imagePullSecrets m,
         psp_tolerations = jm_tolerations m,
         psp_priorityClass = jm_priorityClass m,
         psp_restartPolicy = []\<rparr>,
       dp_selector = Some \<lparr>ls_matchLabels = om_labels meta, ls_matchExpressions = []\<rparr>,
       dp_available = 0\<rparr> }"

section \<open>Lemmas\<close>

lemma status_spec_home:
  "getJenkinsHomePath j = Some home \<longleftrightarrow>
     (\<exists>spec c. status_spec j = Some spec \<and> first_container spec = Some c \<and> home = home_path_of c)"
  by (auto simp: getJenkinsHomePath_def bind_eq_Some_conv)

lemma first_container_Some:
  "first_container spec = Some c \<longleftrightarrow> (\<exists>m cs. js_master spec = Some m \<and> jm_containers m = c # cs)"
  by (cases "js_master spec") (auto simp: first_container_def split: list.splits)

text \<open>The home path exists exactly when the status holds a container.\<close>

definition has_master_container :: "jenkins \<Rightarrow> bool" where
  "has_master_container j \<longleftrightarrow> Option.bind (status_spec j) first_container \<noteq> None"

lemma has_master_container_iff:
  "has_master_container j \<longleftrightarrow> (\<exists>spec jc. status_spec j = Some spec \<and> first_container spec = Some jc)"
  by (cases "status_spec j") (auto simp: has_master_container_def)

lemma home_None: "getJenkinsHomePath j = None \<longleftrightarrow> \<not> has_master_container j"
  by (auto simp: getJenkinsHomePath_def has_master_container_def bind_eq_None_conv)

text \<open>A builder that succeeds: the parts it was put together from.\<close>

lemma GetJenkinsContainer_cases:
  assumes "GetJenkinsContainer j jc envs = Some c"
  obtains spec mounts where "status_spec j = Some spec"
    and "GetJenkinsMasterContainerBaseVolumeMounts j spec = Some mounts"
    and "c_volumeMounts c = mounts @ jc_volumeMounts jc" and "c_env c = envs"
proof -
  from assms obtain spec mounts where sp: "status_spec j = Some spec"
    and mo: "GetJenkinsMasterContainerBaseVolumeMounts j spec = Some mounts"
    by (auto simp: GetJenkinsContainer_def bind_eq_Some_conv)
  have "c_volumeMounts c = mounts @ jc_volumeMounts jc" "c_env c = envs"
    using assms sp mo by (cases "jc_command jc"; auto simp: GetJenkinsContainer_def Let_def)+
  with sp mo show thesis by (rule that)
qed

lemma NewJenkinsMasterContainer_cases:
  assumes "NewJenkinsMasterContainer j = Some c"
  obtains spec jc home mounts base where "status_spec j = Some spec"
    and "first_container spec = Some jc" and "home = home_path_of jc"
    and "GetJenkinsMasterContainerBaseEnvs j = Some base"
    and "GetJenkinsMasterContainerBaseVolumeMounts j spec = Some mounts"
    and "c_volumeMounts c = mounts @ jc_volumeMounts jc"
    and "c_env c = (if list_ex (\<lambda>e. ev_name e = ''JENKINS_HOME'') (jc_env jc) then base @ jc_env jc
      else base @ jc_env jc @ [env_value ''JENKINS_HOME'' home])"
proof -
  from assms obtain spec jc base home where sp: "status_spec j = Some spec"
    and jc: "first_container spec = Some jc" and base: "GetJenkinsMasterContainerBaseEnvs j = Some base"
    and home: "getJenkinsHomePath j = Some home"
    and c: "GetJenkinsContainer j jc (if list_ex (\<lambda>e. ev_name e = ''JENKINS_HOME'') (jc_env jc)
       then base @ jc_env jc else (base @ jc_env jc) @ [env_value ''JENKINS_HOME'' home]) = Some c"
    by (auto simp: NewJenkinsMasterContainer_def bind_eq_Some_conv Let_def)
  from home sp jc have h: "home = home_path_of jc" by (auto simp: status_spec_home)
  show thesis
    by (rule GetJenkinsContainer_cases [OF c], rule that [OF sp jc h base]) (use sp in auto)
qed

lemma GetJenkinsContainer_None:
  "GetJenkinsContainer j jc envs = None \<longleftrightarrow> \<not> has_master_container j"
  by (auto simp: GetJenkinsContainer_def GetJenkinsMasterContainerBaseVolumeMounts_def Let_def
      bind_eq_None_conv home_None) (auto simp: has_master_container_def bind_eq_None_conv)

lemma NewJenkinsMasterContainer_None:
  "NewJenkinsMasterContainer j = None \<longleftrightarrow> \<not> has_master_container j"
proof (cases "has_master_container j")
  case True
  then obtain spec jc where sp: "status_spec j = Some spec" and jc: "first_container spec = Some jc"
    by (auto simp: has_master_container_iff)
  then have "getJenkinsHomePath j = Some (home_path_of jc)" by (auto simp: status_spec_home)
  with sp jc True show ?thesis
    by (simp add: NewJenkinsMasterContainer_def GetJenkinsMasterContainerBaseEnvs_def Let_def
        GetJenkinsContainer_None del: not_None_eq)
next
  case False
  then show ?thesis
    by (auto simp: NewJenkinsMasterContainer_def has_master_container_def bind_eq_None_conv)
qed

lemma sidecars_None:
  "NewJenkinsConfigContainer getenv j = None \<longleftrightarrow> \<not> has_master_container j"
  "NewJenkinsBackupContainer getenv j = None \<longleftrightarrow> \<not> has_master_container j"
  by (auto simp: NewJenkinsConfigContainer_def NewJenkinsBackupContainer_def Let_def
      bind_eq_None_conv home_None)

lemma inits_None:
  "NewJenkinsPluginsInitContainer spec = None \<longleftrightarrow> first_container spec = None"
  "NewJenkinsConfigInitContainer spec = None \<longleftrightarrow> first_container spec = None"
  "NewJenkinsBackupInitContainer spec = None \<longleftrightarrow> first_container spec = None"
  by (auto simp: NewJenkinsPluginsInitContainer_def NewJenkinsConfigInitContainer_def
      NewJenkinsBackupInitContainer_def Let_def bind_eq_None_conv)

lemma newInitContainers_None: "newInitContainers spec = None \<longleftrightarrow> first_container spec = None"
  by (auto simp: newInitContainers_def bind_eq_None_conv inits_None split: if_splits)

lemma newContainers_None:
  assumes "first_container spec \<noteq> None"
  shows "newContainers getenv j spec = None \<longleftrightarrow> \<not> has_master_container j"
proof -
  from assms obtain m c cs where m: "js_master spec = Some m" "jm_containers m = c # cs"
    by (auto simp: first_container_Some)
  show ?thesis
    by (auto simp: newContainers_def bind_eq_None_conv NewJenkinsMasterContainer_None sidecars_None m
        split: option.splits if_splits)
qed

lemma NewJenkinsDeployment_cases:
  assumes "NewJenkinsDeployment getenv meta j spec = Some d"
  obtains m inits cs vols where "js_master spec = Some m"
    and "newInitContainers spec = Some inits" and "newContainers getenv j spec = Some cs"
    and "getJenkinsVolumes j spec = Some vols"
    and "psp_initContainers (dp_template d) = inits" and "psp_containers (dp_template d) = cs"
    and "psp_volumes (dp_template d) = vols"
    and "om_labels (dp_templateMeta d) = om_labels meta"
    and "dp_selector d = Some \<lparr>ls_matchLabels = om_labels meta, ls_matchExpressions = []\<rparr>"
proof -
  from assms obtain m inits cs vols where 1: "js_master spec = Some m"
    "newInitContainers spec = Some inits" "newContainers getenv j spec = Some cs"
    "getJenkinsVolumes j spec = Some vols"
    by (auto simp: NewJenkinsDeployment_def bind_eq_Some_conv Let_def)
  show thesis
    by (rule that [OF 1]; use assms in \<open>auto simp: NewJenkinsDeployment_def Let_def 1\<close>)
qed

text \<open>What a container mounts, by volume name.\<close>

definition mount_names :: "container list \<Rightarrow> string set" where
  "mount_names cs = (\<Union>c \<in> set cs. vm_name ` set (c_volumeMounts c))"

lemma mount_names_simps [simp]:
  "mount_names [] = {}"
  "mount_names (c # cs) = vm_name ` set (c_volumeMounts c) \<union> mount_names cs"
  "mount_names (cs @ ds) = mount_names cs \<union> mount_names ds"
  by (auto simp: mount_names_def)

definition user_mount_names :: "jcontainer list \<Rightarrow> string set" where
  "user_mount_names cs = (\<Union>c \<in> set cs. vm_name ` set (jc_volumeMounts c))"

lemma mount_names_converted:
  "mount_names (map convertJenkinsContainerToKubernetesContainer cs) = user_mount_names cs"
  by (simp add: mount_names_def user_mount_names_def convertJenkinsContainerToKubernetesContainer_def)

text \<open>The names of the volumes the operator adds itself.\<close>

definition casc_volume_names :: "configuration \<Rightarrow> string set" where
  "casc_volume_names casc = (if cf_enabled casc then
     {ConfigurationAsCodeVolumeName} \<union>
     (if cf_defaultConfig casc then {''casc-default-'' @ JenkinsDefaultConfigMapName} else {}) \<union>
     (\<lambda>cm. ''casc-init-'' @ cm) ` set (cf_configurations casc) \<union>
     (if cf_secret casc \<noteq> [] then {ConfigurationAsCodeSecretVolumeName} else {})
     else {})"

definition fixed_volume_names :: "string set" where
  "fixed_volume_names = {JenkinsHomeVolumeName, jenkinsScriptsVolumeName,
     jenkinsInitConfigurationVolumeName, basePluginsVolumeName, jenkinsOperatorCredentialsVolumeName}"

lemma volume_names_of:
  "vol_name (getEmptyDirVolume n) = n"
  "vol_name (getConfigMapVolume n cm mode) = n"
  "vol_name (getSecretVolume n sec) = n"
  "vm_name (getVolumeMount n path ro) = n"
  "vm_name (getSubPathVolumeMount n path sub ro) = n"
  by (simp_all add: getEmptyDirVolume_def getConfigMapVolume_def getSecretVolume_def
      getVolumeMount_def getSubPathVolumeMount_def)

lemma casc_volumes_names: "vol_name ` set (casc_volumes casc) = casc_volume_names casc"
proof -
  have "map vol_name (casc_volumes casc) = (if cf_enabled casc then ConfigurationAsCodeVolumeName #
      (if cf_defaultConfig casc then [''casc-default-'' @ JenkinsDefaultConfigMapName] else []) @
      map (\<lambda>cm. ''casc-init-'' @ cm) (cf_configurations casc) @
      (if cf_secret casc \<noteq> [] then [ConfigurationAsCodeSecretVolumeName] else []) else [])"
    by (simp add: casc_volumes_def volume_names_of)
  then show ?thesis
    unfolding set_map [symmetric]
    by (cases "cf_secret casc"; cases "cf_defaultConfig casc"; cases "cf_enabled casc")
      (simp_all add: casc_volume_names_def insert_commute)
qed

lemma base_volume_names:
  "vol_name ` set (GetJenkinsMasterPodBaseVolumes j) = fixed_volume_names \<union>
     (case Option.bind (status_spec j) js_casc of None \<Rightarrow> {} | Some casc \<Rightarrow> casc_volume_names casc)"
  by (cases "status_spec j"; cases "Option.bind (status_spec j) js_casc")
    (auto simp: GetJenkinsMasterPodBaseVolumes_def fixed_volume_names_def volume_names_of
      casc_volumes_names [symmetric])

lemma base_mount_names:
  assumes "GetJenkinsMasterContainerBaseVolumeMounts j spec = Some mounts"
  shows "vm_name ` set mounts \<subseteq> fixed_volume_names \<union>
     (case js_casc spec of None \<Rightarrow> {} | Some casc \<Rightarrow> casc_volume_names casc)"
  using assms by (auto simp: GetJenkinsMasterContainerBaseVolumeMounts_def bind_eq_Some_conv
      fixed_volume_names_def casc_volume_names_def volume_names_of split: option.splits if_splits)

definition backup_volume_names :: "jenkins_spec \<Rightarrow> string set" where
  "backup_volume_names spec =
     (if js_backupEnabled spec then {JenkinsBackupVolumeMountName, ScriptsVolumeMountName} else {})"

lemma volumes_names:
  assumes "getJenkinsVolumes j spec = Some vols" and "js_master spec = Some m"
  shows "vol_name ` set vols = vol_name ` set (GetJenkinsMasterPodBaseVolumes j) \<union>
    vol_name ` set (jm_volumes m) \<union> backup_volume_names (j_spec j)"
  using assms by (auto simp: getJenkinsVolumes_def backup_volume_names_def volume_names_of)

lemma plugins_init_mounts:
  "NewJenkinsPluginsInitContainer spec = Some c \<Longrightarrow> vm_name ` set (c_volumeMounts c) \<subseteq> fixed_volume_names"
  by (auto simp: NewJenkinsPluginsInitContainer_def bind_eq_Some_conv fixed_volume_names_def volume_names_of)

lemma backup_init_mounts:
  "NewJenkinsBackupInitContainer spec = Some c \<Longrightarrow>
     vm_name ` set (c_volumeMounts c) \<subseteq> {JenkinsBackupVolumeMountName, ScriptsVolumeMountName}"
  by (auto simp: NewJenkinsBackupInitContainer_def Let_def bind_eq_Some_conv volume_names_of)

lemma config_init_mounts:
  assumes "NewJenkinsConfigInitContainer spec = Some c" and "js_casc spec = Some casc" and "cf_enabled casc"
  shows "vm_name ` set (c_volumeMounts c) \<subseteq> casc_volume_names casc"
  using assms
  by (auto simp: NewJenkinsConfigInitContainer_def Let_def bind_eq_Some_conv casc_volume_names_def volume_names_of)

lemma init_mount_names:
  assumes inits: "newInitContainers spec = Some inits" and casc: "js_casc spec = Some casc"
  shows "mount_names inits \<subseteq> fixed_volume_names \<union> casc_volume_names casc \<union> backup_volume_names spec"
proof -
  from inits casc obtain plugins config backup where
    p: "NewJenkinsPluginsInitContainer spec = Some plugins" and
    c: "(if cf_enabled casc then map_option (\<lambda>c. [c]) (NewJenkinsConfigInitContainer spec) else Some []) = Some config" and
    b: "(if js_backupEnabled spec then map_option (\<lambda>c. [c]) (NewJenkinsBackupInitContainer spec) else Some []) = Some backup" and
    eq: "inits = plugins # config @ backup"
    by (auto simp: newInitContainers_def bind_eq_Some_conv)
  have "mount_names config \<subseteq> casc_volume_names casc"
  proof (cases "cf_enabled casc")
    case True
    with c obtain z where "NewJenkinsConfigInitContainer spec = Some z" and "config = [z]" by auto
    with config_init_mounts [OF _ casc True] show ?thesis by simp
  qed (use c in simp)
  moreover have "mount_names backup \<subseteq> backup_volume_names spec"
  proof (cases "js_backupEnabled spec")
    case True
    with b obtain z where "NewJenkinsBackupInitContainer spec = Some z" and "backup = [z]" by auto
    with backup_init_mounts True show ?thesis by (simp add: backup_volume_names_def)
  qed (use b in simp)
  ultimately show ?thesis using plugins_init_mounts [OF p] unfolding eq by auto
qed

lemma sidecar_mount_names:
  "NewJenkinsConfigContainer getenv j = Some c \<Longrightarrow>
     vm_name ` set (c_volumeMounts c) \<subseteq> fixed_volume_names \<union> {ConfigurationAsCodeVolumeName}"
  "NewJenkinsBackupContainer getenv j = Some c \<Longrightarrow>
     vm_name ` set (c_volumeMounts c) \<subseteq> fixed_volume_names \<union> {JenkinsBackupVolumeMountName, ScriptsVolumeMountName}"
  by (auto simp: NewJenkinsConfigContainer_def NewJenkinsBackupContainer_def bind_eq_Some_conv Let_def
      fixed_volume_names_def volume_names_of)

lemma master_mount_names:
  assumes "NewJenkinsMasterContainer j = Some c" and "status_spec j = Some spec"
    and "js_casc spec = Some casc" and "js_master spec = Some m"
  shows "vm_name ` set (c_volumeMounts c) \<subseteq>
    fixed_volume_names \<union> casc_volume_names casc \<union> user_mount_names (jm_containers m)"
proof -
  obtain jc mounts where jc: "first_container spec = Some jc"
    and mo: "GetJenkinsMasterContainerBaseVolumeMounts j spec = Some mounts"
    and vm: "c_volumeMounts c = mounts @ jc_volumeMounts jc"
    using assms(1) by (rule NewJenkinsMasterContainer_cases) (use assms(2) in auto)
  from jc assms(4) have "jc \<in> set (jm_containers m)" by (auto simp: first_container_Some)
  then have "vm_name ` set (jc_volumeMounts jc) \<subseteq> user_mount_names (jm_containers m)"
    by (auto simp: user_mount_names_def)
  with base_mount_names [OF mo] vm assms(3) show ?thesis by auto
qed

lemma container_mount_names:
  assumes cs: "newContainers getenv j spec = Some cs" and st: "status_spec j = Some spec"
    and casc: "js_casc spec = Some casc" and m: "js_master spec = Some m"
  shows "mount_names cs \<subseteq> fixed_volume_names \<union> casc_volume_names casc \<union>
    user_mount_names (jm_containers m) \<union> backup_volume_names spec"
proof -
  from cs casc m obtain master side c0 rest backup where
    master: "NewJenkinsMasterContainer j = Some master" and
    side: "(if cf_enabled casc \<and> cf_autoReload casc
       then map_option (\<lambda>c. [c]) (NewJenkinsConfigContainer getenv j) else Some []) = Some side" and
    rest: "jm_containers m = c0 # rest" and
    backup: "(if js_backupEnabled spec
       then map_option (\<lambda>c. [c]) (NewJenkinsBackupContainer getenv j) else Some []) = Some backup" and
    eq: "cs = master # (side @ map convertJenkinsContainerToKubernetesContainer rest) @ backup"
    by (auto simp: newContainers_def bind_eq_Some_conv split: list.splits)
  have "mount_names side \<subseteq> fixed_volume_names \<union> casc_volume_names casc"
  proof (cases "cf_enabled casc \<and> cf_autoReload casc")
    case True
    with side obtain c where "NewJenkinsConfigContainer getenv j = Some c" and "side = [c]" by auto
    with sidecar_mount_names(1) [of getenv j c]
    have "mount_names side \<subseteq> fixed_volume_names \<union> {ConfigurationAsCodeVolumeName}" by simp
    moreover have "ConfigurationAsCodeVolumeName \<in> casc_volume_names casc"
      using True by (simp add: casc_volume_names_def)
    ultimately show ?thesis by blast
  qed (use side in auto)
  moreover have "mount_names backup \<subseteq> fixed_volume_names \<union> backup_volume_names spec"
  proof (cases "js_backupEnabled spec")
    case True
    with backup obtain c where "NewJenkinsBackupContainer getenv j = Some c" and "backup = [c]" by auto
    with sidecar_mount_names(2) [of getenv j c] True show ?thesis by (simp add: backup_volume_names_def)
  qed (use backup in auto)
  moreover have "user_mount_names rest \<subseteq> user_mount_names (jm_containers m)"
    using rest by (auto simp: user_mount_names_def)
  moreover note master_mount_names [OF master st casc m]
  ultimately show ?thesis unfolding eq by (simp add: mount_names_converted) blast
qed

lemma NewJenkinsDeployment_None:
  "NewJenkinsDeployment getenv meta j spec = None \<longleftrightarrow>
     first_container spec = None \<or> \<not> has_master_container j"
proof (cases "first_container spec")
  case None
  then have "newInitContainers spec = None" by (simp add: newInitContainers_None)
  with None show ?thesis by (auto simp: NewJenkinsDeployment_def bind_eq_None_conv Let_def)
next
  case (Some c)
  then obtain m where m: "js_master spec = Some m" by (auto simp: first_container_Some)
  from Some obtain inits where i: "newInitContainers spec = Some inits"
    using newInitContainers_None [of spec] by auto
  from m obtain vols where v: "getJenkinsVolumes j spec = Some vols" by (simp add: getJenkinsVolumes_def)
  have "NewJenkinsDeployment getenv meta j spec = None \<longleftrightarrow> newContainers getenv j spec = None"
    by (simp add: NewJenkinsDeployment_def m i v Let_def bind_eq_None_conv)
  with Some newContainers_None [of spec getenv j] show ?thesis by simp
qed

lemma deployment_mounts:
  assumes d: "NewJenkinsDeployment getenv meta j spec = Some d"
    and st: "status_spec j = Some spec"
    and casc: "js_casc spec = Some casc"
    and m: "js_master spec = Some m"
    and user: "user_mount_names (jm_containers m) \<subseteq> vol_name ` set (GetJenkinsMasterPodBaseVolumes j @ jm_volumes m)"
    and backup: "js_backupEnabled spec = js_backupEnabled (j_spec j)"
  shows "mount_names (psp_initContainers (dp_template d) @ psp_containers (dp_template d)) \<subseteq>
    vol_name ` set (psp_volumes (dp_template d))"
proof -
  obtain inits cs vols where i: "newInitContainers spec = Some inits"
    and c: "newContainers getenv j spec = Some cs" and v: "getJenkinsVolumes j spec = Some vols"
    and eq: "psp_initContainers (dp_template d) = inits" "psp_containers (dp_template d) = cs"
      "psp_volumes (dp_template d) = vols"
    using d by (rule NewJenkinsDeployment_cases)
  have "vol_name ` set vols = fixed_volume_names \<union> casc_volume_names casc \<union>
      vol_name ` set (jm_volumes m) \<union> backup_volume_names spec"
    unfolding volumes_names [OF v m] base_volume_names
    by (simp add: st casc backup backup_volume_names_def)
  moreover from user have "user_mount_names (jm_containers m) \<subseteq>
      fixed_volume_names \<union> casc_volume_names casc \<union> vol_name ` set (jm_volumes m)"
    unfolding set_append image_Un base_volume_names by (simp add: st casc)
  moreover note init_mount_names [OF i casc] container_mount_names [OF c st casc m]
  ultimately show ?thesis unfolding eq by auto
qed

lemma find_append: "find P (xs @ ys) = (case find P xs of None \<Rightarrow> find P ys | Some x \<Rightarrow> Some x)"
  by (induction xs) auto

lemma find_None_all: "find P xs = None \<longleftrightarrow> list_all (\<lambda>x. \<not> P x) xs"
  by (induction xs) auto

lemma base_envs_no_home:
  assumes "GetJenkinsMasterContainerBaseEnvs j = Some base"
  shows "find (\<lambda>e. ev_name e = ''JENKINS_HOME'') base = None"
proof -
  from assms obtain home spec where "getJenkinsHomePath j = Some home" and sp: "status_spec j = Some spec"
    by (auto simp: GetJenkinsMasterContainerBaseEnvs_def bind_eq_Some_conv)
  with assms have "list_all (\<lambda>e. ev_name e \<noteq> ''JENKINS_HOME'') base"
    by (cases "js_casc spec") (auto simp: GetJenkinsMasterContainerBaseEnvs_def env_value_def)
  then show ?thesis by (simp add: find_None_all)
qed

lemma env_home:
  assumes "find P base = None" and "P (env_value n (home_path_of jc))"
    and "P = (\<lambda>e. ev_name e = ''JENKINS_HOME'')"
  shows "map_option ev_value (find P (if list_ex P (jc_env jc) then base @ jc_env jc
      else base @ jc_env jc @ [env_value n (home_path_of jc)])) = Some (home_path_of jc)"
proof (cases "find P (jc_env jc)")
  case None
  then have "\<not> list_ex P (jc_env jc)" by (simp add: find_None_iff list_ex_iff)
  with None assms(1,2) show ?thesis by (simp add: find_append env_value_def)
next
  case (Some e)
  then have "list_ex P (jc_env jc)" by (auto simp: find_Some_iff list_ex_length)
  with Some assms(1,3) show ?thesis by (simp add: find_append home_path_of_def)
qed

lemma sidecars_of_home:
  assumes "getJenkinsHomePath j = Some home"
  shows "\<exists>b. NewJenkinsBackupContainer getenv j = Some b \<and>
       getVolumeMount JenkinsHomeVolumeName home False \<in> set (c_volumeMounts b)"
    and "\<exists>r. NewJenkinsConfigContainer getenv j = Some r \<and>
       getVolumeMount JenkinsHomeVolumeName home True \<in> set (c_volumeMounts r)"
  by (simp_all add: NewJenkinsBackupContainer_def NewJenkinsConfigContainer_def assms Let_def)

section \<open>Properties\<close>

text \<open>
  Every volume mount of the deployment, in its init containers and in its containers, names
  a volume of the pod, when the specification has a configuration-as-code section, its
  containers mount only its volumes and those every pod has, and the calculated specification agrees with the
  requested one on backups.
\<close>

theorem deployment_mounts_declared:
  assumes "NewJenkinsDeployment getenv meta j spec = Some d"
    and "status_spec j = Some spec"
    and "js_casc spec = Some casc"
    and "js_master spec = Some m"
    and "user_mount_names (jm_containers m) \<subseteq> vol_name ` set (GetJenkinsMasterPodBaseVolumes j @ jm_volumes m)"
    and "js_backupEnabled spec = js_backupEnabled (j_spec j)"
  shows "mount_names (psp_initContainers (dp_template d) @ psp_containers (dp_template d)) \<subseteq>
    vol_name ` set (psp_volumes (dp_template d))"
  using assms by (rule deployment_mounts)

text \<open>A Jenkins whose calculated specification is in its status.\<close>

definition ready_jenkins :: "jenkins_spec \<Rightarrow> jenkins" where
  "ready_jenkins spec = \<lparr>j_meta = empty_meta\<lparr>om_name := ''ex'', om_namespace := ''ns''\<rparr>,
     j_spec = spec, j_status = Some (empty_status\<lparr>jst_spec := Some spec\<rparr>)\<rparr>"

definition full_spec :: "configuration option \<Rightarrow> jenkins_spec" where
  "full_spec casc = empty_spec\<lparr>
     js_master := Some (empty_master\<lparr>jm_containers :=
       [empty_jcontainer\<lparr>jc_name := ''jenkins'', jc_image := ''jenkins:lts''\<rparr>,
        empty_jcontainer\<lparr>jc_name := ''logger''\<rparr>]\<rparr>),
     js_casc := casc, js_backupEnabled := True\<rparr>"

definition full_casc :: configuration where
  "full_casc = \<lparr>cf_enabled = True, cf_defaultConfig = True, cf_secret = ''s'',
     cf_configurations = [''one'', ''two''], cf_autoReload = True\<rparr>"

lemma full_spec_simps [simp]:
  "status_spec (ready_jenkins spec) = Some spec"
  "j_spec (ready_jenkins spec) = spec"
  "js_casc (full_spec casc) = casc"
  "js_backupEnabled (full_spec casc) = True"
  "\<exists>m. js_master (full_spec casc) = Some m \<and> user_mount_names (jm_containers m) = {}"
  "\<exists>c. first_container (full_spec casc) = Some c"
  by (simp_all add: status_spec_def ready_jenkins_def full_spec_def user_mount_names_def
      empty_jcontainer_def first_container_def)

lemma full_deployment:
  "\<exists>d. NewJenkinsDeployment getenv meta (ready_jenkins (full_spec casc)) (full_spec casc) = Some d"
proof -
  have "has_master_container (ready_jenkins (full_spec casc))"
    using full_spec_simps(6) [of casc] by (auto simp: has_master_container_iff)
  then show ?thesis
    using NewJenkinsDeployment_None [of getenv meta "ready_jenkins (full_spec casc)" "full_spec casc"]
      full_spec_simps(6) [of casc] by (metis not_None_eq)
qed

theorem deployment_mounts_declared_witness:
  "\<exists>d. NewJenkinsDeployment (\<lambda>v. []) empty_meta (ready_jenkins (full_spec (Some full_casc)))
      (full_spec (Some full_casc)) = Some d \<and>
    mount_names (psp_initContainers (dp_template d) @ psp_containers (dp_template d)) \<subseteq>
    vol_name ` set (psp_volumes (dp_template d))"
proof -
  obtain d where d: "NewJenkinsDeployment (\<lambda>v. []) empty_meta (ready_jenkins (full_spec (Some full_casc)))
      (full_spec (Some full_casc)) = Some d"
    using full_deployment [of "\<lambda>v. []" empty_meta "Some full_casc"] by (elim exE)
  obtain m where "js_master (full_spec (Some full_casc)) = Some m"
    and "user_mount_names (jm_containers m) = {}"
    using full_spec_simps(5) [of "Some full_casc"] by (elim exE conjE)
  with deployment_mounts_declared [OF d full_spec_simps(1) full_spec_simps(3)] d show ?thesis
    by (intro exI [of _ d]) simp
qed


text \<open>
  All containers of the operator see the Jenkins home directory at the path that the master
  container is told in its (first) variable JENKINS_HOME, whether the user sets it or not; the
  side car that reloads the configuration gets it read-only.
\<close>

theorem containers_share_home:
  assumes "NewJenkinsMasterContainer j = Some master"
  shows "\<exists>path. map_option ev_value (find (\<lambda>e. ev_name e = ''JENKINS_HOME'') (c_env master)) = Some path \<and>
    getVolumeMount JenkinsHomeVolumeName path False \<in> set (c_volumeMounts master) \<and>
    (\<exists>b. NewJenkinsBackupContainer getenv j = Some b \<and>
       getVolumeMount JenkinsHomeVolumeName path False \<in> set (c_volumeMounts b)) \<and>
    (\<exists>r. NewJenkinsConfigContainer getenv j = Some r \<and>
       getVolumeMount JenkinsHomeVolumeName path True \<in> set (c_volumeMounts r))"
proof -
  obtain spec jc base mounts where sp: "status_spec j = Some spec" "first_container spec = Some jc"
    and base: "GetJenkinsMasterContainerBaseEnvs j = Some base"
    and mo: "GetJenkinsMasterContainerBaseVolumeMounts j spec = Some mounts"
    and vm: "c_volumeMounts master = mounts @ jc_volumeMounts jc"
    and env: "c_env master = (if list_ex (\<lambda>e. ev_name e = ''JENKINS_HOME'') (jc_env jc) then base @ jc_env jc
      else base @ jc_env jc @ [env_value ''JENKINS_HOME'' (home_path_of jc)])"
    using assms by (rule NewJenkinsMasterContainer_cases) simp
  have home: "getJenkinsHomePath j = Some (home_path_of jc)" using sp by (auto simp: status_spec_home)
  have "map_option ev_value (find (\<lambda>e. ev_name e = ''JENKINS_HOME'') (c_env master)) = Some (home_path_of jc)"
    unfolding env by (rule env_home [OF base_envs_no_home [OF base]]) (simp_all add: env_value_def)
  moreover have "getVolumeMount JenkinsHomeVolumeName (home_path_of jc) False \<in> set (c_volumeMounts master)"
    using mo home vm by (auto simp: GetJenkinsMasterContainerBaseVolumeMounts_def)
  moreover note sidecars_of_home [OF home, of getenv]
  ultimately show ?thesis by (intro exI [of _ "home_path_of jc"] conjI)
qed

theorem containers_share_home_witness:
  "\<exists>master path. NewJenkinsMasterContainer (ready_jenkins (full_spec None)) = Some master \<and>
    getVolumeMount JenkinsHomeVolumeName path False \<in> set (c_volumeMounts master)"
proof -
  have "has_master_container (ready_jenkins (full_spec None))"
    using full_spec_simps(6) [of None] by (auto simp: has_master_container_iff)
  with NewJenkinsMasterContainer_None [of "ready_jenkins (full_spec None)"]
  obtain master where m: "NewJenkinsMasterContainer (ready_jenkins (full_spec None)) = Some master"
    by auto
  from containers_share_home [OF m, of "\<lambda>v. []"] m show ?thesis by (elim exE conjE) (intro exI conjI)
qed

text \<open>
  The side car that is to reload the configuration is told to collect it in the folder that
  the master reads, and the master mounts the shared volume there; the side car mounts that
  volume at the path of the secrets instead, and only there.
\<close>

theorem config_sidecar_misses_folder:
  assumes "NewJenkinsConfigContainer getenv j = Some r"
    and "NewJenkinsMasterContainer j = Some master"
    and "Option.bind (status_spec j) js_casc = Some casc"
    and "cf_enabled casc"
  shows "env_value ''FOLDER'' ConfigurationAsCodeVolumePath \<in> set (c_env r) \<and>
    getVolumeMount ConfigurationAsCodeVolumeName ConfigurationAsCodeVolumePath False \<in> set (c_volumeMounts master) \<and>
    map vm_mountPath (filter (\<lambda>m. vm_name m = ConfigurationAsCodeVolumeName) (c_volumeMounts r)) =
      [ConfigurationAsCodeSecretVolumePath] \<and>
    ConfigurationAsCodeSecretVolumePath \<noteq> ConfigurationAsCodeVolumePath"
proof (intro conjI)
  from assms(1) obtain home where "getJenkinsHomePath j = Some home"
    by (auto simp: NewJenkinsConfigContainer_def bind_eq_Some_conv)
  with assms(1) show "env_value ''FOLDER'' ConfigurationAsCodeVolumePath \<in> set (c_env r)"
    and "map vm_mountPath (filter (\<lambda>m. vm_name m = ConfigurationAsCodeVolumeName) (c_volumeMounts r)) =
      [ConfigurationAsCodeSecretVolumePath]"
    by (auto simp: NewJenkinsConfigContainer_def getVolumeMount_def volume_names)
  obtain spec mounts and jc :: jcontainer where sp: "status_spec j = Some spec"
    and "GetJenkinsMasterContainerBaseVolumeMounts j spec = Some mounts"
    and "c_volumeMounts master = mounts @ jc_volumeMounts jc"
    using assms(2) by (rule NewJenkinsMasterContainer_cases) (rule that, assumption+)
  then show "getVolumeMount ConfigurationAsCodeVolumeName ConfigurationAsCodeVolumePath False \<in>
      set (c_volumeMounts master)"
    using assms(3,4) by (auto simp: GetJenkinsMasterContainerBaseVolumeMounts_def bind_eq_Some_conv)
  show "ConfigurationAsCodeSecretVolumePath \<noteq> ConfigurationAsCodeVolumePath"
    by (simp add: ConfigurationAsCodeSecretVolumePath_def ConfigurationAsCodeVolumePath_def jenkinsPath_def)
qed

theorem config_sidecar_misses_folder_witness:
  "\<exists>r. NewJenkinsConfigContainer (\<lambda>v. []) (ready_jenkins (full_spec (Some full_casc))) = Some r \<and>
    env_value ''FOLDER'' ConfigurationAsCodeVolumePath \<in> set (c_env r)"
proof -
  let ?j = "ready_jenkins (full_spec (Some full_casc))"
  have h: "has_master_container ?j"
    using full_spec_simps(6) [of "Some full_casc"] by (auto simp: has_master_container_iff)
  with NewJenkinsMasterContainer_None [of ?j]
  obtain master where m: "NewJenkinsMasterContainer ?j = Some master" by auto
  from h sidecars_None(1) [of "\<lambda>v. []" ?j]
  obtain r where r: "NewJenkinsConfigContainer (\<lambda>v. []) ?j = Some r" by auto
  have "Option.bind (status_spec ?j) js_casc = Some full_casc" "cf_enabled full_casc"
    by (simp_all add: full_casc_def)
  from config_sidecar_misses_folder [OF r m this] r show ?thesis by (intro exI [of _ r] conjI) simp_all
qed

end
