(* ===== verification/Install_Script.thy ===== *)
theory Install_Script
  imports Prelude
begin

text \<open>
  The script that installs the plugins inside the Jenkins container: the text of
  \<^verbatim>\<open>installPluginsBashFmt\<close> in \<^verbatim>\<open>scripts_configmap.go\<close> after \<open>fmt.Sprintf\<close> has filled in the home
  directory and turned each doubled percent sign into one.
\<close>

definition squote :: string where
  "squote = [CHR 0x27]"

text \<open>Up to and including \<open>checkIntegrity\<close>: download one plugin and check it.\<close>

definition install_download :: "string \<Rightarrow> string list" where
  "install_download home =
     [''#!/bin/bash -eu'',
      [],
      ''# Resolve dependencies and download plugins given on the command line'',
      ''#'',
      ''# FROM jenkins'',
      ''# RUN install-plugins.sh docker-slaves github-branch-source'',
      [],
      ''set -o pipefail'',
      ''echo Waiting 10s to have jenkins container filesystem ready'',
      ''sleep 10'',
      ''REF_DIR=${REF:-'' @ home @ ''/plugins}'',
      ''FAILED='' @ dquote @ ''$REF_DIR/failed-plugins.txt'' @ dquote,
      [],
      ''. /usr/local/bin/jenkins-support'',
      [],
      ''getLockFile() {'',
      ''    printf '' @ squote @ ''%s'' @ squote @ '' '' @ dquote @ ''$REF_DIR/${1}.lock'' @
        dquote,
      ''}'',
      [],
      ''getArchiveFilename() {'',
      ''    printf '' @ squote @ ''%s'' @ squote @ '' '' @ dquote @ ''$REF_DIR/${1}.jpi'' @
        dquote,
      ''}'',
      [],
      ''download() {'',
      ''    local plugin originalPlugin version lock ignoreLockFile'',
      ''    plugin='' @ dquote @ ''$1'' @ dquote,
      ''    version='' @ dquote @ ''${2:-latest}'' @ dquote,
      ''    ignoreLockFile='' @ dquote @ ''${3:-}'' @ dquote,
      ''    lock='' @ dquote @ ''$(getLockFile '' @ dquote @ ''$plugin'' @ dquote @ '')'' @
        dquote,
      [],
      ''    if [[ $ignoreLockFile ]] || mkdir '' @ dquote @ ''$lock'' @ dquote @
        '' &>/dev/null; then'',
      ''        if ! doDownload '' @ dquote @ ''$plugin'' @ dquote @ '' '' @ dquote @
        ''$version'' @ dquote @ ''; then'',
      ''            # some plugin don'' @ squote @ ''t follow the rules about artifact ID'',
      ''            # typically: docker-plugin'',
      ''            originalPlugin='' @ dquote @ ''$plugin'' @ dquote,
      ''            plugin='' @ dquote @ ''${plugin}-plugin'' @ dquote,
      ''            if ! doDownload '' @ dquote @ ''$plugin'' @ dquote @ '' '' @ dquote @
        ''$version'' @ dquote @ ''; then'',
      ''                echo '' @ dquote @
        ''Failed to download plugin: $originalPlugin or $plugin'' @ dquote @ '' >&2'',
      ''                echo '' @ dquote @ ''Not downloaded: ${originalPlugin}'' @ dquote @
        '' >> '' @ dquote @ ''$FAILED'' @ dquote,
      ''                return 1'',
      ''            fi'',
      ''        fi'',
      [],
      ''        if ! checkIntegrity '' @ dquote @ ''$plugin'' @ dquote @ ''; then'',
      ''            echo '' @ dquote @
        ''Downloaded file is not a valid ZIP: $(getArchiveFilename '' @ dquote @ ''$plugin'' @
        dquote @ '')'' @ dquote @ '' >&2'',
      ''            echo '' @ dquote @ ''Download integrity: ${plugin}'' @ dquote @ '' >> '' @
        dquote @ ''$FAILED'' @ dquote,
      ''            return 1'',
      ''        fi'',
      [],
      ''    fi'',
      ''}'',
      [],
      ''doDownload() {'',
      ''    local plugin version url jpi'',
      ''    plugin='' @ dquote @ ''$1'' @ dquote,
      ''    version='' @ dquote @ ''$2'' @ dquote,
      ''    jpi='' @ dquote @ ''$(getArchiveFilename '' @ dquote @ ''$plugin'' @ dquote @ '')'' @
        dquote,
      [],
      ''    # If plugin already exists and is the same version do not download'',
      ''    if test -f '' @ dquote @ ''$jpi'' @ dquote @ '' && unzip -p '' @ dquote @ ''$jpi'' @
        dquote @ '' META-INF/MANIFEST.MF | tr -d '' @ squote @ backslash @ ''r'' @ squote @
        '' | grep '' @ dquote @ ''^Plugin-Version: ${version}$'' @ dquote @ '' > /dev/null; then'',
      ''        echo '' @ dquote @ ''Using provided plugin: $plugin'' @ dquote,
      ''        return 0'',
      ''    fi'',
      [],
      ''    if [[ '' @ dquote @ ''$version'' @ dquote @ '' == '' @ dquote @ ''latest'' @ dquote @
        '' && -n '' @ dquote @ ''$JENKINS_UC_LATEST'' @ dquote @ '' ]]; then'',
      ''        # If version-specific Update Center is available, which is the case for LTS versions,'',
      ''        # use it to resolve latest versions.'',
      ''        url='' @ dquote @ ''$JENKINS_UC_LATEST/latest/${plugin}.hpi'' @ dquote,
      ''    elif [[ '' @ dquote @ ''$version'' @ dquote @ '' == '' @ dquote @ ''experimental'' @
        dquote @ '' && -n '' @ dquote @ ''$JENKINS_UC_EXPERIMENTAL'' @ dquote @ '' ]]; then'',
      ''        # Download from the experimental update center'',
      ''        url='' @ dquote @ ''$JENKINS_UC_EXPERIMENTAL/latest/${plugin}.hpi'' @ dquote,
      ''    elif [[ '' @ dquote @ ''$version'' @ dquote @ '' == incrementals* ]] ; then'',
      ''        # Download from Incrementals repo: https://jenkins.io/blog/2018/05/15/incremental-deployment/'',
      ''        # Example URL: https://repo.jenkins-ci.org/incrementals/org/jenkins-ci/plugins/workflow/workflow-support/2.19-rc289.d09828a05a74/workflow-support-2.19-rc289.d09828a05a74.hpi'',
      ''        local groupId incrementalsVersion'',
      ''        arrIN=(${version//;/ })'',
      ''        groupId=${arrIN[1]}'',
      ''        incrementalsVersion=${arrIN[2]}'',
      ''        url='' @ dquote @ ''${JENKINS_INCREMENTALS_REPO_MIRROR}/$(echo '' @ dquote @
        ''${groupId}'' @ dquote @ '' | tr '' @ squote @ ''.'' @ squote @ '' '' @ squote @ ''/'' @
        squote @ '')/${plugin}/${incrementalsVersion}/${plugin}-${incrementalsVersion}.hpi'' @
        dquote,
      ''    else'',
      ''        JENKINS_UC_DOWNLOAD=${JENKINS_UC_DOWNLOAD:-'' @ dquote @
        ''$JENKINS_UC/download'' @ dquote @ ''}'',
      ''        url='' @ dquote @
        ''$JENKINS_UC_DOWNLOAD/plugins/$plugin/$version/${plugin}.hpi'' @ dquote,
      ''    fi'',
      [],
      ''    echo '' @ dquote @ ''Downloading plugin: $plugin from $url'' @ dquote,
      ''    retry_command curl '' @ dquote @ ''${CURL_OPTIONS:--sSfL}'' @ dquote @
        '' --connect-timeout '' @ dquote @ ''${CURL_CONNECTION_TIMEOUT:-20}'' @ dquote @
        '' --retry '' @ dquote @ ''${CURL_RETRY:-5}'' @ dquote @ '' --retry-delay '' @ dquote @
        ''${CURL_RETRY_DELAY:-0}'' @ dquote @ '' --retry-max-time '' @ dquote @
        ''${CURL_RETRY_MAX_TIME:-60}'' @ dquote @ '' '' @ dquote @ ''$url'' @ dquote @ '' -o '' @
        dquote @ ''$jpi'' @ dquote,
      ''    return $?'',
      ''}'',
      [],
      ''checkIntegrity() {'',
      ''    local plugin jpi'',
      ''    plugin='' @ dquote @ ''$1'' @ dquote,
      ''    jpi='' @ dquote @ ''$(getArchiveFilename '' @ dquote @ ''$plugin'' @ dquote @ '')'' @
        dquote,
      [],
      ''    unzip -t -qq '' @ dquote @ ''$jpi'' @ dquote @ '' >/dev/null'',
      ''    return $?'',
      ''}'',
      []]"

text \<open>The bundled and the installed plugins, and the main function.\<close>

definition install_main :: "string list" where
  "install_main =
     [''bundledPlugins() {'',
      ''    local JENKINS_WAR=/usr/share/jenkins/jenkins.war'',
      ''    if [ -f $JENKINS_WAR ]'',
      ''    then'',
      ''        TEMP_PLUGIN_DIR=/tmp/plugintemp.$$'',
      ''        for i in $(jar tf $JENKINS_WAR | grep -E '' @ squote @ ''[^detached-]plugins.*'' @
        backslash @ ''..pi'' @ squote @ '' | sort)'',
      ''        do'',
      ''            rm -fr $TEMP_PLUGIN_DIR'',
      ''            mkdir -p $TEMP_PLUGIN_DIR'',
      ''            PLUGIN=$(basename '' @ dquote @ ''$i'' @ dquote @ ''|cut -f1 -d'' @ squote @
        ''.'' @ squote @ '')'',
      ''            (cd $TEMP_PLUGIN_DIR;jar xf '' @ dquote @ ''$JENKINS_WAR'' @ dquote @ '' '' @
        dquote @ ''$i'' @ dquote @ '';jar xvf '' @ dquote @ ''$TEMP_PLUGIN_DIR/$i'' @ dquote @
        '' META-INF/MANIFEST.MF >/dev/null 2>&1)'',
      ''            VER=$(grep -E -i Plugin-Version '' @ dquote @
        ''$TEMP_PLUGIN_DIR/META-INF/MANIFEST.MF'' @ dquote @ ''|cut -d: -f2|sed '' @ squote @
        ''s/ //'' @ squote @ '')'',
      ''            echo '' @ dquote @ ''$PLUGIN:$VER'' @ dquote,
      ''        done'',
      ''        rm -fr $TEMP_PLUGIN_DIR'',
      ''    else'',
      ''        rm -f '' @ dquote @ ''$TEMP_ALREADY_INSTALLED'' @ dquote,
      ''        echo '' @ dquote @ ''ERROR file not found: $JENKINS_WAR'' @ dquote,
      ''        exit 1'',
      ''    fi'',
      ''}'',
      [],
      ''versionFromPlugin() {'',
      ''    local plugin=$1'',
      ''    if [[ $plugin =~ .*:.* ]]; then'',
      ''        echo '' @ dquote @ ''${plugin##*:}'' @ dquote,
      ''    else'',
      ''        echo '' @ dquote @ ''latest'' @ dquote,
      ''    fi'',
      [],
      ''}'',
      [],
      ''installedPlugins() {'',
      ''    for f in '' @ dquote @ ''$REF_DIR'' @ dquote @ ''/*.jpi; do'',
      ''        echo '' @ dquote @ ''$(basename '' @ dquote @ ''$f'' @ dquote @ '' | sed -e '' @
        squote @ ''s/'' @ backslash @ ''.jpi//'' @ squote @ ''):$(get_plugin_version '' @ dquote @
        ''$f'' @ dquote @ '')'' @ dquote,
      ''    done'',
      ''}'',
      [],
      ''jenkinsMajorMinorVersion() {'',
      ''    local JENKINS_WAR'',
      ''    JENKINS_WAR=/usr/share/jenkins/jenkins.war'',
      ''    if [[ -f '' @ dquote @ ''$JENKINS_WAR'' @ dquote @ '' ]]; then'',
      ''        local version major minor'',
      ''        version='' @ dquote @ ''$(java -jar /usr/share/jenkins/jenkins.war --version)'' @
        dquote,
      ''        major='' @ dquote @ ''$(echo '' @ dquote @ ''$version'' @ dquote @
        '' | cut -d '' @ squote @ ''.'' @ squote @ '' -f 1)'' @ dquote,
      ''        minor='' @ dquote @ ''$(echo '' @ dquote @ ''$version'' @ dquote @
        '' | cut -d '' @ squote @ ''.'' @ squote @ '' -f 2)'' @ dquote,
      ''        echo '' @ dquote @ ''$major.$minor'' @ dquote,
      ''    else'',
      ''        echo '' @ dquote @ ''ERROR file not found: $JENKINS_WAR'' @ dquote,
      ''        return 1'',
      ''    fi'',
      ''}'',
      [],
      ''main() {'',
      ''    local plugin pluginVersion jenkinsVersion'',
      ''    local plugins=()'',
      [],
      ''    mkdir -p '' @ dquote @ ''$REF_DIR'' @ dquote @ '' || exit 1'',
      ''    rm -f '' @ dquote @ ''$FAILED'' @ dquote,
      [],
      ''    # Read plugins from stdin or from the command line arguments'',
      ''    if [[ ($# -eq 0) ]]; then'',
      ''        while read -r line || [ '' @ dquote @ ''$line'' @ dquote @ '' != '' @ dquote @
        dquote @ '' ]; do'',
      ''            # Remove leading/trailing spaces, comments, and empty lines'',
      ''            plugin=$(echo '' @ dquote @ ''${line}'' @ dquote @ '' | tr -d '' @ squote @
        backslash @ ''r'' @ squote @ '' | sed -e '' @ squote @ ''s/^[ '' @ backslash @ ''t]*//g'' @
        squote @ '' -e '' @ squote @ ''s/[ '' @ backslash @ ''t]*$//g'' @ squote @ '' -e '' @
        squote @ ''s/[ '' @ backslash @ ''t]*#.*$//g'' @ squote @ '' -e '' @ squote @ ''/^[ '' @
        backslash @ ''t]*$/d'' @ squote @ '')'',
      [],
      ''            # Avoid adding empty plugin into array'',
      ''            if [ ${#plugin} -ne 0 ]; then'',
      ''                plugins+=('' @ dquote @ ''${plugin}'' @ dquote @ '')'',
      ''            fi'',
      ''        done'',
      ''    else'',
      ''        plugins=('' @ dquote @ ''$@'' @ dquote @ '')'',
      ''    fi'',
      [],
      ''    # Create lockfile manually before first run to make sure any explicit version set is used.'',
      ''    echo '' @ dquote @ ''Creating initial locks...'' @ dquote,
      ''    for plugin in '' @ dquote @ ''${plugins[@]}'' @ dquote @ ''; do'',
      ''        mkdir '' @ dquote @ ''$(getLockFile '' @ dquote @ ''${plugin%:*}'' @ dquote @
        '')'' @ dquote,
      ''    done'',
      [],
      ''    echo '' @ dquote @ ''Analyzing war...'' @ dquote,
      ''    bundledPlugins='' @ dquote @ ''$(bundledPlugins)'' @ dquote,
      [],
      ''    echo '' @ dquote @ ''Registering preinstalled plugins...'' @ dquote,
      ''    installedPlugins='' @ dquote @ ''$(installedPlugins)'' @ dquote,
      [],
      ''    # Check if there'' @ squote @
        ''s a version-specific update center, which is the case for LTS versions'',
      ''    jenkinsVersion='' @ dquote @ ''$(jenkinsMajorMinorVersion)'' @ dquote,
      ''    if curl -fsL -o /dev/null '' @ dquote @ ''$JENKINS_UC/$jenkinsVersion'' @ dquote @
        ''; then'',
      ''        JENKINS_UC_LATEST='' @ dquote @ ''$JENKINS_UC/$jenkinsVersion'' @ dquote,
      ''        echo '' @ dquote @
        ''Using version-specific update center: $JENKINS_UC_LATEST...'' @ dquote,
      ''    else'',
      ''        JENKINS_UC_LATEST='',
      ''    fi'',
      [],
      ''    echo '' @ dquote @ ''Downloading plugins...'' @ dquote,
      ''    for plugin in '' @ dquote @ ''${plugins[@]}'' @ dquote @ ''; do'',
      ''        pluginVersion='' @ dquote @ dquote,
      [],
      ''        if [[ $plugin =~ .*:.* ]]; then'',
      ''            pluginVersion=$(versionFromPlugin '' @ dquote @ ''${plugin}'' @ dquote @
        '')'',
      ''            plugin='' @ dquote @ ''${plugin%:*}'' @ dquote,
      ''        fi'',
      [],
      ''        download '' @ dquote @ ''$plugin'' @ dquote @ '' '' @ dquote @
        ''$pluginVersion'' @ dquote @ '' '' @ dquote @ ''true'' @ dquote @ '' &'',
      ''    done'',
      ''    wait'',
      [],
      ''    echo'',
      ''    echo '' @ dquote @ ''WAR bundled plugins:'' @ dquote,
      ''    echo '' @ dquote @ ''${bundledPlugins}'' @ dquote,
      ''    echo'',
      ''    echo '' @ dquote @ ''Installed plugins:'' @ dquote,
      ''    installedPlugins'',
      [],
      ''    if [[ -f $FAILED ]]; then'',
      ''        echo '' @ dquote @ ''Some plugins failed to download!'' @ dquote @ '' '' @
        dquote @ ''$(<'' @ dquote @ ''$FAILED'' @ dquote @ '')'' @ dquote @ '' >&2'',
      ''        exit 1'',
      ''    fi'',
      [],
      ''    echo '' @ dquote @ ''Cleaning up locks'' @ dquote,
      ''    rm -r '' @ dquote @ ''$REF_DIR'' @ dquote @ ''/*.lock'',
      ''}'',
      [],
      ''main '' @ dquote @ ''$@'' @ dquote,
      []]"

definition installPluginsBash :: "string \<Rightarrow> string" where
  "installPluginsBash home = Join (install_download home @ install_main) nl"

end
