(* ===== verification/Object_Resources.thy ===== *)
theory Object_Resources
  imports Pod_Resources Plugins Install_Script
begin

text \<open>
  The other objects the operator builds, from \<^verbatim>\<open>pkg/configuration/base/resources\<close>: services,
  the service account, the route, roles and role bindings, the credentials secret and the config
  maps with the start-up scripts.  The text templates are expanded by hand; white space that a
  trim marker removes is left out.
\<close>

section \<open>Service, service account, route\<close>

text \<open>
  \<open>UpdateService\<close> writes the configured labels into the label map of the service it is given: a
  nil map makes it panic.
\<close>

definition UpdateService :: "service \<Rightarrow> jservice \<Rightarrow> service option" where
  "UpdateService actual config = do {
     labels \<leftarrow> go_put_all (om_labels (svc_meta actual)) (go_entries (sv_labels config));
     let ports = (if length (svc_ports actual) = 0 then [\<lparr>sp_port = 0, sp_nodePort = 0\<rparr>] else svc_ports actual);
     let port = (hd ports)\<lparr>sp_port := sv_port config\<rparr>;
     let port = (if sv_nodePort config \<noteq> 0 then port\<lparr>sp_nodePort := sv_nodePort config\<rparr> else port);
     Some (actual\<lparr>svc_meta := (svc_meta actual)\<lparr>om_annotations := sv_annotations config, om_labels := labels\<rparr>,
       svc_type := sv_type config,
       svc_lbIP := sv_lbIP config,
       svc_lbRanges := sv_lbRanges config,
       svc_ports := port # tl ports\<rparr>) }"

definition NewServiceAccount :: "obj_meta \<Rightarrow> string gomap \<Rightarrow> service_account" where
  "NewServiceAccount meta annotations = \<lparr>sa_meta = meta\<lparr>om_annotations := annotations\<rparr>\<rparr>"

definition UpdateRoute :: "route \<Rightarrow> jenkins \<Rightarrow> route option" where
  "UpdateRoute actual j = do {
     let serviceName = GetJenkinsHTTPServiceName j;
     let actual = (if rt_toName actual \<noteq> serviceName then actual\<lparr>rt_toName := serviceName\<rparr> else actual);
     spec \<leftarrow> status_spec j;
     let port = sv_port (js_service spec);
     target \<leftarrow> rt_port actual;
     Some (if ios_int target \<noteq> port
       then actual\<lparr>rt_port := Some \<lparr>ios_isString = False, ios_int = port, ios_str = []\<rparr>\<rparr>
       else actual) }"

text \<open>
  \<open>IsRouteAPIAvailable\<close> keeps its answer in two package variables, (checked, available);
  \<open>supported\<close> says whether the discovery succeeds.  The first result is the answer, the second
  tells whether the API server was asked.
\<close>

definition IsRouteAPIAvailable :: "bool \<Rightarrow> bool \<times> bool \<Rightarrow> (bool \<times> bool) \<times> bool \<times> bool" where
  "IsRouteAPIAvailable supported st = (case st of (checked, available) \<Rightarrow>
     if checked then ((available, False), checked, available)
     else if \<not> supported then ((False, True), True, False)
     else ((True, True), True, True))"

section \<open>Roles\<close>

definition NewPolicyRule :: "string \<Rightarrow> string \<Rightarrow> string list \<Rightarrow> policy_rule" where
  "NewPolicyRule apiGroup resource verbs =
     \<lparr>pr_apiGroups = [apiGroup], pr_resources = [resource], pr_verbs = verbs\<rparr>"

definition NewOpenShiftPolicyRule :: "string \<Rightarrow> string \<Rightarrow> string list \<Rightarrow> policy_rule" where
  "NewOpenShiftPolicyRule apiGroup resource verbs = NewPolicyRule apiGroup resource verbs"

definition default_verbs :: "string list" where
  "default_verbs = [''create'', ''delete'', ''get'', ''list'', ''patch'', ''update'', ''watch'']"

definition NewDefaultPolicyRules :: "policy_rule list" where
  "NewDefaultPolicyRules =
     [NewPolicyRule [] ''pods/portforward'' [''create''],
      NewPolicyRule [] ''pods'' default_verbs,
      NewPolicyRule [] ''pods/exec'' default_verbs,
      NewPolicyRule [] ''configmaps'' default_verbs,
      NewPolicyRule [] ''pods/log'' default_verbs,
      NewPolicyRule [] ''secrets'' default_verbs,
      NewPolicyRule [] ''events'' [''watch''],
      NewOpenShiftPolicyRule ''image.openshift.io'' ''imagestreams'' default_verbs,
      NewOpenShiftPolicyRule ''build.openshift.io'' ''buildconfigs'' default_verbs,
      NewOpenShiftPolicyRule ''build.openshift.io'' ''builds'' default_verbs]"

definition NewRole :: "jenkins \<Rightarrow> role" where
  "NewRole j = \<lparr>ro_meta = NewResourceObjectMeta j, ro_rules = NewDefaultPolicyRules\<rparr>"

definition NewRoleBinding :: "jenkins \<Rightarrow> role_ref \<Rightarrow> role_binding" where
  "NewRoleBinding j roleRef =
     \<lparr>rb_meta = empty_meta\<lparr>om_name := GetExtraRoleBindingName j roleRef, om_namespace := j_namespace j\<rparr>,
      rb_roleRef = roleRef,
      rb_subjects = [\<lparr>sj_kind = ''ServiceAccount'', sj_name = om_name (NewResourceObjectMeta j),
        sj_namespace = j_namespace j\<rparr>]\<rparr>"

section \<open>The credentials secret\<close>

definition randomCharset :: string where
  "randomCharset = ''0123456789abcdefghijklmnopqrstuvwxyzABCDEFGHIJKLMNOPQRSTUVWXYZ''"

text \<open>\<open>intn i k\<close> is the answer of the \<open>i\<close>-th call \<open>rand.Intn(k)\<close>.\<close>

definition randomString :: "(nat \<Rightarrow> nat \<Rightarrow> nat) \<Rightarrow> nat \<Rightarrow> string" where
  "randomString intn n = map (\<lambda>i. randomCharset ! intn i (length randomCharset)) [0..<n]"

definition NewOperatorCredentialsSecret :: "(nat \<Rightarrow> nat \<Rightarrow> nat) \<Rightarrow> obj_meta \<Rightarrow> jenkins \<Rightarrow> secret" where
  "NewOperatorCredentialsSecret intn meta j =
     \<lparr>sec_meta = meta\<lparr>om_name := GetOperatorCredentialsSecretName j\<rparr>,
      sec_data = Some [(''user'', ''jenkins-operator''), (''password'', randomString intn 20)]\<rparr>"

section \<open>Config maps\<close>

text \<open>\<open>fmt.Sprintln\<close> ends the line.\<close>

fun getPluginsList :: "plugin_spec list \<Rightarrow> string" where
  "getPluginsList [] = []"
| "getPluginsList (p # ps) = (ps_name p @ '':'' @ ps_version p) @ nl @ getPluginsList ps"

definition NewBasePluginConfigMap :: "obj_meta \<Rightarrow> jenkins \<Rightarrow> config_map option" where
  "NewBasePluginConfigMap meta j = do {
     spec \<leftarrow> status_spec j;
     m \<leftarrow> js_master spec;
     Some \<lparr>cm_meta = meta\<lparr>om_name := GetBasePluginsVolumeNameConfigMapName j\<rparr>,
       cm_data = Some [(basePluginsFileName, getPluginsList (jm_basePlugins m))]\<rparr> }"

text \<open>The lines of a text, and a quoted word.\<close>

definition lines_of :: "string list \<Rightarrow> string" where
  "lines_of ls = Join ls nl"

definition create_user_script :: "string \<Rightarrow> string list" where
  "create_user_script created =
     [''def jenkins = jenkins.model.Jenkins.getInstance()'',
      ''def operatorUserCreatedFile = new File('' @ quoted created @ '')'',
      [],
      ''if (!operatorUserCreatedFile.exists()) {'',
      [CHR 0x09] @ ''def hudsonRealm = new HudsonPrivateSecurityRealm(false)'',
      [CHR 0x09] @ ''hudsonRealm.createAccount('',
      [CHR 0x09, CHR 0x09] @ ''new File('' @ quoted (jenkinsOperatorCredentialsVolumePath @ ''/user'') @ '').text,'',
      [CHR 0x09, CHR 0x09] @ ''new File('' @ quoted (jenkinsOperatorCredentialsVolumePath @ ''/password'') @ '').text)'',
      [CHR 0x09] @ ''jenkins.setSecurityRealm(hudsonRealm)'',
      [],
      [CHR 0x09] @ ''def strategy = new FullControlOnceLoggedInAuthorizationStrategy()'',
      [CHR 0x09] @ ''strategy.setAllowAnonymousRead(false)'',
      [CHR 0x09] @ ''jenkins.setAuthorizationStrategy(strategy)'',
      [CHR 0x09] @ ''jenkins.save()'',
      [],
      [CHR 0x09] @ ''operatorUserCreatedFile.createNewFile()'',
      ''}'']"

definition CreateUserAuthorizationStrategy :: string where
  "CreateUserAuthorizationStrategy = ''createUser''"

definition buildCreateJenkinsOperatorUserGroovyScript :: "jenkins \<Rightarrow> string option" where
  "buildCreateJenkinsOperatorUserGroovyScript j = do {
     home \<leftarrow> getJenkinsHomePath j;
     Some (nl @ lines_of (''import hudson.security.*'' #
       (if js_authStrategy (j_spec j) = CreateUserAuthorizationStrategy
        then create_user_script (home @ ''/operatorUserCreated'') else [])) @ nl) }"

definition NewInitConfigurationConfigMap :: "obj_meta \<Rightarrow> jenkins \<Rightarrow> config_map option" where
  "NewInitConfigurationConfigMap meta j = do {
     script \<leftarrow> buildCreateJenkinsOperatorUserGroovyScript j;
     Some \<lparr>cm_meta = meta\<lparr>om_name := GetInitConfigurationConfigMapName j\<rparr>,
       cm_data = Some [(''createOperatorUser.groovy'', script)]\<rparr> }"

text \<open>The body of the \<open>range\<close> over the base plugins: an empty line, the plugin, end of line.\<close>

definition plugin_line :: "plugin_spec \<Rightarrow> string" where
  "plugin_line p = ps_name p @ '':'' @ ps_version p @ (if ps_url p \<noteq> [] then '':'' @ ps_url p else [])"

definition init_script :: "string \<Rightarrow> plugin_spec list \<Rightarrow> string list" where
  "init_script home ps =
     [''#!/usr/bin/env bash'',
      ''set -e'',
      ''set -x'',
      [],
      ''if [ '' @ dquote @ ''${DEBUG_JENKINS_OPERATOR}'' @ dquote @ '' == '' @ dquote @ ''true'' @ dquote @ '' ]; then'',
      [CHR 0x09] @ ''echo '' @ dquote @ ''Printing debug messages - begin'' @ dquote,
      [CHR 0x09] @ ''id'',
      [CHR 0x09] @ ''env'',
      [CHR 0x09] @ ''ls -la '' @ home,
      [CHR 0x09] @ ''echo '' @ dquote @ ''Printing debug messages - end'' @ dquote,
      ''else'',
      ''    echo '' @ dquote @ ''To print debug messages set environment variable '' @
        quoted ''DEBUG_JENKINS_OPERATOR'' @ '' to '' @ quoted ''true'' @ dquote,
      ''fi'',
      [],
      ''# https://wiki.jenkins.io/display/JENKINS/Post-initialization+script'',
      ''mkdir -p '' @ home @ ''/init.groovy.d'',
      ''cp -n '' @ jenkinsInitConfigurationVolumePath @ ''/*.groovy '' @ home @ ''/init.groovy.d'',
      [],
      ''mkdir -p '' @ home @ ''/scripts'',
      ''cp '' @ JenkinsScriptsVolumePath @ ''/*.sh '' @ home @ ''/scripts'',
      ''chmod +x '' @ home @ ''/scripts/*.sh'',
      [],
      ''echo '' @ dquote @ ''Installing plugins required by Operator - begin'' @ dquote,
      ''cat > '' @ home @ ''/base-plugins << EOF''] @
     concat (map (\<lambda>p. [[], plugin_line p]) ps) @
     [[],
      ''EOF'',
      [],
      ''if [[ -z '' @ dquote @ ''${OPENSHIFT_JENKINS_IMAGE_VERSION}'' @ dquote @ '' ]]; then'',
      ''  install-plugins.sh < '' @ home @ ''/base-plugins'',
      ''else'',
      ''  install-plugins.sh '' @ home @ ''/base-plugins'',
      ''fi'',
      ''echo '' @ dquote @ ''Installing plugins required by Operator - end'' @ dquote,
      []]"

definition buildInitBashScript :: "jenkins \<Rightarrow> string option" where
  "buildInitBashScript j = do {
     home \<leftarrow> getJenkinsHomePath j;
     spec \<leftarrow> status_spec j;
     m \<leftarrow> js_master spec;
     Some (lines_of (init_script home (jm_basePlugins m))) }"

definition NewScriptsConfigMap :: "obj_meta \<Rightarrow> jenkins \<Rightarrow> config_map option" where
  "NewScriptsConfigMap meta j = do {
     script \<leftarrow> buildInitBashScript j;
     home \<leftarrow> getJenkinsHomePath j;
     Some \<lparr>cm_meta = meta\<lparr>om_name := getScriptsConfigMapName j\<rparr>,
       cm_data = Some [(InitScriptName, script), (''install-plugins.sh'', installPluginsBash home)]\<rparr> }"

section \<open>Lemmas\<close>

lemma Split_cut: "sep \<notin> set a \<Longrightarrow> Split (a @ sep # b) sep = a # Split b sep"
  by (induction a) auto

lemma pattern_chars:
  "NamePattern s \<Longrightarrow> CHR 0x0A \<notin> set s"
  "VersionPattern s \<Longrightarrow> CHR 0x0A \<notin> set s"
  by (auto simp: NamePattern_def VersionPattern_def list_all_iff is_digit_def is_letter_def)

lemma New_printed:
  assumes "NamePattern n" and "VersionPattern v"
  shows "New (n @ '':'' @ v) = Inr \<lparr>pg_name = n, pg_version = v, pg_url = [], pg_root = []\<rparr>"
proof -
  have "SplitN2 (n @ CHR '':'' # v) (CHR '':'') = [n, v]"
    using NamePattern_no_colon [OF assms(1)] by (rule SplitN2_cut)
  moreover have "validatePlugin n v [] = None" using assms by (simp add: validatePlugin_None)
  ultimately show ?thesis by (simp add: New_def)
qed

lemma plugins_text_lines:
  "list_all valid_spec ps \<Longrightarrow>
   Split (getPluginsList ps) (CHR 0x0A) = map (\<lambda>p. ps_name p @ '':'' @ ps_version p) ps @ [[]]"
proof (induction ps)
  case (Cons p ps)
  then have "NamePattern (ps_name p)" "VersionPattern (ps_version p)" by (simp_all add: valid_spec_def)
  then have "CHR 0x0A \<notin> set (ps_name p @ '':'' @ ps_version p)" using pattern_chars by auto
  from Split_cut [OF this, of "getPluginsList ps"] Cons show ?case by (simp add: nl_def)
qed simp

lemma go_put_same: "map_of kvs k = Some v \<Longrightarrow> distinct (map fst kvs) \<Longrightarrow> AList.update k v kvs = kvs"
proof (induction kvs)
  case (Cons e kvs)
  obtain k' v' where e: "e = (k', v')" by (cases e)
  show ?case
  proof (cases "k' = k")
    case True
    with Cons e show ?thesis by simp
  next
    case False
    with Cons e show ?thesis by auto
  qed
qed simp

lemma UpdateService_Some:
  assumes "go_put_all (om_labels (svc_meta s)) (go_entries (sv_labels c)) = Some l"
  shows "\<exists>s'. UpdateService s c = Some s' \<and>
    svc_meta s' = (svc_meta s)\<lparr>om_annotations := sv_annotations c, om_labels := l\<rparr> \<and>
    svc_selector s' = svc_selector s \<and> svc_clusterIP s' = svc_clusterIP s \<and>
    svc_type s' = sv_type c \<and> svc_lbIP s' = sv_lbIP c \<and> svc_lbRanges s' = sv_lbRanges c \<and>
    length (svc_ports s') = max 1 (length (svc_ports s)) \<and> tl (svc_ports s') = tl (svc_ports s) \<and>
    sp_port (hd (svc_ports s')) = sv_port c \<and>
    sp_nodePort (hd (svc_ports s')) =
      (if sv_nodePort c \<noteq> 0 then sv_nodePort c else if svc_ports s = [] then 0 else sp_nodePort (hd (svc_ports s)))"
  using assms by (cases "svc_ports s") (simp_all add: UpdateService_def Let_def)

lemma UpdateService_None:
  "UpdateService s c = None \<longleftrightarrow> om_labels (svc_meta s) = None \<and> go_entries (sv_labels c) \<noteq> []"
proof (cases "go_put_all (om_labels (svc_meta s)) (go_entries (sv_labels c))")
  case None
  then have "UpdateService s c = None" by (simp add: UpdateService_def)
  with None [unfolded go_put_all_None_iff] show ?thesis by simp
next
  case (Some l)
  with go_put_all_None_iff [of "om_labels (svc_meta s)" "go_entries (sv_labels c)"] UpdateService_Some [OF Some]
  show ?thesis by auto
qed

lemma UpdateRoute_Some:
  assumes "status_spec j = Some spec" and "rt_port r = Some t"
  shows "\<exists>r' t'. UpdateRoute r j = Some r' \<and> rt_toName r' = GetJenkinsHTTPServiceName j \<and>
    rt_port r' = Some t' \<and> ios_int t' = sv_port (js_service spec) \<and> rt_meta r' = rt_meta r \<and>
    rt_tls r' = rt_tls r \<and> rt_toKind r' = rt_toKind r"
  using assms by (auto simp: UpdateRoute_def Let_def)

lemma randomCharset_alnum:
  "length randomCharset = 62" "list_all (\<lambda>c. is_digit c \<or> is_letter c) randomCharset"
  by (simp_all add: randomCharset_def is_digit_def is_letter_def)

section \<open>Properties\<close>

text \<open>
  The list of base plugins handed to Jenkins in a config map is not lost in its text form: each
  line but the empty last one parses, in order, back to the name and version of the plugin.  The
  download URL is not in the list.
\<close>

theorem plugins_text_roundtrip:
  assumes "list_all valid_spec ps"
  shows "map New (butlast (Split (getPluginsList ps) (CHR 0x0A))) =
    map (\<lambda>p. Inr \<lparr>pg_name = ps_name p, pg_version = ps_version p, pg_url = [], pg_root = []\<rparr>) ps"
proof -
  have "map New (map (\<lambda>p. ps_name p @ '':'' @ ps_version p) ps) =
      map (\<lambda>p. Inr \<lparr>pg_name = ps_name p, pg_version = ps_version p, pg_url = [], pg_root = []\<rparr>) ps"
    using assms New_printed by (induction ps) (simp_all add: valid_spec_def)
  then show ?thesis by (simp add: plugins_text_lines [OF assms])
qed

theorem plugins_text_roundtrip_witness:
  "map New (butlast (Split (getPluginsList [\<lparr>ps_name = ''git'', ps_version = ''4.2'', ps_url = ''http://x.y''\<rparr>]) (CHR 0x0A))) =
    [Inr \<lparr>pg_name = ''git'', pg_version = ''4.2'', pg_url = [], pg_root = []\<rparr>]"
proof -
  have "list_all valid_spec [\<lparr>ps_name = ''git'', ps_version = ''4.2'', ps_url = ''http://x.y''\<rparr>]" by code_simp
  from plugins_text_roundtrip [OF this] show ?thesis by simp
qed

text \<open>
  Updating a service panics exactly when the service has no label map and the configuration
  has labels; otherwise it overwrites annotations, type, load balancer and the first port (the
  node port only when configured), adds the configured labels and changes nothing else.
\<close>

theorem UpdateService_correct:
  "(UpdateService s c = None) = (om_labels (svc_meta s) = None \<and> go_entries (sv_labels c) \<noteq> []) \<and>
   (case go_put_all (om_labels (svc_meta s)) (go_entries (sv_labels c)) of
      None \<Rightarrow> UpdateService s c = None
    | Some l \<Rightarrow> \<exists>s'. UpdateService s c = Some s' \<and>
        svc_meta s' = (svc_meta s)\<lparr>om_annotations := sv_annotations c, om_labels := l\<rparr> \<and>
        svc_selector s' = svc_selector s \<and> svc_clusterIP s' = svc_clusterIP s \<and>
        svc_type s' = sv_type c \<and> svc_lbIP s' = sv_lbIP c \<and> svc_lbRanges s' = sv_lbRanges c \<and>
        length (svc_ports s') = max 1 (length (svc_ports s)) \<and> tl (svc_ports s') = tl (svc_ports s) \<and>
        sp_port (hd (svc_ports s')) = sv_port c \<and>
        sp_nodePort (hd (svc_ports s')) = (if sv_nodePort c \<noteq> 0 then sv_nodePort c
          else if svc_ports s = [] then 0 else sp_nodePort (hd (svc_ports s))))"
proof (cases "go_put_all (om_labels (svc_meta s)) (go_entries (sv_labels c))")
  case None
  with None [unfolded go_put_all_None_iff] UpdateService_None [of s c] show ?thesis by simp
next
  case (Some l)
  show ?thesis
    unfolding UpdateService_None Some option.simps using UpdateService_Some [OF Some] by (rule conjI [OF refl])
qed

text \<open>
  C33. The generated password has exactly twenty characters, each a digit or a letter, when the
  random number generator answers within its bound.
\<close>

theorem credentials_password_bounds:
  assumes "\<And>i k. 0 < k \<Longrightarrow> intn i k < k"
  shows "\<exists>pw. go_get (sec_data (NewOperatorCredentialsSecret intn meta j)) ''password'' = Some pw \<and>
    length pw = 20 \<and> list_all (\<lambda>c. is_digit c \<or> is_letter c) pw"
proof -
  have "is_digit (randomCharset ! intn i 62) \<or> is_letter (randomCharset ! intn i 62)" for i
    using assms [of 62 i] randomCharset_alnum by (auto simp: list_all_length)
  then have "list_all (\<lambda>c. is_digit c \<or> is_letter c) (randomString intn 20)"
    by (simp add: randomString_def randomCharset_alnum(1) list_all_iff)
  then show ?thesis
    by (simp add: NewOperatorCredentialsSecret_def go_get_Some randomString_def del: upt_rec_numeral)
qed

theorem credentials_password_bounds_witness:
  "\<exists>pw. go_get (sec_data (NewOperatorCredentialsSecret (\<lambda>i k. (i * 7) mod k) empty_meta (ready_jenkins empty_spec)))
      ''password'' = Some pw \<and> length pw = 20 \<and> list_all (\<lambda>c. is_digit c \<or> is_letter c) pw"
  by (rule credentials_password_bounds) simp

end
