(* ===== verification/Server_Logic.thy ===== *)
theory Server_Logic
  imports Fake_Client
begin

text \<open>
  Total-correctness triples for handler code against an API server.  \<open>achieves valid stored m p Q\<close>:
  started in a valid world whose objects are \<open>m\<close>, the program \<open>p\<close> ends without a panic, in a
  valid world, with a result and objects that satisfy \<open>Q\<close>.  The rules for composition hold for
  any server; those for the calls are proved in the locale \<open>kube_server\<close> from its laws.
\<close>

type_synonym store = "kind \<times> string \<times> string \<Rightarrow> kobj option"

definition achieves ::
  "('w \<Rightarrow> bool) \<Rightarrow> ('w \<Rightarrow> store) \<Rightarrow> store \<Rightarrow> ('w, 'a) prog \<Rightarrow> ('a \<Rightarrow> store \<Rightarrow> bool) \<Rightarrow> bool" where
  "achieves valid stored m p Q \<longleftrightarrow> (\<forall>s. valid (world s) \<longrightarrow> stored (world s) = m \<longrightarrow>
     (\<exists>r s'. p s = (Done r, s') \<and> valid (world s') \<and> Q r (stored (world s'))))"

text \<open>A program that always gives this result and leaves these objects.\<close>

definition gives :: "'a \<Rightarrow> store \<Rightarrow> 'a \<Rightarrow> store \<Rightarrow> bool" where
  "gives r m = (\<lambda>r' m'. r' = r \<and> m' = m)"

lemma gives_iff [simp]: "gives r m r' m' \<longleftrightarrow> r' = r \<and> m' = m"
  by (simp add: gives_def)

lemma achievesI:
  assumes "\<And>s. valid (world s) \<Longrightarrow> stored (world s) = m \<Longrightarrow>
    \<exists>r s'. p s = (Done r, s') \<and> valid (world s') \<and> Q r (stored (world s'))"
  shows "achieves valid stored m p Q"
  unfolding achieves_def by (intro allI impI assms)

lemma achievesE:
  assumes "achieves valid stored m p Q" and "valid (world s)" and "stored (world s) = m"
  obtains r s' where "p s = (Done r, s')" and "valid (world s')" and "Q r (stored (world s'))"
  using assms(1) [unfolded achieves_def, rule_format, OF assms(2,3)] by (elim exE conjE) (rule that)

lemma achieves_ret: "Q a m \<Longrightarrow> achieves valid stored m (ret a) Q"
  by (rule achievesI) (simp add: ret_def)

lemma achieves_weaken:
  fixes p :: "('w, 'a) prog"
  assumes "achieves valid stored m p Q" and "\<And>r m'. Q r m' \<Longrightarrow> R r m'"
  shows "achieves valid stored m p R"
proof (rule achievesI)
  fix s :: "'w sys" assume "valid (world s)" "stored (world s) = m"
  with assms(1) obtain r s' where "p s = (Done r, s')" "valid (world s')" "Q r (stored (world s'))"
    by (rule achievesE)
  with assms(2) show "\<exists>r s'. p s = (Done r, s') \<and> valid (world s') \<and> R r (stored (world s'))"
    by (intro exI conjI)
qed

lemma achieves_bindP:
  fixes p :: "('w, 'a) prog"
  assumes "achieves valid stored m p Q" and "\<And>a m'. Q a m' \<Longrightarrow> achieves valid stored m' (f a) R"
  shows "achieves valid stored m (bindP p f) R"
proof (rule achievesI)
  fix s :: "'w sys" assume "valid (world s)" "stored (world s) = m"
  with assms(1) obtain a s1 where p: "p s = (Done a, s1)" and "valid (world s1)" and "Q a (stored (world s1))"
    by (rule achievesE)
  with assms(2) have "achieves valid stored (stored (world s1)) (f a) R" by simp
  then obtain r s' where "f a s1 = (Done r, s')" "valid (world s')" "R r (stored (world s'))"
    using \<open>valid (world s1)\<close> refl by (rule achievesE)
  with p show "\<exists>r s'. bindP p f s = (Done r, s') \<and> valid (world s') \<and> R r (stored (world s'))"
    by (intro exI conjI) (simp_all add: bindP_def)
qed

lemma achieves_bindE:
  assumes "achieves valid stored m p Q"
    and "\<And>a m'. Q (Inr a) m' \<Longrightarrow> achieves valid stored m' (f a) R"
    and "\<And>e m'. Q (Inl e) m' \<Longrightarrow> R (Inl e) m'"
  shows "achieves valid stored m (bindE p f) R"
  unfolding bindE_def
proof (rule achieves_bindP [OF assms(1)])
  fix r m'
  assume "Q r m'"
  with assms(2,3) show "achieves valid stored m' (case r of Inl e \<Rightarrow> ret (Inl e) | Inr a \<Rightarrow> f a) R"
    by (cases r) (simp_all add: achieves_ret)
qed

lemma achieves_perform:
  fixes f :: "'w \<Rightarrow> (goerr + 'a) \<times> 'w"
  assumes "\<And>w. valid w \<Longrightarrow> stored w = m \<Longrightarrow> \<exists>r w'. f w = (r, w') \<and> valid w' \<and> Q r (stored w')"
  shows "achieves valid stored m (perform c f) Q"
proof (rule achievesI)
  fix s :: "'w sys"
  assume "valid (world s)" "stored (world s) = m"
  with assms obtain r w' where "f (world s) = (r, w')" and "valid w'" and "Q r (stored w')" by blast
  then show "\<exists>r s'. perform c f s = (Done r, s') \<and> valid (world s') \<and> Q r (stored (world s'))"
    by (simp add: perform_def)
qed

lemma achieves_notify: "Q () m \<Longrightarrow> achieves valid stored m (notify n) Q"
  by (rule achievesI) (simp add: notify_def)

context kube_server
begin

lemma achieves_get_found:
  assumes "proper_key (k, ns, n)" and "m (k, ns, n) = Some x" and "sel x = Some a" and "Q (Inr a) m"
  shows "achieves valid stored m (client_get E k sel ns n) Q"
  unfolding client_get_def
  by (rule achieves_perform) (use assms get_found in \<open>auto simp: decode_def\<close>)

lemma achieves_get_missing:
  assumes "proper_key (k, ns, n)" and "m (k, ns, n) = None" and "\<And>e. IsNotFound e \<Longrightarrow> Q (Inl e) m"
  shows "achieves valid stored m (client_get E k sel ns n) Q"
  unfolding client_get_def
proof (rule achieves_perform)
  fix w assume w: "valid w" "stored w = m"
  with assms(1,2) get_missing obtain e where "e_get E k ns n w = (Inl e, w)" "IsNotFound e" by blast
  with w assms(3) show "\<exists>r w'. apfst (decode sel) (e_get E k ns n w) = (r, w') \<and> valid w' \<and> Q r (stored w')"
    by simp
qed

lemma achieves_create:
  assumes "proper_key (obj_key x)" and "m (obj_key x) = None" and "sel x = Some a"
    and "Q (Inr a) (m(obj_key x \<mapsto> x))"
  shows "achieves valid stored m (client_create E sel x) Q"
  unfolding client_create_def
proof (rule achieves_perform)
  fix w assume w: "valid w" "stored w = m"
  with assms(1,2) create_new obtain w' where
    "e_create E x w = (Inr x, w')" "valid w'" "stored w' = m(obj_key x \<mapsto> x)" by blast
  with assms(3,4) show "\<exists>r w'. apfst (decode sel) (e_create E x w) = (r, w') \<and> valid w' \<and> Q r (stored w')"
    by (simp add: decode_def)
qed

lemma achieves_create_exists:
  assumes "proper_key (obj_key x)" and "m (obj_key x) \<noteq> None" and "\<And>e. IsAlreadyExists e \<Longrightarrow> Q (Inl e) m"
  shows "achieves valid stored m (client_create E sel x) Q"
  unfolding client_create_def
proof (rule achieves_perform)
  fix w assume w: "valid w" "stored w = m"
  with assms(1,2) create_old obtain e where "e_create E x w = (Inl e, w)" "IsAlreadyExists e" by blast
  with w assms(3) show "\<exists>r w'. apfst (decode sel) (e_create E x w) = (r, w') \<and> valid w' \<and> Q r (stored w')"
    by simp
qed

lemma achieves_update:
  assumes "proper_key (obj_key x)" and "m (obj_key x) \<noteq> None" and "sel x = Some a"
    and "Q (Inr a) (m(obj_key x \<mapsto> x))"
  shows "achieves valid stored m (client_update E sel x) Q"
  unfolding client_update_def
proof (rule achieves_perform)
  fix w assume w: "valid w" "stored w = m"
  with assms(1,2) update_old obtain w' where
    "e_update E x w = (Inr x, w')" "valid w'" "stored w' = m(obj_key x \<mapsto> x)" by blast
  with assms(3,4) show "\<exists>r w'. apfst (decode sel) (e_update E x w) = (r, w') \<and> valid w' \<and> Q r (stored w')"
    by (simp add: decode_def)
qed

lemma achieves_status:
  assumes "proper_key (obj_key x)" and "m (obj_key x) \<noteq> None" and "sel x = Some a"
    and "Q (Inr a) (m(obj_key x \<mapsto> x))"
  shows "achieves valid stored m (client_status_update E sel x) Q"
  unfolding client_status_update_def
proof (rule achieves_perform)
  fix w assume w: "valid w" "stored w = m"
  with assms(1,2) status_old obtain w' where
    "e_status E x w = (Inr x, w')" "valid w'" "stored w' = m(obj_key x \<mapsto> x)" by blast
  with assms(3,4) show "\<exists>r w'. apfst (decode sel) (e_status E x w) = (r, w') \<and> valid w' \<and> Q r (stored w')"
    by (simp add: decode_def)
qed

lemma achieves_delete:
  assumes "proper_key (obj_key x)" and "m (obj_key x) \<noteq> None" and "Q (Inr ()) (m(obj_key x := None))"
  shows "achieves valid stored m (client_delete E x) Q"
  unfolding client_delete_def
proof (rule achieves_perform)
  fix w assume w: "valid w" "stored w = m"
  with assms(1,2) delete_old obtain w' where
    "e_delete E x w = (None, w')" "valid w'" "stored w' = m(obj_key x := None)" by blast
  with assms(3) show "\<exists>r w'. apfst unit_result (e_delete E x w) = (r, w') \<and> valid w' \<and> Q r (stored w')"
    by simp
qed

lemma achieves_now:
  assumes "\<And>t. Q t m"
  shows "achieves valid stored m (now E) Q"
proof (rule achievesI)
  fix s :: "'w sys" assume s: "valid (world s)" "stored (world s) = m"
  obtain t w' where t: "e_now E (world s) = (t, w')" by (cases "e_now E (world s)")
  with now_keeps [OF s(1) t] s assms show
    "\<exists>r s'. now E s = (Done r, s') \<and> valid (world s') \<and> Q r (stored (world s'))"
    by (simp add: now_def)
qed

text \<open>Reading an object that may or may not be there.\<close>

lemma achieves_get:
  assumes key: "proper_key (k, ns, n)"
    and missing: "\<And>e. m (k, ns, n) = None \<Longrightarrow> IsNotFound e \<Longrightarrow> Q (Inl e) m"
    and found: "\<And>x. m (k, ns, n) = Some x \<Longrightarrow> obj_key x = (k, ns, n) \<Longrightarrow> Q (decode sel (Inr x)) m"
  shows "achieves valid stored m (client_get E k sel ns n) Q"
  unfolding client_get_def
proof (rule achieves_perform)
  fix w assume w: "valid w" "stored w = m"
  show "\<exists>r w'. apfst (decode sel) (e_get E k ns n w) = (r, w') \<and> valid w' \<and> Q r (stored w')"
  proof (cases "m (k, ns, n)")
    case None
    with w key get_missing obtain e where "e_get E k ns n w = (Inl e, w)" "IsNotFound e" by blast
    with w None missing show ?thesis by simp
  next
    case (Some x)
    with w key have "e_get E k ns n w = (Inr x, w)" and "obj_key x = (k, ns, n)"
      using get_found stored_key by blast+
    with w Some found show ?thesis by simp
  qed
qed

text \<open>Reading first: the two ways a handler goes on.\<close>

lemma achieves_read:
  assumes key: "proper_key (k, ns, n)"
    and sel: "\<And>x. obj_key x = (k, ns, n) \<Longrightarrow> sel x \<noteq> None"
    and missing: "\<And>e. m (k, ns, n) = None \<Longrightarrow> IsNotFound e \<Longrightarrow> achieves valid stored m (f (Inl e)) Q"
    and found: "\<And>x a. m (k, ns, n) = Some x \<Longrightarrow> obj_key x = (k, ns, n) \<Longrightarrow> sel x = Some a \<Longrightarrow>
      achieves valid stored m (f (Inr a)) Q"
  shows "achieves valid stored m (bindP (client_get E k sel ns n) f) Q"
proof (rule achieves_bindP)
  show "achieves valid stored m (client_get E k sel ns n) (\<lambda>r m'. m' = m \<and> achieves valid stored m (f r) Q)"
  proof (rule achieves_get [OF key])
    fix e assume "m (k, ns, n) = None" "IsNotFound e"
    with missing show "m = m \<and> achieves valid stored m (f (Inl e)) Q" by simp
  next
    fix x assume x: "m (k, ns, n) = Some x" "obj_key x = (k, ns, n)"
    with sel obtain a where "sel x = Some a" by blast
    with found x show "m = m \<and> achieves valid stored m (f (decode sel (Inr x))) Q" by (simp add: decode_def)
  qed
qed simp

text \<open>A listing returns every object of the kind in the namespace, each under its own key.\<close>

lemma achieves_list:
  assumes "ns \<noteq> []" and "\<not> cluster_scoped k"
    and "\<And>xs. distinct (map obj_key xs) \<Longrightarrow> set xs = {x. \<exists>n. m (k, ns, n) = Some x} \<Longrightarrow>
      (\<And>key x. m key = Some x \<Longrightarrow> obj_key x = key) \<Longrightarrow> Q (decode_list sel (Inr xs)) m"
  shows "achieves valid stored m (client_list E k sel (Some ns) None) Q"
  unfolding client_list_def
proof (rule achieves_perform)
  fix w assume w: "valid w" "stored w = m"
  with assms(1,2) list_found obtain xs where l: "e_list E k (Some ns) None w = (Inr xs, w)"
    "distinct (map obj_key xs)" "set xs = {x. \<exists>n. m (k, ns, n) = Some x}" by blast
  have "m key = Some x \<Longrightarrow> obj_key x = key" for key x
    using w stored_key by blast
  with assms(3) l(2,3) have "Q (decode_list sel (Inr xs)) m" by blast
  with w l(1) show "\<exists>r w'. apfst (decode_list sel) (e_list E k (Some ns) None w) = (r, w') \<and>
      valid w' \<and> Q r (stored w')"
    by simp
qed

end

end
