(* ===== verification/Kube_Ops.thy ===== *)
theory Kube_Ops
  imports Object_Resources Pod_Lookup Server_Logic
begin

text \<open>
  Writing objects with an owner, and the accessors of \<^verbatim>\<open>pkg/configuration/configuration.go\<close>.
  \<open>SetControllerReference\<close> is the vendored
  \<^verbatim>\<open>sigs.k8s.io/controller-runtime/pkg/controller/controllerutil\<close>.
\<close>

section \<open>Owner references\<close>

text \<open>\<open>schema.ParseGroupVersion\<close>.\<close>

definition ParseGroupVersion :: "string \<Rightarrow> (string \<times> string) option" where
  "ParseGroupVersion gv =
     (if gv = [] \<or> gv = ''/'' then Some ([], [])
      else (case Split gv (CHR ''/'') of
          [v] \<Rightarrow> Some ([], v)
        | [g, v] \<Rightarrow> Some (g, v)
        | _ \<Rightarrow> None))"

definition referSameObject :: "owner_ref \<Rightarrow> owner_ref \<Rightarrow> bool" where
  "referSameObject a b \<longleftrightarrow>
     ParseGroupVersion (or_apiVersion a) \<noteq> None \<and> ParseGroupVersion (or_apiVersion b) \<noteq> None \<and>
     ParseGroupVersion (or_apiVersion a) = ParseGroupVersion (or_apiVersion b) \<and>
     or_kind a = or_kind b \<and> or_name a = or_name b"

definition NewControllerRef :: "string \<Rightarrow> obj_meta \<Rightarrow> owner_ref" where
  "NewControllerRef kind owner = \<lparr>or_apiVersion = ''jenkins.io/v1alpha2'', or_kind = kind,
     or_name = om_name owner, or_uid = om_uid owner, or_controller = Some True,
     or_blockOwnerDeletion = Some True\<rparr>"

text \<open>
  The loop over the existing references: the index of the last one to the same object, or the
  first other controller.
\<close>

fun owner_scan :: "owner_ref \<Rightarrow> owner_ref list \<Rightarrow> nat \<Rightarrow> nat option \<Rightarrow> owner_ref + nat option" where
  "owner_scan ref [] i fi = Inr fi"
| "owner_scan ref (r # rs) i fi =
     (if referSameObject ref r then owner_scan ref rs (Suc i) (Some i)
      else if or_controller r = Some True then Inl r
      else owner_scan ref rs (Suc i) fi)"

definition SetControllerReference :: "string \<Rightarrow> obj_meta \<Rightarrow> obj_meta \<Rightarrow> goerr + obj_meta" where
  "SetControllerReference kind owner obj =
     (if om_namespace owner \<noteq> [] \<and> om_namespace obj = [] then
        Inl (TextErr (''cluster-scoped resource must not have a namespace-scoped owner, owner'' @ [CHR 0x27] @
          ''s namespace '' @ om_namespace owner))
      else if om_namespace owner \<noteq> [] \<and> om_namespace owner \<noteq> om_namespace obj then
        Inl (TextErr (''cross-namespace owner references are disallowed, owner'' @ [CHR 0x27] @ ''s namespace '' @
          om_namespace owner @ '', obj'' @ [CHR 0x27] @ ''s namespace '' @ om_namespace obj))
      else
        (let ref = NewControllerRef kind owner in
         case owner_scan ref (om_ownerRefs obj) 0 None of
           Inl r \<Rightarrow> Inl (TextErr (''Object '' @ om_namespace obj @ ''/'' @ om_name obj @
             '' is already owned by another '' @ or_kind r @ '' controller '' @ or_name r))
         | Inr None \<Rightarrow> Inr (obj\<lparr>om_ownerRefs := om_ownerRefs obj @ [ref]\<rparr>)
         | Inr (Some i) \<Rightarrow> Inr (obj\<lparr>om_ownerRefs := (om_ownerRefs obj)[i := ref]\<rparr>)))"

text \<open>The object with the reference set, or as it was when that fails.\<close>

definition owned_by :: "jenkins \<Rightarrow> kobj \<Rightarrow> kobj" where
  "owned_by j x = (case SetControllerReference ''Jenkins'' (j_meta j) (meta_of x) of
     Inl e \<Rightarrow> x | Inr m \<Rightarrow> map_meta (\<lambda>_. m) x)"

section \<open>Create and update\<close>

definition CreateResource :: "'w env \<Rightarrow> (kobj \<Rightarrow> 'a option) \<Rightarrow> jenkins \<Rightarrow> kobj \<Rightarrow> ('w, goerr + 'a) prog" where
  "CreateResource E sel j x =
     (case SetControllerReference ''Jenkins'' (j_meta j) (meta_of x) of
        Inl e \<Rightarrow> ret (Inl (Stacked e))
      | Inr m \<Rightarrow> client_create E sel (map_meta (\<lambda>_. m) x))"

definition UpdateResource :: "'w env \<Rightarrow> (kobj \<Rightarrow> 'a option) \<Rightarrow> jenkins \<Rightarrow> kobj \<Rightarrow> ('w, goerr + 'a) prog" where
  "UpdateResource E sel j x = client_update E sel (owned_by j x)"

definition CreateOrUpdateResource :: "'w env \<Rightarrow> jenkins \<Rightarrow> kobj \<Rightarrow> ('w, goerr + unit) prog" where
  "CreateOrUpdateResource E j x =
     bindP (client_create E Some (owned_by j x)) (\<lambda>r. case r of
        Inr y \<Rightarrow> ret (Inr ())
      | Inl e \<Rightarrow>
          if IsAlreadyExists e
          then bindE (UpdateResource E Some j (owned_by j x)) (\<lambda>y. ret (Inr ()))
          else ret (Inl (Stacked e)))"

section \<open>Accessors\<close>

definition IsJenkinsTerminating :: "pod \<Rightarrow> bool" where
  "IsJenkinsTerminating p \<longleftrightarrow> om_deletion (pod_meta p) \<noteq> None"

definition GetJenkinsMasterPod :: "'w env \<Rightarrow> jenkins \<Rightarrow> ('w, goerr + pod) prog" where
  "GetJenkinsMasterPod E j = GetPodByDeployment E j"

definition GetJenkinsMasterPodName :: "'w env \<Rightarrow> jenkins \<Rightarrow> ('w, string) prog" where
  "GetJenkinsMasterPodName E j = bindP (GetPodByDeployment E j) (\<lambda>r. case r of
     Inl e \<Rightarrow> ret [] | Inr p \<Rightarrow> ret (om_name (pod_meta p)))"

definition GetJenkinsMasterContainer :: "jenkins \<Rightarrow> jcontainer option" where
  "GetJenkinsMasterContainer j = (case js_master (j_spec j) of
     None \<Rightarrow> None
   | Some m \<Rightarrow> (case jm_containers m of [] \<Rightarrow> None | c # cs \<Rightarrow> Some c))"

text \<open>
  \<open>GetJenkinsOpts\<close>: outer \<open>None\<close> a panic, inner \<open>None\<close> the nil map.  The value is cut at every
  space and each piece at every equals sign; the second part is taken without a check.
\<close>

fun parse_opts :: "string list \<Rightarrow> (string \<times> string) list \<Rightarrow> (string \<times> string) list option" where
  "parse_opts [] m = Some m"
| "parse_opts (w # ws) m =
     (case Split w (CHR ''='') of
        k # v # rest \<Rightarrow> parse_opts ws (AList.update (DropDashes k) v m)
      | _ \<Rightarrow> None)"

definition GetJenkinsOpts :: "jenkins \<Rightarrow> string gomap option" where
  "GetJenkinsOpts j = do {
     spec \<leftarrow> status_spec j;
     c \<leftarrow> first_container spec;
     case find (\<lambda>e. ev_name e = ''JENKINS_OPTS'') (jc_env c) of
       None \<Rightarrow> Some None
     | Some e \<Rightarrow>
         (if length (ev_value e) = 0 then Some None
          else map_option Some (parse_opts (Split (ev_value e) (CHR '' '')) [])) }"

section \<open>Connection settings\<close>

record api_settings =
  as_hostname :: string
  as_port :: int
  as_useNodePort :: bool

definition BuildJenkinsAPIUrl :: "api_settings \<Rightarrow> string \<Rightarrow> string \<Rightarrow> int \<Rightarrow> int \<Rightarrow> string" where
  "BuildJenkinsAPIUrl st serviceName serviceNamespace servicePort serviceNodePort =
     (if as_hostname st = [] \<and> as_port st = 0 then
        ''http://'' @ serviceName @ ''.'' @ serviceNamespace @ '':'' @ fmt_d servicePort
      else if as_hostname st \<noteq> [] \<and> as_useNodePort st then
        ''http://'' @ as_hostname st @ '':'' @ fmt_d serviceNodePort
      else ''http://'' @ as_hostname st @ '':'' @ fmt_d (as_port st))"

definition Validate_settings :: "api_settings \<Rightarrow> goerr option" where
  "Validate_settings st =
     (if as_port st > 0 \<and> as_useNodePort st then
        Some (TextErr (''can'' @ [CHR 0x27] @ ''t use service port and nodePort both. Please use port or nodePort''))
      else if as_port st < 0 then Some (TextErr ''service port cannot be lower than 0'')
      else if (as_hostname st = [] \<and> as_port st > 0) \<or> (as_hostname st = [] \<and> as_useNodePort st) then
        Some (TextErr ''empty hostname is now allowed. Please provide hostname'')
      else None)"

definition getJenkinsAPIUrl :: "'w env \<Rightarrow> api_settings \<Rightarrow> jenkins \<Rightarrow> ('w, goerr + string) prog" where
  "getJenkinsAPIUrl E st j =
     bindE (client_get E KService as_service (j_namespace j) (GetJenkinsHTTPServiceName j)) (\<lambda>svc.
       case svc_ports svc of
         [] \<Rightarrow> crash ''index out of range: ports''
       | p # ps \<Rightarrow>
           let url = BuildJenkinsAPIUrl st (om_name (svc_meta svc)) (om_namespace (svc_meta svc)) (sp_port p) (sp_nodePort p) in
           case GetJenkinsOpts j of
             None \<Rightarrow> crash ''GetJenkinsOpts''
           | Some opts \<Rightarrow> ret (Inr (case go_get opts ''prefix'' of None \<Rightarrow> url | Some pre \<Rightarrow> url @ pre)))"

section \<open>Lemmas: owners\<close>

lemma NewControllerRef_parses: "ParseGroupVersion (or_apiVersion (NewControllerRef k m)) = Some (''jenkins.io'', ''v1alpha2'')"
  by (simp add: NewControllerRef_def ParseGroupVersion_def)

lemma referSame_refl [simp]: "referSameObject (NewControllerRef k m) (NewControllerRef k m)"
  by (simp add: referSameObject_def NewControllerRef_parses)

lemma owner_scan_Inr:
  "owner_scan ref rs i fi = Inr fo \<Longrightarrow>
   list_all (\<lambda>r. referSameObject ref r \<or> or_controller r \<noteq> Some True) rs \<and>
   (fo = fi \<and> list_all (\<lambda>r. \<not> referSameObject ref r) rs \<or>
    (\<exists>n < length rs. fo = Some (i + n) \<and> referSameObject ref (rs ! n) \<and>
      list_all (\<lambda>r. \<not> referSameObject ref r) (drop (Suc n) rs)))"
proof (induction rs arbitrary: i fi)
  case (Cons r rs)
  show ?case
  proof (cases "referSameObject ref r")
    case True
    with Cons.prems have "owner_scan ref rs (Suc i) (Some i) = Inr fo" by simp
    from Cons.IH [OF this] True show ?thesis
      by (elim conjE disjE exE) (force intro: exI [of _ 0] exI [of _ "Suc _"])+
  next
    case False
    with Cons.prems have c: "or_controller r \<noteq> Some True" and "owner_scan ref rs (Suc i) fi = Inr fo"
      by (auto split: if_splits)
    from Cons.IH [OF this(2)] False c show ?thesis
      by (elim conjE disjE exE) (force intro: exI [of _ "Suc _"])+
  qed
qed simp

lemma owner_scan_append:
  "owner_scan ref (xs @ ys) i fi =
     (case owner_scan ref xs i fi of Inl r \<Rightarrow> Inl r | Inr fo \<Rightarrow> owner_scan ref ys (i + length xs) fo)"
  by (induction xs arbitrary: i fi) (auto split: sum.splits)

definition owner_ok :: "owner_ref \<Rightarrow> owner_ref \<Rightarrow> bool" where
  "owner_ok ref r \<longleftrightarrow> referSameObject ref r \<or> or_controller r \<noteq> Some True"

lemma owner_scan_ok: "list_all (owner_ok ref) rs \<Longrightarrow> \<exists>fo. owner_scan ref rs i fi = Inr fo"
  by (induction rs arbitrary: i fi) (auto simp: owner_ok_def)

lemma owner_scan_none:
  "list_all (owner_ok ref) rs \<Longrightarrow> list_all (\<lambda>r. \<not> referSameObject ref r) rs \<Longrightarrow> owner_scan ref rs i fi = Inr fi"
  by (induction rs arbitrary: i fi) (auto simp: owner_ok_def)

text \<open>Scanning again finds the reference where it was put.\<close>

lemma owner_scan_again:
  assumes "list_all (owner_ok ref) xs" and "list_all (owner_ok ref) ys"
    and "list_all (\<lambda>r. \<not> referSameObject ref r) ys" and "referSameObject ref r"
  shows "owner_scan ref (xs @ r # ys) 0 None = Inr (Some (length xs))"
proof -
  obtain fo where "owner_scan ref xs 0 None = Inr fo" using owner_scan_ok [OF assms(1)] by blast
  with assms(4) owner_scan_none [OF assms(2,3)] show ?thesis by (simp add: owner_scan_append)
qed

lemma SetControllerReference_Inr:
  assumes "SetControllerReference kind owner obj = Inr m"
  shows "\<exists>xs ys. m = obj\<lparr>om_ownerRefs := xs @ NewControllerRef kind owner # ys\<rparr> \<and>
    list_all (owner_ok (NewControllerRef kind owner)) (xs @ ys) \<and>
    list_all (\<lambda>r. \<not> referSameObject (NewControllerRef kind owner) r) ys"
proof -
  let ?ref = "NewControllerRef kind owner" and ?rs = "om_ownerRefs obj"
  from assms obtain fo where scan: "owner_scan ?ref ?rs 0 None = Inr fo"
    and m: "m = (case fo of None \<Rightarrow> obj\<lparr>om_ownerRefs := ?rs @ [?ref]\<rparr> | Some i \<Rightarrow> obj\<lparr>om_ownerRefs := ?rs[i := ?ref]\<rparr>)"
    by (auto simp: SetControllerReference_def Let_def split: if_splits sum.splits option.splits)
  have ok: "list_all (owner_ok ?ref) ?rs"
    using owner_scan_Inr [OF scan] by (simp add: owner_ok_def [abs_def])
  show ?thesis
  proof (cases fo)
    case None
    with m ok show ?thesis by (intro exI [of _ ?rs] exI [of _ "[]"]) simp
  next
    case (Some n)
    with owner_scan_Inr [OF scan] have n: "n < length ?rs"
      and rest: "list_all (\<lambda>r. \<not> referSameObject ?ref r) (drop (Suc n) ?rs)" by auto
    have "?rs[n := ?ref] = take n ?rs @ ?ref # drop (Suc n) ?rs" using n by (rule upd_conv_take_nth_drop)
    moreover have "list_all (owner_ok ?ref) (take n ?rs @ drop (Suc n) ?rs)"
      using ok by (auto simp: list_all_iff dest: in_set_takeD in_set_dropD)
    ultimately show ?thesis using m Some rest
      by (intro exI [of _ "take n ?rs"] exI [of _ "drop (Suc n) ?rs"]) simp
  qed
qed

lemma SetControllerReference_again:
  assumes "SetControllerReference kind owner obj = Inr m"
  shows "SetControllerReference kind owner m = Inr m"
proof -
  let ?ref = "NewControllerRef kind owner"
  obtain xs ys where m: "m = obj\<lparr>om_ownerRefs := xs @ ?ref # ys\<rparr>"
    and ok: "list_all (owner_ok ?ref) (xs @ ys)" and no: "list_all (\<lambda>r. \<not> referSameObject ?ref r) ys"
    using SetControllerReference_Inr [OF assms] by blast
  have "owner_scan ?ref (xs @ ?ref # ys) 0 None = Inr (Some (length xs))"
    using ok no by (intro owner_scan_again) simp_all
  moreover have "om_namespace m = om_namespace obj" by (simp add: m)
  with assms have "\<not> (om_namespace owner \<noteq> [] \<and> om_namespace m = [])"
    "\<not> (om_namespace owner \<noteq> [] \<and> om_namespace owner \<noteq> om_namespace m)"
    by (auto simp: SetControllerReference_def split: if_splits)
  ultimately show ?thesis unfolding SetControllerReference_def m by (simp add: Let_def)
qed

lemma owned_by_again [simp]: "owned_by j (owned_by j x) = owned_by j x"
proof (cases "SetControllerReference ''Jenkins'' (j_meta j) (meta_of x)")
  case (Inl e)
  then show ?thesis by (simp add: owned_by_def)
next
  case (Inr m)
  from SetControllerReference_again [OF this] Inr show ?thesis by (cases x) (simp_all add: owned_by_def)
qed

lemma SetControllerReference_key:
  assumes "SetControllerReference kind owner obj = Inr m"
  shows "om_name m = om_name obj \<and> om_namespace m = om_namespace obj"
  using SetControllerReference_Inr [OF assms] by auto

lemma obj_key_owned [simp]: "obj_key (owned_by j x) = obj_key x"
  unfolding owned_by_def by (auto simp: obj_key_def dest: SetControllerReference_key split: sum.splits)

lemma obj_key_map_meta:
  "om_name (f (meta_of x)) = om_name (meta_of x) \<Longrightarrow> om_namespace (f (meta_of x)) = om_namespace (meta_of x) \<Longrightarrow>
   obj_key (map_meta f x) = obj_key x"
  by (simp add: obj_key_def)

text \<open>A fresh object in the namespace of the Jenkins gets the reference.\<close>

lemma SetControllerReference_fresh:
  assumes "om_ownerRefs obj = []" and "om_namespace obj = om_namespace owner"
  shows "SetControllerReference kind owner obj = Inr (obj\<lparr>om_ownerRefs := [NewControllerRef kind owner]\<rparr>)"
  using assms by (simp add: SetControllerReference_def Let_def)

lemma owned_by_fresh:
  assumes "om_ownerRefs (meta_of x) = []" and "om_namespace (meta_of x) = j_namespace j"
  shows "owned_by j x = map_meta (\<lambda>m. m\<lparr>om_ownerRefs := [NewControllerRef ''Jenkins'' (j_meta j)]\<rparr>) x"
  using SetControllerReference_fresh [of "meta_of x" "j_meta j" "''Jenkins''"] assms
  by (cases x) (simp_all add: owned_by_def j_namespace_def)

lemma CreateResource_fresh:
  assumes "om_ownerRefs (meta_of x) = []" and "om_namespace (meta_of x) = j_namespace j"
  shows "CreateResource E sel j x = client_create E sel (owned_by j x)"
  using SetControllerReference_fresh [of "meta_of x" "j_meta j" "''Jenkins''"] assms
  by (simp add: CreateResource_def owned_by_def j_namespace_def)

section \<open>Lemmas: an API server\<close>

context kube_server
begin

text \<open>The abstract operation: the object is there, whatever was there before.\<close>

lemma CreateOrUpdate_achieves:
  assumes "proper_key (obj_key x)" and "Q (Inr ()) (m(obj_key x \<mapsto> owned_by j x))"
  shows "achieves valid stored m (CreateOrUpdateResource E j x) Q"
proof (cases "m (obj_key x)")
  case None
  show ?thesis
    unfolding CreateOrUpdateResource_def
  proof (rule achieves_bindP)
    show "achieves valid stored m (client_create E Some (owned_by j x))
        (gives (Inr (owned_by j x)) (m(obj_key x \<mapsto> owned_by j x)))"
      using assms(1) None by (intro achieves_create) simp_all
  next
    fix r :: "goerr + kobj" and m'
    assume "gives (Inr (owned_by j x)) (m(obj_key x \<mapsto> owned_by j x)) r m'"
    with assms(2) show "achieves valid stored m' (case r of Inr y \<Rightarrow> ret (Inr ())
        | Inl e \<Rightarrow> if IsAlreadyExists e then bindE (UpdateResource E Some j (owned_by j x)) (\<lambda>y. ret (Inr ()))
            else ret (Inl (Stacked e))) Q"
      by (auto intro: achieves_ret)
  qed
next
  case (Some y)
  show ?thesis
    unfolding CreateOrUpdateResource_def
  proof (rule achieves_bindP)
    show "achieves valid stored m (client_create E Some (owned_by j x))
        (\<lambda>r m'. m' = m \<and> (\<exists>e. r = Inl e \<and> IsAlreadyExists e))"
      using assms(1) Some by (intro achieves_create_exists) auto
  next
    fix r :: "goerr + kobj" and m'
    assume "m' = m \<and> (\<exists>e. r = Inl e \<and> IsAlreadyExists e)"
    then obtain e where r: "r = Inl e" "IsAlreadyExists e" and m': "m' = m" by blast
    have "achieves valid stored m (UpdateResource E Some j (owned_by j x))
        (gives (Inr (owned_by j x)) (m(obj_key x \<mapsto> owned_by j x)))"
      unfolding UpdateResource_def using assms(1) Some by (intro achieves_update) simp_all
    then have "achieves valid stored m (bindE (UpdateResource E Some j (owned_by j x)) (\<lambda>y. ret (Inr ()))) Q"
      by (rule achieves_bindE) (use assms(2) in \<open>auto intro: achieves_ret\<close>)
    with r m' show "achieves valid stored m' (case r of Inr y \<Rightarrow> ret (Inr ())
        | Inl e \<Rightarrow> if IsAlreadyExists e then bindE (UpdateResource E Some j (owned_by j x)) (\<lambda>y. ret (Inr ()))
            else ret (Inl (Stacked e))) Q"
      by simp
  qed
qed

end

lemma parse_opts_None:
  "parse_opts ws m = None \<longleftrightarrow> \<not> list_all (\<lambda>w. CHR ''='' \<in> set w) ws"
proof (induction ws arbitrary: m)
  case (Cons w ws)
  have 1: "CHR ''='' \<in> set w \<longleftrightarrow> (\<exists>k v rest. Split w (CHR ''='') = k # v # rest)"
  proof (induction w)
    case (Cons c w)
    then show ?case by (cases "Split w (CHR ''='')") auto
  qed simp
  show ?case
  proof (cases "CHR ''='' \<in> set w")
    case True
    with 1 obtain k v rest where "Split w (CHR ''='') = k # v # rest" by blast
    with True Cons show ?thesis by simp
  next
    case False
    then show ?thesis using 1 by (auto split: list.splits)
  qed
qed simp

lemma GetJenkinsOpts_None:
  assumes "status_spec j = Some spec" and "first_container spec = Some c"
  shows "GetJenkinsOpts j = None \<longleftrightarrow>
    (\<exists>e. find (\<lambda>e. ev_name e = ''JENKINS_OPTS'') (jc_env c) = Some e \<and> ev_value e \<noteq> [] \<and>
      \<not> list_all (\<lambda>w. CHR ''='' \<in> set w) (Split (ev_value e) (CHR '' '')))"
  using assms by (auto simp: GetJenkinsOpts_def parse_opts_None split: option.splits)

section \<open>Properties\<close>

text \<open>
  C28. Creating or updating an object refines the abstract operation "put the object": on the
  in-memory API server it always succeeds, and afterwards the object, owned by the Jenkins, is
  stored under its key, all other objects being untouched; doing it twice is doing it once.
\<close>

theorem CreateOrUpdate_refines_put:
  assumes "wf_cluster w" and "proper_key (obj_key x)"
  shows "\<exists>s'. CreateOrUpdateResource (fake_env runs) j x \<lparr>world = w, log = l\<rparr> = (Done (Inr ()), s') \<and>
    wf_cluster (world s') \<and> lookup (world s') = (lookup w)(obj_key x \<mapsto> owned_by j x) \<and>
    owned_by j (owned_by j x) = owned_by j x"
proof -
  let ?s = "\<lparr>world = w, log = l\<rparr> :: cluster sys"
  have w: "wf_cluster (world ?s)" "lookup (world ?s) = lookup w" using assms(1) by simp_all
  have "achieves wf_cluster lookup (lookup w) (CreateOrUpdateResource (fake_env runs) j x)
      (gives (Inr ()) ((lookup w)(obj_key x \<mapsto> owned_by j x)))"
    by (rule fake.CreateOrUpdate_achieves) (simp_all add: assms(2))
  then obtain r s' where "CreateOrUpdateResource (fake_env runs) j x ?s = (Done r, s')"
    "wf_cluster (world s')" "gives (Inr ()) ((lookup w)(obj_key x \<mapsto> owned_by j x)) r (lookup (world s'))"
    using w by (rule achievesE)
  then show ?thesis by simp
qed

theorem CreateOrUpdate_refines_put_witness:
  "\<exists>s'. CreateOrUpdateResource (fake_env (\<lambda>q. None)) sample_jenkins (OPod sample_pod)
      \<lparr>world = \<lparr>objects = [], clock = 0\<rparr>, log = []\<rparr> = (Done (Inr ()), s') \<and> wf_cluster (world s')"
proof -
  have 1: "wf_cluster \<lparr>objects = [], clock = 0\<rparr>" by (simp add: wf_cluster_def)
  have 2: "proper_key (obj_key (OPod sample_pod))"
    by (simp add: proper_key_def obj_key_def sample_pod_def sample_meta_def cluster_scoped_def)
  from CreateOrUpdate_refines_put [OF 1 2, where runs = "\<lambda>q. None" and j = sample_jenkins and l = "[]"]
  show ?thesis by (elim exE conjE) (intro exI conjI)
qed



text \<open>
  Reading the Jenkins options panics exactly when the value of the first JENKINS_OPTS variable
  is not empty and has a piece without an equals sign, such as an option without a value or two
  spaces in a row.
\<close>

theorem GetJenkinsOpts_panics_iff:
  assumes "status_spec j = Some spec" and "first_container spec = Some c"
  shows "(GetJenkinsOpts j = None) =
    (\<exists>e. find (\<lambda>e. ev_name e = ''JENKINS_OPTS'') (jc_env c) = Some e \<and> ev_value e \<noteq> [] \<and>
      \<not> list_all (\<lambda>w. CHR ''='' \<in> set w) (Split (ev_value e) (CHR '' '')))"
  using assms by (rule GetJenkinsOpts_None)

theorem GetJenkinsOpts_panics_iff_witness:
  "GetJenkinsOpts (ready_jenkins (empty_spec\<lparr>js_master := Some (empty_master\<lparr>jm_containers :=
     [empty_jcontainer\<lparr>jc_env := [env_value ''JENKINS_OPTS'' ''--prefix=/x --debug'']\<rparr>]\<rparr>)\<rparr>)) = None"
  (is "GetJenkinsOpts (ready_jenkins ?spec) = None")
proof -
  have "first_container ?spec = Some (empty_jcontainer\<lparr>jc_env := [env_value ''JENKINS_OPTS'' ''--prefix=/x --debug'']\<rparr>)"
    by (simp add: first_container_def)
  from GetJenkinsOpts_panics_iff [OF full_spec_simps(1) this] show ?thesis by (simp add: env_value_def)
qed

text \<open>
  Connection settings that pass the validation give the address of the service inside the
  cluster when nothing is set, the node port or the port on the given host otherwise; a host
  without a port and without node port passes too and gives port 0.
\<close>

theorem api_url_of_valid_settings:
  assumes "Validate_settings st = None"
  shows "BuildJenkinsAPIUrl st name ns port nodePort =
    (if as_hostname st = [] then ''http://'' @ name @ ''.'' @ ns @ '':'' @ fmt_d port
     else if as_useNodePort st then ''http://'' @ as_hostname st @ '':'' @ fmt_d nodePort
     else ''http://'' @ as_hostname st @ '':'' @ fmt_d (as_port st)) \<and> as_port st \<ge> 0 \<and>
   Validate_settings \<lparr>as_hostname = as_hostname st, as_port = 0, as_useNodePort = False\<rparr> = None"
  using assms by (auto simp: Validate_settings_def BuildJenkinsAPIUrl_def split: if_splits)

theorem api_url_of_valid_settings_witness:
  "BuildJenkinsAPIUrl \<lparr>as_hostname = ''h'', as_port = 0, as_useNodePort = False\<rparr> ''s'' ''n'' 80 30000 = ''http://h:0''"
proof -
  have "Validate_settings \<lparr>as_hostname = ''h'', as_port = 0, as_useNodePort = False\<rparr> = None"
    by (simp add: Validate_settings_def)
  moreover have "fmt_d 0 = ''0''" by code_simp
  ultimately show ?thesis using api_url_of_valid_settings [of _ "''s''" "''n''" 80 30000] by simp
qed

end
