(* ===== verification/Base_Config.thy ===== *)
theory Base_Config
  imports Kube_Ops
begin

text \<open>
  The base configuration reconciler of \<^verbatim>\<open>pkg/configuration/base\<close>: every object the operator keeps
  for a Jenkins (\<^verbatim>\<open>reconcile.go\<close>, \<^verbatim>\<open>service.go\<close>, \<^verbatim>\<open>serviceaccount.go\<close>, \<^verbatim>\<open>rbac.go\<close>, \<^verbatim>\<open>route.go\<close>,
  \<^verbatim>\<open>configmap.go\<close>, \<^verbatim>\<open>deployment.go\<close>, \<^verbatim>\<open>container.go\<close>).  The reconciler holds a pointer to the
  \<open>Jenkins\<close> it works on and writes through it in two places; those functions return the object as
  they leave it.  The label map that the code shares between the metadata, the labels and the
  selector of a service is threaded explicitly.
\<close>

section \<open>Comparisons\<close>

definition compareContainerResources :: "requirements \<Rightarrow> requirements \<Rightarrow> bool" where
  "compareContainerResources expected actual \<longleftrightarrow>
     (let differs = (\<lambda>(e :: string gomap) a k. go_get e k \<noteq> None \<and> (go_get a k = None \<or> go_get e k \<noteq> go_get a k)) in
      if differs (rr_requests expected) (rr_requests actual) ''cpu'' then False
      else if differs (rr_requests expected) (rr_requests actual) ''memory'' then False
      else if differs (rr_limits expected) (rr_limits actual) ''cpu'' then False
      else if differs (rr_limits expected) (rr_limits actual) ''memory'' then False
      else True)"

definition compareImagePullSecrets :: "string list \<Rightarrow> string list \<Rightarrow> bool" where
  "compareImagePullSecrets expected actual = list_all (\<lambda>e. list_ex (\<lambda>a. e = a) actual) expected"

definition compareMap :: "string gomap \<Rightarrow> string gomap \<Rightarrow> bool" where
  "compareMap expected actual = list_all (\<lambda>(k, v). go_get actual k = Some v) (go_entries expected)"

definition is_kubernetes_env :: "env_var \<Rightarrow> bool" where
  "is_kubernetes_env e \<longleftrightarrow> ev_name e \<in> {''KUBERNETES_PORT_443_TCP_ADDR'', ''KUBERNETES_PORT'',
     ''KUBERNETES_PORT_443_TCP'', ''KUBERNETES_SERVICE_HOST''}"

text \<open>\<open>reflect.DeepEqual\<close> tells a nil slice from an empty one: the filtered slice is nil when empty.\<close>

definition nil_if_empty :: "'a list \<Rightarrow> 'a list option" where
  "nil_if_empty xs = (if xs = [] then None else Some xs)"

definition compareEnv :: "env_var list option \<Rightarrow> env_var list \<Rightarrow> bool" where
  "compareEnv expected actual \<longleftrightarrow> expected = nil_if_empty (filter (\<lambda>e. \<not> is_kubernetes_env e) actual)"

definition CompareContainerVolumeMounts :: "volume_mount list option \<Rightarrow> volume_mount list \<Rightarrow> bool" where
  "CompareContainerVolumeMounts expected actual \<longleftrightarrow>
     expected = nil_if_empty (filter (\<lambda>m. vm_mountPath m \<noteq> ''/var/run/secrets/kubernetes.io/serviceaccount'') actual)"

record kube_event =
  ke_type :: string
  ke_name :: string
  ke_message :: string
  ke_fieldPath :: string
  ke_last :: gotime

text \<open>The start time is dereferenced for every event: \<open>None\<close> when it is nil.\<close>

fun FilterEvents :: "gotime option \<Rightarrow> kube_event list \<Rightarrow> string \<Rightarrow> string list option" where
  "FilterEvents start [] podName = Some []"
| "FilterEvents None (e # es) podName = None"
| "FilterEvents (Some t) (e # es) podName =
     (if t > ke_last e \<or> ke_type e = ''Normal'' \<or> \<not> HasPrefix (ke_name e) podName
      then FilterEvents (Some t) es podName
      else map_option (\<lambda>ms. (''Message: '' @ ke_message e @ '' Subobject: '' @ ke_fieldPath e) # ms)
        (FilterEvents (Some t) es podName))"

section \<open>Config maps and the secret\<close>

text \<open>\<open>stackerr.WithStack(err)\<close> on a call whose object is not used further.\<close>

definition stacked :: "('w, goerr + 'a) prog \<Rightarrow> ('w, goerr + unit) prog" where
  "stacked p = bindP p (\<lambda>r. case r of Inl e \<Rightarrow> ret (Inl (Stacked e)) | Inr a \<Rightarrow> ret (Inr ()))"

definition createOperatorCredentialsSecret ::
  "'w env \<Rightarrow> (nat \<Rightarrow> nat \<Rightarrow> nat) \<Rightarrow> jenkins \<Rightarrow> obj_meta \<Rightarrow> ('w, goerr + unit) prog" where
  "createOperatorCredentialsSecret E intn j meta =
     bindP (client_get E KSecret as_secret (j_namespace j) (GetOperatorCredentialsSecretName j)) (\<lambda>r.
       case r of
         Inl e \<Rightarrow>
           if IsNotFound e
           then stacked (CreateResource E as_secret j (OSecret (NewOperatorCredentialsSecret intn meta j)))
           else ret (Inl (Stacked e))
       | Inr found \<Rightarrow>
           if go_get (sec_data found) ''user'' \<noteq> None \<and> go_get (sec_data found) ''password'' \<noteq> None
           then ret (Inr ())
           else stacked (UpdateResource E as_secret j (OSecret (NewOperatorCredentialsSecret intn meta j))))"

definition createScriptsConfigMap :: "'w env \<Rightarrow> jenkins \<Rightarrow> obj_meta \<Rightarrow> ('w, goerr + unit) prog" where
  "createScriptsConfigMap E j meta = (case NewScriptsConfigMap meta j of
     None \<Rightarrow> crash ''NewScriptsConfigMap''
   | Some cm \<Rightarrow> stacked (CreateOrUpdateResource E j (OConfigMap cm)))"

definition createInitConfigurationConfigMap :: "'w env \<Rightarrow> jenkins \<Rightarrow> obj_meta \<Rightarrow> ('w, goerr + unit) prog" where
  "createInitConfigurationConfigMap E j meta = (case NewInitConfigurationConfigMap meta j of
     None \<Rightarrow> crash ''NewInitConfigurationConfigMap''
   | Some cm \<Rightarrow> stacked (CreateOrUpdateResource E j (OConfigMap cm)))"

definition createBasePluginsConfigMap :: "'w env \<Rightarrow> jenkins \<Rightarrow> obj_meta \<Rightarrow> ('w, goerr + unit) prog" where
  "createBasePluginsConfigMap E j meta = (case NewBasePluginConfigMap meta j of
     None \<Rightarrow> crash ''NewBasePluginConfigMap''
   | Some cm \<Rightarrow> stacked (CreateOrUpdateResource E j (OConfigMap cm)))"

section \<open>Service account and roles\<close>

definition oauthAnnotationKey :: string where
  "oauthAnnotationKey = ''serviceaccounts.openshift.io/oauth-redirectreference.jenkins''"

definition oauthAnnotationValue :: "string \<Rightarrow> string" where
  "oauthAnnotationValue name = ''{'' @ dquote @ ''kind'' @ dquote @ '':'' @ dquote @ ''OAuthRedirectReference'' @ dquote @
     '','' @ dquote @ ''apiVersion'' @ dquote @ '':'' @ dquote @ ''v1'' @ dquote @ '','' @ dquote @ ''reference'' @ dquote @
     '':{'' @ dquote @ ''kind'' @ dquote @ '':'' @ dquote @ ''Route'' @ dquote @ '','' @ dquote @ ''name'' @ dquote @ '':'' @
     dquote @ name @ dquote @ ''}}''"

text \<open>The map with the annotation written into it; the specification's own map when it has one.\<close>

definition sa_annotations :: "jenkins \<Rightarrow> (string \<times> string) list" where
  "sa_annotations j = AList.update oauthAnnotationKey (oauthAnnotationValue (om_name (NewResourceObjectMeta j)))
     (go_entries (js_saAnnotations (j_spec j)))"

definition write_sa_annotation :: "jenkins \<Rightarrow> jenkins" where
  "write_sa_annotation j = (case js_saAnnotations (j_spec j) of
     None \<Rightarrow> j
   | Some m \<Rightarrow> j\<lparr>j_spec := (j_spec j)\<lparr>js_saAnnotations := Some (sa_annotations j)\<rparr>\<rparr>)"

definition sync_annotations :: "'w env \<Rightarrow> jenkins \<Rightarrow> string gomap \<Rightarrow> service_account \<Rightarrow> ('w, goerr + unit) prog" where
  "sync_annotations E j annotations sa =
     (if compareMap annotations (om_annotations (sa_meta sa)) then ret (Inr ())
      else
        (let target = (case om_annotations (sa_meta sa) of None \<Rightarrow> Some [] | Some m \<Rightarrow> Some m) in
         case go_put_all target (go_entries annotations) of
           None \<Rightarrow> crash ''assignment to entry in nil map''
         | Some m \<Rightarrow> stacked (UpdateResource E as_service_account j
             (OServiceAccount (sa\<lparr>sa_meta := (sa_meta sa)\<lparr>om_annotations := m\<rparr>\<rparr>)))))"

definition createServiceAccount :: "'w env \<Rightarrow> jenkins \<Rightarrow> ('w, (goerr + unit) \<times> jenkins) prog" where
  "createServiceAccount E j =
     (let meta = NewResourceObjectMeta j in
      bindP (client_get E KServiceAccount as_service_account (om_namespace meta) (om_name meta)) (\<lambda>r.
        let annotations = Some (sa_annotations j); j' = write_sa_annotation j in
        bindP
          (case r of
             Inl e \<Rightarrow>
               if IsNotFound e
               then bindP (CreateResource E as_service_account j' (OServiceAccount (NewServiceAccount meta annotations))) (\<lambda>cr.
                 case cr of Inl e \<Rightarrow> ret (Inl (Stacked e)) | Inr sa \<Rightarrow> sync_annotations E j' annotations sa)
               else ret (Inl (Stacked e))
           | Inr sa \<Rightarrow> sync_annotations E j' annotations sa)
          (\<lambda>res. ret (res, j'))))"

definition createRBAC :: "'w env \<Rightarrow> jenkins \<Rightarrow> ('w, (goerr + unit) \<times> jenkins) prog" where
  "createRBAC E j =
     (let meta = NewResourceObjectMeta j in
      bindP (createServiceAccount E j) (\<lambda>(r, j'). case r of
        Inl e \<Rightarrow> ret (Inl e, j')
      | Inr _ \<Rightarrow>
          let jenkinsRole = \<lparr>rf_apiGroup = ''rbac.authorization.k8s.io'', rf_kind = ''Role'', rf_name = om_name meta\<rparr>;
              binding = NewRoleBinding j' jenkinsRole in
          bindP (bindE (stacked (CreateOrUpdateResource E j' (ORole (NewRole j')))) (\<lambda>_.
            stacked (CreateOrUpdateResource E j'
              (ORoleBinding (binding\<lparr>rb_meta := (rb_meta binding)\<lparr>om_name := om_name meta\<rparr>\<rparr>)))))
            (\<lambda>res. ret (res, j'))))"

text \<open>The extra role bindings of a Jenkins are recognised by the prefix of their name.\<close>

definition is_extra_binding :: "jenkins \<Rightarrow> string \<Rightarrow> bool" where
  "is_extra_binding j name \<longleftrightarrow>
     HasPrefix name (GetExtraRoleBindingName j \<lparr>rf_apiGroup = [], rf_kind = ''Role'', rf_name = []\<rparr>) \<or>
     HasPrefix name (GetExtraRoleBindingName j \<lparr>rf_apiGroup = [], rf_kind = ''ClusterRole'', rf_name = []\<rparr>)"

fun create_bindings :: "'w env \<Rightarrow> jenkins \<Rightarrow> role_ref list \<Rightarrow> ('w, goerr + unit) prog" where
  "create_bindings E j [] = ret (Inr ())"
| "create_bindings E j (rf # rfs) =
     bindE (stacked (CreateOrUpdateResource E j (ORoleBinding (NewRoleBinding j rf))))
       (\<lambda>_. create_bindings E j rfs)"

fun delete_bindings :: "'w env \<Rightarrow> jenkins \<Rightarrow> role_ref list \<Rightarrow> role_binding list \<Rightarrow> ('w, goerr + unit) prog" where
  "delete_bindings E j roles [] = ret (Inr ())"
| "delete_bindings E j roles (rb # rbs) =
     (if \<not> is_extra_binding j (om_name (rb_meta rb)) then delete_bindings E j roles rbs
      else if list_ex (\<lambda>rf. om_name (rb_meta rb) = GetExtraRoleBindingName j rf) roles
      then delete_bindings E j roles rbs
      else bindE (stacked (client_delete E (ORoleBinding rb))) (\<lambda>_. delete_bindings E j roles rbs))"

definition ensureExtraRBACArePresent :: "'w env \<Rightarrow> jenkins \<Rightarrow> ('w, goerr + unit) prog" where
  "ensureExtraRBACArePresent E j = (case status_spec j of
     None \<Rightarrow> crash ''nil pointer dereference: Status.Spec''
   | Some spec \<Rightarrow>
       let roles = (case js_roles spec of None \<Rightarrow> [] | Some rs \<Rightarrow> rs) in
       bindE (create_bindings E j roles) (\<lambda>_.
       bindP (client_list E KRoleBinding as_role_binding (Some (j_namespace j)) None) (\<lambda>r. case r of
         Inl e \<Rightarrow> ret (Inl (Stacked e))
       | Inr items \<Rightarrow> delete_bindings E j roles items)))"

section \<open>Services and the route\<close>

text \<open>The last three statements of \<open>createService\<close>.\<close>

definition update_service :: "'w env \<Rightarrow> jenkins \<Rightarrow> obj_meta \<Rightarrow> jservice \<Rightarrow> service \<Rightarrow> ('w, goerr + obj_meta) prog" where
  "update_service E j meta config svc =
     (case UpdateService (svc\<lparr>svc_selector := om_labels meta\<rparr>) config of
        None \<Rightarrow> crash ''assignment to entry in nil map''
      | Some s \<Rightarrow> bindE (stacked (UpdateResource E as_service j (OService s))) (\<lambda>_. ret (Inr meta)))"

text \<open>
  For a new service the label map of \<open>meta\<close> is at once the labels and the selector of the service,
  and \<open>UpdateService\<close> writes the configured labels into it: all three see them.  The result is
  \<open>meta\<close> as the caller finds it afterwards.
\<close>

definition createService :: "'w env \<Rightarrow> jenkins \<Rightarrow> obj_meta \<Rightarrow> string \<Rightarrow> jservice \<Rightarrow> ('w, goerr + obj_meta) prog" where
  "createService E j meta name config =
     bindP (client_get E KService as_service (om_namespace meta) name) (\<lambda>r. case r of
       Inl e \<Rightarrow>
         if IsNotFound e then
           (case UpdateService \<lparr>svc_meta = empty_meta\<lparr>om_name := name, om_namespace := om_namespace meta,
                om_labels := om_labels meta\<rparr>, svc_selector = om_labels meta, svc_type = [], svc_lbIP = [],
                svc_lbRanges = None, svc_ports = [], svc_clusterIP = []\<rparr> config of
              None \<Rightarrow> crash ''assignment to entry in nil map''
            | Some s \<Rightarrow>
                let shared = om_labels (svc_meta s) in
                bindP (CreateResource E as_service j (OService (s\<lparr>svc_selector := shared\<rparr>))) (\<lambda>cr. case cr of
                  Inl e \<Rightarrow> ret (Inl (Stacked e))
                | Inr svc \<Rightarrow> update_service E j (meta\<lparr>om_labels := shared\<rparr>) config svc))
         else ret (Inl (Stacked e))
     | Inr svc \<Rightarrow> update_service E j meta config svc)"

definition newRouteSpect :: "string \<Rightarrow> int_or_string option \<Rightarrow> obj_meta \<Rightarrow> route" where
  "newRouteSpect serviceName port meta =
     \<lparr>rt_meta = meta, rt_tls = Some (''edge'', ''Redirect''), rt_toKind = ''Service'', rt_toName = serviceName,
      rt_port = port\<rparr>"

definition newRoute :: "obj_meta \<Rightarrow> string \<Rightarrow> string \<Rightarrow> route" where
  "newRoute meta name serviceName =
     newRouteSpect serviceName (Some \<lparr>ios_isString = True, ios_int = 0, ios_str = []\<rparr>)
       (empty_meta\<lparr>om_name := name, om_namespace := om_namespace meta, om_labels := om_labels meta\<rparr>)"

definition createRoute :: "'w env \<Rightarrow> obj_meta \<Rightarrow> string \<Rightarrow> jenkins \<Rightarrow> ('w, goerr + unit) prog" where
  "createRoute E meta serviceName j =
     (let name = ''jenkins-'' @ j_name j in
      bindP (client_get E KRoute as_route (om_namespace meta) name) (\<lambda>r. case r of
        Inl e \<Rightarrow>
          if IsNotFound e then
            (case UpdateRoute (newRoute meta name serviceName) j of
               None \<Rightarrow> crash ''UpdateRoute''
             | Some route \<Rightarrow> stacked (CreateResource E as_route j (ORoute route)))
          else ret (Inl (Stacked e))
      | Inr route \<Rightarrow>
          (case UpdateRoute (route\<lparr>rt_meta := (rt_meta route)\<lparr>om_labels := om_labels meta\<rparr>\<rparr>) j of
             None \<Rightarrow> crash ''UpdateRoute''
           | Some route \<Rightarrow>
               bindP (UpdateResource E as_route j (ORoute route)) (\<lambda>u. case u of
                 Inr _ \<Rightarrow> ret (Inr ())
               | Inl e \<Rightarrow>
                   if Contains (err_text e) ''please apply your changes to the latest version and try again''
                   then ret (Inr ()) else ret (Inl (Stacked e))))))"

section \<open>The deployment\<close>

definition deployment_event :: "jenkins \<Rightarrow> string \<Rightarrow> notification" where
  "deployment_event j msg = \<lparr>nt_jenkins = j, nt_phase = PhaseBase, nt_level = NotificationLevelInfo,
     nt_reason = NewDeploymentEvent OperatorSource [msg] []\<rparr>"

definition ensureJenkinsDeploymentIsReady :: "'w env \<Rightarrow> jenkins \<Rightarrow> ('w, goerr + result) prog" where
  "ensureJenkinsDeploymentIsReady E j =
     bindP (GetJenkinsDeployment E j) (\<lambda>r. case r of
       Inl e \<Rightarrow> crash ''nil pointer dereference: jenkinsDeployment''
     | Inr d \<Rightarrow> if dp_available d = 0 then ret (Inr requeue_result) else ret (Inr empty_result))"

text \<open>
  The end of \<open>ensureJenkinsDeploymentIsPresent\<close>; \<open>outer\<close> is the error of the first read, which the
  inner declarations do not overwrite.
\<close>

definition deployment_recorded ::
  "string \<Rightarrow> jenkins \<Rightarrow> goerr option \<Rightarrow> deployment \<Rightarrow> ('w, (goerr + result) \<times> jenkins) prog" where
  "deployment_recorded version j outer d =
     (if om_creation (dp_meta d) = None
      then ret (case outer of None \<Rightarrow> Inr requeue_result | Some e \<Rightarrow> Inl e, j)
      else (case j_status j of
         None \<Rightarrow> crash ''nil pointer dereference: Status''
       | Some st \<Rightarrow> ret (Inr empty_result, j\<lparr>j_status := Some (st\<lparr>jst_operatorVersion := version\<rparr>)\<rparr>)))"

definition ensureJenkinsDeploymentIsPresent ::
  "'w env \<Rightarrow> string \<Rightarrow> jenkins \<Rightarrow> obj_meta \<Rightarrow> ('w, (goerr + result) \<times> jenkins) prog" where
  "ensureJenkinsDeploymentIsPresent E version j meta =
     bindP (GetJenkinsDeployment E j) (\<lambda>r. case r of
       Inr d \<Rightarrow> deployment_recorded version j None d
     | Inl e \<Rightarrow>
         if \<not> IsNotFound e then crash ''nil pointer dereference: jenkinsDeployment''
         else
           (case Option.bind (status_spec j) (NewJenkinsDeployment (e_getenv E) meta j) of
              None \<Rightarrow> crash ''NewJenkinsDeployment''
            | Some d \<Rightarrow>
                bindP (notify (deployment_event j ''Creating a Jenkins Deployment'')) (\<lambda>_.
                bindP (CreateResource E as_deployment j (ODeployment d)) (\<lambda>cr. case cr of
                  Inl e' \<Rightarrow> ret (Inl (Stacked e'), j)
                | Inr _ \<Rightarrow>
                    bindP (GetJenkinsDeployment E j) (\<lambda>r2. case r2 of
                      Inl e' \<Rightarrow> ret (Inl (Stacked e'), j)
                    | Inr d2 \<Rightarrow>
                        bindP (notify (deployment_event j
                          (''Deployment '' @ om_name (dp_meta d) @ '' successfully created''))) (\<lambda>_.
                        deployment_recorded version j (Some e) d2))))))"

section \<open>Reconciliation\<close>

text \<open>
  The process-wide values the reconciler uses: the random numbers, whether routes are available,
  the version of the operator, and the text of a time.
\<close>

record base_deps =
  bd_intn :: "nat \<Rightarrow> nat \<Rightarrow> nat"
  bd_routes :: bool
  bd_version :: string
  bd_showTime :: "gotime \<Rightarrow> string"

definition ensure_network :: "'w env \<Rightarrow> base_deps \<Rightarrow> jenkins \<Rightarrow> obj_meta \<Rightarrow> ('w, goerr + unit) prog" where
  "ensure_network E D j meta = (case status_spec j of
     None \<Rightarrow> crash ''nil pointer dereference: Status.Spec''
   | Some spec \<Rightarrow>
       bindE (createService E j meta (GetJenkinsHTTPServiceName j) (js_service spec)) (\<lambda>meta.
       bindE (createService E j meta (GetJenkinsJNLPServiceName j) (js_jnlpService spec)) (\<lambda>meta.
       if bd_routes D then createRoute E meta (GetJenkinsHTTPServiceName j) j else ret (Inr ()))))"

definition ensureResourcesRequiredForJenkinsDeploymentArePresent ::
  "'w env \<Rightarrow> base_deps \<Rightarrow> jenkins \<Rightarrow> ('w, (goerr + unit) \<times> jenkins) prog" where
  "ensureResourcesRequiredForJenkinsDeploymentArePresent E D j =
     (let meta = NewResourceObjectMeta j in
      bindP (bindE (createOperatorCredentialsSecret E (bd_intn D) j meta) (\<lambda>_.
             bindE (createScriptsConfigMap E j meta) (\<lambda>_.
             bindE (createInitConfigurationConfigMap E j meta) (\<lambda>_.
             createBasePluginsConfigMap E j meta)))) (\<lambda>r. case r of
        Inl e \<Rightarrow> ret (Inl e, j)
      | Inr _ \<Rightarrow>
          bindP (createRBAC E j) (\<lambda>(r, j'). case r of
            Inl e \<Rightarrow> ret (Inl e, j')
          | Inr _ \<Rightarrow>
              bindP (bindE (ensureExtraRBACArePresent E j') (\<lambda>_. ensure_network E D j' meta))
                (\<lambda>res. ret (res, j')))))"

definition check_pod :: "'w env \<Rightarrow> base_deps \<Rightarrow> jenkins \<Rightarrow> result \<Rightarrow> ('w, goerr + result) prog" where
  "check_pod E D j res =
     bindE (GetPodByDeployment E j) (\<lambda>p.
       case om_deletion (pod_meta p) of
         None \<Rightarrow> ret (Inr res)
       | Some t \<Rightarrow> ret (Inl (TextErr (''jenkins pod '' @ om_name (pod_meta p) @
           '' in Terminating state with DeletionTimestamp '' @ bd_showTime D t))))"

definition BaseReconcile :: "'w env \<Rightarrow> base_deps \<Rightarrow> jenkins \<Rightarrow> ('w, (goerr + result) \<times> jenkins) prog" where
  "BaseReconcile E D j =
     (let meta = NewResourceObjectMeta j in
      bindP (ensureResourcesRequiredForJenkinsDeploymentArePresent E D j) (\<lambda>(r, j). case r of
        Inl e \<Rightarrow> ret (Inl e, j)
      | Inr _ \<Rightarrow>
          bindP (ensureJenkinsDeploymentIsPresent E (bd_version D) j meta) (\<lambda>(r, j). case r of
            Inl e \<Rightarrow> ret (Inl e, j)
          | Inr _ \<Rightarrow>
              bindP (bindE (ensureJenkinsDeploymentIsReady E j) (\<lambda>res. check_pod E D j res))
                (\<lambda>res. ret (res, j)))))"

section \<open>Lemmas\<close>

lemma achieves_stacked:
  assumes "achieves valid stored m p Q"
    and "\<And>a m'. Q (Inr a) m' \<Longrightarrow> R (Inr ()) m'" and "\<And>e m'. Q (Inl e) m' \<Longrightarrow> R (Inl (Stacked e)) m'"
  shows "achieves valid stored m (stacked p) R"
  unfolding stacked_def
proof (rule achieves_bindP [OF assms(1)])
  fix r m'
  assume "Q r m'"
  with assms(2,3) show "achieves valid stored m'
      (case r of Inl e \<Rightarrow> ret (Inl (Stacked e)) | Inr a \<Rightarrow> ret (Inr ())) R"
    by (cases r) (simp_all add: achieves_ret)
qed

text \<open>One key is written, to an object with a property; nothing else changes.\<close>

definition put_post :: "kind \<times> string \<times> string \<Rightarrow> (kobj \<Rightarrow> bool) \<Rightarrow> store \<Rightarrow> store \<Rightarrow> bool" where
  "put_post k P m m' \<longleftrightarrow> (\<forall>k'. k' \<noteq> k \<longrightarrow> m' k' = m k') \<and> (\<exists>x. m' k = Some x \<and> P x)"

lemma put_post_upd: "P x \<Longrightarrow> put_post k P m (m(k \<mapsto> x))"
  by (simp add: put_post_def)

text \<open>The names of a Jenkins make proper keys.\<close>

definition located :: "jenkins \<Rightarrow> bool" where
  "located j \<longleftrightarrow> j_namespace j \<noteq> []"

lemma proper_names:
  assumes "located j" and "\<not> cluster_scoped k" and "n \<noteq> []"
  shows "proper_key (k, j_namespace j, n)"
  using assms by (simp add: proper_key_def located_def)

lemma names_nonempty [simp]:
  "GetResourceName j \<noteq> []" "GetJenkinsDeploymentName j \<noteq> []" "GetJenkinsHTTPServiceName j \<noteq> []"
  "GetJenkinsJNLPServiceName j \<noteq> []" "getScriptsConfigMapName j \<noteq> []" "GetInitConfigurationConfigMapName j \<noteq> []"
  "GetBasePluginsVolumeNameConfigMapName j \<noteq> []" "GetOperatorCredentialsSecretName j \<noteq> []"
  "GetExtraRoleBindingName j rf \<noteq> []"
  by (simp_all add: name_defs)

lemma meta_simps [simp]:
  "om_name (NewResourceObjectMeta j) = GetResourceName j"
  "om_namespace (NewResourceObjectMeta j) = j_namespace j"
  "om_ownerRefs (NewResourceObjectMeta j) = []"
  "om_labels (NewResourceObjectMeta j) = Some (BuildResourceLabels j)"
  by (simp_all add: NewResourceObjectMeta_def empty_meta_def)

lemma scoped [simp]: "cluster_scoped k \<longleftrightarrow> k \<in> {KClusterRole, KNamespace}"
  by (auto simp: cluster_scoped_def)

text \<open>Writing the annotation changes neither the identity nor the status of the Jenkins.\<close>

lemma write_sa_simps [simp]:
  "j_meta (write_sa_annotation j) = j_meta j" "j_status (write_sa_annotation j) = j_status j"
  by (simp_all add: write_sa_annotation_def split: option.splits)

lemma same_identity:
  assumes "j_meta j' = j_meta j"
  shows "j_name j' = j_name j" "j_namespace j' = j_namespace j" "NewResourceObjectMeta j' = NewResourceObjectMeta j"
    "GetExtraRoleBindingName j' rf = GetExtraRoleBindingName j rf"
    "GetJenkinsHTTPServiceName j' = GetJenkinsHTTPServiceName j"
    "GetJenkinsJNLPServiceName j' = GetJenkinsJNLPServiceName j" "owned_by j' x = owned_by j x"
    "located j' = located j" "is_extra_binding j' n = is_extra_binding j n"
  using assms by (simp_all add: j_name_def j_namespace_def name_defs owned_by_def located_def is_extra_binding_def)

lemma status_spec_same: "j_status j' = j_status j \<Longrightarrow> status_spec j' = status_spec j"
  by (simp add: status_spec_def)

lemma config_map_keys:
  "NewScriptsConfigMap (NewResourceObjectMeta j) j = Some cm \<Longrightarrow>
     obj_key (OConfigMap cm) = (KConfigMap, j_namespace j, getScriptsConfigMapName j)"
  "NewInitConfigurationConfigMap (NewResourceObjectMeta j) j = Some cm \<Longrightarrow>
     obj_key (OConfigMap cm) = (KConfigMap, j_namespace j, GetInitConfigurationConfigMapName j)"
  "NewBasePluginConfigMap (NewResourceObjectMeta j) j = Some cm \<Longrightarrow>
     obj_key (OConfigMap cm) = (KConfigMap, j_namespace j, GetBasePluginsVolumeNameConfigMapName j)"
  by (auto simp: NewScriptsConfigMap_def NewInitConfigurationConfigMap_def NewBasePluginConfigMap_def
      bind_eq_Some_conv obj_key_def)

context kube_server
begin

lemma update_owned:
  assumes "proper_key (obj_key x)" and "m (obj_key x) \<noteq> None" and "sel (owned_by j x) = Some a"
  shows "achieves valid stored m (UpdateResource E sel j x) (gives (Inr a) (m(obj_key x \<mapsto> owned_by j x)))"
  unfolding UpdateResource_def using assms by (intro achieves_update) simp_all

lemma create_owned:
  assumes "proper_key (obj_key x)" and "m (obj_key x) = None" and "sel (owned_by j x) = Some a"
    and "om_ownerRefs (meta_of x) = []" and "om_namespace (meta_of x) = j_namespace j"
  shows "achieves valid stored m (CreateResource E sel j x) (gives (Inr a) (m(obj_key x \<mapsto> owned_by j x)))"
  unfolding CreateResource_fresh [OF assms(4,5)] using assms by (intro achieves_create) simp_all

end

end
