(* ===== verification/Base_Desired.thy ===== *)
theory Base_Desired
  imports Base_Config
begin

text \<open>
  What one pass of the base reconciler makes of the objects on an API server, as a function on the
  stored objects: for each key the operator keeps, the object it leaves there, given the one it
  finds.  Every function of the pass is proved to implement its part of \<open>desired_state\<close>.
\<close>

section \<open>Objects with an owner\<close>

lemma owned_map: "\<exists>m. owned_by j x = map_meta (\<lambda>_. m) x"
proof (cases "SetControllerReference ''Jenkins'' (j_meta j) (meta_of x)")
  case (Inl e)
  then show ?thesis by (intro exI [of _ "meta_of x"]) (cases x; simp add: owned_by_def)
next
  case (Inr m)
  then show ?thesis by (auto simp: owned_by_def)
qed

lemma owned_secret: "\<exists>m. owned_by j (OSecret s) = OSecret (s\<lparr>sec_meta := m\<rparr>)"
  using owned_map [of j "OSecret s"] by simp
lemma owned_service: "\<exists>m. owned_by j (OService s) = OService (s\<lparr>svc_meta := m\<rparr>)"
  using owned_map [of j "OService s"] by simp
lemma owned_account: "\<exists>m. owned_by j (OServiceAccount s) = OServiceAccount (s\<lparr>sa_meta := m\<rparr>)"
  using owned_map [of j "OServiceAccount s"] by simp
lemma owned_route: "\<exists>m. owned_by j (ORoute s) = ORoute (s\<lparr>rt_meta := m\<rparr>)"
  using owned_map [of j "ORoute s"] by simp

text \<open>An object under a key of its kind.\<close>

lemma kind_cases:
  "obj_key x = (KSecret, ns, n) \<Longrightarrow> \<exists>s. x = OSecret s"
  "obj_key x = (KService, ns, n) \<Longrightarrow> \<exists>s. x = OService s"
  "obj_key x = (KServiceAccount, ns, n) \<Longrightarrow> \<exists>s. x = OServiceAccount s"
  "obj_key x = (KRoute, ns, n) \<Longrightarrow> \<exists>s. x = ORoute s"
  "obj_key x = (KRoleBinding, ns, n) \<Longrightarrow> \<exists>s. x = ORoleBinding s"
  by (cases x; simp add: obj_key_def)+

lemma kind_decodes:
  "obj_key x = (KSecret, ns, n) \<Longrightarrow> as_secret x \<noteq> None"
  "obj_key x = (KService, ns, n) \<Longrightarrow> as_service x \<noteq> None"
  "obj_key x = (KServiceAccount, ns, n) \<Longrightarrow> as_service_account x \<noteq> None"
  "obj_key x = (KRoute, ns, n) \<Longrightarrow> as_route x \<noteq> None"
  "obj_key x = (KRoleBinding, ns, n) \<Longrightarrow> as_role_binding x \<noteq> None"
  by (auto dest: kind_cases simp: as_defs)

lemma decoded:
  "as_secret x = Some a \<longleftrightarrow> x = OSecret a"
  "as_service x = Some b \<longleftrightarrow> x = OService b"
  "as_service_account x = Some c \<longleftrightarrow> x = OServiceAccount c"
  "as_route x = Some d \<longleftrightarrow> x = ORoute d"
  "as_role_binding x = Some f \<longleftrightarrow> x = ORoleBinding f"
  by (cases x; simp add: as_defs)+

lemma owned_keeps: "\<exists>rs. meta_of (owned_by j x) = (meta_of x)\<lparr>om_ownerRefs := rs\<rparr>"
proof (cases "SetControllerReference ''Jenkins'' (j_meta j) (meta_of x)")
  case (Inl e)
  then show ?thesis by (intro exI [of _ "om_ownerRefs (meta_of x)"]) (simp add: owned_by_def)
next
  case (Inr m)
  with SetControllerReference_Inr [OF this] show ?thesis by (auto simp: owned_by_def)
qed

lemma owned_same: "j_meta j' = j_meta j \<Longrightarrow> owned_by j' = owned_by j"
  by (rule ext) (rule same_identity(7))

lemma CreateOrUpdateResource_same:
  assumes "j_meta j' = j_meta j"
  shows "CreateOrUpdateResource E j' x = CreateOrUpdateResource E j x"
  by (simp only: CreateOrUpdateResource_def UpdateResource_def owned_same [OF assms])

section \<open>The objects\<close>

text \<open>One key gets a new object, which may depend on the one found.\<close>

definition put_at :: "kind \<times> string \<times> string \<Rightarrow> (kobj option \<Rightarrow> kobj) \<Rightarrow> store \<Rightarrow> store" where
  "put_at k g m = m(k \<mapsto> g (m k))"

lemma put_at_simps [simp]: "put_at k g m k = Some (g (m k))" "k' \<noteq> k \<Longrightarrow> put_at k g m k' = m k'"
  by (simp_all add: put_at_def)

lemma put_at_stable: "m k = Some x \<Longrightarrow> g (Some x) = x \<Longrightarrow> put_at k g m = m"
  by (auto simp: put_at_def)

text \<open>A secret with both entries is kept, every other one replaced.\<close>

definition desired_secret :: "(nat \<Rightarrow> nat \<Rightarrow> nat) \<Rightarrow> jenkins \<Rightarrow> kobj option \<Rightarrow> kobj" where
  "desired_secret intn j found = (case found of
     Some (OSecret s) \<Rightarrow>
       if go_get (sec_data s) ''user'' \<noteq> None \<and> go_get (sec_data s) ''password'' \<noteq> None then OSecret s
       else owned_by j (OSecret (NewOperatorCredentialsSecret intn (NewResourceObjectMeta j) j))
   | _ \<Rightarrow> owned_by j (OSecret (NewOperatorCredentialsSecret intn (NewResourceObjectMeta j) j)))"

text \<open>A service account keeps its other annotations.\<close>

definition synced_account :: "jenkins \<Rightarrow> (string \<times> string) list \<Rightarrow> service_account \<Rightarrow> kobj" where
  "synced_account j kvs sa =
     (if compareMap (Some kvs) (om_annotations (sa_meta sa)) then OServiceAccount sa
      else (case go_put_all (Some (go_entries (om_annotations (sa_meta sa)))) kvs of
          None \<Rightarrow> OServiceAccount sa
        | Some m \<Rightarrow> owned_by j (OServiceAccount (sa\<lparr>sa_meta := (sa_meta sa)\<lparr>om_annotations := m\<rparr>\<rparr>))))"

definition desired_account :: "jenkins \<Rightarrow> kobj option \<Rightarrow> kobj" where
  "desired_account j found = (case found of
     Some (OServiceAccount sa) \<Rightarrow> synced_account j (sa_annotations j) sa
   | _ \<Rightarrow> owned_by j (OServiceAccount (NewServiceAccount (NewResourceObjectMeta j) (Some (sa_annotations j)))))"

definition default_binding :: "jenkins \<Rightarrow> role_binding" where
  "default_binding j =
     (let rb = NewRoleBinding j \<lparr>rf_apiGroup = ''rbac.authorization.k8s.io'', rf_kind = ''Role'', rf_name = GetResourceName j\<rparr>
      in rb\<lparr>rb_meta := (rb_meta rb)\<lparr>om_name := GetResourceName j\<rparr>\<rparr>)"

text \<open>
  Among the names of extra role bindings there are exactly those of the listed roles; of several
  roles that give one name the last one counts.
\<close>

definition binding_for :: "jenkins \<Rightarrow> role_ref list \<Rightarrow> string \<Rightarrow> kobj option" where
  "binding_for j roles n = map_option (\<lambda>rf. owned_by j (ORoleBinding (NewRoleBinding j rf)))
     (find (\<lambda>rf. GetExtraRoleBindingName j rf = n) (rev roles))"

definition desired_bindings :: "jenkins \<Rightarrow> role_ref list \<Rightarrow> store \<Rightarrow> store" where
  "desired_bindings j roles m = (\<lambda>(k, ns, n).
     if k = KRoleBinding \<and> ns = j_namespace j \<and> is_extra_binding j n then binding_for j roles n else m (k, ns, n))"

definition updated_service :: "jenkins \<Rightarrow> string gomap \<Rightarrow> jservice \<Rightarrow> service \<Rightarrow> kobj" where
  "updated_service j labels config svc = (case UpdateService (svc\<lparr>svc_selector := labels\<rparr>) config of
     None \<Rightarrow> OService svc
   | Some s \<Rightarrow> owned_by j (OService s))"

definition blank_service :: "jenkins \<Rightarrow> string gomap \<Rightarrow> string \<Rightarrow> service" where
  "blank_service j labels n = \<lparr>svc_meta = empty_meta\<lparr>om_name := n, om_namespace := j_namespace j, om_labels := labels\<rparr>,
     svc_selector = labels, svc_type = [], svc_lbIP = [], svc_lbRanges = None, svc_ports = [], svc_clusterIP = []\<rparr>"

text \<open>The label map after a service has been kept: a new service and its creator share it.\<close>

definition shared_labels :: "string gomap \<Rightarrow> jservice \<Rightarrow> kobj option \<Rightarrow> string gomap" where
  "shared_labels labels config found = (case found of
     None \<Rightarrow> (case go_put_all labels (go_entries (sv_labels config)) of None \<Rightarrow> labels | Some l \<Rightarrow> l)
   | Some x \<Rightarrow> labels)"

definition desired_service :: "jenkins \<Rightarrow> string gomap \<Rightarrow> string \<Rightarrow> jservice \<Rightarrow> kobj option \<Rightarrow> kobj" where
  "desired_service j labels n config found = (case found of
     Some (OService svc) \<Rightarrow> updated_service j labels config svc
   | _ \<Rightarrow>
       let shared = shared_labels labels config None in
       case updated_service j shared config (blank_service j labels n) of
         OService svc \<Rightarrow> updated_service j shared config svc
       | x \<Rightarrow> x)"

definition desired_route :: "jenkins \<Rightarrow> obj_meta \<Rightarrow> kobj option \<Rightarrow> kobj" where
  "desired_route j meta found =
     (let route = (case found of
          Some (ORoute r) \<Rightarrow> r\<lparr>rt_meta := (rt_meta r)\<lparr>om_labels := om_labels meta\<rparr>\<rparr>
        | _ \<Rightarrow> newRoute meta (''jenkins-'' @ j_name j) (GetJenkinsHTTPServiceName j)) in
      case UpdateRoute route j of None \<Rightarrow> ORoute route | Some r \<Rightarrow> owned_by j (ORoute r))"

section \<open>The pass\<close>

abbreviation secret_key :: "jenkins \<Rightarrow> kind \<times> string \<times> string" where
  "secret_key j \<equiv> (KSecret, j_namespace j, GetOperatorCredentialsSecretName j)"

abbreviation account_key :: "jenkins \<Rightarrow> kind \<times> string \<times> string" where
  "account_key j \<equiv> (KServiceAccount, j_namespace j, GetResourceName j)"

abbreviation http_key :: "jenkins \<Rightarrow> kind \<times> string \<times> string" where
  "http_key j \<equiv> (KService, j_namespace j, GetJenkinsHTTPServiceName j)"

abbreviation jnlp_key :: "jenkins \<Rightarrow> kind \<times> string \<times> string" where
  "jnlp_key j \<equiv> (KService, j_namespace j, GetJenkinsJNLPServiceName j)"

abbreviation route_key :: "jenkins \<Rightarrow> kind \<times> string \<times> string" where
  "route_key j \<equiv> (KRoute, j_namespace j, ''jenkins-'' @ j_name j)"

text \<open>An object whose content does not depend on what is there.\<close>

definition put_owned :: "jenkins \<Rightarrow> kobj \<Rightarrow> store \<Rightarrow> store" where
  "put_owned j x m = m(obj_key x \<mapsto> owned_by j x)"

definition put_config_map :: "jenkins \<Rightarrow> config_map option \<Rightarrow> store \<Rightarrow> store" where
  "put_config_map j cm m = (case cm of None \<Rightarrow> m | Some cm \<Rightarrow> put_owned j (OConfigMap cm) m)"

definition desired_configs :: "(nat \<Rightarrow> nat \<Rightarrow> nat) \<Rightarrow> jenkins \<Rightarrow> store \<Rightarrow> store" where
  "desired_configs intn j m =
     (let meta = NewResourceObjectMeta j in
      put_config_map j (NewBasePluginConfigMap meta j)
        (put_config_map j (NewInitConfigurationConfigMap meta j)
          (put_config_map j (NewScriptsConfigMap meta j)
            (put_at (secret_key j) (desired_secret intn j) m))))"

definition desired_rbac :: "jenkins \<Rightarrow> store \<Rightarrow> store" where
  "desired_rbac j m =
     put_owned j (ORoleBinding (default_binding j))
       (put_owned j (ORole (NewRole j)) (put_at (account_key j) (desired_account j) m))"

definition desired_network :: "bool \<Rightarrow> jenkins \<Rightarrow> jenkins_spec \<Rightarrow> store \<Rightarrow> store" where
  "desired_network routes j spec m =
     (let meta = NewResourceObjectMeta j;
          l1 = shared_labels (om_labels meta) (js_service spec) (m (http_key j));
          m1 = put_at (http_key j) (desired_service j (om_labels meta) (GetJenkinsHTTPServiceName j) (js_service spec)) m;
          l2 = shared_labels l1 (js_jnlpService spec) (m1 (jnlp_key j));
          m2 = put_at (jnlp_key j) (desired_service j l1 (GetJenkinsJNLPServiceName j) (js_jnlpService spec)) m1
      in if routes then put_at (route_key j) (desired_route j (meta\<lparr>om_labels := l2\<rparr>)) m2 else m2)"

definition spec_roles :: "jenkins_spec \<Rightarrow> role_ref list" where
  "spec_roles spec = (case js_roles spec of None \<Rightarrow> [] | Some rs \<Rightarrow> rs)"

definition desired_state :: "base_deps \<Rightarrow> jenkins \<Rightarrow> jenkins_spec \<Rightarrow> store \<Rightarrow> store" where
  "desired_state D j spec m =
     desired_network (bd_routes D) j spec
       (desired_bindings j (spec_roles spec) (desired_rbac j (desired_configs (bd_intn D) j m)))"

section \<open>The code implements it\<close>

lemma account_annotations_distinct:
  "distinct (map fst (go_entries (js_saAnnotations (j_spec j)))) \<Longrightarrow> distinct (map fst (sa_annotations j))"
  by (simp add: sa_annotations_def distinct_update)

lemma compareMap_self: "distinct (map fst kvs) \<Longrightarrow> compareMap (Some kvs) (Some kvs)"
  by (auto simp: compareMap_def go_entries_def go_get_Some list_all_iff)

lemma role_keys:
  "obj_key (ORole (NewRole j)) = (KRole, j_namespace j, GetResourceName j)"
  "obj_key (ORoleBinding (default_binding j)) = (KRoleBinding, j_namespace j, GetResourceName j)"
  "obj_key (ORoleBinding (NewRoleBinding j rf)) = (KRoleBinding, j_namespace j, GetExtraRoleBindingName j rf)"
  by (simp_all add: obj_key_def NewRole_def default_binding_def NewRoleBinding_def Let_def)

lemma same_role_objects:
  assumes "j_meta j' = j_meta j"
  shows "NewRole j' = NewRole j" "NewRoleBinding j' rf = NewRoleBinding j rf" "default_binding j' = default_binding j"
  using same_identity [OF assms] assms
  by (simp_all add: NewRole_def NewRoleBinding_def default_binding_def Let_def name_defs j_name_def)

lemma extra_binding_name: "is_extra_binding j (GetExtraRoleBindingName j rf)"
  by (simp add: is_extra_binding_def GetExtraRoleBindingName_def HasPrefix_def)

lemma extra_nonempty: "is_extra_binding j n \<Longrightarrow> n \<noteq> []"
  by (auto simp: is_extra_binding_def GetExtraRoleBindingName_def HasPrefix_def)

definition stale :: "jenkins \<Rightarrow> role_ref list \<Rightarrow> role_binding \<Rightarrow> bool" where
  "stale j roles rb \<longleftrightarrow> is_extra_binding j (om_name (rb_meta rb)) \<and>
     om_name (rb_meta rb) \<notin> GetExtraRoleBindingName j ` set roles"

text \<open>The role bindings of a namespace, as a listing of all of them returns them.\<close>

definition lists_bindings :: "string \<Rightarrow> (kind \<times> string \<times> string \<Rightarrow> kobj option) \<Rightarrow> role_binding list \<Rightarrow> bool" where
  "lists_bindings ns m rbs \<longleftrightarrow> distinct (map (\<lambda>rb. obj_key (ORoleBinding rb)) rbs) \<and>
     (\<forall>n x. m (KRoleBinding, ns, n) = Some x \<longrightarrow>
       obj_key x = (KRoleBinding, ns, n) \<and> (\<exists>rb \<in> set rbs. x = ORoleBinding rb)) \<and>
     (\<forall>rb \<in> set rbs. \<exists>n. m (KRoleBinding, ns, n) = Some (ORoleBinding rb) \<and> obj_key (ORoleBinding rb) = (KRoleBinding, ns, n))"

text \<open>After the creation and the clean-up the extra role bindings are those of the listed roles.\<close>

lemma binding_for_None: "binding_for j roles n = None \<longleftrightarrow> n \<notin> GetExtraRoleBindingName j ` set roles"
  by (auto simp: binding_for_def find_None_iff)

lemma binding_for_extra: "binding_for j roles n \<noteq> None \<Longrightarrow> is_extra_binding j n"
  unfolding binding_for_None using extra_binding_name by auto

lemma bindings_created:
  "fold (\<lambda>rf. put_owned j (ORoleBinding (NewRoleBinding j rf))) roles m (k, ns, n) =
     (if k = KRoleBinding \<and> ns = j_namespace j \<and> binding_for j roles n \<noteq> None then binding_for j roles n else m (k, ns, n))"
  by (induction roles rule: rev_induct) (auto simp: put_owned_def role_keys binding_for_def)

lemma bindings_desired:
  assumes listed: "lists_bindings (j_namespace j) (fold (\<lambda>rf. put_owned j (ORoleBinding (NewRoleBinding j rf))) roles m) rbs"
    (is "lists_bindings _ ?m1 rbs")
  shows "(if key \<in> (\<lambda>rb. obj_key (ORoleBinding rb)) ` {rb \<in> set rbs. stale j roles rb} then None else ?m1 key) =
    desired_bindings j roles m key"
    (is "(if key \<in> ?gone then None else _) = _")
proof -
  obtain k ns n where key: "key = (k, ns, n)" by (cases key) auto
  have only: "k = KRoleBinding \<and> ns = j_namespace j \<and> is_extra_binding j n \<and> binding_for j roles n = None" if "key \<in> ?gone"
  proof -
    from that obtain rb where rb: "rb \<in> set rbs" "stale j roles rb" "key = obj_key (ORoleBinding rb)" by blast
    with listed obtain n' where "obj_key (ORoleBinding rb) = (KRoleBinding, j_namespace j, n')"
      unfolding lists_bindings_def by blast
    with rb key show ?thesis by (auto simp: stale_def obj_key_def binding_for_None)
  qed
  have all: "key \<in> ?gone" if "k = KRoleBinding" "ns = j_namespace j" "is_extra_binding j n" "binding_for j roles n = None" "m key \<noteq> None"
  proof -
    have "?m1 key = m key" unfolding key bindings_created using that by simp
    with that key listed obtain rb where rb: "rb \<in> set rbs" "obj_key (ORoleBinding rb) = key"
      unfolding lists_bindings_def by (metis not_None_eq)
    then have "stale j roles rb" using that key by (auto simp: stale_def obj_key_def binding_for_None)
    with rb show ?thesis by blast
  qed
  show ?thesis
  proof (cases "k = KRoleBinding \<and> ns = j_namespace j \<and> is_extra_binding j n")
    case True
    then have "desired_bindings j roles m key = binding_for j roles n" by (simp add: desired_bindings_def key)
    moreover have "?m1 key = (if binding_for j roles n \<noteq> None then binding_for j roles n else m key)"
      using True unfolding key bindings_created by simp
    ultimately show ?thesis using only all True by (cases "m key") auto
  next
    case False
    then have "?m1 key = m key" using binding_for_extra unfolding key bindings_created by auto
    moreover have "key \<notin> ?gone" using False only by argo
    moreover have "desired_bindings j roles m key = m key" using False by (auto simp: desired_bindings_def key)
    ultimately show ?thesis by simp
  qed
qed

lemma same_account:
  assumes "j_meta j' = j_meta j"
  shows "GetResourceName j' = GetResourceName j" "synced_account j' = synced_account j"
  using assms by (simp add: name_defs j_name_def) (simp only: synced_account_def [abs_def] owned_same [OF assms])

text \<open>An existing route has a port.\<close>

definition route_has_port :: "store \<Rightarrow> kind \<times> string \<times> string \<Rightarrow> bool" where
  "route_has_port m key \<longleftrightarrow> (\<forall>r. m key = Some (ORoute r) \<longrightarrow> rt_port r \<noteq> None)"

text \<open>An existing service has a label map, unless nothing is to be written into it.\<close>

definition labels_writable :: "store \<Rightarrow> kind \<times> string \<times> string \<Rightarrow> jservice \<Rightarrow> bool" where
  "labels_writable m key config \<longleftrightarrow>
     (\<forall>s. m key = Some (OService s) \<longrightarrow> om_labels (svc_meta s) = None \<longrightarrow> go_entries (sv_labels config) = [])"

lemma meta_label_id [simp]: "meta\<lparr>om_labels := om_labels meta\<rparr> = (meta :: obj_meta)"
  by simp

lemma updated_service_eq:
  assumes "go_put_all (om_labels (svc_meta svc)) (go_entries (sv_labels config)) = Some l"
  obtains s mm where "UpdateService (svc\<lparr>svc_selector := labels\<rparr>) config = Some s"
    and "updated_service j labels config svc = OService (s\<lparr>svc_meta := mm\<rparr>)"
    and "owned_by j (OService s) = OService (s\<lparr>svc_meta := mm\<rparr>)"
    and "om_labels mm = l" and "obj_key (OService s) = obj_key (OService svc)"
    and "om_ownerRefs (svc_meta s) = om_ownerRefs (svc_meta svc)" and "om_namespace (svc_meta s) = om_namespace (svc_meta svc)"
    and "om_labels (svc_meta s) = l" and "svc_selector s = labels"
proof -
  obtain s where s: "UpdateService (svc\<lparr>svc_selector := labels\<rparr>) config = Some s"
    and sm: "svc_meta s = (svc_meta svc)\<lparr>om_annotations := sv_annotations config, om_labels := l\<rparr>" and "svc_selector s = labels"
    using UpdateService_Some [of "svc\<lparr>svc_selector := labels\<rparr>" config l] assms by auto
  moreover obtain mm where o: "owned_by j (OService s) = OService (s\<lparr>svc_meta := mm\<rparr>)" using owned_service by blast
  moreover from this sm owned_keeps [of j "OService s"] have "om_labels mm = l" by auto
  ultimately show thesis by (intro that [of s mm]) (auto simp: updated_service_def obj_key_def)
qed

lemma config_map_builders:
  assumes "status_spec j = Some spec" and "first_container spec \<noteq> None"
  shows "NewScriptsConfigMap meta j \<noteq> None" "NewInitConfigurationConfigMap meta j \<noteq> None"
    "NewBasePluginConfigMap meta j \<noteq> None"
proof -
  from assms(2) obtain c master where c: "first_container spec = Some c" "js_master spec = Some master"
    by (auto simp: first_container_def bind_eq_Some_conv)
  show "NewScriptsConfigMap meta j \<noteq> None" "NewInitConfigurationConfigMap meta j \<noteq> None"
    "NewBasePluginConfigMap meta j \<noteq> None"
    using assms(1) c
    by (simp_all add: NewScriptsConfigMap_def NewInitConfigurationConfigMap_def NewBasePluginConfigMap_def
        buildInitBashScript_def buildCreateJenkinsOperatorUserGroovyScript_def getJenkinsHomePath_def)
qed

text \<open>The annotation written into the specification does not matter for the steps after it.\<close>

lemma same_desired:
  assumes "j_meta j' = j_meta j" and "j_status j' = j_status j"
  shows "desired_bindings j' = desired_bindings j" "desired_network routes j' spec = desired_network routes j spec"
proof -
  note same = same_identity [OF assms(1)] owned_same [OF assms(1)] same_role_objects [OF assms(1)]
  have "updated_service j' = updated_service j" "blank_service j' = blank_service j"
    by (simp_all only: updated_service_def [abs_def] blank_service_def [abs_def] same)
  then have services: "desired_service j' = desired_service j" by (simp only: desired_service_def [abs_def])
  have "UpdateRoute r j' = UpdateRoute r j" for r
    by (simp only: UpdateRoute_def same status_spec_same [OF assms(2)])
  then have routes: "desired_route j' = desired_route j" by (simp only: desired_route_def [abs_def] same)
  show "desired_bindings j' = desired_bindings j" by (simp only: desired_bindings_def [abs_def] binding_for_def same)
  show "desired_network routes j' spec = desired_network routes j spec"
    by (simp only: desired_network_def [abs_def] services routes same)
qed

lemma shared_labels_kept: "labels \<noteq> None \<Longrightarrow> shared_labels labels config found \<noteq> None"
  using go_put_all_Some [of "the labels" "go_entries (sv_labels config)"]
  by (cases labels) (auto simp del: go_put_all_Some simp: shared_labels_def split: option.split)

text \<open>A service is kept as one whose labels the next pass can write, a route as one with a port.\<close>

definition writable_service :: "jservice \<Rightarrow> kobj \<Rightarrow> bool" where
  "writable_service config x = (case x of
     OService s \<Rightarrow> om_labels (svc_meta s) = None \<longrightarrow> go_entries (sv_labels config) = []
   | _ \<Rightarrow> False)"

lemma writable_service_put:
  assumes "writable_service config (OService svc)"
  obtains l where "go_put_all (om_labels (svc_meta svc)) (go_entries (sv_labels config)) = Some l"
  using assms go_put_all_None_iff [of "om_labels (svc_meta svc)" "go_entries (sv_labels config)"]
  by (cases "go_put_all (om_labels (svc_meta svc)) (go_entries (sv_labels config))") (auto simp: writable_service_def)

lemma go_put_all_nil: "go_put_all m es = Some None \<Longrightarrow> es = []"
  using go_put_all_None_iff [of m es] go_put_all_Some [of "the m" es] by (cases m) (auto simp del: go_put_all_Some)

lemma updated_service_result:
  assumes "writable_service config (OService svc)"
  obtains s where "updated_service j labels config svc = OService s" and "svc_selector s = labels"
    and "writable_service config (OService s)"
proof -
  from assms obtain l where l: "go_put_all (om_labels (svc_meta svc)) (go_entries (sv_labels config)) = Some l"
    by (rule writable_service_put)
  obtain s mm where "updated_service j labels config svc = OService (s\<lparr>svc_meta := mm\<rparr>)" "om_labels mm = l" "svc_selector s = labels"
    by (rule updated_service_eq [OF l, of labels j])
  moreover from go_put_all_nil l have "l = None \<Longrightarrow> go_entries (sv_labels config) = []" by blast
  ultimately show thesis by (intro that [of "s\<lparr>svc_meta := mm\<rparr>"]) (simp_all add: writable_service_def)
qed

lemma desired_service_result:
  assumes "labels \<noteq> None" and "\<And>x. found = Some x \<Longrightarrow> writable_service config x"
  obtains s where "desired_service j labels n config found = OService s"
    and "svc_selector s = shared_labels labels config found" and "writable_service config (OService s)"
proof (cases found)
  case None
  let ?shared = "shared_labels labels config None"
  have "writable_service config (OService (blank_service j labels n))"
    using assms(1) by (auto simp: writable_service_def blank_service_def)
  then obtain s where s: "updated_service j ?shared config (blank_service j labels n) = OService s" "writable_service config (OService s)"
    by (rule updated_service_result)
  from s(2) show thesis
    by (rule updated_service_result [of config s j ?shared], intro that) (simp_all add: None desired_service_def Let_def s(1))
next
  case (Some x)
  with assms(2) obtain svc where x: "x = OService svc" "writable_service config (OService svc)"
    by (cases x) (auto simp: writable_service_def)
  from x(2) show thesis
    by (rule updated_service_result [of config svc j labels], intro that) (simp_all add: Some x(1) desired_service_def shared_labels_def)
qed

lemma desired_route_result:
  assumes "status_spec j = Some spec" and "\<And>x. found = Some x \<Longrightarrow> \<exists>r. x = ORoute r \<and> rt_port r \<noteq> None"
  obtains r where "desired_route j meta found = ORoute r" and "rt_port r \<noteq> None"
proof -
  let ?r = "case found of Some (ORoute r) \<Rightarrow> r\<lparr>rt_meta := (rt_meta r)\<lparr>om_labels := om_labels meta\<rparr>\<rparr>
    | _ \<Rightarrow> newRoute meta (''jenkins-'' @ j_name j) (GetJenkinsHTTPServiceName j)"
  have "rt_port ?r \<noteq> None" using assms(2) by (auto simp: newRoute_def newRouteSpect_def split: option.split)
  then obtain t where "rt_port ?r = Some t" by blast
  from UpdateRoute_Some [OF assms(1) this] obtain r' where r': "UpdateRoute ?r j = Some r'" "rt_port r' \<noteq> None" by blast
  obtain mm where "owned_by j (ORoute r') = ORoute (r'\<lparr>rt_meta := mm\<rparr>)" using owned_route by blast
  with r' show thesis by (intro that [of "r'\<lparr>rt_meta := mm\<rparr>"]) (simp_all add: desired_route_def Let_def)
qed

text \<open>Each part of the pass changes only keys of its own kinds.\<close>

lemma put_config_map_other: "k \<noteq> KConfigMap \<Longrightarrow> put_config_map j cm m (k, ns, n) = m (k, ns, n)"
  by (simp add: put_config_map_def put_owned_def obj_key_def split: option.split)

lemma configs_other: "k \<notin> {KSecret, KConfigMap} \<Longrightarrow> desired_configs intn j m (k, ns, n) = m (k, ns, n)"
  by (simp add: desired_configs_def Let_def put_config_map_other)

lemma rbac_other: "k \<notin> {KServiceAccount, KRole, KRoleBinding} \<Longrightarrow> desired_rbac j m (k, ns, n) = m (k, ns, n)"
  by (simp add: desired_rbac_def put_owned_def role_keys)

lemma bindings_other: "k \<noteq> KRoleBinding \<Longrightarrow> desired_bindings j roles m (k, ns, n) = m (k, ns, n)"
  by (simp add: desired_bindings_def)

lemma network_other: "k \<notin> {KService, KRoute} \<Longrightarrow> desired_network routes j spec m (k, ns, n) = m (k, ns, n)"
  by (simp add: desired_network_def Let_def)

lemmas others = configs_other rbac_other bindings_other network_other

text \<open>Steps in sequence, each of which changes the objects in its own way.\<close>

lemma gives_seq:
  assumes "achieves valid stored m p (gives (Inr ()) (f m))"
    and "achieves valid stored (f m) q (gives (Inr ()) (g (f m)))"
  shows "achieves valid stored m (bindE p (\<lambda>_. q)) (gives (Inr ()) (g (f m)))"
  by (rule achieves_bindE [OF assms(1)]) (use assms(2) in simp_all)

context kube_server
begin

lemma put_implements:
  assumes "proper_key (obj_key x)"
  shows "achieves valid stored m (stacked (CreateOrUpdateResource E j x)) (gives (Inr ()) (put_owned j x m))"
  by (rule achieves_stacked [OF CreateOrUpdate_achieves [where Q = "gives (Inr ()) (m(obj_key x \<mapsto> owned_by j x))"]])
    (use assms in \<open>auto simp: put_owned_def\<close>)

lemma create_implements:
  assumes "proper_key (obj_key x)" and "m (obj_key x) = None" and "sel (owned_by j x) = Some a"
    and "om_ownerRefs (meta_of x) = []" and "om_namespace (meta_of x) = j_namespace j" and "y = owned_by j x"
  shows "achieves valid stored m (stacked (CreateResource E sel j x)) (gives (Inr ()) (m(obj_key x \<mapsto> y)))"
  by (rule achieves_stacked [OF create_owned]) (use assms in simp_all)

lemma update_implements:
  assumes "proper_key (obj_key x)" and "m (obj_key x) \<noteq> None" and "sel (owned_by j x) = Some a" and "y = owned_by j x"
  shows "achieves valid stored m (stacked (UpdateResource E sel j x)) (gives (Inr ()) (m(obj_key x \<mapsto> y)))"
  by (rule achieves_stacked [OF update_owned]) (use assms in simp_all)

lemma secret_implements:
  assumes "located j"
  shows "achieves valid stored m (createOperatorCredentialsSecret E intn j (NewResourceObjectMeta j))
    (gives (Inr ()) (put_at (secret_key j) (desired_secret intn j) m))"
    (is "achieves valid stored m ?p ?Q")
proof -
  let ?new = "NewOperatorCredentialsSecret intn (NewResourceObjectMeta j) j"
  have key: "proper_key (secret_key j)" using assms by (intro proper_names) simp_all
  have new: "obj_key (OSecret ?new) = secret_key j" "om_ownerRefs (meta_of (OSecret ?new)) = []"
    "om_namespace (meta_of (OSecret ?new)) = j_namespace j"
    by (simp_all add: NewOperatorCredentialsSecret_def obj_key_def)
  obtain a where sel: "as_secret (owned_by j (OSecret ?new)) = Some a" using owned_secret decoded(1) by blast
  show ?thesis
    unfolding createOperatorCredentialsSecret_def
  proof (rule achieves_read [OF key kind_decodes(1)], goal_cases)
    case (2 e)
    with create_implements [where sel = as_secret and j = j and m = m, OF _ _ sel new(2,3) refl] key show ?case
      by (simp add: new(1) put_at_def desired_secret_def)
  next
    case (3 x f)
    then have x: "x = OSecret f" by (simp add: decoded)
    show ?case
    proof (cases "go_get (sec_data f) ''user'' \<noteq> None \<and> go_get (sec_data f) ''password'' \<noteq> None")
      case True
      with 3 x show ?thesis by (auto intro!: achieves_ret simp: put_at_stable desired_secret_def)
    next
      case False
      with update_implements [where sel = as_secret and j = j and m = m, OF _ _ sel refl] key 3 x show ?thesis
        by (auto simp: new(1) put_at_def desired_secret_def)
    qed
  qed simp
qed

lemma config_map_implements:
  assumes "located j" and "n \<noteq> []" and "\<And>cm. new = Some cm \<Longrightarrow> obj_key (OConfigMap cm) = (KConfigMap, j_namespace j, n)"
    and "new \<noteq> None"
  shows "achieves valid stored m (case new of None \<Rightarrow> crash c | Some cm \<Rightarrow> stacked (CreateOrUpdateResource E j (OConfigMap cm)))
    (gives (Inr ()) (put_config_map j new m))"
proof -
  from assms(4) obtain cm where new: "new = Some cm" by blast
  with assms(1-3) have "proper_key (obj_key (OConfigMap cm))" by (simp add: proper_names)
  from put_implements [OF this, of m j] show ?thesis by (simp add: new put_config_map_def)
qed

lemma sync_implements:
  assumes "located j" and key: "obj_key (OServiceAccount sa) = account_key j"
    and present: "m (account_key j) = Some (OServiceAccount sa)"
  shows "achieves valid stored m (sync_annotations E j (Some kvs) sa)
    (gives (Inr ()) (m(account_key j \<mapsto> synced_account j kvs sa)))"
proof (cases "compareMap (Some kvs) (om_annotations (sa_meta sa))")
  case True
  with present show ?thesis
    by (auto simp: sync_annotations_def synced_account_def fun_upd_idem intro!: achieves_ret)
next
  case False
  have target: "(case om_annotations (sa_meta sa) of None \<Rightarrow> Some [] | Some m \<Rightarrow> Some m) =
      Some (go_entries (om_annotations (sa_meta sa)))" by (simp add: go_entries_def split: option.split)
  obtain l where l: "go_put_all (Some (go_entries (om_annotations (sa_meta sa)))) kvs = Some l"
    using go_put_all_Some by blast
  let ?x = "OServiceAccount (sa\<lparr>sa_meta := (sa_meta sa)\<lparr>om_annotations := l\<rparr>\<rparr>)"
  obtain a where sel: "as_service_account (owned_by j ?x) = Some a" using owned_account decoded(3) by blast
  have k: "obj_key ?x = account_key j" using key by (simp add: obj_key_def)
  have "proper_key (account_key j)" using assms(1) by (intro proper_names) simp_all
  with update_implements [where sel = as_service_account and j = j and m = m, OF _ _ sel refl, unfolded k] present False l show ?thesis
    by (simp add: sync_annotations_def synced_account_def Let_def target go_entries_def [of "Some kvs"])
qed

lemma account_implements:
  assumes "located j" and d: "distinct (map fst (go_entries (js_saAnnotations (j_spec j))))"
  shows "achieves valid stored m (createServiceAccount E j)
    (gives (Inr (), write_sa_annotation j) (put_at (account_key j) (desired_account j) m))"
    (is "achieves valid stored m _ ?Q")
proof -
  let ?k = "account_key j" and ?j = "write_sa_annotation j" and ?kvs = "sa_annotations j"
  let ?x = "OServiceAccount (NewServiceAccount (NewResourceObjectMeta j) (Some ?kvs))"
  have id: "j_meta ?j = j_meta j" by simp
  note same = same_identity [OF id] owned_same [OF id] same_account [OF id]
  have key: "proper_key ?k" using assms(1) by (intro proper_names) simp_all
  have sync: "achieves valid stored m1 (bindP (sync_annotations E ?j (Some ?kvs) sa) (\<lambda>res. ret (res, ?j)))
      (gives (Inr (), ?j) (m1(?k \<mapsto> synced_account j ?kvs sa)))"
    if "m1 ?k = Some (OServiceAccount sa)" and "obj_key (OServiceAccount sa) = ?k" for m1 sa
    using sync_implements [of ?j sa m1 ?kvs] that assms(1)
    by (intro achieves_bindP [where Q = "gives (Inr ()) (m1(?k \<mapsto> synced_account j ?kvs sa))"])
      (simp_all add: same achieves_ret)
  have xk: "obj_key ?x = ?k" by (simp add: obj_key_def NewServiceAccount_def)
  obtain sa where sa: "owned_by j ?x = OServiceAccount sa" using owned_account by blast
  have "om_annotations (sa_meta sa) = Some ?kvs" using owned_keeps [of j ?x] sa by (auto simp: NewServiceAccount_def)
  then have fresh: "synced_account j ?kvs sa = OServiceAccount sa"
    using compareMap_self [OF account_annotations_distinct [OF d]] by (simp add: synced_account_def)
  show ?thesis
    unfolding createServiceAccount_def Let_def meta_simps
  proof (rule achieves_read [OF key kind_decodes(3)], goal_cases)
    case (2 e)
    have "achieves valid stored m (CreateResource E as_service_account ?j ?x) (gives (Inr sa) (m(?k \<mapsto> OServiceAccount sa)))"
      using create_owned [of ?x m as_service_account ?j sa] 2 key xk sa by (simp add: decoded NewServiceAccount_def same)
    then have "achieves valid stored m (bindP (bindP (CreateResource E as_service_account ?j ?x) (\<lambda>cr.
        case cr of Inl e \<Rightarrow> ret (Inl (Stacked e)) | Inr sa \<Rightarrow> sync_annotations E ?j (Some ?kvs) sa))
        (\<lambda>res. ret (res, ?j))) ?Q"
      unfolding bindP_assoc
    proof (rule achieves_bindP, goal_cases)
      case (1 r m1)
      have "obj_key (OServiceAccount sa) = ?k" using sa xk by (metis obj_key_owned)
      with 1 sync [of m1 sa] 2 sa fresh show ?case by (simp add: put_at_def desired_account_def)
    qed
    with 2 show ?case by simp
  next
    case (3 x sa)
    then have "x = OServiceAccount sa" by (simp add: decoded)
    with 3 sync [of m sa] show ?case by (simp add: put_at_def desired_account_def)
  qed simp
qed

lemma rbac_implements:
  assumes "located j" and d: "distinct (map fst (go_entries (js_saAnnotations (j_spec j))))"
  shows "achieves valid stored m (createRBAC E j) (gives (Inr (), write_sa_annotation j) (desired_rbac j m))"
proof -
  let ?j = "write_sa_annotation j"
  have id: "j_meta ?j = j_meta j" by simp
  have keys: "proper_key (obj_key (ORole (NewRole j)))" "proper_key (obj_key (ORoleBinding (default_binding j)))"
    using assms(1) unfolding role_keys by (auto intro: proper_names)
  have db: "(NewRoleBinding ?j \<lparr>rf_apiGroup = ''rbac.authorization.k8s.io'', rf_kind = ''Role'', rf_name = GetResourceName j\<rparr>)
      \<lparr>rb_meta := (rb_meta (NewRoleBinding ?j \<lparr>rf_apiGroup = ''rbac.authorization.k8s.io'', rf_kind = ''Role'',
        rf_name = GetResourceName j\<rparr>))\<lparr>om_name := GetResourceName j\<rparr>\<rparr> = default_binding j"
    by (simp add: default_binding_def Let_def same_role_objects [OF id])
  let ?m = "put_at (account_key j) (desired_account j) m"
  have rest: "achieves valid stored ?m
      (bindE (stacked (CreateOrUpdateResource E ?j (ORole (NewRole ?j))))
        (\<lambda>_. stacked (CreateOrUpdateResource E ?j (ORoleBinding (default_binding j)))))
      (gives (Inr ()) (desired_rbac j m))"
    unfolding desired_rbac_def same_role_objects [OF id] CreateOrUpdateResource_same [OF id]
    by (rule gives_seq [where f = "put_owned j (ORole (NewRole j))"]) (intro put_implements keys)+
  show ?thesis
    unfolding createRBAC_def Let_def meta_simps
  proof (rule achieves_bindP [OF account_implements [OF assms]], goal_cases)
    case (1 a m1)
    then have a: "a = (Inr (), ?j)" and m1: "m1 = ?m" by simp_all
    show ?case
      unfolding a m1 prod.case sum.case db
      by (rule achieves_bindP [OF rest]) (auto intro!: achieves_ret)
  qed
qed

lemma create_bindings_implement:
  assumes "located j"
  shows "achieves valid stored m (create_bindings E j roles)
    (gives (Inr ()) (fold (\<lambda>rf. put_owned j (ORoleBinding (NewRoleBinding j rf))) roles m))"
proof (induction roles arbitrary: m)
  case (Cons rf roles)
  have "proper_key (obj_key (ORoleBinding (NewRoleBinding j rf)))"
    using assms unfolding role_keys by (auto intro: proper_names)
  note put = put_implements [OF this]
  show ?case
    unfolding create_bindings.simps fold_simps
    by (rule gives_seq [where f = "put_owned j (ORoleBinding (NewRoleBinding j rf))"]) (rule put, rule Cons.IH)
qed (simp add: achieves_ret)

lemma delete_bindings_achieves:
  assumes "located j"
  shows "distinct (map (\<lambda>rb. obj_key (ORoleBinding rb)) rbs) \<Longrightarrow>
    list_all (\<lambda>rb. m (obj_key (ORoleBinding rb)) \<noteq> None \<and> om_namespace (rb_meta rb) = j_namespace j) rbs \<Longrightarrow>
    achieves valid stored m (delete_bindings E j roles rbs)
      (\<lambda>r m'. r = Inr () \<and> (\<forall>key. m' key =
        (if key \<in> (\<lambda>rb. obj_key (ORoleBinding rb)) ` {rb \<in> set rbs. stale j roles rb} then None else m key)))"
proof (induction rbs arbitrary: m)
  case Nil
  then show ?case by (auto intro: achieves_ret)
next
  case (Cons rb rbs)
  let ?key = "\<lambda>rb. obj_key (ORoleBinding rb)"
  show ?case
  proof (cases "stale j roles rb")
    case False
    then have "delete_bindings E j roles (rb # rbs) = delete_bindings E j roles rbs"
      by (auto simp: stale_def list_ex_iff)
    moreover have "{x \<in> set (rb # rbs). stale j roles x} = {x \<in> set rbs. stale j roles x}"
      using False by auto
    ultimately show ?thesis using Cons by simp
  next
    case True
    then have del: "delete_bindings E j roles (rb # rbs) =
        bindE (stacked (client_delete E (ORoleBinding rb))) (\<lambda>_. delete_bindings E j roles rbs)"
      by (auto simp: stale_def list_ex_iff)
    from True have "om_name (rb_meta rb) \<noteq> []" by (auto simp: stale_def dest: extra_nonempty)
    then have k: "proper_key (?key rb)" "m (?key rb) \<noteq> None"
      using Cons.prems assms by (auto simp: obj_key_def intro: proper_names)
    show ?thesis
      unfolding del
    proof (rule achieves_bindE [OF achieves_stacked [OF achieves_delete [of "ORoleBinding rb" m "gives (Inr ()) (m(?key rb := None))", OF k],
            where R = "gives (Inr ()) (m(?key rb := None))"]])
      fix a m1
      assume "gives (Inr ()) (m(?key rb := None)) (Inr a) m1"
      then have m1: "m1 = m(?key rb := None)" by simp
      have "list_all (\<lambda>x. m1 (?key x) \<noteq> None \<and> om_namespace (rb_meta x) = j_namespace j) rbs"
        using Cons.prems unfolding m1 by (auto simp: list_all_iff) (metis image_eqI)
      with Cons.IH [of m1] Cons.prems have "achieves valid stored m1 (delete_bindings E j roles rbs)
        (\<lambda>r m'. r = Inr () \<and> (\<forall>key. m' key = (if key \<in> ?key ` {x \<in> set rbs. stale j roles x} then None else m1 key)))"
        by simp
      then show "achieves valid stored m1 (delete_bindings E j roles rbs)
        (\<lambda>r m'. r = Inr () \<and> (\<forall>key. m' key = (if key \<in> ?key ` {x \<in> set (rb # rbs). stale j roles x} then None else m key)))"
        by (rule achieves_weaken) (use True in \<open>auto simp: m1\<close>)
    qed simp_all
  qed
qed

lemma bindings_listed:
  assumes "ns \<noteq> []"
  shows "achieves valid stored m (client_list E KRoleBinding as_role_binding (Some ns) None)
    (\<lambda>r m'. m' = m \<and> (\<exists>rbs. r = Inr rbs \<and> lists_bindings ns m rbs))"
proof (rule achieves_list [where Q = "\<lambda>r m'. m' = m \<and> (\<exists>rbs. r = Inr rbs \<and> lists_bindings ns m rbs)"], goal_cases)
  case (3 xs)
  have x: "\<exists>n. obj_key x = (KRoleBinding, ns, n) \<and> m (KRoleBinding, ns, n) = Some x" if "x \<in> set xs" for x
    using that 3(2,3) by blast
  then have "\<forall>x \<in> set xs. \<exists>rb. x = ORoleBinding rb" using kind_cases(5) by blast
  then obtain f where f: "\<forall>x \<in> set xs. x = ORoleBinding (f x)" by metis
  have "map (\<lambda>x. the (as_role_binding x)) xs = map f xs" and "\<forall>x \<in> set xs. as_role_binding x \<noteq> None"
    using f by (auto simp: as_role_binding_def split: kobj.splits)
  then have dec: "decode_list as_role_binding (Inr xs) = Inr (map f xs)" by (simp add: decode_list_def)
  have "map (\<lambda>rb. obj_key (ORoleBinding rb)) (map f xs) = map obj_key xs" using f by auto
  then have "lists_bindings ns m (map f xs)" using 3 f x by (auto simp: lists_bindings_def simp del: map_map)
  then show ?case unfolding dec by blast
qed (use assms in simp_all)

lemma extra_implements:
  assumes "located j" and st: "status_spec j = Some spec"
  shows "achieves valid stored m (ensureExtraRBACArePresent E j) (gives (Inr ()) (desired_bindings j (spec_roles spec) m))"
proof -
  let ?roles = "spec_roles spec"
  let ?m1 = "fold (\<lambda>rf. put_owned j (ORoleBinding (NewRoleBinding j rf))) ?roles m"
  have ns: "j_namespace j \<noteq> []" using assms(1) by (simp add: located_def)
  show ?thesis
    unfolding ensureExtraRBACArePresent_def st option.case Let_def spec_roles_def [symmetric]
  proof (rule achieves_bindE [OF create_bindings_implement [OF assms(1)]], goal_cases)
    case (1 a m1)
    then have m1: "m1 = ?m1" by simp
    show ?case
      unfolding m1
    proof (rule achieves_bindP [OF bindings_listed [OF ns]], elim conjE exE, goal_cases)
      case (1 r m2 rbs)
      note listed = \<open>lists_bindings (j_namespace j) ?m1 rbs\<close>
      then have d: "distinct (map (\<lambda>rb. obj_key (ORoleBinding rb)) rbs)"
        and pre: "list_all (\<lambda>rb. ?m1 (obj_key (ORoleBinding rb)) \<noteq> None \<and> om_namespace (rb_meta rb) = j_namespace j) rbs"
        unfolding lists_bindings_def list_all_iff by (blast, fastforce simp: obj_key_def)
      from delete_bindings_achieves [OF assms(1) d pre, of ?roles]
      have "achieves valid stored ?m1 (delete_bindings E j ?roles rbs) (gives (Inr ()) (desired_bindings j ?roles m))"
        by (rule achieves_weaken) (use bindings_desired [OF listed] in \<open>auto intro!: ext\<close>)
      with 1 show ?case by simp
    qed
  qed simp
qed

lemma update_service_implements:
  assumes "located j" and "n \<noteq> []" and key: "obj_key (OService svc) = (KService, j_namespace j, n)"
    and "m (KService, j_namespace j, n) \<noteq> None"
    and l: "go_put_all (om_labels (svc_meta svc)) (go_entries (sv_labels config)) = Some l"
  shows "achieves valid stored m (update_service E j meta config svc)
    (gives (Inr meta) (m((KService, j_namespace j, n) \<mapsto> updated_service j (om_labels meta) config svc)))"
proof -
  let ?k = "(KService, j_namespace j, n)"
  have "proper_key ?k" using assms(1,2) by (intro proper_names) simp_all
  obtain s mm where s: "UpdateService (svc\<lparr>svc_selector := om_labels meta\<rparr>) config = Some s"
    and u: "updated_service j (om_labels meta) config svc = OService (s\<lparr>svc_meta := mm\<rparr>)"
    and o: "owned_by j (OService s) = OService (s\<lparr>svc_meta := mm\<rparr>)" and k: "obj_key (OService s) = ?k"
    using updated_service_eq [OF l] key by metis
  have sel: "as_service (owned_by j (OService s)) = Some (s\<lparr>svc_meta := mm\<rparr>)" by (simp add: o decoded)
  show ?thesis
    unfolding update_service_def s option.case
    by (rule achieves_bindE [OF update_implements [where sel = as_service and j = j and x = "OService s" and m = m, OF _ _ sel]])
      (use \<open>proper_key ?k\<close> assms(4) o u k in \<open>auto intro: achieves_ret\<close>)
qed

lemma service_implements:
  assumes "located j" and "n \<noteq> []" and ns: "om_namespace meta = j_namespace j" and lab: "om_labels meta \<noteq> None"
    and writable: "labels_writable m (KService, j_namespace j, n) config"
  shows "achieves valid stored m (createService E j meta n config)
    (gives (Inr (meta\<lparr>om_labels := shared_labels (om_labels meta) config (m (KService, j_namespace j, n))\<rparr>))
      (put_at (KService, j_namespace j, n) (desired_service j (om_labels meta) n config) m))"
    (is "achieves valid stored m _ ?Q")
proof -
  let ?k = "(KService, j_namespace j, n)"
  have key: "proper_key ?k" using assms(1,2) by (intro proper_names) simp_all
  show ?thesis
    unfolding createService_def ns
  proof (rule achieves_read [OF key kind_decodes(2)], goal_cases)
    case (2 e)
    let ?blank = "blank_service j (om_labels meta) n"
    have bm: "svc_meta ?blank = empty_meta\<lparr>om_name := n, om_namespace := j_namespace j, om_labels := om_labels meta\<rparr>"
      by (simp add: blank_service_def)
    obtain l where l: "go_put_all (om_labels meta) (go_entries (sv_labels config)) = Some (Some l)"
      using lab go_put_all_Some by (metis not_None_eq)
    then have shared: "shared_labels (om_labels meta) config None = Some l" by (simp add: shared_labels_def)
    from l have upd: "go_put_all (om_labels (svc_meta ?blank)) (go_entries (sv_labels config)) = Some (Some l)" by (simp add: bm)
    obtain s mm where s: "UpdateService (?blank\<lparr>svc_selector := Some l\<rparr>) config = Some s"
      and u: "updated_service j (Some l) config ?blank = OService (s\<lparr>svc_meta := mm\<rparr>)"
      and o: "owned_by j (OService s) = OService (s\<lparr>svc_meta := mm\<rparr>)"
      and labels: "om_labels mm = Some l" "om_labels (svc_meta s) = Some l"
      and k: "obj_key (OService s) = ?k" and refs: "om_ownerRefs (svc_meta s) = []" and sns: "om_namespace (svc_meta s) = j_namespace j"
    proof (rule updated_service_eq [OF upd, of "Some l" j], goal_cases)
      case (1 s mm)
      show thesis by (rule that [of s mm]) (use 1 bm in \<open>auto simp: obj_key_def empty_meta_def\<close>)
    qed
    have blank: "UpdateService ?blank config = Some (s\<lparr>svc_selector := om_labels meta\<rparr>)"
      using s by (auto simp: UpdateService_def blank_service_def bind_eq_Some_conv Let_def)
    have same: "s\<lparr>svc_selector := Some l\<rparr> = s" using s by (auto simp: UpdateService_def bind_eq_Some_conv Let_def)
    have sel: "as_service (owned_by j (OService s)) = Some (s\<lparr>svc_meta := mm\<rparr>)" by (simp add: o decoded)
    have k2: "obj_key (OService (s\<lparr>svc_meta := mm\<rparr>)) = ?k" using o k by (metis obj_key_owned)
    obtain l' where l': "go_put_all (om_labels (svc_meta (s\<lparr>svc_meta := mm\<rparr>))) (go_entries (sv_labels config)) = Some l'"
      using labels by (auto simp del: go_put_all_Some) (metis go_put_all_Some)
    have post: "desired_service j (om_labels meta) n config None = updated_service j (Some l) config (s\<lparr>svc_meta := mm\<rparr>)"
      by (simp add: desired_service_def shared u)
    have "achieves valid stored m (bindP (CreateResource E as_service j (OService s)) (\<lambda>cr. case cr of
        Inl e \<Rightarrow> ret (Inl (Stacked e))
      | Inr svc \<Rightarrow> update_service E j (meta\<lparr>om_labels := Some l\<rparr>) config svc)) ?Q"
    proof (rule achieves_bindP [OF create_owned [where sel = as_service and j = j and x = "OService s" and m = m, OF _ _ sel]], goal_cases)
      case (5 r m1)
      then have r: "r = Inr (s\<lparr>svc_meta := mm\<rparr>)" and m1: "m1 = m(?k \<mapsto> OService (s\<lparr>svc_meta := mm\<rparr>))"
        by (simp_all add: k o)
      have "achieves valid stored m1 (update_service E j (meta\<lparr>om_labels := Some l\<rparr>) config (s\<lparr>svc_meta := mm\<rparr>))
        (gives (Inr (meta\<lparr>om_labels := Some l\<rparr>)) (m1(?k \<mapsto> updated_service j (Some l) config (s\<lparr>svc_meta := mm\<rparr>))))"
        using update_service_implements [OF assms(1,2) k2 _ l', of m1 "meta\<lparr>om_labels := Some l\<rparr>"] by (simp add: m1)
      with 2 show ?case by (simp add: r m1 put_at_def shared post)
    qed (use 2 key k refs sns in simp_all)
    moreover have "?blank = \<lparr>svc_meta = empty_meta\<lparr>om_name := n, om_namespace := j_namespace j, om_labels := om_labels meta\<rparr>,
      svc_selector = om_labels meta, svc_type = [], svc_lbIP = [], svc_lbRanges = None, svc_ports = [], svc_clusterIP = []\<rparr>"
      by (simp add: blank_service_def)
    ultimately show ?case using 2 blank same labels by (simp add: Let_def)
  next
    case (3 x svc)
    then have x: "m ?k = Some (OService svc)" and k: "obj_key (OService svc) = ?k" by (simp_all add: decoded)
    from writable x have "om_labels (svc_meta svc) = None \<longrightarrow> go_entries (sv_labels config) = []"
      by (simp add: labels_writable_def)
    then obtain l where "go_put_all (om_labels (svc_meta svc)) (go_entries (sv_labels config)) = Some l"
      using go_put_all_None_iff [of "om_labels (svc_meta svc)" "go_entries (sv_labels config)"] by fastforce
    from update_service_implements [OF assms(1,2) k _ this, of m meta] x
    show ?case by (simp add: put_at_def desired_service_def shared_labels_def)
  qed simp
qed

lemma route_implements:
  assumes "located j" and st: "status_spec j = Some spec" and ns: "om_namespace meta = j_namespace j"
    and port: "route_has_port m (route_key j)"
  shows "achieves valid stored m (createRoute E meta (GetJenkinsHTTPServiceName j) j)
    (gives (Inr ()) (put_at (route_key j) (desired_route j meta) m))"
    (is "achieves valid stored m _ ?Q")
proof -
  let ?k = "route_key j"
  have key: "proper_key ?k" using assms(1) by (intro proper_names) simp_all
  have target: "\<exists>r' a. UpdateRoute r j = Some r' \<and> as_route (owned_by j (ORoute r')) = Some a \<and> rt_meta r' = rt_meta r"
    if "rt_port r \<noteq> None" for r
    using that UpdateRoute_Some [OF st, of r] owned_route decoded(4) by blast
  show ?thesis
    unfolding createRoute_def Let_def ns
  proof (rule achieves_read [OF key kind_decodes(4)], goal_cases)
    case (2 e)
    let ?new = "newRoute meta (''jenkins-'' @ j_name j) (GetJenkinsHTTPServiceName j)"
    have new: "rt_port ?new \<noteq> None" "obj_key (ORoute ?new) = ?k" "om_ownerRefs (rt_meta ?new) = []"
      by (simp_all add: newRoute_def newRouteSpect_def obj_key_def ns empty_meta_def)
    from target [OF new(1)] obtain r' a where r': "UpdateRoute ?new j = Some r'" "rt_meta r' = rt_meta ?new"
      and sel: "as_route (owned_by j (ORoute r')) = Some a" by blast
    then have k: "obj_key (ORoute r') = ?k" using new(2) by (simp add: obj_key_def)
    have "achieves valid stored m (stacked (CreateResource E as_route j (ORoute r'))) ?Q"
      using create_implements [where sel = as_route and j = j and x = "ORoute r'" and m = m, OF _ _ sel _ _ refl] 2 key k new(3) r'
      by (simp add: put_at_def desired_route_def Let_def obj_key_def)
    with 2 r' show ?case by simp
  next
    case (3 x route)
    let ?r = "route\<lparr>rt_meta := (rt_meta route)\<lparr>om_labels := om_labels meta\<rparr>\<rparr>"
    from 3 have x: "m ?k = Some (ORoute route)" and "obj_key (ORoute route) = ?k" by (simp_all add: decoded)
    moreover from this port have "rt_port ?r \<noteq> None" by (simp add: route_has_port_def)
    with target obtain r' a where r': "UpdateRoute ?r j = Some r'" "rt_meta r' = rt_meta ?r"
      and sel: "as_route (owned_by j (ORoute r')) = Some a" by blast
    ultimately have k: "obj_key (ORoute r') = ?k" by (simp add: obj_key_def)
    note upd = update_owned [where sel = as_route and j = j and x = "ORoute r'" and m = m, OF _ _ sel, unfolded k]
    show ?case
      unfolding sum.case r'(1) option.case
      by (rule achieves_bindP [OF upd])
        (use key x r' in \<open>auto intro!: achieves_ret simp: put_at_def desired_route_def Let_def\<close>)
  qed simp
qed

text \<open>What a pass needs to go through: services whose labels can be written, a route with a port.\<close>

lemma network_implements:
  assumes "located j" and st: "status_spec j = Some spec"
    and w1: "labels_writable m (http_key j) (js_service spec)" and w2: "labels_writable m (jnlp_key j) (js_jnlpService spec)"
    and port: "route_has_port m (route_key j)"
  shows "achieves valid stored m (ensure_network E D j (NewResourceObjectMeta j))
    (gives (Inr ()) (desired_network (bd_routes D) j spec m))"
proof -
  let ?meta = "NewResourceObjectMeta j"
  let ?l1 = "shared_labels (om_labels ?meta) (js_service spec) (m (http_key j))"
  let ?m1 = "put_at (http_key j) (desired_service j (om_labels ?meta) (GetJenkinsHTTPServiceName j) (js_service spec)) m"
  let ?l2 = "shared_labels ?l1 (js_jnlpService spec) (?m1 (jnlp_key j))"
  let ?m2 = "put_at (jnlp_key j) (desired_service j ?l1 (GetJenkinsJNLPServiceName j) (js_jnlpService spec)) ?m1"
  have ne: "jnlp_key j \<noteq> http_key j" by (simp add: name_defs)
  have l1: "?l1 \<noteq> None" by (rule shared_labels_kept) simp
  have w2': "labels_writable ?m1 (jnlp_key j) (js_jnlpService spec)" using w2 ne by (simp add: labels_writable_def)
  have port': "route_has_port ?m2 (route_key j)" using port by (simp add: route_has_port_def)
  note http = service_implements [OF assms(1) _ _ _ w1, of ?meta]
  note jnlp = service_implements [OF assms(1) _ _ _ w2', of "?meta\<lparr>om_labels := ?l1\<rparr>"]
  note route = route_implements [OF assms(1) st _ port', of "?meta\<lparr>om_labels := ?l2\<rparr>"]
  show ?thesis
    unfolding ensure_network_def st option.case
  proof (rule achieves_bindE [OF http], goal_cases)
    case (4 meta1 m1)
    then have 1: "meta1 = ?meta\<lparr>om_labels := ?l1\<rparr>" "m1 = ?m1" by simp_all
    show ?case
      unfolding 1
    proof (rule achieves_bindE [OF jnlp], goal_cases)
      case (4 meta2 m2)
      then have 2: "meta2 = ?meta\<lparr>om_labels := ?l2\<rparr>" "m2 = ?m2" by simp_all
      show ?case
        unfolding 2 using route by (simp add: desired_network_def Let_def achieves_ret)
    qed (use l1 in simp_all)
  qed simp_all
qed

lemma configs_implement:
  assumes "located j" and "status_spec j = Some spec" and "first_container spec \<noteq> None"
  shows "achieves valid stored m (bindE (createOperatorCredentialsSecret E intn j (NewResourceObjectMeta j)) (\<lambda>_.
      bindE (createScriptsConfigMap E j (NewResourceObjectMeta j)) (\<lambda>_.
      bindE (createInitConfigurationConfigMap E j (NewResourceObjectMeta j)) (\<lambda>_.
      createBasePluginsConfigMap E j (NewResourceObjectMeta j)))))
    (gives (Inr ()) (desired_configs intn j m))"
proof -
  let ?meta = "NewResourceObjectMeta j"
  note there = config_map_builders [OF assms(2,3), of ?meta]
  note c1 = config_map_implements [OF assms(1) _ config_map_keys(1) there(1)]
    and c2 = config_map_implements [OF assms(1) _ config_map_keys(2) there(2)]
    and c3 = config_map_implements [OF assms(1) _ config_map_keys(3) there(3)]
  show ?thesis
    unfolding desired_configs_def Let_def createScriptsConfigMap_def createInitConfigurationConfigMap_def
      createBasePluginsConfigMap_def
    by (rule gives_seq [where f = "put_at (secret_key j) (desired_secret intn j)", OF secret_implements [OF assms(1)]],
        rule gives_seq [where f = "put_config_map j (NewScriptsConfigMap ?meta j)", OF c1], simp_all,
        rule gives_seq [where f = "put_config_map j (NewInitConfigurationConfigMap ?meta j)", OF c2], simp_all,
        rule c3, simp_all)
qed

text \<open>
  One pass over everything the deployment needs: no error, no panic, and the objects are those of
  \<open>desired_state\<close>.
\<close>

lemma pass_implements:
  assumes "located j" and st: "status_spec j = Some spec" and "first_container spec \<noteq> None"
    and d: "distinct (map fst (go_entries (js_saAnnotations (j_spec j))))"
    and w1: "labels_writable m (http_key j) (js_service spec)" and w2: "labels_writable m (jnlp_key j) (js_jnlpService spec)"
    and port: "route_has_port m (route_key j)"
  shows "achieves valid stored m (ensureResourcesRequiredForJenkinsDeploymentArePresent E D j)
    (gives (Inr (), write_sa_annotation j) (desired_state D j spec m))"
proof -
  let ?j = "write_sa_annotation j"
  let ?m2 = "desired_rbac j (desired_configs (bd_intn D) j m)"
  let ?m3 = "desired_bindings j (spec_roles spec) ?m2"
  have id: "j_meta ?j = j_meta j" "j_status ?j = j_status j" by simp_all
  note same = same_identity [OF id(1)] same_desired [OF id]
  have st': "status_spec ?j = Some spec" using st status_spec_same [OF id(2)] by simp
  have l': "located ?j" using assms(1) same by simp
  have "?m3 (http_key j) = m (http_key j)" "?m3 (jnlp_key j) = m (jnlp_key j)" "?m3 (route_key j) = m (route_key j)"
    by (simp_all add: others)
  with w1 w2 port have "labels_writable ?m3 (http_key j) (js_service spec)" "labels_writable ?m3 (jnlp_key j) (js_jnlpService spec)"
    "route_has_port ?m3 (route_key j)"
    unfolding labels_writable_def route_has_port_def by simp_all
  then have w: "labels_writable ?m3 (http_key ?j) (js_service spec)" "labels_writable ?m3 (jnlp_key ?j) (js_jnlpService spec)"
    "route_has_port ?m3 (route_key ?j)"
    unfolding same .
  note extra = extra_implements [OF l' st', of ?m2, unfolded same]
  note network = network_implements [OF l' st' w, of D, unfolded same]
  have rest: "achieves valid stored ?m2
      (bindE (ensureExtraRBACArePresent E ?j) (\<lambda>_. ensure_network E D ?j (NewResourceObjectMeta j)))
      (gives (Inr ()) (desired_state D j spec m))"
    unfolding desired_state_def
    by (rule gives_seq [where f = "desired_bindings j (spec_roles spec)"]) (rule extra, rule network)
  show ?thesis
    unfolding ensureResourcesRequiredForJenkinsDeploymentArePresent_def Let_def
  proof (rule achieves_bindP [OF configs_implement [OF assms(1-3)]], simp only: gives_iff sum.case,
      rule achieves_bindP [OF rbac_implements [OF assms(1) d]], simp only: gives_iff prod.case sum.case, goal_cases)
    case (1 r1 m1 r2 m2)
    show ?case by (rule achieves_bindP [OF rest]) (auto intro: achieves_ret)
  qed
qed

end

end
