(* ===== verification/Base_Resources.thy ===== *)
theory Base_Resources
  imports Base_Desired
begin

text \<open>
  What one pass of the base reconciler achieves on an API server, read off the objects it leaves
  (\<open>desired_state\<close>): all of the operator's objects are there at the end, and nothing else has changed.
\<close>

section \<open>The keys of a Jenkins\<close>

lemma default_binding_not_extra: "\<not> is_extra_binding j (GetResourceName j)"
  by (auto simp: is_extra_binding_def GetExtraRoleBindingName_def HasPrefix_def dest: prefix_length_le)

text \<open>The keys of the role bindings that belong to the extra ones of a Jenkins.\<close>

definition extra_keys :: "jenkins \<Rightarrow> (kind \<times> string \<times> string) set" where
  "extra_keys j = {(KRoleBinding, j_namespace j, n) |n. is_extra_binding j n}"

text \<open>The keys \<open>K\<close> are there afterwards; nothing else changes.\<close>

definition fills :: "(kind \<times> string \<times> string) set \<Rightarrow> store \<Rightarrow> store \<Rightarrow> bool" where
  "fills K m m' \<longleftrightarrow> (\<forall>key. key \<notin> K \<longrightarrow> m' key = m key) \<and> (\<forall>key \<in> K. m' key \<noteq> None)"

lemma fills_put: "put_post k P m m' \<Longrightarrow> fills {k} m m'"
  by (auto simp: put_post_def fills_def)

lemma fills_trans: "fills K m m1 \<Longrightarrow> fills K' m1 m' \<Longrightarrow> fills (K \<union> K') m m'"
  unfolding fills_def by (metis Un_iff)

lemma fills_same: "fills K m m' \<Longrightarrow> key \<notin> K \<Longrightarrow> m' key = m key"
  unfolding fills_def by blast

definition config_keys :: "jenkins \<Rightarrow> (kind \<times> string \<times> string) set" where
  "config_keys j = {(KSecret, j_namespace j, GetOperatorCredentialsSecretName j)} \<union>
     {(KConfigMap, j_namespace j, getScriptsConfigMapName j)} \<union>
     {(KConfigMap, j_namespace j, GetInitConfigurationConfigMapName j)} \<union>
     {(KConfigMap, j_namespace j, GetBasePluginsVolumeNameConfigMapName j)}"

definition rbac_keys :: "jenkins \<Rightarrow> (kind \<times> string \<times> string) set" where
  "rbac_keys j = {(KServiceAccount, j_namespace j, GetResourceName j)} \<union>
     {(KRole, j_namespace j, GetResourceName j)} \<union> {(KRoleBinding, j_namespace j, GetResourceName j)}"

definition network_keys :: "bool \<Rightarrow> jenkins \<Rightarrow> (kind \<times> string \<times> string) set" where
  "network_keys routes j = {(KService, j_namespace j, GetJenkinsHTTPServiceName j)} \<union>
     {(KService, j_namespace j, GetJenkinsJNLPServiceName j)} \<union>
     (if routes then {(KRoute, j_namespace j, ''jenkins-'' @ j_name j)} else {})"

lemma same_keys:
  assumes "j_meta j' = j_meta j"
  shows "network_keys b j' = network_keys b j" "extra_keys j' = extra_keys j"
  using same_identity [OF assms] by (simp_all add: network_keys_def extra_keys_def)

text \<open>The extra role bindings are exactly those of the listed roles.\<close>

definition bound_exactly :: "jenkins \<Rightarrow> jenkins_spec \<Rightarrow> (kind \<times> string \<times> string \<Rightarrow> kobj option) \<Rightarrow> bool" where
  "bound_exactly j spec m \<longleftrightarrow> (\<forall>n. is_extra_binding j n \<longrightarrow> (m (KRoleBinding, j_namespace j, n) \<noteq> None \<longleftrightarrow>
     n \<in> GetExtraRoleBindingName j ` set (case js_roles spec of None \<Rightarrow> [] | Some rs \<Rightarrow> rs)))"

abbreviation object_keys :: "bool \<Rightarrow> jenkins \<Rightarrow> (kind \<times> string \<times> string) set" where
  "object_keys routes j \<equiv> config_keys j \<union> rbac_keys j \<union> network_keys routes j"

lemma extra_keys_apart: "extra_keys j \<inter> object_keys routes j = {}"
  using default_binding_not_extra [of j]
  by (auto simp: extra_keys_def config_keys_def rbac_keys_def network_keys_def)

lemma network_keys_apart: "network_keys routes j \<inter> (config_keys j \<union> rbac_keys j) = {}"
  by (auto simp: config_keys_def rbac_keys_def network_keys_def)

text \<open>The steps of a pass over the resources, seen from the stored objects.\<close>

lemma resources_after:
  assumes f2: "fills (config_keys j \<union> rbac_keys j) m m2"
    and f3: "\<And>key. key \<notin> extra_keys j \<Longrightarrow> m3 key = m2 key" and exact: "bound_exactly j spec m3"
    and f4: "fills (network_keys routes j) m3 m4"
  shows "(\<forall>key \<in> object_keys routes j. m4 key \<noteq> None) \<and> bound_exactly j spec m4 \<and>
    (\<forall>key. key \<notin> object_keys routes j \<union> extra_keys j \<longrightarrow> m4 key = m key)"
proof (intro conjI ballI allI impI)
  fix key assume key: "key \<in> object_keys routes j"
  show "m4 key \<noteq> None"
  proof (cases "key \<in> network_keys routes j")
    case True
    with f4 show ?thesis unfolding fills_def by blast
  next
    case False
    with key extra_keys_apart have "key \<notin> extra_keys j" "key \<in> config_keys j \<union> rbac_keys j" by blast+
    with fills_same [OF f4 False] f3 [of key] f2 show ?thesis unfolding fills_def by simp
  qed
next
  have "(KRoleBinding, j_namespace j, n) \<notin> network_keys routes j" for n by (auto simp: network_keys_def)
  from fills_same [OF f4 this] exact show "bound_exactly j spec m4" by (simp add: bound_exactly_def)
next
  fix key assume "key \<notin> object_keys routes j \<union> extra_keys j"
  then show "m4 key = m key" using fills_same [OF f4, of key] f3 [of key] fills_same [OF f2, of key] by simp
qed

section \<open>The parts of the pass\<close>

lemma fills_put_at: "fills {k} m (put_at k g m)"
  by (simp add: fills_def)

lemma fills_put_owned: "obj_key x = k \<Longrightarrow> fills {k} m (put_owned j x m)"
  by (auto simp: fills_def put_owned_def)

lemma fills_config_map:
  assumes "\<And>c. cm = Some c \<Longrightarrow> obj_key (OConfigMap c) = k" and "cm \<noteq> None"
  shows "fills {k} m (put_config_map j cm m)"
  using assms by (auto simp: put_config_map_def fills_put_owned)

lemma configs_fill:
  assumes "status_spec j = Some spec" and "first_container spec \<noteq> None"
  shows "fills (config_keys j) m (desired_configs intn j m)"
proof -
  note there = config_map_builders [OF assms, of "NewResourceObjectMeta j"]
  note maps = fills_config_map [OF config_map_keys(1) there(1)] fills_config_map [OF config_map_keys(2) there(2)]
    fills_config_map [OF config_map_keys(3) there(3)]
  show ?thesis
    unfolding config_keys_def desired_configs_def Let_def
    by (rule fills_trans [OF fills_trans [OF fills_trans [OF fills_put_at maps(1)] maps(2)] maps(3)])
qed

lemma rbac_fill: "fills (rbac_keys j) m (desired_rbac j m)"
  unfolding rbac_keys_def desired_rbac_def 
  by (rule fills_trans [OF fills_trans [OF fills_put_at fills_put_owned [OF role_keys(1)]] fills_put_owned [OF role_keys(2)]])

lemma network_fill: "fills (network_keys routes j) m (desired_network routes j spec m)"
  by (auto simp: fills_def network_keys_def desired_network_def Let_def put_at_def)

lemma bindings_frame: "key \<notin> extra_keys j \<Longrightarrow> desired_bindings j roles m key = m key"
  by (cases key) (auto simp: desired_bindings_def extra_keys_def)

lemma bindings_exact: "bound_exactly j spec (desired_bindings j (spec_roles spec) m)"
  using binding_for_None [of j "spec_roles spec"] by (simp add: bound_exactly_def desired_bindings_def spec_roles_def)

text \<open>
  One pass over everything the deployment needs: no error, no panic; all objects are there, the
  extra role bindings are exactly those the specification lists, and nothing else has changed.
\<close>

context kube_server
begin

lemma resources_achieve:
  assumes "located j" and st: "status_spec j = Some spec" and fc: "first_container spec \<noteq> None"
    and d: "distinct (map fst (go_entries (js_saAnnotations (j_spec j))))"
    and w1: "labels_writable m (KService, j_namespace j, GetJenkinsHTTPServiceName j) (js_service spec)"
    and w2: "labels_writable m (KService, j_namespace j, GetJenkinsJNLPServiceName j) (js_jnlpService spec)"
    and port: "route_has_port m (KRoute, j_namespace j, ''jenkins-'' @ j_name j)"
  shows "achieves valid stored m (ensureResourcesRequiredForJenkinsDeploymentArePresent E D j)
    (\<lambda>r m'. r = (Inr (), write_sa_annotation j) \<and> (\<forall>key \<in> object_keys (bd_routes D) j. m' key \<noteq> None) \<and>
      bound_exactly j spec m' \<and> (\<forall>key. key \<notin> object_keys (bd_routes D) j \<union> extra_keys j \<longrightarrow> m' key = m key))"
proof (rule achieves_weaken [OF pass_implements [OF assms]], simp only: gives_iff, elim conjE, goal_cases)
  case (1 r m')
  let ?m2 = "desired_rbac j (desired_configs (bd_intn D) j m)"
  have "fills (config_keys j \<union> rbac_keys j) m ?m2"
    by (rule fills_trans [OF configs_fill [OF st fc] rbac_fill])
  from resources_after [OF this bindings_frame bindings_exact network_fill]
  show ?case by (simp add: 1 desired_state_def)
qed

end

section \<open>Properties\<close>



text \<open>
  C29. A new service gets a wrong selector: the label map that names the pods is also the label map of
  the service, so labels configured for the service end up in the selector, and no pod has them.
  The next reconciliation repairs it.
\<close>

theorem new_service_selects_configured_labels:
  assumes "wf_cluster (world s)" and "located j" and "n \<noteq> []" and "om_namespace meta = j_namespace j"
    and "om_labels meta \<noteq> None" and "lookup (world s) (KService, j_namespace j, n) = None"
    and "go_put_all (om_labels meta) (go_entries (sv_labels config)) = Some l"
  shows "\<exists>s1 svc1 s2 svc2.
    createService (fake_env runs) j meta n config s = (Done (Inr (meta\<lparr>om_labels := l\<rparr>)), s1) \<and>
    lookup (world s1) (KService, j_namespace j, n) = Some (OService svc1) \<and> svc_selector svc1 = l \<and>
    createService (fake_env runs) j meta n config s1 = (Done (Inr meta), s2) \<and>
    lookup (world s2) (KService, j_namespace j, n) = Some (OService svc2) \<and> svc_selector svc2 = om_labels meta"
proof -
  let ?k = "(KService, j_namespace j, n)" and ?d = "desired_service j (om_labels meta) n config"
  have l: "shared_labels (om_labels meta) config None = l" by (simp add: shared_labels_def assms(7))
  have "labels_writable (lookup (world s)) ?k config" by (simp add: labels_writable_def assms(6))
  note run1 = fake.service_implements [OF assms(2-5) this, of runs, unfolded assms(6) l]
  obtain s1 where s1: "createService (fake_env runs) j meta n config s = (Done (Inr (meta\<lparr>om_labels := l\<rparr>)), s1)"
    "wf_cluster (world s1)" "lookup (world s1) = put_at ?k ?d (lookup (world s))"
    by (rule achievesE [OF run1 assms(1) refl]) simp
  obtain svc1 where svc1: "?d None = OService svc1" "svc_selector svc1 = l" "writable_service config (OService svc1)"
    by (rule desired_service_result [OF assms(5), of None config j n]) (simp_all add: l)
  then have at1: "lookup (world s1) ?k = Some (OService svc1)" by (simp add: s1(3) assms(6))
  with svc1(3) have "labels_writable (lookup (world s1)) ?k config" by (simp add: labels_writable_def writable_service_def)
  note run2 = fake.service_implements [OF assms(2-5) this, of runs]
  have same: "shared_labels (om_labels meta) config (Some x) = om_labels meta" for x by (simp add: shared_labels_def)
  obtain s2 where s2: "createService (fake_env runs) j meta n config s1 = (Done (Inr meta), s2)"
    "lookup (world s2) = put_at ?k ?d (lookup (world s1))"
    by (rule achievesE [OF run2 s1(2) refl]) (simp add: at1 same)
  obtain svc2 where "?d (Some (OService svc1)) = OService svc2" "svc_selector svc2 = om_labels meta"
    by (rule desired_service_result [OF assms(5), of "Some (OService svc1)" config j n]) (use svc1(3) in \<open>auto simp: same\<close>)
  then have "lookup (world s2) ?k = Some (OService svc2)" by (simp add: s2(2) at1)
  with s1(1) at1 svc1(2) s2(1) \<open>svc_selector svc2 = om_labels meta\<close> show ?thesis by (intro exI conjI)
qed

theorem new_service_selects_configured_labels_witness:
  "\<exists>s1 svc1 s2. createService (fake_env (\<lambda>q. None)) (ready_jenkins empty_spec)
      (NewResourceObjectMeta (ready_jenkins empty_spec)) ''svc'' (empty_jservice\<lparr>sv_labels := Some [(''team'', ''ci'')]\<rparr>)
      \<lparr>world = \<lparr>objects = [], clock = 0\<rparr>, log = []\<rparr> = (Done (Inr s2), s1) \<and>
    lookup (world s1) (KService, ''ns'', ''svc'') = Some (OService svc1) \<and>
    svc_selector svc1 = Some [(''app'', ''jenkins''), (''jenkins-cr'', ''ex''), (''team'', ''ci'')]"
proof -
  let ?s = "\<lparr>world = \<lparr>objects = [], clock = 0\<rparr>, log = []\<rparr> :: cluster sys"
  let ?j = "ready_jenkins empty_spec"
  have n: "j_name ?j = ''ex''" "j_namespace ?j = ''ns''" by (simp_all add: ready_jenkins_def j_name_def j_namespace_def)
  have p: "wf_cluster (world ?s)" "located ?j" "om_namespace (NewResourceObjectMeta ?j) = j_namespace ?j"
    "om_labels (NewResourceObjectMeta ?j) \<noteq> None" "lookup (world ?s) (KService, j_namespace ?j, ''svc'') = None"
    by (simp_all add: wf_cluster_def lookup_def located_def n)
  have l: "go_put_all (om_labels (NewResourceObjectMeta ?j))
      (go_entries (sv_labels (empty_jservice\<lparr>sv_labels := Some [(''team'', ''ci'')]\<rparr>))) =
    Some (Some [(''app'', ''jenkins''), (''jenkins-cr'', ''ex''), (''team'', ''ci'')])" by code_simp
  have "''svc'' \<noteq> ([] :: string)" by simp
  from new_service_selects_configured_labels [OF p(1,2) this p(3,4,5) l, of "\<lambda>q. None", unfolded n]
  show ?thesis by blast
qed

text \<open>
  When the deployment cannot be read, the reconciler dereferences a nil pointer: the check that
  it is ready panics on any error, the step that creates it on any error but \<open>NotFound\<close>.
\<close>

theorem deployment_read_error_panics:
  assumes "fst (e_get E KDeployment (j_namespace j) (GetJenkinsDeploymentName j) (world s)) = Inl e"
  shows "(\<exists>c s'. ensureJenkinsDeploymentIsReady E j s = (Crashed c, s')) \<and>
    (\<not> IsNotFound e \<longrightarrow> (\<exists>c s'. ensureJenkinsDeploymentIsPresent E version j meta s = (Crashed c, s')))"
proof -
  obtain s1 where s1: "GetJenkinsDeployment E j s = (Done (Inl e), s1)"
    using assms by (cases "e_get E KDeployment (j_namespace j) (GetJenkinsDeploymentName j) (world s)")
      (simp add: GetJenkinsDeployment_def client_get_def perform_def decode_def)
  show ?thesis
    unfolding ensureJenkinsDeploymentIsReady_def ensureJenkinsDeploymentIsPresent_def run_bindP s1
    by (simp add: crash_def)
qed

theorem deployment_read_error_panics_witness:
  "\<exists>c s'. ensureJenkinsDeploymentIsReady (fake_env (\<lambda>q. None)) (ready_jenkins empty_spec)
    \<lparr>world = \<lparr>objects = [], clock = 0\<rparr>, log = []\<rparr> = (Crashed c, s')"
proof -
  let ?s = "\<lparr>world = \<lparr>objects = [], clock = 0\<rparr>, log = []\<rparr> :: cluster sys"
  have "fst (e_get (fake_env (\<lambda>q. None)) KDeployment (j_namespace (ready_jenkins empty_spec))
      (GetJenkinsDeploymentName (ready_jenkins empty_spec)) (world ?s)) =
    Inl (StatusErr NotFound ''jenkins-ex not found'')" by code_simp
  from deployment_read_error_panics [OF this] show ?thesis by blast
qed

text \<open>
  C30. The extra role bindings of a Jenkins are recognised by the prefix of their name alone: a Jenkins
  in the same namespace whose name continues with \<open>-r-\<close> or \<open>-cr-\<close> loses its own role
  binding, unless the specification of the first happens to list it.
\<close>

theorem extra_bindings_delete_other_jenkins:
  assumes "wf_cluster (world s)" and "located j" and "status_spec j = Some spec"
    and "j_name other = j_name j @ ''-r-'' @ rest \<or> j_name other = j_name j @ ''-cr-'' @ rest"
    and "GetResourceName other \<notin> GetExtraRoleBindingName j ` set (case js_roles spec of None \<Rightarrow> [] | Some rs \<Rightarrow> rs)"
  shows "\<exists>s'. ensureExtraRBACArePresent (fake_env runs) j s = (Done (Inr ()), s') \<and>
    lookup (world s') (KRoleBinding, j_namespace j, GetResourceName other) = None"
proof -
  have "is_extra_binding j (GetResourceName other)"
    using assms(4) by (auto simp: is_extra_binding_def name_defs HasPrefix_def prefix_def empty_meta_def)
  moreover have "binding_for j (spec_roles spec) (GetResourceName other) = None"
    using assms(5) by (simp add: binding_for_None spec_roles_def)
  ultimately have gone: "desired_bindings j (spec_roles spec) m (KRoleBinding, j_namespace j, GetResourceName other) = None" for m
    by (simp add: desired_bindings_def)
  show ?thesis
    by (rule achievesE [OF fake.extra_implements [OF assms(2,3), where runs = runs] assms(1) refl]) (simp add: gone)
qed

theorem extra_bindings_delete_other_jenkins_witness:
  "\<exists>s'. ensureExtraRBACArePresent (fake_env (\<lambda>q. None)) (ready_jenkins empty_spec)
      \<lparr>world = \<lparr>objects = [ORoleBinding \<lparr>rb_meta = empty_meta\<lparr>om_name := ''jenkins-ex-r-b'', om_namespace := ''ns''\<rparr>,
        rb_roleRef = \<lparr>rf_apiGroup = [], rf_kind = ''Role'', rf_name = ''jenkins-ex-r-b''\<rparr>, rb_subjects = []\<rparr>], clock = 0\<rparr>, log = []\<rparr> =
      (Done (Inr ()), s') \<and>
    lookup (world s') (KRoleBinding, ''ns'', ''jenkins-ex-r-b'') = None"
proof -
  let ?s = "\<lparr>world = \<lparr>objects = [ORoleBinding \<lparr>rb_meta = empty_meta\<lparr>om_name := ''jenkins-ex-r-b'', om_namespace := ''ns''\<rparr>,
        rb_roleRef = \<lparr>rf_apiGroup = [], rf_kind = ''Role'', rf_name = ''jenkins-ex-r-b''\<rparr>, rb_subjects = []\<rparr>], clock = 0\<rparr>, log = []\<rparr> :: cluster sys"
  let ?j = "ready_jenkins empty_spec"
  let ?o = "?j\<lparr>j_meta := empty_meta\<lparr>om_name := ''ex-r-b'', om_namespace := ''ns''\<rparr>\<rparr>"
  have n: "j_name ?j = ''ex''" "j_namespace ?j = ''ns''" "j_name ?o = ''ex-r-b''" "GetResourceName ?o = ''jenkins-ex-r-b''"
    by (simp_all add: ready_jenkins_def j_name_def j_namespace_def name_defs)
  have w: "wf_cluster (world ?s)"
    by (simp add: wf_cluster_def obj_key_def proper_key_def empty_meta_def)
  have l: "located ?j" by (simp add: located_def n)
  have o: "j_name ?o = j_name ?j @ ''-r-'' @ ''b'' \<or> j_name ?o = j_name ?j @ ''-cr-'' @ ''b''" unfolding n by simp
  have "js_roles empty_spec = None" by (simp add: empty_spec_def)
  then have "GetResourceName ?o \<notin> GetExtraRoleBindingName ?j ` set (case js_roles empty_spec of None \<Rightarrow> [] | Some rs \<Rightarrow> rs)"
    by (simp only: option.case list.set image_empty empty_iff not_False_eq_True)
  from extra_bindings_delete_other_jenkins [OF w l full_spec_simps(1) o this, of "\<lambda>q. None"]
  show ?thesis unfolding n .
qed

end
