(* ===== verification/Base_Convergence.thy ===== *)
theory Base_Convergence
  imports Base_Resources
begin

text \<open>
  The control loop of the base reconciler converges: when both services are there, a second pass
  finds the objects as the first one left them and leaves them so.  The parts of \<open>desired_state\<close>
  work on disjoint sets of keys, so each can be treated on its own.
\<close>

section \<open>Functions on a part of the store\<close>

definition works_on :: "(kind \<times> string \<times> string) set \<Rightarrow> (store \<Rightarrow> store) \<Rightarrow> bool" where
  "works_on K f \<longleftrightarrow> (\<forall>m key. key \<notin> K \<longrightarrow> f m key = m key) \<and>
     (\<forall>m m'. (\<forall>key \<in> K. m key = m' key) \<longrightarrow> (\<forall>key \<in> K. f m key = f m' key))"

lemma works_frame: "works_on K f \<Longrightarrow> key \<notin> K \<Longrightarrow> f m key = m key"
  unfolding works_on_def by blast

lemma works_local: "works_on K f \<Longrightarrow> (\<And>key. key \<in> K \<Longrightarrow> m key = m' key) \<Longrightarrow> key \<in> K \<Longrightarrow> f m key = f m' key"
  unfolding works_on_def by blast

lemma works_seq:
  assumes f: "works_on K f" and g: "works_on K' g" and "K \<inter> K' = {}"
  shows "works_on (K \<union> K') (\<lambda>m. g (f m))"
  unfolding works_on_def
proof (intro conjI allI impI ballI)
  fix m key assume "key \<notin> K \<union> K'"
  then show "g (f m) key = m key" using works_frame [OF f] works_frame [OF g] by simp
next
  fix m m' :: store and key
  assume same: "\<forall>key \<in> K \<union> K'. m key = m' key" and key: "key \<in> K \<union> K'"
  have fm: "f m k = f m' k" if "k \<in> K \<union> K'" for k
  proof (cases "k \<in> K")
    case True
    then show ?thesis by (rule works_local [OF f, rotated]) (use same in blast)
  next
    case False
    with that same works_frame [OF f False] show ?thesis by auto
  qed
  show "g (f m) key = g (f m') key"
  proof (cases "key \<in> K'")
    case True
    then show ?thesis by (rule works_local [OF g, rotated]) (use fm in blast)
  next
    case False
    with key fm works_frame [OF g False] show ?thesis by simp
  qed
qed

lemma works_both:
  assumes f: "works_on K f" and g: "works_on K g"
  shows "works_on K (\<lambda>m. g (f m))"
  unfolding works_on_def
proof (intro conjI allI impI ballI)
  fix m key assume "key \<notin> K"
  then show "g (f m) key = m key" using works_frame [OF f] works_frame [OF g] by simp
next
  fix m m' :: store and key
  assume "\<forall>key \<in> K. m key = m' key" and key: "key \<in> K"
  then have "f m k = f m' k" if "k \<in> K" for k by (intro works_local [OF f _ that]) blast
  from works_local [OF g this key] show "g (f m) key = g (f m') key" .
qed

text \<open>Parts that are settled after one run are settled together.\<close>

lemma settled_seq:
  assumes f: "works_on K f" and g: "works_on K' g" and apart: "K \<inter> K' = {}"
    and ff: "f (f m) = f m" and gg: "g (g (f m)) = g (f m)"
  shows "g (f (g (f m))) = g (f m)"
proof
  fix key
  have kept: "f (g (f m)) k = f m k" if "k \<in> K" for k
  proof -
    have "g (f m) k' = f m k'" if "k' \<in> K" for k' using that apart works_frame [OF g] by blast
    from works_local [OF f this that] ff show ?thesis by simp
  qed
  show "g (f (g (f m))) key = g (f m) key"
  proof (cases "key \<in> K'")
    case True
    have "f (g (f m)) k = g (f m) k" if "k \<in> K'" for k using that apart works_frame [OF f] by blast
    from works_local [OF g this True] gg show ?thesis by simp
  next
    case False
    then have "g x key = x key" for x by (rule works_frame [OF g])
    then show ?thesis using kept works_frame [OF f] by (cases "key \<in> K") auto
  qed
qed

lemma works_put_at: "works_on {k} (put_at k g)"
  by (auto simp: works_on_def put_at_def)

lemma works_put_owned: "works_on {obj_key x} (put_owned j x)"
  by (auto simp: works_on_def put_owned_def)

lemma settled_put_at: "g (Some (g (m k))) = g (m k) \<Longrightarrow> put_at k g (put_at k g m) = put_at k g m"
  by (simp add: put_at_def)

lemma settled_put_owned [simp]: "put_owned j x (put_owned j x m) = put_owned j x m"
  by (simp add: put_owned_def)

lemma settled_config_map [simp]: "put_config_map j cm (put_config_map j cm m) = put_config_map j cm m"
  by (simp add: put_config_map_def split: option.split)

section \<open>The objects, kept twice\<close>

lemma secret_again: "desired_secret intn j (Some (desired_secret intn j found)) = desired_secret intn j found"
proof -
  let ?new = "NewOperatorCredentialsSecret intn (NewResourceObjectMeta j) j"
  obtain mm where o: "owned_by j (OSecret ?new) = OSecret (?new\<lparr>sec_meta := mm\<rparr>)" using owned_secret by blast
  have "go_get (sec_data ?new) ''user'' \<noteq> None" "go_get (sec_data ?new) ''password'' \<noteq> None"
    by (simp_all add: NewOperatorCredentialsSecret_def go_get_Some)
  then have new: "desired_secret intn j (Some (owned_by j (OSecret ?new))) = owned_by j (OSecret ?new)"
    by (simp add: o desired_secret_def)
  have "desired_secret intn j found = owned_by j (OSecret ?new) \<or> found = Some (desired_secret intn j found)"
    by (auto simp: desired_secret_def split: option.split kobj.split)
  with new show ?thesis by (elim disjE) simp_all
qed

lemma compareMap_iff:
  assumes "distinct (map fst kvs)"
  shows "compareMap (Some kvs) m \<longleftrightarrow> (\<forall>k. map_of kvs k \<noteq> None \<longrightarrow> go_get m k = map_of kvs k)"
proof -
  have "compareMap (Some kvs) m \<longleftrightarrow> (\<forall>(k, v) \<in> set kvs. go_get m k = Some v)"
    by (simp add: compareMap_def go_entries_def list_all_iff)
  also have "\<dots> \<longleftrightarrow> (\<forall>k v. map_of kvs k = Some v \<longrightarrow> go_get m k = Some v)" using assms by auto
  finally show ?thesis by auto
qed

lemma synced_again:
  assumes "distinct (map fst kvs)"
  obtains sa' where "synced_account j kvs sa = OServiceAccount sa'" and "synced_account j kvs sa' = OServiceAccount sa'"
proof (cases "compareMap (Some kvs) (om_annotations (sa_meta sa))")
  case True
  then show thesis by (intro that [of sa]) (simp_all add: synced_account_def)
next
  case False
  obtain l where l: "go_put_all (Some (go_entries (om_annotations (sa_meta sa)))) kvs = Some l"
    using go_put_all_Some by blast
  let ?sa = "sa\<lparr>sa_meta := (sa_meta sa)\<lparr>om_annotations := l\<rparr>\<rparr>"
  obtain mm where o: "owned_by j (OServiceAccount ?sa) = OServiceAccount (?sa\<lparr>sa_meta := mm\<rparr>)" using owned_account by blast
  with owned_keeps [of j "OServiceAccount ?sa"] have "om_annotations mm = l" by auto
  then have "compareMap (Some kvs) (om_annotations mm)"
    using go_put_all_get [OF l assms] by (auto simp: compareMap_iff [OF assms])
  with False l o show thesis by (intro that [of "?sa\<lparr>sa_meta := mm\<rparr>"]) (simp_all add: synced_account_def)
qed

lemma account_again:
  assumes "distinct (map fst (go_entries (js_saAnnotations (j_spec j))))"
  shows "desired_account j (Some (desired_account j found)) = desired_account j found"
proof -
  note d = account_annotations_distinct [OF assms]
  let ?new = "OServiceAccount (NewServiceAccount (NewResourceObjectMeta j) (Some (sa_annotations j)))"
  obtain sa where sa: "owned_by j ?new = OServiceAccount sa" using owned_account by blast
  with owned_keeps [of j ?new] have "om_annotations (sa_meta sa) = Some (sa_annotations j)" by (auto simp: NewServiceAccount_def)
  then have new: "desired_account j (Some (owned_by j ?new)) = owned_by j ?new"
    by (simp add: sa desired_account_def synced_account_def compareMap_self [OF d])
  show ?thesis
  proof (cases "\<exists>sa. found = Some (OServiceAccount sa)")
    case True
    then obtain sa where "found = Some (OServiceAccount sa)" by blast
    moreover obtain sa' where "synced_account j (sa_annotations j) sa = OServiceAccount sa'"
      "synced_account j (sa_annotations j) sa' = OServiceAccount sa'" by (rule synced_again [OF d])
    ultimately show ?thesis by (simp add: desired_account_def)
  next
    case False
    then have "desired_account j found = owned_by j ?new" by (auto simp: desired_account_def split: option.split kobj.split)
    with new show ?thesis by simp
  qed
qed

text \<open>Writing the same entries again changes nothing.\<close>

lemma update_same: "map_of kvs k = Some v \<Longrightarrow> AList.update k v kvs = kvs"
  by (induction kvs) (auto split: if_splits)

lemma go_put_all_same:
  assumes "\<And>k v. (k, v) \<in> set es \<Longrightarrow> go_get m k = Some v"
  shows "go_put_all m es = Some m"
  using assms
proof (induction es)
  case (Cons e es)
  obtain k v where e: "e = (k, v)" by (cases e)
  from Cons.prems e have "go_get m k = Some v" by simp
  then have "go_put m k v = Some m" by (cases m) (simp_all add: go_put_def go_get_Some update_same)
  with Cons e show ?case by simp
qed simp

lemma go_put_all_again:
  assumes "go_put_all m es = Some l" and "distinct (map fst es)"
  shows "go_put_all l es = Some l"
  by (rule go_put_all_same) (use go_put_all_get [OF assms] assms(2) in auto)

lemma UpdateService_again:
  assumes "UpdateService svc config = Some s" and "distinct (map fst (go_entries (sv_labels config)))"
  shows "UpdateService s config = Some s"
proof -
  from assms(1) obtain l where "go_put_all (om_labels (svc_meta svc)) (go_entries (sv_labels config)) = Some l"
    by (auto simp: UpdateService_def bind_eq_Some_conv)
  with go_put_all_again [OF this assms(2)] assms(1) show ?thesis
    by (auto simp: UpdateService_def Let_def)
qed

lemma UpdateService_owner:
  "UpdateService (s\<lparr>svc_meta := (svc_meta s)\<lparr>om_ownerRefs := rs\<rparr>\<rparr>) config =
     map_option (\<lambda>s. s\<lparr>svc_meta := (svc_meta s)\<lparr>om_ownerRefs := rs\<rparr>\<rparr>) (UpdateService s config)"
  by (cases "go_put_all (om_labels (svc_meta s)) (go_entries (sv_labels config))") (simp_all add: UpdateService_def Let_def)

lemma updated_service_again:
  assumes "writable_service config (OService svc)" and d: "distinct (map fst (go_entries (sv_labels config)))"
    and u: "updated_service j labels config svc = OService s"
  shows "updated_service j labels config s = OService s"
proof -
  from assms(1) obtain l where l: "go_put_all (om_labels (svc_meta svc)) (go_entries (sv_labels config)) = Some l"
    by (rule writable_service_put)
  obtain s0 mm where s0: "UpdateService (svc\<lparr>svc_selector := labels\<rparr>) config = Some s0"
    and o: "owned_by j (OService s0) = OService (s0\<lparr>svc_meta := mm\<rparr>)"
    and s: "s = s0\<lparr>svc_meta := mm\<rparr>" and lab: "om_labels mm = l" and sel: "svc_selector s0 = labels"
  proof (rule updated_service_eq [OF l, of labels j], goal_cases)
    case (1 s0 mm)
    then show thesis by (intro that [of s0 mm]) (use u in simp_all)
  qed
  from owned_keeps [of j "OService s0"] o obtain rs where "mm = (svc_meta s0)\<lparr>om_ownerRefs := rs\<rparr>" by auto
  with UpdateService_again [OF s0 d] have "UpdateService s config = Some s" by (simp add: s UpdateService_owner)
  moreover have "s\<lparr>svc_selector := labels\<rparr> = s" using sel by (simp add: s)
  moreover have "owned_by j (OService s) = OService s" using owned_by_again [of j "OService s0"] o by (simp add: s)
  ultimately show ?thesis by (simp add: updated_service_def)
qed

lemma UpdateRoute_kept:
  assumes "status_spec j = Some spec" and "rt_toName r = GetJenkinsHTTPServiceName j" and "rt_port r = Some t"
    and "ios_int t = sv_port (js_service spec)"
  shows "UpdateRoute r j = Some r"
  using assms by (simp add: UpdateRoute_def Let_def)

lemma route_again:
  assumes "status_spec j = Some spec" and "\<And>x. found = Some x \<Longrightarrow> \<exists>r. x = ORoute r \<and> rt_port r \<noteq> None"
  shows "desired_route j meta (Some (desired_route j meta found)) = desired_route j meta found"
proof -
  let ?r = "case found of Some (ORoute r) \<Rightarrow> r\<lparr>rt_meta := (rt_meta r)\<lparr>om_labels := om_labels meta\<rparr>\<rparr>
    | _ \<Rightarrow> newRoute meta (''jenkins-'' @ j_name j) (GetJenkinsHTTPServiceName j)"
  have "rt_port ?r \<noteq> None" using assms(2) by (auto simp: newRoute_def newRouteSpect_def split: option.split)
  then obtain t where "rt_port ?r = Some t" by blast
  from UpdateRoute_Some [OF assms(1) this] obtain r' t' where r': "UpdateRoute ?r j = Some r'" "rt_meta r' = rt_meta ?r"
    and kept: "rt_toName r' = GetJenkinsHTTPServiceName j" "rt_port r' = Some t'" "ios_int t' = sv_port (js_service spec)" by blast
  obtain mm where o: "owned_by j (ORoute r') = ORoute (r'\<lparr>rt_meta := mm\<rparr>)" using owned_route by blast
  have "om_labels (rt_meta ?r) = om_labels meta"
    using assms(2) by (auto simp: newRoute_def newRouteSpect_def split: option.split)
  moreover obtain rs where "mm = (rt_meta r')\<lparr>om_ownerRefs := rs\<rparr>" using owned_keeps [of j "ORoute r'"] o by auto
  ultimately have "mm\<lparr>om_labels := om_labels meta\<rparr> = mm" using r'(2) by simp
  moreover have "owned_by j (ORoute (r'\<lparr>rt_meta := mm\<rparr>)) = ORoute (r'\<lparr>rt_meta := mm\<rparr>)"
    using owned_by_again [of j "ORoute r'"] o by simp
  moreover have "desired_route j meta found = ORoute (r'\<lparr>rt_meta := mm\<rparr>)" using r'(1) o by (simp add: desired_route_def Let_def)
  moreover have "UpdateRoute (r'\<lparr>rt_meta := mm\<rparr>) j = Some (r'\<lparr>rt_meta := mm\<rparr>)"
    by (rule UpdateRoute_kept [OF assms(1)]) (use kept in simp_all)
  ultimately show ?thesis by (simp add: desired_route_def Let_def)
qed

section \<open>The pass, done twice\<close>

lemma configs_settled:
  "works_on ({secret_key j} \<union> {key. fst key = KConfigMap}) (desired_configs intn j)"
  "desired_configs intn j (desired_configs intn j m) = desired_configs intn j m"
proof -
  let ?meta = "NewResourceObjectMeta j"
  let ?maps = "\<lambda>m. put_config_map j (NewBasePluginConfigMap ?meta j)
    (put_config_map j (NewInitConfigurationConfigMap ?meta j) (put_config_map j (NewScriptsConfigMap ?meta j) m))"
  let ?secret = "put_at (secret_key j) (desired_secret intn j)"
  have one: "works_on {key. fst key = KConfigMap} (put_config_map j cm)" for cm
    by (auto simp: works_on_def put_config_map_def put_owned_def obj_key_def split: option.split)
  have maps: "works_on {key. fst key = KConfigMap} ?maps"
    by (rule works_both [OF works_both [OF one one] one])
  have apart: "{secret_key j} \<inter> {key. fst key = KConfigMap} = {}" by auto
  have eq: "desired_configs intn j = (\<lambda>m. ?maps (?secret m))" by (rule ext) (simp add: desired_configs_def Let_def)
  show "works_on ({secret_key j} \<union> {key. fst key = KConfigMap}) (desired_configs intn j)"
    unfolding eq by (rule works_seq [OF works_put_at maps apart])
  have "?maps (?maps m) = ?maps m" for m
    by (rule ext) (simp add: put_config_map_def put_owned_def split: option.split)
  then show "desired_configs intn j (desired_configs intn j m) = desired_configs intn j m"
    unfolding eq by (intro settled_seq [OF works_put_at maps apart] settled_put_at secret_again)
qed

abbreviation role_set :: "jenkins \<Rightarrow> (kind \<times> string \<times> string) set" where
  "role_set j \<equiv> {account_key j} \<union> {obj_key (ORole (NewRole j))} \<union> {obj_key (ORoleBinding (default_binding j))}"

lemma rbac_settled:
  assumes "distinct (map fst (go_entries (js_saAnnotations (j_spec j))))"
  shows "works_on (role_set j) (desired_rbac j)" and "desired_rbac j (desired_rbac j m) = desired_rbac j m"
proof -
  let ?acc = "put_at (account_key j) (desired_account j)" and ?role = "put_owned j (ORole (NewRole j))"
  let ?b = "put_owned j (ORoleBinding (default_binding j))"
  have apart: "{account_key j} \<inter> {obj_key (ORole (NewRole j))} = {}"
    "({account_key j} \<union> {obj_key (ORole (NewRole j))}) \<inter> {obj_key (ORoleBinding (default_binding j))} = {}"
    by (simp_all add: role_keys)
  note two = works_seq [OF works_put_at [where g = "desired_account j"] works_put_owned [where j = j] apart(1)]
  have eq: "desired_rbac j = (\<lambda>m. ?b (?role (?acc m)))" by (rule ext) (simp add: desired_rbac_def)
  show "works_on (role_set j) (desired_rbac j)"
    unfolding eq by (rule works_seq [OF two works_put_owned apart(2)])
  have "?role (?acc (?role (?acc m))) = ?role (?acc m)"
    by (rule settled_seq [OF works_put_at works_put_owned apart(1)]) (simp_all add: settled_put_at account_again [OF assms])
  then show "desired_rbac j (desired_rbac j m) = desired_rbac j m"
    unfolding eq by (intro settled_seq [OF two works_put_owned apart(2)]) simp_all
qed

lemma bindings_settled:
  "works_on (extra_keys j) (desired_bindings j roles)"
  "desired_bindings j roles (desired_bindings j roles m) = desired_bindings j roles m"
  by (auto simp: works_on_def extra_keys_def desired_bindings_def)

text \<open>With both services there, the label map of the metadata stays as it is.\<close>

definition fixed_network :: "bool \<Rightarrow> jenkins \<Rightarrow> jenkins_spec \<Rightarrow> store \<Rightarrow> store" where
  "fixed_network routes j spec m =
     (let meta = NewResourceObjectMeta j;
          m1 = put_at (http_key j) (desired_service j (om_labels meta) (GetJenkinsHTTPServiceName j) (js_service spec)) m;
          m2 = put_at (jnlp_key j) (desired_service j (om_labels meta) (GetJenkinsJNLPServiceName j) (js_jnlpService spec)) m1
      in if routes then put_at (route_key j) (desired_route j meta) m2 else m2)"

definition services_there :: "jenkins \<Rightarrow> store \<Rightarrow> bool" where
  "services_there j m \<longleftrightarrow> m (http_key j) \<noteq> None \<and> m (jnlp_key j) \<noteq> None"

lemma keys_differ: "jnlp_key j \<noteq> http_key j"
  by (simp add: name_defs)

lemma own_labels [simp]: "(NewResourceObjectMeta j)\<lparr>om_labels := Some (BuildResourceLabels j)\<rparr> = NewResourceObjectMeta j"
  by (simp add: NewResourceObjectMeta_def)

lemma network_fixed:
  assumes "services_there j m"
  shows "desired_network routes j spec m = fixed_network routes j spec m"
  using assms keys_differ [of j]
  by (auto simp: services_there_def desired_network_def fixed_network_def Let_def shared_labels_def)

text \<open>The services and the route that are there can be kept.\<close>

definition network_ok :: "jenkins \<Rightarrow> jenkins_spec \<Rightarrow> store \<Rightarrow> bool" where
  "network_ok j spec m \<longleftrightarrow> (\<forall>x. m (http_key j) = Some x \<longrightarrow> writable_service (js_service spec) x) \<and>
     (\<forall>x. m (jnlp_key j) = Some x \<longrightarrow> writable_service (js_jnlpService spec) x) \<and>
     (\<forall>x. m (route_key j) = Some x \<longrightarrow> (\<exists>r. x = ORoute r \<and> rt_port r \<noteq> None))"

lemma network_ok_needs:
  assumes "network_ok j spec m"
  shows "labels_writable m (http_key j) (js_service spec)" "labels_writable m (jnlp_key j) (js_jnlpService spec)"
    "route_has_port m (route_key j)"
  using assms by (auto simp: network_ok_def labels_writable_def route_has_port_def writable_service_def)

lemma network_after:
  assumes "status_spec j = Some spec" and ok: "network_ok j spec m"
  shows "network_ok j spec (desired_network routes j spec m)" and "services_there j (desired_network routes j spec m)"
proof -
  let ?meta = "NewResourceObjectMeta j"
  let ?l1 = "shared_labels (om_labels ?meta) (js_service spec) (m (http_key j))"
  let ?m1 = "put_at (http_key j) (desired_service j (om_labels ?meta) (GetJenkinsHTTPServiceName j) (js_service spec)) m"
  let ?l2 = "shared_labels ?l1 (js_jnlpService spec) (?m1 (jnlp_key j))"
  let ?N = "desired_network routes j spec m"
  have N: "?N (http_key j) = Some (desired_service j (om_labels ?meta) (GetJenkinsHTTPServiceName j) (js_service spec) (m (http_key j)))"
    "?N (jnlp_key j) = Some (desired_service j ?l1 (GetJenkinsJNLPServiceName j) (js_jnlpService spec) (m (jnlp_key j)))"
    "?N (route_key j) = (if routes then Some (desired_route j (?meta\<lparr>om_labels := ?l2\<rparr>) (m (route_key j))) else m (route_key j))"
    using keys_differ [of j] by (simp_all add: desired_network_def Let_def)
  show "services_there j ?N" by (simp add: services_there_def N)
  have l1: "?l1 \<noteq> None" by (rule shared_labels_kept) simp
  obtain s1 where "desired_service j (om_labels ?meta) (GetJenkinsHTTPServiceName j) (js_service spec) (m (http_key j)) = OService s1"
    "writable_service (js_service spec) (OService s1)"
    by (rule desired_service_result [of "om_labels ?meta" "m (http_key j)" "js_service spec" j])
      (use ok in \<open>auto simp: network_ok_def\<close>)
  moreover obtain s2 where "desired_service j ?l1 (GetJenkinsJNLPServiceName j) (js_jnlpService spec) (m (jnlp_key j)) = OService s2"
    "writable_service (js_jnlpService spec) (OService s2)"
    by (rule desired_service_result [OF l1, of "m (jnlp_key j)" "js_jnlpService spec" j])
      (use ok in \<open>auto simp: network_ok_def\<close>)
  moreover obtain r where "desired_route j (?meta\<lparr>om_labels := ?l2\<rparr>) (m (route_key j)) = ORoute r" "rt_port r \<noteq> None"
    by (rule desired_route_result [OF assms(1), of "m (route_key j)" "?meta\<lparr>om_labels := ?l2\<rparr>"])
      (use ok in \<open>auto simp: network_ok_def\<close>)
  ultimately show "network_ok j spec ?N"
    using ok unfolding network_ok_def N by (auto split: if_splits)
qed

lemma service_settled:
  assumes there: "m k = Some x" and "writable_service config x" and d: "distinct (map fst (go_entries (sv_labels config)))"
  shows "put_at k (desired_service j labels n config) (put_at k (desired_service j labels n config) m) =
    put_at k (desired_service j labels n config) m"
proof (rule settled_put_at)
  from assms(2) obtain svc where x: "x = OService svc" "writable_service config (OService svc)"
    by (cases x) (auto simp: writable_service_def)
  obtain s where s: "updated_service j labels config svc = OService s" by (rule updated_service_result [OF x(2)])
  from updated_service_again [OF x(2) d s] s
  show "desired_service j labels n config (Some (desired_service j labels n config (m k))) = desired_service j labels n config (m k)"
    by (simp add: there x(1) desired_service_def)
qed

abbreviation network_set :: "bool \<Rightarrow> jenkins \<Rightarrow> (kind \<times> string \<times> string) set" where
  "network_set routes j \<equiv> {http_key j} \<union> {jnlp_key j} \<union> {route_key j}"

lemma network_settled:
  assumes st: "status_spec j = Some spec" and ok: "network_ok j spec m" and there: "services_there j m"
    and d: "distinct (map fst (go_entries (sv_labels (js_service spec))))"
      "distinct (map fst (go_entries (sv_labels (js_jnlpService spec))))"
  shows "works_on (network_set routes j) (fixed_network routes j spec)"
    and "fixed_network routes j spec (fixed_network routes j spec m) = fixed_network routes j spec m"
proof -
  let ?meta = "NewResourceObjectMeta j"
  let ?h = "put_at (http_key j) (desired_service j (om_labels ?meta) (GetJenkinsHTTPServiceName j) (js_service spec))"
  let ?a = "put_at (jnlp_key j) (desired_service j (om_labels ?meta) (GetJenkinsJNLPServiceName j) (js_jnlpService spec))"
  let ?r = "\<lambda>m. if routes then put_at (route_key j) (desired_route j ?meta) m else m"
  have apart: "{http_key j} \<inter> {jnlp_key j} = {}" "({http_key j} \<union> {jnlp_key j}) \<inter> {route_key j} = {}"
    using keys_differ [of j] by simp_all
  note two = works_seq [OF works_put_at works_put_at apart(1)]
  have route: "works_on {route_key j} ?r" by (cases routes) (simp_all add: works_put_at works_on_def)
  have eq: "fixed_network routes j spec = (\<lambda>m. ?r (?a (?h m)))" by (rule ext) (simp add: fixed_network_def Let_def)
  show "works_on (network_set routes j) (fixed_network routes j spec)"
    unfolding eq by (rule works_seq [OF two route apart(2)])
  from there obtain x y where x: "m (http_key j) = Some x" and y: "m (jnlp_key j) = Some y" by (auto simp: services_there_def)
  have "(?h m) (jnlp_key j) = Some y" using y keys_differ [of j] by simp
  with ok x y have s: "?h (?h m) = ?h m" "?a (?a (?h m)) = ?a (?h m)"
    by (auto intro!: service_settled d simp: network_ok_def)
  have "?a (?h (?a (?h m))) = ?a (?h m)" by (rule settled_seq [OF works_put_at works_put_at apart(1)]) (rule s)+
  moreover have "?r (?r m') = ?r m'" if "m' (route_key j) = m (route_key j)" for m'
    using ok route_again [OF st, of "m (route_key j)" ?meta] that by (auto simp: network_ok_def intro!: settled_put_at)
  ultimately show "fixed_network routes j spec (fixed_network routes j spec m) = fixed_network routes j spec m"
    unfolding eq by (intro settled_seq [OF two route apart(2)]) simp_all
qed

text \<open>A pass over objects among which both services are settles them.\<close>

lemma state_settled:
  assumes st: "status_spec j = Some spec" and ok: "network_ok j spec m" and there: "services_there j m"
    and "distinct (map fst (go_entries (js_saAnnotations (j_spec j))))"
    and d: "distinct (map fst (go_entries (sv_labels (js_service spec))))"
      "distinct (map fst (go_entries (sv_labels (js_jnlpService spec))))"
  shows "desired_state D j spec (desired_state D j spec m) = desired_state D j spec m"
proof -
  let ?C = "desired_configs (bd_intn D) j" and ?R = "desired_rbac j" and ?B = "desired_bindings j (spec_roles spec)"
  let ?N = "fixed_network (bd_routes D) j spec"
  let ?cs = "{secret_key j} \<union> {key. fst key = KConfigMap}" and ?T = "desired_state D j spec"
  note C = configs_settled [where j = j and intn = "bd_intn D"] and R = rbac_settled [OF assms(4)] and B = bindings_settled [where j = j and roles = "spec_roles spec"]
  have same: "?B (?R (?C x)) key = x key" if "key \<in> network_set routes j" for x key routes
    using that by (auto simp: others)
  have keep: "network_ok j spec (?B (?R (?C x))) = network_ok j spec x" "services_there j (?B (?R (?C x))) = services_there j x" for x
    by (simp_all add: network_ok_def services_there_def same)
  have T: "?T x = ?N (?B (?R (?C x)))" if "services_there j x" for x
    using that network_fixed [of j "?B (?R (?C x))"] keep by (simp add: desired_state_def)
  have after: "services_there j (?T m)"
    using network_after(2) [OF st, of "?B (?R (?C m))"] ok keep by (simp add: desired_state_def)
  note N = network_settled [OF st, of "?B (?R (?C m))", unfolded keep, OF ok there d]
  have apart: "?cs \<inter> role_set j = {}" "(?cs \<union> role_set j) \<inter> extra_keys j = {}"
    "(?cs \<union> role_set j \<union> extra_keys j) \<inter> network_set (bd_routes D) j = {}"
    using default_binding_not_extra [of j] by (auto simp: role_keys extra_keys_def)
  have RC: "?R (?C (?R (?C m))) = ?R (?C m)"
    by (rule settled_seq [where f = ?C and g = ?R, OF C(1) R(1) apart(1) C(2) R(2)])
  note wRC = works_seq [where f = ?C and g = ?R, OF C(1) R(1) apart(1)]
  have BRC: "?B (?R (?C (?B (?R (?C m))))) = ?B (?R (?C m))"
    by (rule settled_seq [where f = "\<lambda>m. ?R (?C m)" and g = ?B, OF wRC B(1) apart(2) RC B(2)])
  note wBRC = works_seq [where f = "\<lambda>m. ?R (?C m)" and g = ?B, OF wRC B(1) apart(2)]
  have "?N (?B (?R (?C (?N (?B (?R (?C m))))))) = ?N (?B (?R (?C m)))"
    by (rule settled_seq [where f = "\<lambda>m. ?B (?R (?C m))" and g = ?N, OF wBRC N(1) apart(3) BRC N(2)])
  then show ?thesis using T [OF there] T [OF after] by simp
qed

section \<open>Properties\<close>

lemma network_ok_stored:
  assumes "wf_cluster w" and w1: "labels_writable (lookup w) (http_key j) (js_service spec)"
    and w2: "labels_writable (lookup w) (jnlp_key j) (js_jnlpService spec)" and port: "route_has_port (lookup w) (route_key j)"
  shows "network_ok j spec (lookup w)"
proof -
  have svc: "writable_service config x" if "lookup w (KService, ns, n) = Some x" and "labels_writable (lookup w) (KService, ns, n) config"
    for x ns n config
  proof -
    from lookup_key [OF that(1)] kind_cases(2) obtain s where "x = OService s" by blast
    with that show ?thesis by (simp add: labels_writable_def writable_service_def)
  qed
  have "\<exists>r. x = ORoute r \<and> rt_port r \<noteq> None" if "lookup w (route_key j) = Some x" for x
  proof -
    from lookup_key [OF that] kind_cases(4) obtain r where "x = ORoute r" by blast
    with that port show ?thesis unfolding route_has_port_def by blast
  qed
  with svc w1 w2 show ?thesis unfolding network_ok_def by blast
qed

abbreviation fake_pass :: "(exec_request \<Rightarrow> goerr option) \<Rightarrow> base_deps \<Rightarrow> jenkins \<Rightarrow>
    (cluster, (goerr + unit) \<times> jenkins) prog" where
  "fake_pass runs D j \<equiv> ensureResourcesRequiredForJenkinsDeploymentArePresent (fake_env runs) D j"

text \<open>
  C6. The control loop of the base reconciler converges.  A pass over the resources leaves exactly the
  objects of \<open>desired_state\<close>; after two passes every further one succeeds and changes nothing, and
  after one already when both services existed (a new service gets the selector that the second pass
  repairs).
\<close>

theorem pass_converges:
  assumes "wf_cluster (world s)" and "located j" and "status_spec j = Some spec" and "first_container spec \<noteq> None"
    and "distinct (map fst (go_entries (js_saAnnotations (j_spec j))))"
    and "distinct (map fst (go_entries (sv_labels (js_service spec))))"
    and "distinct (map fst (go_entries (sv_labels (js_jnlpService spec))))"
    and "labels_writable (lookup (world s)) (http_key j) (js_service spec)"
    and "labels_writable (lookup (world s)) (jnlp_key j) (js_jnlpService spec)"
    and "route_has_port (lookup (world s)) (route_key j)"
  shows "\<exists>s1 s2. fake_pass runs D j s = (Done (Inr (), write_sa_annotation j), s1) \<and>
    lookup (world s1) = desired_state D j spec (lookup (world s)) \<and>
    fake_pass runs D j s1 = (Done (Inr (), write_sa_annotation j), s2) \<and>
    (lookup (world s) (http_key j) \<noteq> None \<and> lookup (world s) (jnlp_key j) \<noteq> None \<longrightarrow>
      lookup (world s2) = lookup (world s1)) \<and>
    wf_cluster (world s2) \<and>
    (\<forall>t. wf_cluster (world t) \<and> lookup (world t) = lookup (world s2) \<longrightarrow>
      (\<exists>t'. fake_pass runs D j t = (Done (Inr (), write_sa_annotation j), t') \<and> lookup (world t') = lookup (world s2)))"
proof -
  let ?T = "desired_state D j spec"
  have run: "\<exists>t'. fake_pass runs D j t = (Done (Inr (), write_sa_annotation j), t') \<and> wf_cluster (world t') \<and>
      lookup (world t') = ?T (lookup (world t))"
    if "wf_cluster (world t)" and "network_ok j spec (lookup (world t))" for t
    by (rule achievesE [OF fake.pass_implements [OF assms(2-5) network_ok_needs [OF that(2)], of runs D] that(1) refl]) simp
  have after: "network_ok j spec (?T m) \<and> services_there j (?T m)" if "network_ok j spec m" for m
    using that network_after [OF assms(3), of "desired_bindings j (spec_roles spec) (desired_rbac j (desired_configs (bd_intn D) j m))"]
    by (simp add: desired_state_def network_ok_def others)
  note settled = state_settled [OF assms(3) _ _ assms(5-7), of _ D]
  let ?m = "lookup (world s)"
  have ok: "network_ok j spec ?m" by (rule network_ok_stored [OF assms(1,8-10)])
  from run [OF assms(1) ok] obtain s1 where s1: "fake_pass runs D j s = (Done (Inr (), write_sa_annotation j), s1)"
    "wf_cluster (world s1)" "lookup (world s1) = ?T ?m" by blast
  from run [OF s1(2), unfolded s1(3)] after [OF ok] obtain s2 where
    s2: "fake_pass runs D j s1 = (Done (Inr (), write_sa_annotation j), s2)" "wf_cluster (world s2)" "lookup (world s2) = ?T (?T ?m)" by blast
  have "?T (?T (?T ?m)) = ?T (?T ?m)" using settled [of "?T ?m"] after [OF ok] by blast
  moreover have "network_ok j spec (?T (?T ?m))" using after after [OF ok] by blast
  ultimately have "\<exists>t'. fake_pass runs D j t = (Done (Inr (), write_sa_annotation j), t') \<and> lookup (world t') = lookup (world s2)"
    if "wf_cluster (world t)" and "lookup (world t) = lookup (world s2)" for t
    using run [OF that(1)] that(2) s2(3) by auto
  moreover have "?T (?T ?m) = ?T ?m" if "?m (http_key j) \<noteq> None \<and> ?m (jnlp_key j) \<noteq> None"
    using settled [OF ok] that by (simp add: services_there_def)
  ultimately show ?thesis using s1 s2 by (intro exI [of _ s1] exI [of _ s2]) simp
qed

definition pass_deps :: base_deps where
  "pass_deps = \<lparr>bd_intn = (\<lambda>i k. 0), bd_routes = True, bd_version = ''v'', bd_showTime = (\<lambda>t. [])\<rparr>"

definition sample_managed :: jenkins where
  "sample_managed = ready_jenkins (full_spec None)"

theorem pass_converges_witness:
  "\<exists>s1 s2 s3. fake_pass (\<lambda>q. None) pass_deps sample_managed \<lparr>world = \<lparr>objects = [], clock = 0\<rparr>, log = []\<rparr> =
      (Done (Inr (), write_sa_annotation sample_managed), s1) \<and>
    fake_pass (\<lambda>q. None) pass_deps sample_managed s1 = (Done (Inr (), write_sa_annotation sample_managed), s2) \<and>
    fake_pass (\<lambda>q. None) pass_deps sample_managed s2 = (Done (Inr (), write_sa_annotation sample_managed), s3) \<and>
    lookup (world s3) = lookup (world s2)"
proof -
  let ?s = "\<lparr>world = \<lparr>objects = [], clock = 0\<rparr>, log = []\<rparr> :: cluster sys"
  have w: "wf_cluster (world ?s)" by (simp add: wf_cluster_def)
  have l: "located sample_managed" by (simp add: located_def sample_managed_def ready_jenkins_def j_namespace_def)
  have f: "first_container (full_spec None) \<noteq> None"
    and d: "distinct (map fst (go_entries (js_saAnnotations (j_spec sample_managed))))"
      "distinct (map fst (go_entries (sv_labels (js_service (full_spec None)))))"
      "distinct (map fst (go_entries (sv_labels (js_jnlpService (full_spec None)))))"
    unfolding sample_managed_def by code_simp+
  have st: "status_spec sample_managed = Some (full_spec None)" unfolding sample_managed_def by (rule full_spec_simps(1))
  have w1: "labels_writable (lookup (world ?s)) key c" and port: "route_has_port (lookup (world ?s)) key" for key c
    by (simp_all add: labels_writable_def route_has_port_def lookup_def)
  from pass_converges [OF w l st f d w1 w1 port, of "\<lambda>q. None" pass_deps]
  show ?thesis by blast
qed

end
