(* ===== verification/Image_Reference.thy ===== *)
theory Image_Reference
  imports Prelude
begin

text \<open>
  The regular expressions of container image references: those of
  \<^verbatim>\<open>vendor/github.com/docker/distribution/reference/regexp.go\<close> that the validation of a container
  uses, built by the same combinators, and \<open>dockerImageRegexp\<close> of
  \<^verbatim>\<open>pkg/configuration/base/validate.go\<close>.  A compiled expression is a tree, a class is a list of
  bytes, and \<open>MatchString\<close> of an anchored expression is decided by derivatives; the language of an
  expression is the reference the matcher is proved against.  Capturing groups do not change what
  is matched.
\<close>

section \<open>Regular expressions\<close>

datatype regex =
    Void
  | Eps
  | Class "char list"
  | Alt regex regex
  | Seq regex regex
  | Star regex

primrec nullable :: "regex \<Rightarrow> bool" where
  "nullable Void = False"
| "nullable Eps = True"
| "nullable (Class cs) = False"
| "nullable (Alt r s) = (nullable r \<or> nullable s)"
| "nullable (Seq r s) = (nullable r \<and> nullable s)"
| "nullable (Star r) = True"

primrec deriv :: "char \<Rightarrow> regex \<Rightarrow> regex" where
  "deriv c Void = Void"
| "deriv c Eps = Void"
| "deriv c (Class cs) = (if c \<in> set cs then Eps else Void)"
| "deriv c (Alt r s) = Alt (deriv c r) (deriv c s)"
| "deriv c (Seq r s) = (if nullable r then Alt (Seq (deriv c r) s) (deriv c s) else Seq (deriv c r) s)"
| "deriv c (Star r) = Seq (deriv c r) (Star r)"

text \<open>Matching of an anchored expression.\<close>

primrec MatchString :: "regex \<Rightarrow> string \<Rightarrow> bool" where
  "MatchString r [] = nullable r"
| "MatchString r (c # s) = MatchString (deriv c r) s"

section \<open>The combinators of the library\<close>

fun expression :: "regex list \<Rightarrow> regex" where
  "expression [] = Eps"
| "expression (r # rs) = Seq r (expression rs)"

definition optional :: "regex list \<Rightarrow> regex" where
  "optional rs = Alt (expression rs) Eps"

definition repeated :: "regex list \<Rightarrow> regex" where
  "repeated rs = Seq (expression rs) (Star (expression rs))"

definition group :: "regex list \<Rightarrow> regex" where
  "group rs = expression rs"

definition capture :: "regex list \<Rightarrow> regex" where
  "capture rs = expression rs"

definition anchored :: "regex list \<Rightarrow> regex" where
  "anchored rs = expression rs"

definition literal :: "char \<Rightarrow> regex" where
  "literal c = Class [c]"

text \<open>The repetitions \<open>r+\<close>, \<open>r{0,n}\<close> and \<open>r{n,}\<close> inside a class expression.\<close>

definition plus :: "regex \<Rightarrow> regex" where
  "plus r = Seq r (Star r)"

primrec upto_times :: "nat \<Rightarrow> regex \<Rightarrow> regex" where
  "upto_times 0 r = Eps"
| "upto_times (Suc n) r = Alt (Seq r (upto_times n r)) Eps"

primrec at_least :: "nat \<Rightarrow> regex \<Rightarrow> regex" where
  "at_least 0 r = Star r"
| "at_least (Suc n) r = Seq r (at_least n r)"

definition lower :: string where "lower = ''abcdefghijklmnopqrstuvwxyz''"
definition upper :: string where "upper = ''ABCDEFGHIJKLMNOPQRSTUVWXYZ''"
definition digits :: string where "digits = ''0123456789''"
definition xdigits :: string where "xdigits = digits @ ''ABCDEFabcdef''"
definition word_chars :: string where "word_chars = digits @ upper @ ''_'' @ lower"

section \<open>Image references\<close>

definition alphaNumericRegexp :: regex where
  "alphaNumericRegexp = plus (Class (lower @ digits))"

definition separatorRegexp :: regex where
  "separatorRegexp = Alt (Class ''._'') (Alt (Seq (Class ''_'') (Class ''_'')) (Star (Class ''-'')))"

definition nameComponentRegexp :: regex where
  "nameComponentRegexp = expression [alphaNumericRegexp, optional [repeated [separatorRegexp, alphaNumericRegexp]]]"

definition domainComponentRegexp :: regex where
  "domainComponentRegexp = Alt (Class (lower @ upper @ digits))
     (Seq (Class (lower @ upper @ digits)) (Seq (Star (Class (lower @ upper @ digits @ ''-''))) (Class (lower @ upper @ digits))))"

definition DomainRegexp :: regex where
  "DomainRegexp = expression [domainComponentRegexp,
     optional [repeated [literal (CHR ''.''), domainComponentRegexp]],
     optional [literal (CHR '':''), plus (Class digits)]]"

definition TagRegexp :: regex where
  "TagRegexp = Seq (Class word_chars) (upto_times 127 (Class (word_chars @ ''.-'')))"

definition DigestRegexp :: regex where
  "DigestRegexp = Seq (Class (upper @ lower)) (Seq (Star (Class (upper @ lower @ digits)))
     (Seq (Star (Seq (Class ''-_+.'') (Seq (Class (upper @ lower)) (Star (Class (upper @ lower @ digits))))))
     (Seq (Class '':'') (at_least 32 (Class xdigits)))))"

definition NameRegexp :: regex where
  "NameRegexp = expression [optional [DomainRegexp, literal (CHR ''/'')],
     nameComponentRegexp,
     optional [repeated [literal (CHR ''/''), nameComponentRegexp]]]"

definition ReferenceRegexp :: regex where
  "ReferenceRegexp = anchored [capture [NameRegexp],
     optional [literal (CHR '':''), capture [TagRegexp]],
     optional [literal (CHR ''@''), capture [DigestRegexp]]]"

definition dockerImageRegexp :: regex where
  "dockerImageRegexp = anchored [TagRegexp]"

lemmas regexp_defs = ReferenceRegexp_def NameRegexp_def DigestRegexp_def TagRegexp_def DomainRegexp_def
  domainComponentRegexp_def nameComponentRegexp_def separatorRegexp_def alphaNumericRegexp_def
  anchored_def capture_def optional_def repeated_def literal_def plus_def

section \<open>The matcher and the language\<close>

inductive_set star_of :: "string set \<Rightarrow> string set" for A where
  star_Nil: "[] \<in> star_of A"
| star_Cons: "u \<in> A \<Longrightarrow> v \<in> star_of A \<Longrightarrow> u @ v \<in> star_of A"

primrec lang :: "regex \<Rightarrow> string set" where
  "lang Void = {}"
| "lang Eps = {[]}"
| "lang (Class cs) = {[c] |c. c \<in> set cs}"
| "lang (Alt r s) = lang r \<union> lang s"
| "lang (Seq r s) = {u @ v |u v. u \<in> lang r \<and> v \<in> lang s}"
| "lang (Star r) = star_of (lang r)"

lemma nullable_lang: "nullable r \<longleftrightarrow> [] \<in> lang r"
  by (induction r) (auto intro: star_Nil)

lemma star_of_Cons: "c # w \<in> star_of A \<longleftrightarrow> (\<exists>u v. c # u \<in> A \<and> v \<in> star_of A \<and> w = u @ v)"
proof
  assume "c # w \<in> star_of A"
  moreover have "x \<in> star_of A \<Longrightarrow> x = c # w \<Longrightarrow> \<exists>u v. c # u \<in> A \<and> v \<in> star_of A \<and> w = u @ v" for x
    by (induction rule: star_of.induct) (auto simp: append_eq_Cons_conv)
  ultimately show "\<exists>u v. c # u \<in> A \<and> v \<in> star_of A \<and> w = u @ v" by blast
next
  assume "\<exists>u v. c # u \<in> A \<and> v \<in> star_of A \<and> w = u @ v"
  then obtain u v where "c # u \<in> A" "v \<in> star_of A" "w = u @ v" by blast
  with star_Cons [of "c # u" A v] show "c # w \<in> star_of A" by simp
qed

lemma deriv_lang: "w \<in> lang (deriv c r) \<longleftrightarrow> c # w \<in> lang r"
proof (induction r arbitrary: w)
  case (Seq r s)
  have "c # w \<in> lang (Seq r s) \<longleftrightarrow>
      (\<exists>u v. c # u \<in> lang r \<and> v \<in> lang s \<and> w = u @ v) \<or> ([] \<in> lang r \<and> c # w \<in> lang s)"
    by (auto simp: Cons_eq_append_conv)
  with Seq show ?case by (auto simp: nullable_lang)
next
  case (Star r)
  then show ?case by (auto simp: star_of_Cons)
qed auto

lemma MatchString_lang: "MatchString r w \<longleftrightarrow> w \<in> lang r"
  by (induction w arbitrary: r) (simp_all add: nullable_lang deriv_lang)

text \<open>The characters of an expression; a match has no other.\<close>

primrec chars_of :: "regex \<Rightarrow> char set" where
  "chars_of Void = {}"
| "chars_of Eps = {}"
| "chars_of (Class cs) = set cs"
| "chars_of (Alt r s) = chars_of r \<union> chars_of s"
| "chars_of (Seq r s) = chars_of r \<union> chars_of s"
| "chars_of (Star r) = chars_of r"

lemma star_of_chars: "w \<in> star_of A \<Longrightarrow> (\<And>u. u \<in> A \<Longrightarrow> set u \<subseteq> C) \<Longrightarrow> set w \<subseteq> C"
  by (induction rule: star_of.induct) auto

lemma lang_chars: "w \<in> lang r \<Longrightarrow> set w \<subseteq> chars_of r"
proof (induction r arbitrary: w)
  case (Star r)
  then show ?case using star_of_chars [of w "lang r" "chars_of r"] by simp
qed fastforce+

lemma lang_class_first:
  "w \<in> lang (Seq (Class cs) r) \<longleftrightarrow> (\<exists>c v. w = c # v \<and> c \<in> set cs \<and> v \<in> lang r)"
proof -
  have "w = c # v \<and> c \<in> set cs \<and> v \<in> lang r \<Longrightarrow> \<exists>u v. w = u @ v \<and> u \<in> lang (Class cs) \<and> v \<in> lang r" for c v
    by (rule exI [of _ "[c]"]) auto
  then show ?thesis by auto
qed

lemma upto_times_lang:
  "w \<in> lang (upto_times n (Class cs)) \<longleftrightarrow> set w \<subseteq> set cs \<and> length w \<le> n"
proof (induction n arbitrary: w)
  case (Suc n)
  have "w \<in> lang (upto_times (Suc n) (Class cs)) \<longleftrightarrow>
      w = [] \<or> (\<exists>c v. w = c # v \<and> c \<in> set cs \<and> v \<in> lang (upto_times n (Class cs)))"
    unfolding lang_class_first [symmetric] by auto
  with Suc show ?case by (cases w) auto
qed auto

lemma expression_single: "lang (expression [r]) = lang r"
  by simp

text \<open>What \<open>dockerImageRegexp\<close> accepts: one word of at most 128 characters, the syntax of a tag.\<close>

lemma dockerImageRegexp_iff:
  "MatchString dockerImageRegexp w \<longleftrightarrow> w \<noteq> [] \<and> hd w \<in> set word_chars \<and>
     set w \<subseteq> set word_chars \<union> {CHR ''.'', CHR ''-''} \<and> length w \<le> 128"
proof -
  have "w \<in> lang TagRegexp \<longleftrightarrow>
      (\<exists>c v. w = c # v \<and> c \<in> set word_chars \<and> v \<in> lang (upto_times 127 (Class (word_chars @ ''.-''))))"
    unfolding TagRegexp_def by (rule lang_class_first)
  then show ?thesis
    by (cases w) (auto simp: MatchString_lang dockerImageRegexp_def anchored_def upto_times_lang)
qed

text \<open>The characters a match can begin with; no image reference begins with a slash.\<close>

primrec first_chars :: "regex \<Rightarrow> char set" where
  "first_chars Void = {}"
| "first_chars Eps = {}"
| "first_chars (Class cs) = set cs"
| "first_chars (Alt r s) = first_chars r \<union> first_chars s"
| "first_chars (Seq r s) = first_chars r \<union> (if nullable r then first_chars s else {})"
| "first_chars (Star r) = first_chars r"

lemma lang_first: "c # w \<in> lang r \<Longrightarrow> c \<in> first_chars r"
proof (induction r arbitrary: w)
  case (Seq r s)
  then show ?case by (auto simp: Cons_eq_append_conv nullable_lang)
next
  case (Star r)
  then show ?case by (auto simp: star_of_Cons)
qed auto

lemma slash_not_reference: "CHR ''/'' # w \<notin> lang ReferenceRegexp"
proof
  assume "CHR ''/'' # w \<in> lang ReferenceRegexp"
  then have "CHR ''/'' \<in> first_chars ReferenceRegexp" by (rule lang_first)
  then show False by (simp add: regexp_defs lower_def upper_def digits_def)
qed

end
