(* ===== verification/Default_Config.thy ===== *)
theory Default_Config
  imports Install_Script
begin

text \<open>
  The default configuration that the operator stores in a config map of its own: the text of the
  package variable \<open>defaultConfigMap\<close> in \<^verbatim>\<open>pkg/configuration/base/validate.go\<close>, file by file
  and line by line.
\<close>

definition spaces :: "nat \<Rightarrow> string" where
  "spaces n = replicate n (CHR '' '')"

definition cfg_basic_settings :: "string list" where
  "cfg_basic_settings =
     [[],
      ''groovy:'',
      ''- script: >'',
      ''    import jenkins.model.Jenkins;'',
      ''    import jenkins.model.JenkinsLocationConfiguration;'',
      ''    import hudson.model.Node.Mode;'',
      [],
      ''    def jenkins = Jenkins.instance;'',
      ''    //Number of jobs that run simultaneously on master.'',
      ''    jenkins.setNumExecutors(6);'',
      ''    //Jobs must specify that they want to run on master'',
      ''    jenkins.setMode(Mode.EXCLUSIVE);'',
      ''    jenkins.save();'']"

definition cfg_enable_csrf :: "string list" where
  "cfg_enable_csrf =
     [[],
      ''groovy:'',
      ''- script: >'',
      ''    import hudson.security.csrf.DefaultCrumbIssuer;'',
      ''    import jenkins.model.Jenkins;'',
      [],
      ''    def jenkins = Jenkins.instance;'',
      [],
      ''    if (jenkins.getCrumbIssuer() == null) {'',
      ''      jenkins.setCrumbIssuer(new DefaultCrumbIssuer(true));'',
      ''      jenkins.save();'',
      ''      println('' @ squote @ ''CSRF Protection enabled.'' @ squote @ '');'',
      ''    } else {'',
      ''      println('' @ squote @ ''CSRF Protection already configured.'' @ squote @ '');'',
      ''    }'']"

definition cfg_disable_stats :: "string list" where
  "cfg_disable_stats =
     [[],
      ''groovy:'',
      ''- script: >'',
      ''    import jenkins.model.Jenkins;'',
      [],
      ''    def jenkins = Jenkins.instance;'',
      [],
      ''    if (jenkins.isUsageStatisticsCollected()) {'',
      ''      jenkins.setNoUsageStatistics(true);'',
      ''      jenkins.save();'',
      ''      println('' @ squote @ ''Jenkins usage stats submitting disabled.'' @ squote @ '');'',
      ''    } else {'',
      ''      println('' @ squote @
        ''Nothing changed.  Usage stats are not submitted to the Jenkins project.'' @ squote @ '');'' @
        spaces 78,
      ''    }'']"

definition cfg_enable_master_control :: "string list" where
  "cfg_enable_master_control =
     [[],
      ''groovy:'',
      ''- script: >'',
      ''    import jenkins.security.s2m.AdminWhitelistRule;'',
      ''    import jenkins.model.Jenkins;'',
      [],
      ''    // see https://wiki.jenkins-ci.org/display/JENKINS/Slave+To+Master+Access+Control'' @
        spaces 84,
      ''    def jenkins = Jenkins.instance;'',
      ''    jenkins.getInjector().getInstance(AdminWhitelistRule.class).setMasterKillSwitch(false); // for real though, false equals enabled..........'' @
        spaces 27,
      ''    jenkins.save();'']"

definition cfg_disable_insecure :: "string list" where
  "cfg_disable_insecure =
     [[],
      ''groovy:'',
      ''- script: >'',
      ''    import jenkins.*;'',
      ''    import jenkins.model.*;'',
      ''    import hudson.model.*;'',
      ''    import jenkins.security.s2m.*;'',
      [],
      ''    def jenkins = Jenkins.instance;'',
      [],
      ''    println('' @ dquote @ ''Disabling insecure Jenkins features...'' @ dquote @ '');'',
      [],
      ''    println('' @ dquote @ ''Disabling insecure protocols...'' @ dquote @ '');'',
      ''    println('' @ dquote @ ''Old protocols: ['' @ dquote @
        '' + jenkins.getAgentProtocols().join('' @ dquote @ '', '' @ dquote @ '') + '' @ dquote @ '']'' @
        dquote @ '');'',
      ''    HashSet<String> newProtocols = new HashSet<>(jenkins.getAgentProtocols());'',
      ''    newProtocols.removeAll(Arrays.asList('' @ dquote @ ''JNLP3-connect'' @ dquote @ '', '' @
        dquote @ ''JNLP2-connect'' @ dquote @ '', '' @ dquote @ ''JNLP-connect'' @ dquote @ '', '' @
        dquote @ ''CLI-connect'' @ dquote @ ''));'' @ spaces 62,
      ''    println('' @ dquote @ ''New protocols: ['' @ dquote @ '' + newProtocols.join('' @ dquote @
        '', '' @ dquote @ '') + '' @ dquote @ '']'' @ dquote @ '');'',
      ''    jenkins.setAgentProtocols(newProtocols);'',
      [],
      ''    println('' @ dquote @ ''Disabling CLI access of /cli URL...'' @ dquote @ '');'',
      ''    def remove = { list ->'',
      ''      list.each { item ->'',
      ''        if (item.getClass().name.contains('' @ dquote @ ''CLIAction'' @ dquote @ '')) {'',
      ''          println('' @ dquote @ ''Removing extension ${item.getClass().name}'' @ dquote @ '')'',
      ''          list.remove(item)'',
      ''        }'',
      ''      }'',
      ''    };'',
      ''    remove(jenkins.getExtensionList(RootAction.class));'',
      ''    remove(jenkins.actions);'',
      [],
      ''    if (jenkins.getDescriptor('' @ dquote @ ''jenkins.CLI'' @ dquote @ '') != null) {'',
      ''      jenkins.getDescriptor('' @ dquote @ ''jenkins.CLI'' @ dquote @
        '').get().setEnabled(false);'',
      ''    }'',
      [],
      ''    jenkins.save();'']"

definition cfg_configure_views :: "string list" where
  "cfg_configure_views =
     [[],
      ''groovy:'',
      ''- script: >'',
      ''    import hudson.model.ListView;'',
      ''    import jenkins.model.Jenkins;'',
      [],
      ''    def Jenkins jenkins = Jenkins.getInstance();'',
      [],
      ''    def seedViewName = '' @ squote @ ''seed-jobs'' @ squote @ '';'',
      ''    def nonSeedViewName = '' @ squote @ ''non-seed-jobs'' @ squote @ '';'',
      [],
      ''    if (jenkins.getView(seedViewName) == null) {'',
      ''      def seedView = new ListView(seedViewName);'',
      ''      seedView.setIncludeRegex('' @ squote @ ''.*job-dsl-seed.*'' @ squote @ '');'',
      ''      jenkins.addView(seedView);'',
      ''    }'',
      [],
      ''    if (jenkins.getView(nonSeedViewName) == null) {'',
      ''      def nonSeedView = new ListView(nonSeedViewName);'',
      ''      nonSeedView.setIncludeRegex('' @ squote @ ''((?!seed)(?!jenkins).)*'' @ squote @ '');'',
      ''      jenkins.addView(nonSeedView);'',
      ''    }'',
      [],
      ''    jenkins.save();'']"

definition cfg_disable_dsl_approval :: "string list" where
  "cfg_disable_dsl_approval =
     [[],
      ''groovy:'',
      ''- script: >'',
      ''    import jenkins.model.Jenkins;'',
      ''    import javaposse.jobdsl.plugin.GlobalJobDslSecurityConfiguration;'',
      ''    import jenkins.model.GlobalConfiguration;'',
      [],
      ''    // disable Job DSL script approval'',
      ''    GlobalConfiguration.all().get(GlobalJobDslSecurityConfiguration.class).useScriptSecurity=false;'' @
        spaces 70,
      ''    GlobalConfiguration.all().get(GlobalJobDslSecurityConfiguration.class).save();'']"

definition default_config_data :: "(string \<times> string) list" where
  "default_config_data =
     [(''01-basic-settings.yaml'', Join cfg_basic_settings nl),
      (''02-enable-csrf.yaml'', Join cfg_enable_csrf nl),
      (''03-disable-stats.yaml'', Join cfg_disable_stats nl),
      (''04-enable-master-control.yaml'', Join cfg_enable_master_control nl),
      (''05-disable-insecure.yaml'', Join cfg_disable_insecure nl),
      (''06-configure-views.yaml'', Join cfg_configure_views nl),
      (''07-disable-dsl-approval.yaml'', Join cfg_disable_dsl_approval nl)]"

end
