(* ===== verification/Validate.thy ===== *)
theory Validate
  imports Base_Resources Image_Reference Default_Config
begin

text \<open>
  The validation of a Jenkins before anything is created: \<^verbatim>\<open>pkg/configuration/base/validate.go\<close>
  (its plugin part is in \<^verbatim>\<open>Plugins.thy\<close>).  A message list is a list of strings, the error of a
  read is an error value, a nil pointer or a missing list element is a crash.  The reconciler
  holds one Jenkins (\<open>rj\<close>) and \<open>Validate\<close> gets one as its argument; \<open>showVolume\<close> is the verb
  \<open>%v\<close> on a volume.  The package variable \<open>defaultConfigMap\<close>, which a successful creation
  overwrites with the answer of the server, is threaded through.
\<close>

section \<open>The master container\<close>

definition init_script_prefix :: string where
  "init_script_prefix = JenkinsScriptsVolumePath @ ''/'' @ InitScriptName @ '' && ''"

text \<open>The elements of the command are taken by index; \<open>None\<close> when there are too few.\<close>

definition validateJenkinsMasterContainerCommand :: "jenkins \<Rightarrow> string list option" where
  "validateJenkinsMasterContainerCommand rj = (case GetJenkinsMasterContainer rj of
     None \<Rightarrow> Some []
   | Some c \<Rightarrow> (case jc_command c of
       None \<Rightarrow> Some []
     | Some cmd \<Rightarrow>
         let invalid = [''spec.master.containers['' @ jc_name c @ ''].command is invalid, make sure it looks like '' @
           quoted (''[bash -c '' @ init_script_prefix @ ''<optional-custom-command> && exec <command-which-start-jenkins>]'') @
           '', otherwise the operator won'' @ squote @ ''t configure default user and install plugins. '' @
           quoted ''exec'' @ '' is required to propagate signals to the Jenkins.''] in
         (case cmd of
            [] \<Rightarrow> None
          | c0 # cmd1 \<Rightarrow>
              if c0 \<noteq> ''bash'' then Some invalid else
              (case cmd1 of
                 [] \<Rightarrow> None
               | c1 # cmd2 \<Rightarrow>
                   if c1 \<noteq> ''-c'' then Some invalid else
                   (case cmd2 of
                      [] \<Rightarrow> None
                    | c2 # cmd3 \<Rightarrow>
                        if \<not> HasPrefix c2 init_script_prefix then Some invalid
                        else if \<not> Contains c2 ''exec'' then Some invalid
                        else Some [])))))"

section \<open>Image pull secrets\<close>

definition secret_key_messages :: "string \<Rightarrow> string gomap \<Rightarrow> string list" where
  "secret_key_messages secretName data =
     concat (map (\<lambda>k. if go_get data k = None
       then [''Secret '' @ quoted secretName @ '' defined in spec.master.imagePullSecrets doesn'' @ squote @
         ''t have '' @ quoted k @ '' key.'']
       else []) [''docker-server'', ''docker-username'', ''docker-password'', ''docker-email''])"

definition validateImagePullSecret :: "'w env \<Rightarrow> jenkins \<Rightarrow> string \<Rightarrow> ('w, goerr + string list) prog" where
  "validateImagePullSecret E rj secretName =
     bindP (client_get E KSecret as_secret (j_namespace rj) secretName) (\<lambda>r. case r of
       Inl e \<Rightarrow>
         if IsNotFound e
         then ret (Inr ((''Secret '' @ secretName @ '' not found defined in spec.master.imagePullSecrets'') #
           secret_key_messages secretName None))
         else ret (Inl (Stacked e))
     | Inr s \<Rightarrow> ret (Inr (secret_key_messages secretName (sec_data s))))"

fun validate_secrets :: "'w env \<Rightarrow> jenkins \<Rightarrow> string list \<Rightarrow> ('w, goerr + string list) prog" where
  "validate_secrets E rj [] = ret (Inr [])"
| "validate_secrets E rj (n # ns) =
     bindE (validateImagePullSecret E rj n) (\<lambda>ms. bindE (validate_secrets E rj ns) (\<lambda>ms'. ret (Inr (ms @ ms'))))"

definition validateImagePullSecrets :: "'w env \<Rightarrow> jenkins \<Rightarrow> ('w, goerr + string list) prog" where
  "validateImagePullSecrets E rj = (case Option.bind (status_spec rj) js_master of
     None \<Rightarrow> crash ''nil pointer dereference: Master''
   | Some m \<Rightarrow> validate_secrets E rj (jm_imagePullSecrets m))"

section \<open>Volumes\<close>

definition not_found_message :: "string \<Rightarrow> string \<Rightarrow> string \<Rightarrow> string" where
  "not_found_message kind name vol = kind @ '' '' @ quoted name @ '' not found for volume '' @ quoted vol"

text \<open>The part the three checks share: a missing object is a message, another error is returned.\<close>

definition validate_referent ::
  "'w env \<Rightarrow> kind \<Rightarrow> (kobj \<Rightarrow> 'a option) \<Rightarrow> jenkins \<Rightarrow> string \<Rightarrow> string \<Rightarrow> ('w, goerr + string list) prog" where
  "validate_referent E k sel rj name msg =
     bindP (client_get E k sel (j_namespace rj) name) (\<lambda>r. case r of
       Inl e \<Rightarrow> if IsNotFound e then ret (Inr [msg]) else ret (Inl (Stacked e))
     | Inr x \<Rightarrow> ret (Inr []))"

definition validatePersistentVolumeClaim ::
  "'w env \<Rightarrow> (volume \<Rightarrow> string) \<Rightarrow> jenkins \<Rightarrow> volume \<Rightarrow> string \<Rightarrow> ('w, goerr + string list) prog" where
  "validatePersistentVolumeClaim E showVolume rj v claim =
     validate_referent E KPVC as_pvc rj claim (not_found_message ''PersistentVolumeClaim'' claim (showVolume v))"

definition validateConfigMapVolume ::
  "'w env \<Rightarrow> (volume \<Rightarrow> string) \<Rightarrow> jenkins \<Rightarrow> volume \<Rightarrow> configmap_source \<Rightarrow> ('w, goerr + string list) prog" where
  "validateConfigMapVolume E showVolume rj v src =
     (if cms_optional src = Some True then ret (Inr [])
      else validate_referent E KConfigMap as_config_map rj (cms_name src)
        (not_found_message ''ConfigMap'' (cms_name src) (showVolume v)))"

definition validateSecretVolume ::
  "'w env \<Rightarrow> (volume \<Rightarrow> string) \<Rightarrow> jenkins \<Rightarrow> volume \<Rightarrow> secret_source \<Rightarrow> ('w, goerr + string list) prog" where
  "validateSecretVolume E showVolume rj v src =
     (if ss_optional src = Some True then ret (Inr [])
      else validate_referent E KSecret as_secret rj (ss_name src)
        (not_found_message ''Secret'' (ss_name src) (showVolume v)))"

definition validate_volume ::
  "'w env \<Rightarrow> (volume \<Rightarrow> string) \<Rightarrow> jenkins \<Rightarrow> volume \<Rightarrow> ('w, goerr + string list) prog" where
  "validate_volume E showVolume rj v = (case vol_configMap v of
     Some src \<Rightarrow> validateConfigMapVolume E showVolume rj v src
   | None \<Rightarrow> (case vol_secret v of
       Some src \<Rightarrow> validateSecretVolume E showVolume rj v src
     | None \<Rightarrow> (case vol_pvc v of
         Some claim \<Rightarrow> validatePersistentVolumeClaim E showVolume rj v claim
       | None \<Rightarrow> ret (Inr []))))"

fun validate_volumes ::
  "'w env \<Rightarrow> (volume \<Rightarrow> string) \<Rightarrow> jenkins \<Rightarrow> volume list \<Rightarrow> ('w, goerr + string list) prog" where
  "validate_volumes E showVolume rj [] = ret (Inr [])"
| "validate_volumes E showVolume rj (v # vs) =
     bindE (validate_volume E showVolume rj v) (\<lambda>ms.
     bindE (validate_volumes E showVolume rj vs) (\<lambda>ms'. ret (Inr (ms @ ms'))))"

definition validateVolumes :: "'w env \<Rightarrow> (volume \<Rightarrow> string) \<Rightarrow> jenkins \<Rightarrow> ('w, goerr + string list) prog" where
  "validateVolumes E showVolume rj = (case Option.bind (status_spec rj) js_master of
     None \<Rightarrow> crash ''nil pointer dereference: Master''
   | Some m \<Rightarrow> validate_volumes E showVolume rj (jm_volumes m))"

definition validateReservedVolumes :: "jenkins \<Rightarrow> string list option" where
  "validateReservedVolumes rj = do {
     spec \<leftarrow> status_spec rj;
     m \<leftarrow> js_master spec;
     Some (concat (map (\<lambda>base. concat (map (\<lambda>v.
       if vol_name base = vol_name v
       then [''Jenkins Master pod volume '' @ quoted (vol_name v) @ '' is reserved please choose different one'']
       else []) (jm_volumes m))) (GetJenkinsMasterPodBaseVolumes rj))) }"

section \<open>Containers\<close>

definition validateContainerVolumeMounts :: "jenkins \<Rightarrow> jcontainer \<Rightarrow> string list option" where
  "validateContainerVolumeMounts rj c = do {
     spec \<leftarrow> status_spec rj;
     m \<leftarrow> js_master spec;
     let allVolumes = GetJenkinsMasterPodBaseVolumes rj @ jm_volumes m;
     Some (concat (map (\<lambda>vm.
       (if length (vm_mountPath vm) = 0
        then [''mountPath not set for '' @ quoted (vm_name vm) @ '' volume mount in container '' @ quoted (jc_name c)]
        else []) @
       (if list_ex (\<lambda>v. vm_name vm = vol_name v) allVolumes then []
        else [''Not found volume for '' @ quoted (vm_name vm) @ '' volume mount in container '' @ quoted (jc_name c)]))
       (jc_volumeMounts c))) }"

definition validateContainer :: "jenkins \<Rightarrow> jcontainer \<Rightarrow> string list option" where
  "validateContainer rj c = do {
     mounts \<leftarrow> validateContainerVolumeMounts rj c;
     Some ((if jc_image c = [] then [''Image not set''] else []) @
       (if \<not> MatchString dockerImageRegexp (jc_image c) \<and> \<not> MatchString ReferenceRegexp (jc_image c)
        then [''Invalid image''] else []) @
       (if jc_pullPolicy c = [] then [''Image pull policy not set''] else []) @
       mounts) }"

text \<open>The loop of \<open>Validate\<close> over the containers.\<close>

fun validate_containers :: "jenkins \<Rightarrow> jcontainer list \<Rightarrow> string list option" where
  "validate_containers rj [] = Some []"
| "validate_containers rj (c # cs) = do {
     ms \<leftarrow> validateContainer rj c;
     rest \<leftarrow> validate_containers rj cs;
     Some (map (\<lambda>m. ''Container `'' @ jc_name c @ ''` - '' @ m) ms @ rest) }"

definition JavaOptsVariableName :: string where
  "JavaOptsVariableName = ''JAVA_OPTS''"

definition required_flags :: "string list" where
  "required_flags = [''-Djenkins.install.runSetupWizard=false'', ''-Djava.awt.headless=true'']"

text \<open>
  The last variable of that name counts; the zero value has the empty text.  Go ranges over the map of
  required flags in an order that is not specified; the model reports them in the order of the literal.
\<close>

definition java_opts :: "env_var list \<Rightarrow> string" where
  "java_opts envs = (case find (\<lambda>e. ev_name e = JavaOptsVariableName) (rev envs) of None \<Rightarrow> [] | Some e \<Rightarrow> ev_value e)"

definition validateJenkinsMasterPodEnvs :: "jenkins \<Rightarrow> string list option" where
  "validateJenkinsMasterPodEnvs rj = do {
     base \<leftarrow> GetJenkinsMasterContainerBaseEnvs rj;
     spec \<leftarrow> status_spec rj;
     c \<leftarrow> first_container spec;
     let setFlags = Split (java_opts (jc_env c)) (CHR '' '');
     Some (concat (map (\<lambda>flag. if flag \<in> set setFlags then []
       else [''Jenkins Master container env '' @ quoted JavaOptsVariableName @ '' doesn'' @ squote @
         ''t have required flag '' @ quoted flag]) required_flags)) }"

section \<open>Configuration as code\<close>

definition initialDefaultConfigMap :: config_map where
  "initialDefaultConfigMap = \<lparr>cm_meta = empty_meta, cm_data = Some default_config_data\<rparr>"

text \<open>The loop over the references; the messages so far and the error that ends it.\<close>

fun validate_references ::
  "'w env \<Rightarrow> jenkins \<Rightarrow> string \<Rightarrow> nat \<Rightarrow> string list \<Rightarrow> ('w, string list \<times> goerr option) prog" where
  "validate_references E rj name i [] = ret ([], None)"
| "validate_references E rj name i (n # ns) =
     (let at = name @ ''.configurations['' @ fmt_d (int i) @ '']'' in
      if length n = 0 then
        bindP (validate_references E rj name (Suc i) ns) (\<lambda>(ms, e). ret ((at @ '' name is empty'') # ms, e))
      else
        bindP (client_get E KConfigMap as_config_map (j_namespace rj) n) (\<lambda>r. case r of
          Inl e \<Rightarrow> ret ([''ConfigMap '' @ quoted n @ '' configured in '' @ at @ '' but not found''], Some (Stacked e))
        | Inr cm \<Rightarrow> validate_references E rj name (Suc i) ns))"

text \<open>The last block: the default config map is created when it is missing.\<close>

definition ensure_default_config ::
  "'w env \<Rightarrow> jenkins \<Rightarrow> config_map \<Rightarrow> ('w, (string list \<times> goerr option) \<times> config_map) prog" where
  "ensure_default_config E rj defaultConfigMap =
     bindP (client_get E KConfigMap as_config_map (j_namespace rj) JenkinsDefaultConfigMapName) (\<lambda>r. case r of
       Inr cm \<Rightarrow> ret (([], None), defaultConfigMap)
     | Inl e \<Rightarrow>
         if IsNotFound e then
           (let cm = defaultConfigMap\<lparr>cm_meta := (cm_meta defaultConfigMap)\<lparr>om_namespace := j_namespace rj,
              om_name := JenkinsDefaultConfigMapName\<rparr>\<rparr> in
            bindP (client_create E as_config_map (OConfigMap cm)) (\<lambda>r. case r of
              Inl e \<Rightarrow> ret (([''Not able to create Default ConfigMap '' @ JenkinsDefaultConfigMapName], Some (Stacked e)), cm)
            | Inr created \<Rightarrow> ret (([], None), created)))
         else ret (([], Some (Stacked e)), defaultConfigMap))"

definition validateConfiguration ::
  "'w env \<Rightarrow> jenkins \<Rightarrow> configuration option \<Rightarrow> string \<Rightarrow> config_map \<Rightarrow>
    ('w, (string list \<times> goerr option) \<times> config_map) prog" where
  "validateConfiguration E rj configuration name dcm = (case configuration of
     None \<Rightarrow> ret (([], None), dcm)
   | Some casc \<Rightarrow>
       let unused = (if length (cf_secret casc) > 0 \<and> length (cf_configurations casc) = 0
         then [name @ ''.secret.name is set but '' @ name @ ''.configurations is empty''] else []) in
       bindP (if length (cf_secret casc) > 0 then client_get E KSecret as_secret (j_namespace rj) (cf_secret casc)
              else ret (Inr \<lparr>sec_meta = empty_meta, sec_data = None\<rparr>)) (\<lambda>r. case r of
         Inl e \<Rightarrow> ret ((unused @ [''Secret '' @ quoted (cf_secret casc) @ '' configured in '' @ name @
           ''.secret.name but not found''], Some (Stacked e)), dcm)
       | Inr s \<Rightarrow>
           bindP (validate_references E rj name 0 (cf_configurations casc)) (\<lambda>(ms, err). case err of
             Some e \<Rightarrow> ret ((unused @ ms, Some e), dcm)
           | None \<Rightarrow>
               if cf_defaultConfig casc then
                 bindP (ensure_default_config E rj dcm) (\<lambda>((ms', err'), dcm'). ret ((unused @ ms @ ms', err'), dcm'))
               else ret ((unused @ ms, None), dcm))))"

section \<open>Validation\<close>

definition Validate ::
  "'w env \<Rightarrow> (volume \<Rightarrow> string) \<Rightarrow> jenkins \<Rightarrow> jenkins \<Rightarrow> config_map \<Rightarrow> ('w, (goerr + string list) \<times> config_map) prog" where
  "Validate E showVolume rj j dcm = (case validateReservedVolumes rj of
     None \<Rightarrow> crash ''nil pointer dereference: Master''
   | Some reserved \<Rightarrow>
       bindP (validateVolumes E showVolume rj) (\<lambda>r. case r of
         Inl e \<Rightarrow> ret (Inl e, dcm)
       | Inr vols \<Rightarrow>
           (case Option.bind (status_spec j) (\<lambda>spec. map_option (Pair spec) (js_master spec)) of
              None \<Rightarrow> crash ''nil pointer dereference: Master''
            | Some (spec, m) \<Rightarrow>
                (case validate_containers rj (jm_containers m) of
                   None \<Rightarrow> crash ''nil pointer dereference: Master''
                 | Some containers \<Rightarrow>
                     let plugins = validatePlugins BasePlugins (jm_basePlugins m) in
                     (case validateJenkinsMasterPodEnvs rj of
                        None \<Rightarrow> crash ''index out of range: Containers''
                      | Some envs \<Rightarrow>
                          bindP (validateConfiguration E rj (js_casc spec) (j_name j) dcm) (\<lambda>((ms, err), dcm'). case err of
                            Some e \<Rightarrow> ret (Inl e, dcm')
                          | None \<Rightarrow> ret (Inr (reserved @ vols @ containers @ plugins @ envs @ ms), dcm')))))))"

end
