(* ===== verification/Validate_Correct.thy ===== *)
theory Validate_Correct
  imports Validate
begin

text \<open>
  What the validation decides: a declarative description of a valid Jenkins, and proofs that on an
  API server the validation accepts exactly those, returns an error exactly when a reference of the
  configuration section is missing, and never panics once the status has a master container.
\<close>

section \<open>Valid objects\<close>

definition referent_ok :: "store \<Rightarrow> jenkins \<Rightarrow> volume \<Rightarrow> bool" where
  "referent_ok m j v \<longleftrightarrow> (case vol_configMap v of
     Some src \<Rightarrow> cms_optional src = Some True \<or> m (KConfigMap, j_namespace j, cms_name src) \<noteq> None
   | None \<Rightarrow> (case vol_secret v of
       Some src \<Rightarrow> ss_optional src = Some True \<or> m (KSecret, j_namespace j, ss_name src) \<noteq> None
     | None \<Rightarrow> (case vol_pvc v of
         Some claim \<Rightarrow> m (KPVC, j_namespace j, claim) \<noteq> None
       | None \<Rightarrow> True)))"

definition referent_named :: "volume \<Rightarrow> bool" where
  "referent_named v \<longleftrightarrow> (case vol_configMap v of
     Some src \<Rightarrow> cms_name src \<noteq> []
   | None \<Rightarrow> (case vol_secret v of
       Some src \<Rightarrow> ss_name src \<noteq> []
     | None \<Rightarrow> vol_pvc v \<noteq> Some []))"

definition image_ok :: "string \<Rightarrow> bool" where
  "image_ok w \<longleftrightarrow> w \<in> lang ReferenceRegexp \<or>
     w \<noteq> [] \<and> hd w \<in> set word_chars \<and> set w \<subseteq> set word_chars \<union> {CHR ''.'', CHR ''-''} \<and> length w \<le> 128"

definition container_ok :: "volume list \<Rightarrow> jcontainer \<Rightarrow> bool" where
  "container_ok vols c \<longleftrightarrow> jc_image c \<noteq> [] \<and> image_ok (jc_image c) \<and> jc_pullPolicy c \<noteq> [] \<and>
     list_all (\<lambda>vm. vm_mountPath vm \<noteq> [] \<and> vm_name vm \<in> vol_name ` set vols) (jc_volumeMounts c)"

definition flags_ok :: "env_var list \<Rightarrow> bool" where
  "flags_ok envs \<longleftrightarrow> set required_flags \<subseteq> set (Split (java_opts envs) (CHR '' ''))"

text \<open>A reference of the configuration section that the API server does not have.\<close>

definition config_missing :: "store \<Rightarrow> jenkins \<Rightarrow> configuration \<Rightarrow> bool" where
  "config_missing m j casc \<longleftrightarrow>
     (cf_secret casc \<noteq> [] \<and> m (KSecret, j_namespace j, cf_secret casc) = None) \<or>
     list_ex (\<lambda>n. n \<noteq> [] \<and> m (KConfigMap, j_namespace j, n) = None) (cf_configurations casc)"

definition config_sound :: "configuration \<Rightarrow> bool" where
  "config_sound casc \<longleftrightarrow> (cf_secret casc \<noteq> [] \<longrightarrow> cf_configurations casc \<noteq> []) \<and> [] \<notin> set (cf_configurations casc)"

definition valid_master :: "store \<Rightarrow> jenkins \<Rightarrow> jenkins_master \<Rightarrow> bool" where
  "valid_master m j master \<longleftrightarrow>
     vol_name ` set (GetJenkinsMasterPodBaseVolumes j) \<inter> vol_name ` set (jm_volumes master) = {} \<and>
     list_all (referent_ok m j) (jm_volumes master) \<and>
     list_all (container_ok (GetJenkinsMasterPodBaseVolumes j @ jm_volumes master)) (jm_containers master) \<and>
     validatePlugins BasePlugins (jm_basePlugins master) = [] \<and>
     flags_ok (jc_env (hd (jm_containers master)))"

text \<open>The configuration section of a specification: sound, and with a reference missing.\<close>

definition valid_config :: "jenkins_spec \<Rightarrow> bool" where
  "valid_config spec \<longleftrightarrow> (case js_casc spec of None \<Rightarrow> True | Some casc \<Rightarrow> config_sound casc)"

definition lost_config :: "store \<Rightarrow> jenkins \<Rightarrow> jenkins_spec \<Rightarrow> bool" where
  "lost_config m j spec \<longleftrightarrow> (case js_casc spec of None \<Rightarrow> False | Some casc \<Rightarrow> config_missing m j casc)"

section \<open>The checks without effects\<close>

lemma concat_if_Nil: "concat (map (\<lambda>x. if P x then [] else [f x]) xs) = [] \<longleftrightarrow> list_all P xs"
  by (induction xs) auto

lemma reserved_volumes_iff:
  assumes "status_spec j = Some spec" and "js_master spec = Some master"
  shows "\<exists>ms. validateReservedVolumes j = Some ms \<and>
    (ms = [] \<longleftrightarrow> vol_name ` set (GetJenkinsMasterPodBaseVolumes j) \<inter> vol_name ` set (jm_volumes master) = {})"
  using assms by (auto simp: validateReservedVolumes_def)

lemma image_ok_iff: "image_ok w \<longleftrightarrow> MatchString dockerImageRegexp w \<or> MatchString ReferenceRegexp w"
  by (auto simp: image_ok_def MatchString_lang dockerImageRegexp_iff [unfolded MatchString_lang])

lemma container_mounts_iff:
  assumes "status_spec j = Some spec" and "js_master spec = Some master"
  shows "\<exists>ms. validateContainerVolumeMounts j c = Some ms \<and>
    (ms = [] \<longleftrightarrow> list_all (\<lambda>vm. vm_mountPath vm \<noteq> [] \<and>
      vm_name vm \<in> vol_name ` set (GetJenkinsMasterPodBaseVolumes j @ jm_volumes master)) (jc_volumeMounts c))"
  unfolding validateContainerVolumeMounts_def
  by (simp only: assms Option.bind.simps Let_def option.inject ex_simps simp_thms concat_eq_Nil_conv list_all_iff set_map ball_simps)
    (auto simp: list_ex_iff)

lemma container_iff:
  assumes "status_spec j = Some spec" and "js_master spec = Some master"
  shows "\<exists>ms. validateContainer j c = Some ms \<and>
    (ms = [] \<longleftrightarrow> container_ok (GetJenkinsMasterPodBaseVolumes j @ jm_volumes master) c)"
proof -
  obtain ms where ms: "validateContainerVolumeMounts j c = Some ms"
    and iff: "ms = [] \<longleftrightarrow> list_all (\<lambda>vm. vm_mountPath vm \<noteq> [] \<and>
      vm_name vm \<in> vol_name ` set (GetJenkinsMasterPodBaseVolumes j @ jm_volumes master)) (jc_volumeMounts c)"
    using container_mounts_iff [OF assms, of c] by (elim exE conjE)
  have nil: "(if b then [x] else []) = ([] :: string list) \<longleftrightarrow> \<not> b" for b and x :: string by simp
  show ?thesis
    unfolding validateContainer_def ms Option.bind.simps
    by (intro exI conjI, rule refl) (simp only: append_is_Nil_conv nil iff container_ok_def image_ok_iff de_Morgan_conj not_not)
qed

lemma containers_iff:
  assumes "status_spec j = Some spec" and "js_master spec = Some master"
  shows "\<exists>ms. validate_containers j cs = Some ms \<and>
    (ms = [] \<longleftrightarrow> list_all (container_ok (GetJenkinsMasterPodBaseVolumes j @ jm_volumes master)) cs)"
proof (induction cs)
  case (Cons c cs)
  with container_iff [OF assms, of c] show ?case by auto
qed simp

lemma envs_iff:
  assumes "status_spec j = Some spec" and "first_container spec = Some c"
  shows "\<exists>ms. validateJenkinsMasterPodEnvs j = Some ms \<and> (ms = [] \<longleftrightarrow> flags_ok (jc_env c))"
proof -
  have "getJenkinsHomePath j = Some (home_path_of c)" using assms by (simp add: getJenkinsHomePath_def)
  then obtain base where "GetJenkinsMasterContainerBaseEnvs j = Some base"
    using assms(1) by (auto simp: GetJenkinsMasterContainerBaseEnvs_def split: option.splits)
  then have "\<exists>f. validateJenkinsMasterPodEnvs j = Some (concat (map (\<lambda>flag.
      if flag \<in> set (Split (java_opts (jc_env c)) (CHR '' '')) then [] else [f flag]) required_flags))"
    unfolding validateJenkinsMasterPodEnvs_def
    by (simp only: assms Option.bind.simps Let_def) (rule exI, rule refl)
  then show ?thesis
    by (elim exE) (simp only: option.inject ex_simps simp_thms concat_if_Nil flags_ok_def list_all_iff subset_iff, blast)
qed

section \<open>The checks on an API server\<close>

lemma more_kind_decodes:
  "obj_key x = (KConfigMap, ns, n) \<Longrightarrow> as_config_map x \<noteq> None"
  "obj_key x = (KPVC, ns, n) \<Longrightarrow> as_pvc x \<noteq> None"
  by (cases x; simp add: obj_key_def as_defs)+

context kube_server
begin

lemma referent_achieves:
  assumes "located j" and "n \<noteq> []" and "\<not> cluster_scoped k"
    and "\<And>x. obj_key x = (k, j_namespace j, n) \<Longrightarrow> sel x \<noteq> None"
  shows "achieves valid stored m (validate_referent E k sel j n msg)
    (gives (Inr (if m (k, j_namespace j, n) = None then [msg] else [])) m)"
  unfolding validate_referent_def
  by (rule achieves_read [OF proper_names [OF assms(1,3,2)] assms(4)]) (auto intro: achieves_ret)

lemma volume_achieves:
  assumes "located j" and "referent_named v"
  shows "achieves valid stored m (validate_volume E showVolume j v)
    (\<lambda>r m'. m' = m \<and> (\<exists>ms. r = Inr ms \<and> (ms = [] \<longleftrightarrow> referent_ok m j v)))"
proof -
  have read: "achieves valid stored m (validate_referent E k sel j n msg)
      (\<lambda>r m'. m' = m \<and> (\<exists>ms. r = Inr ms \<and> (ms = [] \<longleftrightarrow> m (k, j_namespace j, n) \<noteq> None)))"
    if "n \<noteq> []" and "\<not> cluster_scoped k" and "\<And>x. obj_key x = (k, j_namespace j, n) \<Longrightarrow> sel x \<noteq> None"
    for k sel n msg
    by (rule achieves_weaken [OF referent_achieves [OF assms(1) that]]) auto
  have cm: "n \<noteq> [] \<Longrightarrow> achieves valid stored m (validate_referent E KConfigMap as_config_map j n msg)
      (\<lambda>r m'. m' = m \<and> (\<exists>ms. r = Inr ms \<and> (ms = [] \<longleftrightarrow> m (KConfigMap, j_namespace j, n) \<noteq> None)))" for n msg
    by (rule read) (use more_kind_decodes(1) in simp_all)
  have sec: "n \<noteq> [] \<Longrightarrow> achieves valid stored m (validate_referent E KSecret as_secret j n msg)
      (\<lambda>r m'. m' = m \<and> (\<exists>ms. r = Inr ms \<and> (ms = [] \<longleftrightarrow> m (KSecret, j_namespace j, n) \<noteq> None)))" for n msg
    by (rule read) (use kind_decodes(1) in simp_all)
  have pvc: "n \<noteq> [] \<Longrightarrow> achieves valid stored m (validate_referent E KPVC as_pvc j n msg)
      (\<lambda>r m'. m' = m \<and> (\<exists>ms. r = Inr ms \<and> (ms = [] \<longleftrightarrow> m (KPVC, j_namespace j, n) \<noteq> None)))" for n msg
    by (rule read) (use more_kind_decodes(2) in simp_all)
  note defs = validate_volume_def validateConfigMapVolume_def validateSecretVolume_def
    validatePersistentVolumeClaim_def referent_ok_def
  show ?thesis
  proof (cases "vol_configMap v")
    case (Some src)
    with cm [of "cms_name src"] assms(2) show ?thesis
      by (cases "cms_optional src = Some True") (simp_all add: defs referent_named_def achieves_ret)
  next
    case no_cm: None
    show ?thesis
    proof (cases "vol_secret v")
      case (Some src)
      with no_cm sec [of "ss_name src"] assms(2) show ?thesis
        by (cases "ss_optional src = Some True") (simp_all add: defs referent_named_def achieves_ret)
    next
      case None
      with no_cm pvc [of "the (vol_pvc v)"] assms(2) show ?thesis
        by (cases "vol_pvc v") (simp_all add: defs referent_named_def achieves_ret)
    qed
  qed
qed

lemma volumes_achieve:
  assumes "located j"
  shows "list_all referent_named vs \<Longrightarrow> achieves valid stored m (validate_volumes E showVolume j vs)
    (\<lambda>r m'. m' = m \<and> (\<exists>ms. r = Inr ms \<and> (ms = [] \<longleftrightarrow> list_all (referent_ok m j) vs)))"
proof (induction vs)
  case Nil
  then show ?case by (auto intro: achieves_ret)
next
  case (Cons v vs)
  then have v: "referent_named v" and vs: "list_all referent_named vs" by simp_all
  show ?case
    unfolding validate_volumes.simps
  proof (rule achieves_bindE [OF volume_achieves [OF assms v]], goal_cases)
    case (1 ms m1)
    then have m1: "m1 = m" and ms: "ms = [] \<longleftrightarrow> referent_ok m j v" by simp_all
    show ?case
      unfolding m1
      by (rule achieves_bindE [OF Cons.IH [OF vs]]) (auto intro!: achieves_ret simp: ms)
  qed simp
qed

lemma references_achieve:
  assumes "located j"
  shows "achieves valid stored m (validate_references E j name i ns)
    (\<lambda>(ms, e) m'. m' = m \<and>
      (e = None \<longleftrightarrow> \<not> list_ex (\<lambda>n. n \<noteq> [] \<and> m (KConfigMap, j_namespace j, n) = None) ns) \<and>
      (e = None \<longrightarrow> (ms = [] \<longleftrightarrow> [] \<notin> set ns)))"
proof (induction ns arbitrary: i)
  case Nil
  then show ?case by (simp add: achieves_ret)
next
  case (Cons n ns)
  show ?case
  proof (cases "n = []")
    case True
    then show ?thesis
      unfolding validate_references.simps Let_def
      by simp (rule achieves_bindP [OF Cons.IH], auto intro: achieves_ret)
  next
    case False
    have "\<exists>msg. validate_references E j name i (n # ns) =
        bindP (client_get E KConfigMap as_config_map (j_namespace j) n) (\<lambda>r. case r of
          Inl e \<Rightarrow> ret ([msg], Some (Stacked e))
        | Inr cm \<Rightarrow> validate_references E j name (Suc i) ns)"
      by (simp only: validate_references.simps Let_def length_0_conv False if_False) (rule exI, rule refl)
    then obtain msg where eq: "validate_references E j name i (n # ns) =
        bindP (client_get E KConfigMap as_config_map (j_namespace j) n) (\<lambda>r. case r of
          Inl e \<Rightarrow> ret ([msg], Some (Stacked e))
        | Inr cm \<Rightarrow> validate_references E j name (Suc i) ns)" by blast
    show ?thesis
      unfolding eq
    proof (rule achieves_read [OF proper_names [OF assms _ False] more_kind_decodes(1)], goal_cases)
      case (3 e)
      with False show ?case by (simp add: achieves_ret)
    next
      case (4 x cm)
      with False have "list_ex (\<lambda>n. n \<noteq> [] \<and> m (KConfigMap, j_namespace j, n) = None) (n # ns) =
          list_ex (\<lambda>n. n \<noteq> [] \<and> m (KConfigMap, j_namespace j, n) = None) ns" by simp
      with Cons.IH [of "Suc i"] False show ?case by simp
    qed simp_all
  qed
qed

lemma default_config_achieves:
  assumes "located j"
  shows "achieves valid stored m (ensure_default_config E j dcm)
    (\<lambda>((ms, e), d) m'. ms = [] \<and> e = None \<and>
      (\<forall>key. key \<noteq> (KConfigMap, j_namespace j, JenkinsDefaultConfigMapName) \<longrightarrow> m' key = m key) \<and>
      m' (KConfigMap, j_namespace j, JenkinsDefaultConfigMapName) \<noteq> None)"
    (is "achieves valid stored m _ ?Q")
proof -
  let ?k = "(KConfigMap, j_namespace j, JenkinsDefaultConfigMapName)"
  let ?cm = "dcm\<lparr>cm_meta := (cm_meta dcm)\<lparr>om_namespace := j_namespace j, om_name := JenkinsDefaultConfigMapName\<rparr>\<rparr>"
  have key: "proper_key ?k"
    using assms by (intro proper_names) (simp_all add: JenkinsDefaultConfigMapName_def)
  have k: "obj_key (OConfigMap ?cm) = ?k" by (simp add: obj_key_def)
  show ?thesis
    unfolding ensure_default_config_def Let_def
  proof (rule achieves_read [OF key more_kind_decodes(1)], goal_cases)
    case (2 e)
    have "achieves valid stored m (client_create E as_config_map (OConfigMap ?cm)) (gives (Inr ?cm) (m(?k \<mapsto> OConfigMap ?cm)))"
      using achieves_create [of "OConfigMap ?cm" m as_config_map ?cm] key k 2 by (simp add: as_config_map_def)
    then have "achieves valid stored m (bindP (client_create E as_config_map (OConfigMap ?cm)) (\<lambda>r. case r of
        Inl e \<Rightarrow> ret (([''Not able to create Default ConfigMap '' @ JenkinsDefaultConfigMapName], Some (Stacked e)), ?cm)
      | Inr created \<Rightarrow> ret (([], None), created))) ?Q"
      by (rule achieves_bindP) (simp add: achieves_ret)
    with 2 show ?case by (simp only: sum.case if_True)
  next
    case (3 x cm)
    then show ?case by (simp add: achieves_ret)
  qed
qed

lemma secret_read:
  assumes "located j"
  shows "achieves valid stored m
    (if length secret > 0 then client_get E KSecret as_secret (j_namespace j) secret
     else ret (Inr \<lparr>sec_meta = empty_meta, sec_data = None\<rparr>))
    (\<lambda>r m'. m' = m \<and> ((\<exists>e. r = Inl e) \<longleftrightarrow> secret \<noteq> [] \<and> m (KSecret, j_namespace j, secret) = None))"
proof (cases "secret = []")
  case True
  then show ?thesis by (simp add: achieves_ret)
next
  case False
  have "proper_key (KSecret, j_namespace j, secret)" using assms False by (simp add: proper_names)
  then have "achieves valid stored m (client_get E KSecret as_secret (j_namespace j) secret)
      (\<lambda>r m'. m' = m \<and> ((\<exists>e. r = Inl e) \<longleftrightarrow> secret \<noteq> [] \<and> m (KSecret, j_namespace j, secret) = None))"
    by (rule achieves_get) (use False kind_decodes(1) in \<open>auto simp: decode_def split: option.splits\<close>)
  with False show ?thesis by simp
qed

text \<open>The checks after the secret: the references and the default configuration.\<close>

lemma configuration_rest:
  assumes "located j" and found: "cf_secret casc = [] \<or> m (KSecret, j_namespace j, cf_secret casc) \<noteq> None"
    and unused: "unused = [] \<longleftrightarrow> (cf_secret casc \<noteq> [] \<longrightarrow> cf_configurations casc \<noteq> [])"
  shows "achieves valid stored m
    (bindP (validate_references E j name 0 (cf_configurations casc)) (\<lambda>(ms, err). case err of
        Some e \<Rightarrow> ret ((unused @ ms, Some e), dcm)
      | None \<Rightarrow>
          if cf_defaultConfig casc then
            bindP (ensure_default_config E j dcm) (\<lambda>((ms', err'), dcm'). ret ((unused @ ms @ ms', err'), dcm'))
          else ret ((unused @ ms, None), dcm)))
    (\<lambda>((ms, e), d) m'.
      (\<forall>key. key \<noteq> (KConfigMap, j_namespace j, JenkinsDefaultConfigMapName) \<longrightarrow> m' key = m key) \<and>
      (e = None \<longleftrightarrow> \<not> config_missing m j casc) \<and>
      (e = None \<longrightarrow> (ms = [] \<longleftrightarrow> config_sound casc) \<and>
        (cf_defaultConfig casc \<longrightarrow> m' (KConfigMap, j_namespace j, JenkinsDefaultConfigMapName) \<noteq> None)))"
    (is "achieves valid stored m _ ?Q")
proof (rule achieves_bindP [OF references_achieve [OF assms(1)]], clarify)
  fix ms :: "string list" and e :: "goerr option"
  assume e: "(e = None) = (\<not> list_ex (\<lambda>n. n \<noteq> [] \<and> m (KConfigMap, j_namespace j, n) = None) (cf_configurations casc))"
    and ms: "e = None \<longrightarrow> (ms = []) = ([] \<notin> set (cf_configurations casc))"
  have miss: "(e = None) = (\<not> config_missing m j casc)" using found e by (auto simp: config_missing_def)
  show "achieves valid stored m (case e of
      None \<Rightarrow> if cf_defaultConfig casc
        then bindP (ensure_default_config E j dcm) (\<lambda>((ms', err'), dcm'). ret ((unused @ ms @ ms', err'), dcm'))
        else ret ((unused @ ms, None), dcm)
    | Some e \<Rightarrow> ret ((unused @ ms, Some e), dcm)) ?Q"
  proof (cases e)
    case (Some x)
    with miss show ?thesis by (simp add: achieves_ret)
  next
    case None
    with miss ms unused have ok: "\<not> config_missing m j casc" "unused @ ms = [] \<longleftrightarrow> config_sound casc"
      by (auto simp: config_sound_def)
    have "achieves valid stored m (bindP (ensure_default_config E j dcm)
        (\<lambda>((ms', err'), dcm'). ret ((unused @ ms @ ms', err'), dcm'))) ?Q"
      by (rule achieves_bindP [OF default_config_achieves [OF assms(1)]]) (use ok in \<open>auto intro!: achieves_ret\<close>)
    with None ok show ?thesis by (cases "cf_defaultConfig casc") (simp_all only: option.case if_True, simp add: achieves_ret)
  qed
qed

lemma configuration_achieves:
  assumes "located j"
  shows "achieves valid stored m (validateConfiguration E j (Some casc) name dcm)
    (\<lambda>((ms, e), d) m'.
      (\<forall>key. key \<noteq> (KConfigMap, j_namespace j, JenkinsDefaultConfigMapName) \<longrightarrow> m' key = m key) \<and>
      (e = None \<longleftrightarrow> \<not> config_missing m j casc) \<and>
      (e = None \<longrightarrow> (ms = [] \<longleftrightarrow> config_sound casc) \<and>
        (cf_defaultConfig casc \<longrightarrow> m' (KConfigMap, j_namespace j, JenkinsDefaultConfigMapName) \<noteq> None)))"
  unfolding validateConfiguration_def option.case Let_def
proof (rule achieves_bindP [OF secret_read [OF assms]], elim conjE, goal_cases)
  case (1 r m1)
  show ?case
  proof (cases r)
    case (Inl e)
    with 1 have "config_missing m j casc" by (auto simp: config_missing_def)
    with Inl 1 show ?thesis by (simp add: achieves_ret)
  next
    case (Inr s)
    with 1 have "cf_secret casc = [] \<or> m (KSecret, j_namespace j, cf_secret casc) \<noteq> None" by auto
    then show ?thesis unfolding Inr sum.case 1(1) by (intro configuration_rest [where m = m, OF assms]) simp_all
  qed
qed

lemma Validate_achieves:
  assumes "located j" and st: "status_spec j = Some spec" and ma: "js_master spec = Some master"
    and fc: "first_container spec = Some c" and named: "list_all referent_named (jm_volumes master)"
  shows "achieves valid stored m (Validate E showVolume j j dcm)
    (\<lambda>(r, d) m'.
      (\<forall>key. key \<noteq> (KConfigMap, j_namespace j, JenkinsDefaultConfigMapName) \<longrightarrow> m' key = m key) \<and>
      ((\<exists>e. r = Inl e) \<longleftrightarrow> lost_config m j spec) \<and>
      (r = Inr [] \<longleftrightarrow> valid_master m j master \<and> valid_config spec \<and> \<not> lost_config m j spec))"
    (is "achieves valid stored m _ ?Q")
proof -
  obtain ms1 where r1: "validateReservedVolumes j = Some ms1"
    and n1: "ms1 = [] \<longleftrightarrow> vol_name ` set (GetJenkinsMasterPodBaseVolumes j) \<inter> vol_name ` set (jm_volumes master) = {}"
    using reserved_volumes_iff [OF st ma] by blast
  obtain ms3 where r3: "validate_containers j (jm_containers master) = Some ms3"
    and n3: "ms3 = [] \<longleftrightarrow> list_all (container_ok (GetJenkinsMasterPodBaseVolumes j @ jm_volumes master)) (jm_containers master)"
    using containers_iff [OF st ma] by blast
  obtain ms5 where r5: "validateJenkinsMasterPodEnvs j = Some ms5" and n5: "ms5 = [] \<longleftrightarrow> flags_ok (jc_env c)"
    using envs_iff [OF st fc] by blast
  have c: "hd (jm_containers master) = c" using fc ma by (auto simp: first_container_def split: list.splits)
  have config: "achieves valid stored m (validateConfiguration E j (js_casc spec) (j_name j) dcm)
    (\<lambda>((ms, e), d) m'.
      (\<forall>key. key \<noteq> (KConfigMap, j_namespace j, JenkinsDefaultConfigMapName) \<longrightarrow> m' key = m key) \<and>
      (e = None \<longleftrightarrow> \<not> lost_config m j spec) \<and> (e = None \<longrightarrow> (ms = [] \<longleftrightarrow> valid_config spec)))"
  proof (cases "js_casc spec")
    case None
    then show ?thesis
      by (simp add: validateConfiguration_def achieves_ret lost_config_def valid_config_def)
  next
    case (Some casc)
    then have "lost_config m j spec = config_missing m j casc" "valid_config spec = config_sound casc"
      by (simp_all add: lost_config_def valid_config_def)
    then show ?thesis
      unfolding Some by (intro achieves_weaken [OF configuration_achieves [OF assms(1)]]) auto
  qed
  have vols: "validateVolumes E showVolume j = validate_volumes E showVolume j (jm_volumes master)"
    by (simp add: validateVolumes_def st ma)
  show ?thesis
    unfolding Validate_def r1 option.case vols
  proof (rule achieves_bindP [OF volumes_achieve [OF assms(1) named]], elim conjE exE, goal_cases)
    case (1 r m1 ms2)
    have ok: "valid_master m j master \<longleftrightarrow>
        ms1 = [] \<and> ms2 = [] \<and> ms3 = [] \<and> validatePlugins BasePlugins (jm_basePlugins master) = [] \<and> ms5 = []"
      by (simp only: valid_master_def n1 n3 n5 1(3) c)
    show ?case
      unfolding 1(1) 1(2) sum.case
      by (simp only: st ma r3 r5 Option.bind.simps option.map option.case prod.case Let_def)
        (rule achieves_bindP [OF config], auto intro!: achieves_ret simp: ok split: option.splits)
  qed
qed

end

section \<open>Lemmas for the properties\<close>

lemma valid_mounts:
  assumes "valid_master m j master"
  shows "user_mount_names (jm_containers master) \<subseteq> vol_name ` set (GetJenkinsMasterPodBaseVolumes j @ jm_volumes master)"
  using assms unfolding valid_master_def container_ok_def user_mount_names_def list_all_iff by blast

text \<open>A reference without a slash, a colon and an at sign is a single lower-case name component.\<close>

lemma optional_needs:
  "w \<in> lang (optional (literal c # rs)) \<Longrightarrow> c \<notin> set w \<Longrightarrow> w = []"
  "w \<in> lang (optional [repeated (literal c # rs)]) \<Longrightarrow> c \<notin> set w \<Longrightarrow> w = []"
  "w \<in> lang (optional [r, literal c]) \<Longrightarrow> c \<notin> set w \<Longrightarrow> w = []"
  by (auto simp: optional_def literal_def repeated_def)

lemma component_chars:
  assumes "w \<in> lang nameComponentRegexp"
  shows "set w \<subseteq> set (lower @ digits) \<union> {CHR ''.'', CHR ''_'', CHR ''-''}"
proof -
  have "chars_of nameComponentRegexp \<subseteq> set (lower @ digits) \<union> {CHR ''.'', CHR ''_'', CHR ''-''}"
    by (auto simp: regexp_defs)
  with lang_chars [OF assms] show ?thesis by blast
qed

lemma plain_reference_chars:
  assumes "w \<in> lang ReferenceRegexp" and "CHR ''/'' \<notin> set w" "CHR '':'' \<notin> set w" "CHR ''@'' \<notin> set w"
  shows "set w \<subseteq> set (lower @ digits) \<union> {CHR ''.'', CHR ''_'', CHR ''-''}"
proof -
  from assms(1) obtain n t d where w: "w = n @ t @ d" and n: "n \<in> lang NameRegexp"
    and t: "t \<in> lang (optional [literal (CHR '':''), capture [TagRegexp]])"
    and d: "d \<in> lang (optional [literal (CHR ''@''), capture [DigestRegexp]])"
    unfolding ReferenceRegexp_def anchored_def capture_def by auto
  have "t = []" "d = []" using optional_needs(1) [OF t] optional_needs(1) [OF d] assms(3,4) w by simp_all
  moreover from n obtain p c q where nn: "n = p @ c @ q"
    and p: "p \<in> lang (optional [DomainRegexp, literal (CHR ''/'')])" and c: "c \<in> lang nameComponentRegexp"
    and q: "q \<in> lang (optional [repeated [literal (CHR ''/''), nameComponentRegexp]])"
    unfolding NameRegexp_def by auto
  moreover have "p = []" "q = []" using optional_needs(3) [OF p] optional_needs(2) [OF q] assms(2) w nn by simp_all
  ultimately have "w = c" using w by simp
  with component_chars [OF c] show ?thesis by simp
qed

text \<open>The validation, run on the in-memory API server.\<close>

lemma Validate_run:
  assumes "wf_cluster (world s)" and "located j" and "status_spec j = Some spec" and "js_master spec = Some master"
    and "first_container spec = Some c" and "list_all referent_named (jm_volumes master)"
  shows "\<exists>r d s'. Validate (fake_env runs) showVolume j j dcm s = (Done (r, d), s') \<and>
    (\<forall>key. key \<noteq> (KConfigMap, j_namespace j, JenkinsDefaultConfigMapName) \<longrightarrow>
      lookup (world s') key = lookup (world s) key) \<and>
    ((\<exists>e. r = Inl e) \<longleftrightarrow> lost_config (lookup (world s)) j spec) \<and>
    (r = Inr [] \<longleftrightarrow> valid_master (lookup (world s)) j master \<and> valid_config spec \<and>
      \<not> lost_config (lookup (world s)) j spec)"
proof -
  obtain x s' where run: "Validate (fake_env runs) showVolume j j dcm s = (Done x, s')"
    and Q: "(\<lambda>(r, d) m'.
      (\<forall>key. key \<noteq> (KConfigMap, j_namespace j, JenkinsDefaultConfigMapName) \<longrightarrow> m' key = lookup (world s) key) \<and>
      ((\<exists>e. r = Inl e) \<longleftrightarrow> lost_config (lookup (world s)) j spec) \<and>
      (r = Inr [] \<longleftrightarrow> valid_master (lookup (world s)) j master \<and> valid_config spec \<and>
        \<not> lost_config (lookup (world s)) j spec)) x (lookup (world s'))"
    using fake.Validate_achieves [OF assms(2-6)] assms(1) refl by (rule achievesE)
  obtain r d where x: "x = (r, d)" by (cases x)
  show ?thesis
    by (rule exI [of _ r], rule exI [of _ d], rule exI [of _ s'], rule conjI,
        rule run [unfolded x], rule Q [unfolded x prod.case])
qed

section \<open>Properties\<close>

text \<open>
  C2. On the (in-memory) API server the validation of a Jenkins whose volumes name their referents
  neither panics nor hangs; it reports nothing exactly when the declarative conditions hold
  (no reserved volume, every referent present, every container with a well-formed image, a pull
  policy and declared mounts, sound plugins, the required Java flags, a sound configuration
  section), and returns an error exactly when a reference of the configuration section is
  missing.  It writes nothing but the default configuration.
\<close>

theorem Validate_correct:
  assumes "wf_cluster (world s)" and "located j" and "status_spec j = Some spec" and "js_master spec = Some master"
    and "first_container spec = Some c" and "list_all referent_named (jm_volumes master)"
  shows "\<exists>r d s'. Validate (fake_env runs) showVolume j j dcm s = (Done (r, d), s') \<and>
    (\<forall>key. key \<noteq> (KConfigMap, j_namespace j, JenkinsDefaultConfigMapName) \<longrightarrow>
      lookup (world s') key = lookup (world s) key) \<and>
    ((\<exists>e. r = Inl e) \<longleftrightarrow> lost_config (lookup (world s)) j spec) \<and>
    (r = Inr [] \<longleftrightarrow> valid_master (lookup (world s)) j master \<and> valid_config spec \<and>
      \<not> lost_config (lookup (world s)) j spec)"
  using assms by (rule Validate_run)

text \<open>A Jenkins that passes.\<close>

definition valid_spec_example :: jenkins_spec where
  "valid_spec_example = empty_spec\<lparr>
     js_master := Some (empty_master\<lparr>jm_containers := [empty_jcontainer\<lparr>jc_name := ''jenkins'', jc_image := ''jenkins'',
         jc_pullPolicy := ''Always'', jc_env := [env_value ''JAVA_OPTS''
           ''-Djenkins.install.runSetupWizard=false -Djava.awt.headless=true'']\<rparr>],
       jm_basePlugins := map (\<lambda>p. \<lparr>ps_name = pg_name p, ps_version = pg_version p, ps_url = []\<rparr>) BasePlugins\<rparr>),
     js_casc := Some \<lparr>cf_enabled = True, cf_defaultConfig = False, cf_secret = [], cf_configurations = [], cf_autoReload = False\<rparr>\<rparr>"

lemma valid_spec_example:
  defines "j \<equiv> ready_jenkins valid_spec_example"
  obtains master c where "located j" and "js_master valid_spec_example = Some master"
    and "first_container valid_spec_example = Some c" and "list_all referent_named (jm_volumes master)"
    and "valid_master m j master" and "valid_config valid_spec_example" and "\<not> lost_config m j valid_spec_example"
proof -
  let ?c = "empty_jcontainer\<lparr>jc_name := ''jenkins'', jc_image := ''jenkins'', jc_pullPolicy := ''Always'',
    jc_env := [env_value ''JAVA_OPTS'' ''-Djenkins.install.runSetupWizard=false -Djava.awt.headless=true'']\<rparr>"
  let ?m = "empty_master\<lparr>jm_containers := [?c],
    jm_basePlugins := map (\<lambda>p. \<lparr>ps_name = pg_name p, ps_version = pg_version p, ps_url = []\<rparr>) BasePlugins\<rparr>"
  have "flags_ok (jc_env ?c)" by code_simp
  moreover have "image_ok ''jenkins''"
    by (simp add: image_ok_def word_chars_def lower_def)
  moreover note default_plugins
  ultimately have "valid_master m j ?m"
    by (simp add: valid_master_def container_ok_def empty_jcontainer_def empty_master_def)
  moreover have "located j" by (simp add: located_def j_namespace_def j_def ready_jenkins_def)
  moreover have "js_master valid_spec_example = Some ?m" "js_casc valid_spec_example =
      Some \<lparr>cf_enabled = True, cf_defaultConfig = False, cf_secret = [], cf_configurations = [], cf_autoReload = False\<rparr>"
    by (simp_all add: valid_spec_example_def empty_spec_def)
  moreover from this have "first_container valid_spec_example = Some ?c" by (simp add: first_container_def)
  ultimately show ?thesis
    using that [of ?m ?c] by (simp add: valid_config_def lost_config_def config_sound_def config_missing_def empty_master_def)
qed

theorem Validate_correct_witness:
  "\<exists>d s'. Validate (fake_env (\<lambda>q. None)) (\<lambda>v. []) (ready_jenkins valid_spec_example) (ready_jenkins valid_spec_example)
      initialDefaultConfigMap \<lparr>world = \<lparr>objects = [], clock = 0\<rparr>, log = []\<rparr> = (Done (Inr [], d), s')"
proof -
  let ?s = "\<lparr>world = \<lparr>objects = [], clock = 0\<rparr>, log = []\<rparr> :: cluster sys"
  have w: "wf_cluster (world ?s)" by (simp add: wf_cluster_def)
  obtain master c where ex: "located (ready_jenkins valid_spec_example)" "js_master valid_spec_example = Some master"
    "first_container valid_spec_example = Some c" "list_all referent_named (jm_volumes master)"
    and valid: "valid_master (lookup (world ?s)) (ready_jenkins valid_spec_example) master" "valid_config valid_spec_example"
      "\<not> lost_config (lookup (world ?s)) (ready_jenkins valid_spec_example) valid_spec_example"
    by (rule valid_spec_example [of "lookup (world ?s)"])
  from Validate_correct [OF w ex(1) full_spec_simps(1) ex(2-4), of "\<lambda>q. None" "\<lambda>v. []" initialDefaultConfigMap] valid
  show ?thesis by blast
qed

text \<open>
  C9. A Jenkins that passes the validation gets a deployment: building it does not panic, and every
  volume mounted by any of its containers is a volume of the pod (with a configuration-as-code
  section, and the calculated specification agreeing with the requested one on backups).
\<close>

theorem validated_deployment_mounts:
  assumes "wf_cluster (world s)" and "located j" and "status_spec j = Some spec" and "js_master spec = Some master"
    and "first_container spec = Some c" and "list_all referent_named (jm_volumes master)"
    and "Validate (fake_env runs) showVolume j j dcm s = (Done (Inr [], d), s')"
    and "js_casc spec = Some casc" and "js_backupEnabled spec = js_backupEnabled (j_spec j)"
  shows "\<exists>dep. NewJenkinsDeployment getenv meta j spec = Some dep \<and>
    mount_names (psp_initContainers (dp_template dep) @ psp_containers (dp_template dep)) \<subseteq>
      vol_name ` set (psp_volumes (dp_template dep))"
proof -
  from Validate_run [OF assms(1-6), of runs showVolume dcm] assms(7)
  have "valid_master (lookup (world s)) j master" by auto
  note user = valid_mounts [OF this]
  have "has_master_container j" using assms(3,5) by (auto simp: has_master_container_iff)
  with assms(5) obtain dep where dep: "NewJenkinsDeployment getenv meta j spec = Some dep"
    using NewJenkinsDeployment_None [of getenv meta j spec] by auto
  from deployment_mounts [OF dep assms(3,8,4) user assms(9)] dep show ?thesis by (intro exI conjI)
qed

theorem validated_deployment_mounts_witness:
  "\<exists>dep. NewJenkinsDeployment (\<lambda>v. []) empty_meta (ready_jenkins valid_spec_example) valid_spec_example = Some dep \<and>
    mount_names (psp_initContainers (dp_template dep) @ psp_containers (dp_template dep)) \<subseteq>
      vol_name ` set (psp_volumes (dp_template dep))"
proof -
  let ?s = "\<lparr>world = \<lparr>objects = [], clock = 0\<rparr>, log = []\<rparr> :: cluster sys"
  let ?casc = "\<lparr>cf_enabled = True, cf_defaultConfig = False, cf_secret = [], cf_configurations = [], cf_autoReload = False\<rparr>"
  have w: "wf_cluster (world ?s)" by (simp add: wf_cluster_def)
  obtain master c where ex: "located (ready_jenkins valid_spec_example)" "js_master valid_spec_example = Some master"
    "first_container valid_spec_example = Some c" "list_all referent_named (jm_volumes master)"
    and valid: "valid_master (lookup (world ?s)) (ready_jenkins valid_spec_example) master" "valid_config valid_spec_example"
      "\<not> lost_config (lookup (world ?s)) (ready_jenkins valid_spec_example) valid_spec_example"
    by (rule valid_spec_example [of "lookup (world ?s)"])
  from Validate_run [OF w ex(1) full_spec_simps(1) ex(2-4), of "\<lambda>q. None" "\<lambda>v. []" initialDefaultConfigMap] valid
  obtain d s' where run: "Validate (fake_env (\<lambda>q. None)) (\<lambda>v. []) (ready_jenkins valid_spec_example)
      (ready_jenkins valid_spec_example) initialDefaultConfigMap ?s = (Done (Inr [], d), s')" by blast
  have casc: "js_casc valid_spec_example = Some ?casc" by (simp add: valid_spec_example_def)
  show ?thesis
    by (rule validated_deployment_mounts [OF w ex(1) full_spec_simps(1) ex(2-4) run casc]) simp
qed

text \<open>
  The check of an image accepts the syntax of a tag as well: a word of letters, digits and
  underscores with an upper-case letter is not an image reference, and passes like a valid one.
\<close>

theorem image_check_accepts_tag:
  assumes "set w \<subseteq> set word_chars" and "length w \<le> 128" and "set w \<inter> set upper \<noteq> {}"
  shows "\<not> MatchString ReferenceRegexp w \<and>
    validateContainer j (c\<lparr>jc_image := w\<rparr>) = validateContainer j (c\<lparr>jc_image := ''jenkins''\<rparr>)"
proof -
  from assms(3) have ne: "w \<noteq> []" by auto
  have apart: "CHR ''/'' \<notin> set word_chars" "CHR '':'' \<notin> set word_chars" "CHR ''@'' \<notin> set word_chars"
    "set upper \<inter> (set (lower @ digits) \<union> {CHR ''.'', CHR ''_'', CHR ''-''}) = {}"
    by (simp_all add: word_chars_def lower_def upper_def digits_def)
  have "w \<notin> lang ReferenceRegexp"
  proof
    assume "w \<in> lang ReferenceRegexp"
    from plain_reference_chars [OF this] assms(1,3) apart show False by blast
  qed
  then have "\<not> MatchString ReferenceRegexp w" by (simp add: MatchString_lang)
  moreover have "MatchString dockerImageRegexp w"
    using assms(1,2) ne hd_in_set [OF ne] by (auto simp: dockerImageRegexp_iff)
  moreover have "MatchString dockerImageRegexp ''jenkins''"
    unfolding dockerImageRegexp_iff by (simp add: word_chars_def lower_def)
  moreover have "validateContainerVolumeMounts j (c\<lparr>jc_image := w\<rparr>) = validateContainerVolumeMounts j c" for w
  proof -
    have "jc_name (c\<lparr>jc_image := w\<rparr>) = jc_name c" "jc_volumeMounts (c\<lparr>jc_image := w\<rparr>) = jc_volumeMounts c" by simp_all
    then show ?thesis by (simp only: validateContainerVolumeMounts_def)
  qed
  ultimately show ?thesis using ne by (simp add: validateContainer_def del: MatchString.simps)
qed

theorem image_check_accepts_tag_witness:
  "\<not> MatchString ReferenceRegexp ''My_Image''"
  using image_check_accepts_tag [of "''My_Image''"] by (simp add: word_chars_def lower_def upper_def del: MatchString.simps)

text \<open>
  The default configuration is a package variable that a creation overwrites with the answer of
  the API server, resource version included: when it is missing in a second namespace, the
  creation sends an object that already has a resource version, which an API server rejects.
\<close>

theorem default_config_map_reused:
  assumes "fst (e_get E KConfigMap (j_namespace j1) JenkinsDefaultConfigMapName (world s1)) = Inl e1" and "IsNotFound e1"
    and "e_create E (OConfigMap (dcm\<lparr>cm_meta := (cm_meta dcm)\<lparr>om_namespace := j_namespace j1,
        om_name := JenkinsDefaultConfigMapName\<rparr>\<rparr>))
      (snd (e_get E KConfigMap (j_namespace j1) JenkinsDefaultConfigMapName (world s1))) = (Inr (OConfigMap created), w)"
    and "fst (e_get E KConfigMap (j_namespace j2) JenkinsDefaultConfigMapName (world s2)) = Inl e2" and "IsNotFound e2"
  shows "\<exists>s1' x r out s2'. ensure_default_config E j1 dcm s1 = (Done (([], None), created), s1') \<and>
    ensure_default_config E j2 created s2 = (out, s2') \<and> last (log s2') = (CCreate (OConfigMap x), r) \<and>
    om_namespace (cm_meta x) = j_namespace j2 \<and>
    om_resourceVersion (cm_meta x) = om_resourceVersion (cm_meta created)"
proof -
  let ?get = "\<lambda>j s. e_get E KConfigMap (j_namespace j) JenkinsDefaultConfigMapName (world s)"
  obtain w1 w2 where g1: "?get j1 s1 = (Inl e1, w1)" and g2: "?get j2 s2 = (Inl e2, w2)"
    using assms(1,4) by (cases "?get j1 s1"; cases "?get j2 s2") auto
  let ?x = "created\<lparr>cm_meta := (cm_meta created)\<lparr>om_namespace := j_namespace j2, om_name := JenkinsDefaultConfigMapName\<rparr>\<rparr>"
  obtain r w3 where c2: "apfst (decode as_config_map) (e_create E (OConfigMap ?x) w2) = (r, w3)"
    by (cases "apfst (decode as_config_map) (e_create E (OConfigMap ?x) w2)")
  have get: "client_get E KConfigMap as_config_map (j_namespace j) JenkinsDefaultConfigMapName s =
      (Done (Inl e), s\<lparr>world := w', log := log s @ [(CGet KConfigMap (j_namespace j) JenkinsDefaultConfigMapName, Some e)]\<rparr>)"
    if "?get j s = (Inl e, w')" for j s e w'
    by (simp add: client_get_def perform_def that decode_def err_part_def)
  have create: "client_create E as_config_map (OConfigMap cm) s = (Done q,
      s\<lparr>world := w', log := log s @ [(CCreate (OConfigMap cm), err_part q)]\<rparr>)"
    if "apfst (decode as_config_map) (e_create E (OConfigMap cm) (world s)) = (q, w')" for cm s q w'
    by (simp add: client_create_def perform_def that)
  have "apfst (decode as_config_map) (e_create E (OConfigMap (dcm\<lparr>cm_meta := (cm_meta dcm)\<lparr>om_namespace := j_namespace j1,
        om_name := JenkinsDefaultConfigMapName\<rparr>\<rparr>)) w1) = (Inr created, w)"
    using assms(3) by (simp add: g1 decode_def as_config_map_def)
  then have "\<exists>s1'. ensure_default_config E j1 dcm s1 = (Done (([], None), created), s1')"
    unfolding ensure_default_config_def run_bindP get [OF g1] using assms(2)
    by (simp add: Let_def run_bindP create ret_def)
  moreover have "\<exists>out s2'. ensure_default_config E j2 created s2 = (out, s2') \<and> last (log s2') = (CCreate (OConfigMap ?x), err_part r)"
    unfolding ensure_default_config_def run_bindP get [OF g2] using assms(5) c2
    by (cases r) (simp_all add: Let_def run_bindP create ret_def)
  moreover have "om_namespace (cm_meta ?x) = j_namespace j2"
    "om_resourceVersion (cm_meta ?x) = om_resourceVersion (cm_meta created)" by simp_all
  ultimately show ?thesis by blast
qed

theorem default_config_map_reused_witness:
  "\<exists>s1' x r out s2'.
    ensure_default_config (fake_env (\<lambda>q. None)) (ready_jenkins empty_spec) initialDefaultConfigMap
      \<lparr>world = \<lparr>objects = [], clock = 0\<rparr>, log = []\<rparr> =
      (Done (([], None), initialDefaultConfigMap\<lparr>cm_meta := empty_meta\<lparr>om_namespace := ''ns'',
        om_name := JenkinsDefaultConfigMapName\<rparr>\<rparr>), s1') \<and>
    ensure_default_config (fake_env (\<lambda>q. None)) (ready_jenkins empty_spec)
      (initialDefaultConfigMap\<lparr>cm_meta := empty_meta\<lparr>om_namespace := ''ns'', om_name := JenkinsDefaultConfigMapName\<rparr>\<rparr>)
      \<lparr>world = \<lparr>objects = [], clock = 0\<rparr>, log = []\<rparr> = (out, s2') \<and> last (log s2') = (CCreate (OConfigMap x), r)"
proof -
  let ?s = "\<lparr>world = \<lparr>objects = [], clock = 0\<rparr>, log = []\<rparr> :: cluster sys"
  let ?j = "ready_jenkins empty_spec" and ?n = JenkinsDefaultConfigMapName
  let ?e = "StatusErr NotFound (?n @ '' not found'')"
  have ns: "j_namespace ?j = ''ns''" by (simp add: ready_jenkins_def j_namespace_def)
  have r: "e_get (fake_env (\<lambda>q. None)) KConfigMap (j_namespace ?j) ?n (world ?s) = (Inl ?e, world ?s)"
    by (simp add: fake_env_def tracker_get_def filterByNamespaceAndName_def)
  then have r1: "fst (e_get (fake_env (\<lambda>q. None)) KConfigMap (j_namespace ?j) ?n (world ?s)) = Inl ?e" by simp
  have n: "IsNotFound ?e" by simp
  let ?x = "initialDefaultConfigMap\<lparr>cm_meta := (cm_meta initialDefaultConfigMap)\<lparr>om_namespace := j_namespace ?j, om_name := ?n\<rparr>\<rparr>"
  have c: "e_create (fake_env (\<lambda>q. None)) (OConfigMap ?x)
      (snd (e_get (fake_env (\<lambda>q. None)) KConfigMap (j_namespace ?j) ?n (world ?s))) =
      (Inr (OConfigMap ?x), \<lparr>objects = [OConfigMap ?x], clock = 0\<rparr>)"
    unfolding r snd_conv by (simp add: fake_env_def tracker_put_def)
  have x: "?x = initialDefaultConfigMap\<lparr>cm_meta := empty_meta\<lparr>om_namespace := ''ns'', om_name := ?n\<rparr>\<rparr>"
    by (simp add: initialDefaultConfigMap_def ns)
  from default_config_map_reused [OF r1 n c r1 n] show ?thesis unfolding x by blast
qed

end
