(* ===== verification/Jenkins_Controller.thy ===== *)
theory Jenkins_Controller
  imports Validate_Correct Conditions
begin

text \<open>
  The controller of the \<open>Jenkins\<close> resource: \<^verbatim>\<open>controllers/jenkins_controller.go\<close>.  It fills the
  specification in the status with defaults, makes the volume claim and the backup configuration,
  validates, runs the base reconciler and writes the conditions.  The handler works on one
  \<open>Jenkins\<close> through a pointer; each function returns it as it leaves it.

  The code after \<open>reconcile\<close> that inspects the error (conflicts, the counter \<open>reconcileErrors\<close>,
  the groovy errors) is not reachable: the branch before it returns on every error.  It is in
  \<open>Jenkins_Failures\<close>, with the proof that the handler is the one here.
\<close>

section \<open>Constants\<close>

definition DefaultJenkinsImageEnvVar :: string where "DefaultJenkinsImageEnvVar = ''DEFAULT_JENKINS_IMAGE''"
definition DefaultJenkinsMasterImage :: string where "DefaultJenkinsMasterImage = ''jenkins/jenkins:lts''"
definition DefaultOpenShiftJenkinsMasterImage :: string where
  "DefaultOpenShiftJenkinsMasterImage = ''registry.redhat.io/openshift4/ose-jenkins:v4.5''"
definition JavaOptsDefaultValue :: string where
  "JavaOptsDefaultValue = ''-XX:+UnlockExperimentalVMOptions -XX:MaxRAMFraction=1 '' @
     ''-Djenkins.install.runSetupWizard=false -Djava.awt.headless=true '' @
     ''-Dhudson.security.csrf.DefaultCrumbIssuer.EXCLUDE_SESSION_ID=true -Dcasc.reload.token=$(POD_NAME)''"
definition KubernetesTrustCertsVariableName :: string where
  "KubernetesTrustCertsVariableName = ''KUBERNETES_TRUST_CERTIFICATES''"
definition KubernetesTrustCertsDefaultValue :: string where "KubernetesTrustCertsDefaultValue = ''true''"
definition JenkinsMasterContainerName :: string where "JenkinsMasterContainerName = ''jenkins''"
definition EditClusterRole :: string where "EditClusterRole = ''edit''"
definition AuthorizationAPIGroup :: string where "AuthorizationAPIGroup = ''rbac.authorization.k8s.io''"
definition ImageBuildSuccessful :: string where "ImageBuildSuccessful = ''ImageBuildSuccessful''"
definition PullAlways :: string where "PullAlways = ''Always''"

section \<open>The calculated specification\<close>

definition getDefaultJenkinsImage :: "(string \<Rightarrow> string) \<Rightarrow> bool \<Rightarrow> string" where
  "getDefaultJenkinsImage getenv routes =
     (let img = getenv DefaultJenkinsImageEnvVar in
      if length img = 0 then (if routes then DefaultOpenShiftJenkinsMasterImage else DefaultJenkinsMasterImage)
      else img)"

definition getJenkinsMasterContainer :: "string \<Rightarrow> jenkins_spec \<Rightarrow> goerr + jcontainer" where
  "getJenkinsMasterContainer img spec =
     (case (case js_master spec of None \<Rightarrow> [] | Some m \<Rightarrow> jm_containers m) of
        [] \<Rightarrow> Inr (empty_jcontainer\<lparr>jc_name := JenkinsMasterContainerName, jc_image := img\<rparr>)
      | c # cs \<Rightarrow>
          if jc_name c \<noteq> JenkinsMasterContainerName
          then Inl (TextErr (''first container in spec.master.containers must be Jenkins container with name '' @
            quoted JenkinsMasterContainerName @ '', please correct CR''))
          else Inr c)"

text \<open>A master without containers makes the write to the first one panic.\<close>

definition getCalculatedJenkinsMaster :: "jenkins_spec \<Rightarrow> jcontainer \<Rightarrow> jenkins_master option" where
  "getCalculatedJenkinsMaster spec jenkinsContainer = (case js_master spec of
     None \<Rightarrow> Some (empty_master\<lparr>jm_containers := [jenkinsContainer]\<rparr>)
   | Some m \<Rightarrow> (if jm_containers m = [] then None else Some m))"

definition isEnvVarNotSet :: "jcontainer \<Rightarrow> string \<Rightarrow> bool" where
  "isEnvVarNotSet c name \<longleftrightarrow> \<not> list_ex (\<lambda>e. ev_name e = name) (jc_env c)"

definition setEnvVarIfNotSet :: "string \<Rightarrow> string \<Rightarrow> jcontainer \<Rightarrow> jcontainer" where
  "setEnvVarIfNotSet name value c =
     (if isEnvVarNotSet c name then c\<lparr>jc_env := jc_env c @ [env_value name value]\<rparr> else c)"

definition isResourceRequirementsNotSet :: "requirements \<Rightarrow> bool" where
  "isResourceRequirementsNotSet r \<longleftrightarrow> r = no_requirements"

text \<open>The container at one index of the calculated specification.\<close>

definition setDefaultsForContainer :: "jcontainer \<Rightarrow> jcontainer" where
  "setDefaultsForContainer c =
     (let c = (if length (jc_pullPolicy c) = 0 then c\<lparr>jc_pullPolicy := PullAlways\<rparr> else c) in
      if isResourceRequirementsNotSet (jc_resources c) then c\<lparr>jc_resources := DefaultResourceRequirement\<rparr> else c)"

definition basePlugins :: "plugin_spec list" where
  "basePlugins = map (\<lambda>p. \<lparr>ps_name = pg_name p, ps_version = pg_version p, ps_url = []\<rparr>) BasePlugins"

text \<open>What the defaulting does to the master container, once its image is known.\<close>

definition default_container :: "string \<Rightarrow> jcontainer \<Rightarrow> jcontainer" where
  "default_container img c =
     (let c = c\<lparr>jc_image := img, jc_pullPolicy := PullAlways\<rparr>;
          c = (if jc_readiness c = None then c\<lparr>jc_readiness := Some (NewSimpleProbe ''login'' ''http'' ''HTTP'' 30)\<rparr> else c);
          c = (if jc_liveness c = None then c\<lparr>jc_liveness := Some (NewProbe ''login'' ''http'' ''HTTP'' 80 5 12)\<rparr> else c);
          c = setEnvVarIfNotSet JavaOptsVariableName JavaOptsDefaultValue c;
          c = setEnvVarIfNotSet KubernetesTrustCertsVariableName KubernetesTrustCertsDefaultValue c in
      if isResourceRequirementsNotSet (jc_resources c)
      then c\<lparr>jc_resources := NewResourceRequirements ''1'' ''500Mi'' ''1500m'' ''3Gi''\<rparr> else c)"

definition default_service :: "string \<Rightarrow> int \<Rightarrow> jservice \<Rightarrow> jservice" where
  "default_service ty port sv = (if sv = empty_jservice then empty_jservice\<lparr>sv_type := ty, sv_port := port\<rparr> else sv)"

definition default_casc :: "configuration option \<Rightarrow> configuration option" where
  "default_casc casc = (case casc of
     None \<Rightarrow> Some \<lparr>cf_enabled = True, cf_defaultConfig = True, cf_secret = [], cf_configurations = [], cf_autoReload = True\<rparr>
   | Some c \<Rightarrow> Some c)"

text \<open>
  Everything after the image is known, but for the roles: \<open>master\<close> is the copy of the requested
  master, \<open>jenkinsContainer\<close> its first container.
\<close>

definition default_spec :: "bool \<Rightarrow> string \<Rightarrow> jenkins_master \<Rightarrow> jcontainer \<Rightarrow> jenkins_spec \<Rightarrow> jenkins_spec" where
  "default_spec useNodePort img master jenkinsContainer spec =
     spec\<lparr>js_master := Some (master\<lparr>
         jm_containers := default_container img jenkinsContainer # map setDefaultsForContainer (tl (jm_containers master)),
         jm_basePlugins := (if length (jm_basePlugins master) = 0 then basePlugins else jm_basePlugins master)\<rparr>),
       js_service := default_service (if useNodePort then ''NodePort'' else ''ClusterIP'') 8080 (js_service spec),
       js_jnlpService := default_service ''ClusterIP'' 50000 (js_jnlpService spec),
       js_casc := default_casc (js_casc spec)\<rparr>"

text \<open>\<open>GetDefaultRoleBinding\<close>: none when the cluster role cannot be read, whatever the error.\<close>

definition GetDefaultRoleBinding :: "'w env \<Rightarrow> jenkins \<Rightarrow> ('w, role_binding option) prog" where
  "GetDefaultRoleBinding E j =
     bindP (client_get E KClusterRole as_cluster_role [] EditClusterRole) (\<lambda>r. case r of
       Inl e \<Rightarrow> ret None
     | Inr cr \<Rightarrow> ret (Some (NewRoleBinding j \<lparr>rf_apiGroup = AuthorizationAPIGroup, rf_kind = cr_kind cr,
         rf_name = om_name (cr_meta cr)\<rparr>)))"

text \<open>The image of the master: that of a successful build when one is referenced.\<close>

definition master_image :: "'w env \<Rightarrow> jenkins \<Rightarrow> string \<Rightarrow> ('w, goerr + string) prog" where
  "master_image E j img =
     (let ref = js_imageRef (j_spec j) in
      if length ref = 0 then ret (Inr img)
      else bindP (client_get E KJenkinsImage as_image (j_namespace j) ref) (\<lambda>r. case r of
        Inl e \<Rightarrow> ret (Inl (TextErr (''JenkinsImage '' @ quoted ref @ '' referenced by Jenkins instance '' @
          quoted (j_name j) @ '' not found'')))
      | Inr ji \<Rightarrow>
          if ji_phase ji = ImageBuildSuccessful then
            (case ji_builds ji of
               [] \<Rightarrow> crash ''index out of range: builds''
             | b # bs \<Rightarrow> ret (Inr (im_registry (ji_to ji) @ ''/'' @ im_name (ji_to ji) @ ''@'' @ ib_image (last (ji_builds ji)))))
          else ret (Inr img)))"

text \<open>
  \<open>getCalculatedSpec\<close>: the copy of the requested specification is put into the status first and
  filled in there, so an error leaves it half done.  The result carries the Jenkins as it is then.
\<close>

definition with_spec :: "jenkins \<Rightarrow> jenkins_spec \<Rightarrow> jenkins" where
  "with_spec j spec = j\<lparr>j_status := Some ((case j_status j of None \<Rightarrow> empty_status | Some st \<Rightarrow> st)\<lparr>jst_spec := Some spec\<rparr>)\<rparr>"

definition getCalculatedSpec :: "'w env \<Rightarrow> base_deps \<Rightarrow> api_settings \<Rightarrow> jenkins \<Rightarrow> ('w, (goerr + jenkins_spec) \<times> jenkins) prog" where
  "getCalculatedSpec E D st j =
     (if j_status j = None then crash ''nil pointer dereference: Status''
      else
       (let requested = j_spec j; defaultImage = getDefaultJenkinsImage (e_getenv E) (bd_routes D) in
        case getJenkinsMasterContainer defaultImage requested of
          Inl e \<Rightarrow> ret (Inl e, with_spec j requested)
        | Inr jc \<Rightarrow>
            (case getCalculatedJenkinsMaster requested jc of
               None \<Rightarrow> crash ''index out of range: Containers''
             | Some master \<Rightarrow>
                 let img = jc_image (hd (jm_containers master)) in
                 bindP (master_image E j (if length img = 0 then defaultImage else img)) (\<lambda>r. case r of
                   Inl e \<Rightarrow> ret (Inl e, with_spec j (requested\<lparr>js_master := Some master\<rparr>))
                 | Inr img \<Rightarrow>
                     let spec = default_spec (as_useNodePort st) img master jc requested in
                     bindP (case js_roles requested of
                         Some roles \<Rightarrow> ret (Some roles)
                       | None \<Rightarrow> bindP (GetDefaultRoleBinding E j) (\<lambda>rb. ret (map_option (\<lambda>rb. [rb_roleRef rb]) rb)))
                       (\<lambda>roles. let spec = spec\<lparr>js_roles := roles\<rparr> in ret (Inr spec, with_spec j spec))))))"

text \<open>
  The comparison is between the pointer just stored in the status and itself, so the update
  under it is never made.
\<close>

definition setDefaults :: "'w env \<Rightarrow> base_deps \<Rightarrow> api_settings \<Rightarrow> jenkins \<Rightarrow> ('w, (goerr + bool) \<times> jenkins) prog" where
  "setDefaults E D st j =
     bindP (getCalculatedSpec E D st j) (\<lambda>(r, j). case r of
       Inl e \<Rightarrow> ret (Inl e, j)
     | Inr spec \<Rightarrow>
         if status_spec j \<noteq> Some spec then
           bindP (client_update E as_jenkins (OJenkins (with_spec j spec))) (\<lambda>u. case u of
             Inl e \<Rightarrow> ret (Inl (Stacked e), with_spec j spec)
           | Inr j' \<Rightarrow> ret (Inr True, j'))
         else ret (Inr False, j))"

section \<open>Conditions\<close>

definition condition_of :: "string \<Rightarrow> cond_status \<Rightarrow> string \<Rightarrow> string \<Rightarrow> condition" where
  "condition_of ty st reason msg = \<lparr>cd_type = ty, cd_status = st, cd_reason = reason, cd_message = msg,
     cd_heartbeat = 0, cd_transition = 0\<rparr>"

definition completed_conditions :: "condition list" where
  "completed_conditions =
     (let c = (\<lambda>ty st. condition_of ty st ''ReconciliationCompleted'' ''Reconciliation completed successfully'') in
      [c ''ReconciliationComplete'' CTrue, c ''Available'' CTrue, c ''Progressing'' CFalse, c ''Degraded'' CFalse,
       c ''Upgradeable'' CTrue])"

definition initial_conditions :: "condition list" where
  "initial_conditions =
     (let c = (\<lambda>ty st. condition_of ty st ''Init'' ''Initializing Jenkins operator'') in
      [c ''ReconciliationComplete'' CUnknown, c ''Available'' CFalse, c ''Progressing'' CTrue, c ''Degraded'' CFalse,
       c ''Upgradeable'' CUnknown])"

text \<open>\<open>SetStatusCondition\<close> on the conditions of a Jenkins; it reads the clock.\<close>

definition set_condition :: "'w env \<Rightarrow> condition \<Rightarrow> jenkins \<Rightarrow> ('w, jenkins) prog" where
  "set_condition E c j = (case j_status j of
     None \<Rightarrow> crash ''nil pointer dereference: Status''
   | Some st \<Rightarrow> bindP (now E) (\<lambda>t1. bindP (now E) (\<lambda>t2.
       let cs = (case jst_conditions st of None \<Rightarrow> [] | Some cs \<Rightarrow> cs) in
       ret (j\<lparr>j_status := Some (st\<lparr>jst_conditions := Some (SetStatusCondition t1 t2 cs c)\<rparr>)\<rparr>))))"

fun set_conditions :: "'w env \<Rightarrow> condition list \<Rightarrow> jenkins \<Rightarrow> ('w, jenkins) prog" where
  "set_conditions E [] j = ret j"
| "set_conditions E (c # cs) j = bindP (set_condition E c j) (\<lambda>j. set_conditions E cs j)"

definition setStatusConditions :: "'w env \<Rightarrow> jenkins \<Rightarrow> ('w, jenkins) prog" where
  "setStatusConditions E j = set_conditions E completed_conditions j"

definition setInitialConditions :: "'w env \<Rightarrow> jenkins \<Rightarrow> ('w, jenkins) prog" where
  "setInitialConditions E j = set_conditions E initial_conditions j"

definition ensure_status :: "jenkins \<Rightarrow> jenkins" where
  "ensure_status j = (if j_status j = None then j\<lparr>j_status := Some empty_status\<rparr> else j)"

definition updateJenkinsStatus :: "'w env \<Rightarrow> jenkins \<Rightarrow> string \<Rightarrow> string \<Rightarrow> ('w, goerr + jenkins) prog" where
  "updateJenkinsStatus E j ns name =
     bindP (client_status_update E as_jenkins (OJenkins j)) (\<lambda>r. case r of
       Inr j \<Rightarrow> ret (Inr j)
     | Inl e \<Rightarrow>
         bindE (client_get E KJenkins as_jenkins ns name) (\<lambda>j.
         bindP (setStatusConditions E (ensure_status j)) (\<lambda>j.
         client_status_update E as_jenkins (OJenkins j))))"

section \<open>Notifications\<close>

definition BaseConfigurationFailed_event :: "jenkins \<Rightarrow> string \<Rightarrow> string list \<Rightarrow> notification" where
  "BaseConfigurationFailed_event j message baseMessages =
     \<lparr>nt_jenkins = j, nt_phase = PhaseBase, nt_level = NotificationLevelWarning,
      nt_reason = NewBaseConfigurationFailed HumanSource [message] (message # baseMessages)\<rparr>"

definition ReconcileLoopFailed_event :: "jenkins \<Rightarrow> nat \<Rightarrow> goerr \<Rightarrow> notification" where
  "ReconcileLoopFailed_event j limit e =
     \<lparr>nt_jenkins = j, nt_phase = PhaseBase, nt_level = NotificationLevelWarning,
      nt_reason = NewReconcileLoopFailed OperatorSource
        [''Reconcile loop failed '' @ fmt_d (int limit) @ '' times with the same error, giving up: '' @ err_text e] []\<rparr>"

section \<open>Reconciliation\<close>

definition backup_pvc :: "string \<Rightarrow> string \<Rightarrow> pvc" where
  "backup_pvc ns name = \<lparr>pvc_meta = empty_meta\<lparr>om_name := name @ ''-jenkins-backup'', om_namespace := ns\<rparr>,
     pvc_accessModes = [''ReadWriteOnce''], pvc_storage = ''2Gi''\<rparr>"

definition default_backup_config :: "string \<Rightarrow> string \<Rightarrow> backup_config" where
  "default_backup_config ns jenkinsRef =
     \<lparr>bc_meta = empty_meta\<lparr>om_name := ''default'', om_namespace := ns\<rparr>, bc_jenkinsRef = jenkinsRef,
      bc_quietDown = False, bc_options = \<lparr>bo_jobs = True, bo_plugins = True, bo_config = True\<rparr>,
      bc_restartEnabled = True, bc_restartSafe = False\<rparr>"

text \<open>Read, and create when not found; any other error of the read is dropped.\<close>

definition create_if_missing ::
  "'w env \<Rightarrow> kind \<Rightarrow> (kobj \<Rightarrow> 'a option) \<Rightarrow> kobj \<Rightarrow> ('w, goerr + unit) prog" where
  "create_if_missing E k sel x =
     bindP (client_get E k sel (om_namespace (meta_of x)) (om_name (meta_of x))) (\<lambda>r. case r of
       Inr a \<Rightarrow> ret (Inr ())
     | Inl e \<Rightarrow>
         if IsNotFound e then bindE (client_create E sel x) (\<lambda>_. ret (Inr ())) else ret (Inr ()))"

definition ensure_backup_objects :: "'w env \<Rightarrow> string \<Rightarrow> string \<Rightarrow> jenkins \<Rightarrow> ('w, goerr + unit) prog" where
  "ensure_backup_objects E ns name j =
     bindE (create_if_missing E KPVC as_pvc (OPVC (backup_pvc ns name))) (\<lambda>_.
     create_if_missing E KBackupConfig as_backup_config (OBackupConfig (default_backup_config ns (j_name j))))"

definition isJenkinsPodTerminating :: "goerr \<Rightarrow> bool" where
  "isJenkinsPodTerminating e \<longleftrightarrow> Contains (err_text e) ''Terminating state with DeletionTimestamp''"

text \<open>The end of \<open>reconcile\<close>: the base reconciler, and reading the Jenkins again into a local variable.\<close>

definition reconcile_base ::
  "'w env \<Rightarrow> base_deps \<Rightarrow> string \<Rightarrow> string \<Rightarrow> jenkins \<Rightarrow> ('w, (result \<times> goerr option) \<times> jenkins) prog" where
  "reconcile_base E D ns name j =
     bindP (BaseReconcile E D j) (\<lambda>(r, j). case r of
       Inl e \<Rightarrow> ret ((if isJenkinsPodTerminating e then empty_result\<lparr>requeueAfter := 30\<rparr>
                     else empty_result\<lparr>requeueAfter := 5\<rparr>, None), j)
     | Inr _ \<Rightarrow>
         bindP (client_get E KJenkins as_jenkins ns name) (\<lambda>r. case r of
           Inr _ \<Rightarrow> ret ((empty_result, None), j)
         | Inl e \<Rightarrow> ret ((empty_result, if IsNotFound e then None else Some (Stacked e)), j)))"

definition reconcile ::
  "'w env \<Rightarrow> base_deps \<Rightarrow> api_settings \<Rightarrow> (volume \<Rightarrow> string) \<Rightarrow> string \<Rightarrow> string \<Rightarrow> config_map \<Rightarrow> jenkins \<Rightarrow>
    ('w, (result \<times> goerr option) \<times> jenkins \<times> config_map) prog" where
  "reconcile E D st showVolume ns name dcm j =
     bindP (setDefaults E D st j) (\<lambda>(r, j). case r of
       Inl e \<Rightarrow> ret ((empty_result, Some e), j, dcm)
     | Inr _ \<Rightarrow>
         (case status_spec j of
            None \<Rightarrow> crash ''nil pointer dereference: Status.Spec''
          | Some spec \<Rightarrow>
              bindP (if js_backupEnabled spec then ensure_backup_objects E ns name j else ret (Inr ())) (\<lambda>r. case r of
                Inl e \<Rightarrow> ret ((empty_result, Some e), j, dcm)
              | Inr _ \<Rightarrow>
                  bindP (Validate E showVolume j j dcm) (\<lambda>(r, dcm). case r of
                    Inl e \<Rightarrow> ret ((empty_result, Some e), j, dcm)
                  | Inr msgs \<Rightarrow>
                      if length msgs > 0 then
                        bindP (notify (BaseConfigurationFailed_event j
                            ''Validation of base configuration failed, please correct Jenkins CR.'' msgs)) (\<lambda>_.
                        ret ((empty_result, None), j, dcm))
                      else bindP (reconcile_base E D ns name j) (\<lambda>(r, j). ret (r, j, dcm))))))"

text \<open>
  The error branch of \<open>Reconcile\<close>: the update of the status overwrites the error, which is what
  is returned then.
\<close>

definition failed_condition :: "goerr \<Rightarrow> condition" where
  "failed_condition e = condition_of ''Degraded'' CTrue ''ReconciliationFailed'' (''Failed reconciliation '' @ err_text e)"

definition report_failure :: "'w env \<Rightarrow> jenkins \<Rightarrow> result \<Rightarrow> goerr \<Rightarrow> ('w, result \<times> goerr option) prog" where
  "report_failure E j res e =
     bindP (set_condition E (failed_condition e) j) (\<lambda>j.
     bindP (client_status_update E as_jenkins (OJenkins j)) (\<lambda>u. ret (res, err_part u)))"

definition report_success :: "'w env \<Rightarrow> string \<Rightarrow> string \<Rightarrow> jenkins \<Rightarrow> ('w, result \<times> goerr option) prog" where
  "report_success E ns name j =
     bindP (setStatusConditions E j) (\<lambda>j.
     bindP (updateJenkinsStatus E j ns name) (\<lambda>u. case u of
       Inl e \<Rightarrow> ret (requeue_result, Some e)
     | Inr j \<Rightarrow> ret (empty_result, None)))"

definition initialize_status :: "'w env \<Rightarrow> string \<Rightarrow> string \<Rightarrow> jenkins \<Rightarrow> ('w, goerr + jenkins) prog" where
  "initialize_status E ns name j =
     (case Option.bind (j_status j) jst_conditions of
        Some cs \<Rightarrow> ret (Inr j)
      | None \<Rightarrow> bindP (setInitialConditions E j) (\<lambda>j. updateJenkinsStatus E j ns name))"

definition JenkinsReconcile ::
  "'w env \<Rightarrow> base_deps \<Rightarrow> api_settings \<Rightarrow> (volume \<Rightarrow> string) \<Rightarrow> string \<Rightarrow> string \<Rightarrow> config_map \<Rightarrow>
    ('w, (result \<times> goerr option) \<times> config_map) prog" where
  "JenkinsReconcile E D st showVolume ns name dcm =
     bindP (client_get E KJenkins as_jenkins ns name) (\<lambda>r. case r of
       Inl e \<Rightarrow> ret ((empty_result, if IsNotFound e then None else Some e), dcm)
     | Inr j \<Rightarrow>
         bindP (initialize_status E ns name (ensure_status j)) (\<lambda>r. case r of
           Inl e \<Rightarrow> ret ((requeue_result, Some e), dcm)
         | Inr j \<Rightarrow>
             bindP (reconcile E D st showVolume ns name dcm j) (\<lambda>((res, err), j, dcm). case err of
               Some e \<Rightarrow> bindP (report_failure E j res e) (\<lambda>r. ret (r, dcm))
             | None \<Rightarrow> bindP (report_success E ns name j) (\<lambda>r. ret (r, dcm)))))"

end
