(* ===== verification/Jenkins_Defaults.thy ===== *)
theory Jenkins_Defaults
  imports Jenkins_Controller
begin

text \<open>
  The calculated specification: what the defaulting guarantees, when it panics, that it is
  idempotent and that it writes nothing.
\<close>

section \<open>One container\<close>

lemma setEnv_simps [simp]:
  "jc_name (setEnvVarIfNotSet n v c) = jc_name c" "jc_image (setEnvVarIfNotSet n v c) = jc_image c"
  "jc_pullPolicy (setEnvVarIfNotSet n v c) = jc_pullPolicy c" "jc_resources (setEnvVarIfNotSet n v c) = jc_resources c"
  "jc_readiness (setEnvVarIfNotSet n v c) = jc_readiness c" "jc_liveness (setEnvVarIfNotSet n v c) = jc_liveness c"
  "jc_volumeMounts (setEnvVarIfNotSet n v c) = jc_volumeMounts c"
  by (simp_all add: setEnvVarIfNotSet_def)

lemma setEnv_sets: "\<not> isEnvVarNotSet (setEnvVarIfNotSet n v c) n"
  by (simp add: setEnvVarIfNotSet_def isEnvVarNotSet_def env_value_def)

lemma setEnv_keeps: "\<not> isEnvVarNotSet c n' \<Longrightarrow> \<not> isEnvVarNotSet (setEnvVarIfNotSet n v c) n'"
  by (auto simp: setEnvVarIfNotSet_def isEnvVarNotSet_def)

lemma setEnv_id: "\<not> isEnvVarNotSet c n \<Longrightarrow> setEnvVarIfNotSet n v c = c"
  by (simp add: setEnvVarIfNotSet_def)

lemma requirements_set:
  "NewResourceRequirements a b c d \<noteq> no_requirements" "DefaultResourceRequirement \<noteq> no_requirements"
  by (simp_all add: NewResourceRequirements_def DefaultResourceRequirement_def no_requirements_def)

text \<open>A container that has everything the defaulting adds.\<close>

definition full_container :: "jcontainer \<Rightarrow> bool" where
  "full_container c \<longleftrightarrow> jc_pullPolicy c = PullAlways \<and> jc_readiness c \<noteq> None \<and> jc_liveness c \<noteq> None \<and>
     \<not> isEnvVarNotSet c JavaOptsVariableName \<and> \<not> isEnvVarNotSet c KubernetesTrustCertsVariableName \<and>
     jc_resources c \<noteq> no_requirements"

lemma default_container_full: "full_container (default_container img c)"
proof -
  let ?c1 = "c\<lparr>jc_image := img, jc_pullPolicy := PullAlways\<rparr>"
  let ?c2 = "if jc_readiness ?c1 = None then ?c1\<lparr>jc_readiness := Some (NewSimpleProbe ''login'' ''http'' ''HTTP'' 30)\<rparr> else ?c1"
  let ?c3 = "if jc_liveness ?c2 = None then ?c2\<lparr>jc_liveness := Some (NewProbe ''login'' ''http'' ''HTTP'' 80 5 12)\<rparr> else ?c2"
  let ?c4 = "setEnvVarIfNotSet JavaOptsVariableName JavaOptsDefaultValue ?c3"
  let ?c5 = "setEnvVarIfNotSet KubernetesTrustCertsVariableName KubernetesTrustCertsDefaultValue ?c4"
  let ?req = "NewResourceRequirements ''1'' ''500Mi'' ''1500m'' ''3Gi''"
  have dc: "default_container img c = (if isResourceRequirementsNotSet (jc_resources ?c5) then ?c5\<lparr>jc_resources := ?req\<rparr> else ?c5)"
    by (simp only: default_container_def Let_def)
  have "\<not> isEnvVarNotSet ?c5 JavaOptsVariableName" "\<not> isEnvVarNotSet ?c5 KubernetesTrustCertsVariableName"
    by (rule setEnv_keeps, rule setEnv_sets) (rule setEnv_sets)
  moreover have "isEnvVarNotSet (x\<lparr>jc_resources := r\<rparr>) n = isEnvVarNotSet x n" for x r n by (simp add: isEnvVarNotSet_def)
  moreover have "jc_pullPolicy ?c5 = PullAlways" "jc_readiness ?c5 \<noteq> None" "jc_liveness ?c5 \<noteq> None" by simp_all
  ultimately show ?thesis
    unfolding dc full_container_def using requirements_set(1)
    by (simp add: isResourceRequirementsNotSet_def del: setEnv_simps)
qed

lemma default_container_simps [simp]:
  "jc_name (default_container img c) = jc_name c" "jc_image (default_container img c) = img"
  "jc_volumeMounts (default_container img c) = jc_volumeMounts c"
  by (simp_all add: default_container_def Let_def)

lemma default_container_id:
  assumes "full_container c" and "jc_image c = img"
  shows "default_container img c = c"
proof -
  have "c\<lparr>jc_image := img, jc_pullPolicy := PullAlways\<rparr> = c"
    using assms by (cases c) (simp add: full_container_def)
  moreover have "jc_readiness c \<noteq> None" "jc_liveness c \<noteq> None" "\<not> isResourceRequirementsNotSet (jc_resources c)"
    "setEnvVarIfNotSet JavaOptsVariableName JavaOptsDefaultValue c = c"
    "setEnvVarIfNotSet KubernetesTrustCertsVariableName KubernetesTrustCertsDefaultValue c = c"
    using assms(1) by (simp_all add: full_container_def setEnv_id isResourceRequirementsNotSet_def)
  ultimately show ?thesis
    unfolding default_container_def by (simp only: Let_def if_False)
qed

lemma setDefaults_container:
  "jc_pullPolicy (setDefaultsForContainer c) \<noteq> []" "jc_resources (setDefaultsForContainer c) \<noteq> no_requirements"
  "jc_image (setDefaultsForContainer c) = jc_image c" "jc_volumeMounts (setDefaultsForContainer c) = jc_volumeMounts c"
  using requirements_set(2)
  by (simp_all add: setDefaultsForContainer_def Let_def PullAlways_def isResourceRequirementsNotSet_def)

lemma setDefaults_container_id: "setDefaultsForContainer (setDefaultsForContainer c) = setDefaultsForContainer c"
  using setDefaults_container(1,2) [of c]
  by (subst setDefaultsForContainer_def) (simp add: Let_def isResourceRequirementsNotSet_def)

section \<open>The whole specification\<close>

definition complete_spec :: "jenkins_spec \<Rightarrow> bool" where
  "complete_spec spec \<longleftrightarrow> (\<exists>m c cs. js_master spec = Some m \<and> jm_containers m = c # cs \<and>
     jc_name c = JenkinsMasterContainerName \<and> jc_image c \<noteq> [] \<and> full_container c \<and>
     list_all (\<lambda>c. jc_pullPolicy c \<noteq> [] \<and> jc_resources c \<noteq> no_requirements) cs \<and> jm_basePlugins m \<noteq> []) \<and>
   js_service spec \<noteq> empty_jservice \<and> js_jnlpService spec \<noteq> empty_jservice \<and> js_casc spec \<noteq> None"

lemma basePlugins_ne: "basePlugins \<noteq> []"
  by (simp add: basePlugins_def BasePlugins_def basePluginsList_eval)

lemma default_spec_complete:
  assumes "jc_name jc = JenkinsMasterContainerName" and "img \<noteq> []"
  shows "complete_spec (default_spec b img master jc spec)"
  using assms basePlugins_ne setDefaults_container default_container_full
  by (simp add: complete_spec_def default_spec_def list_all_iff default_service_def default_casc_def
      empty_jservice_def split: option.splits)

lemma complete_spec_roles [simp]: "complete_spec (spec\<lparr>js_roles := r\<rparr>) = complete_spec spec"
  by (simp add: complete_spec_def)

lemma default_image_ne: "getDefaultJenkinsImage getenv routes \<noteq> []"
  by (simp add: getDefaultJenkinsImage_def DefaultJenkinsMasterImage_def DefaultOpenShiftJenkinsMasterImage_def Let_def)

lemma getJenkinsMasterContainer_Inr:
  assumes "getJenkinsMasterContainer img spec = Inr jc"
  shows "jc_name jc = JenkinsMasterContainerName"
    and "getCalculatedJenkinsMaster spec jc = Some master \<Longrightarrow> \<exists>cs. jm_containers master = jc # cs"
  using assms
  by (auto simp: getJenkinsMasterContainer_def getCalculatedJenkinsMaster_def split: option.splits list.splits if_splits)

lemma with_spec_simps [simp]:
  "status_spec (with_spec j spec) = Some spec" "j_spec (with_spec j spec) = j_spec j"
  "j_meta (with_spec j spec) = j_meta j" "j_status (with_spec j spec) \<noteq> None"
  by (simp_all add: with_spec_def status_spec_def)

text \<open>A successful run, taken apart.\<close>

lemma case_nonempty: "(case xs of [] \<Rightarrow> a | x # ys \<Rightarrow> b) = (if xs = [] then a else b)"
  by (cases xs) simp_all

lemma master_image_ne:
  assumes "master_image E j img s = (Done (Inr img'), s')" and "img \<noteq> []"
  shows "img' \<noteq> []"
  using assms unfolding master_image_def Let_def case_nonempty
  by (auto simp: ret_def crash_def bindP_Done split: if_split_asm sum.split_asm) (metis sum.exhaust)

lemma getCalculatedSpec_cases:
  assumes "getCalculatedSpec E D st j s = (Done (Inr spec, j'), s')"
  obtains jc master img img' roles s1 where
    "getJenkinsMasterContainer (getDefaultJenkinsImage (e_getenv E) (bd_routes D)) (j_spec j) = Inr jc"
    "getCalculatedJenkinsMaster (j_spec j) jc = Some master"
    "img = (if jc_image jc = [] then getDefaultJenkinsImage (e_getenv E) (bd_routes D) else jc_image jc)"
    "master_image E j img s = (Done (Inr img'), s1)"
    "spec = (default_spec (as_useNodePort st) img' master jc (j_spec j))\<lparr>js_roles := roles\<rparr>"
    "js_roles (j_spec j) \<noteq> None \<Longrightarrow> roles = js_roles (j_spec j) \<and> s' = s1"
    "j' = with_spec j spec"
proof -
  from assms have st0: "j_status j \<noteq> None"
    by (auto simp: getCalculatedSpec_def crash_def split: if_splits)
  let ?d = "getDefaultJenkinsImage (e_getenv E) (bd_routes D)"
  from assms st0 obtain jc where jc: "getJenkinsMasterContainer ?d (j_spec j) = Inr jc"
    by (auto simp: getCalculatedSpec_def Let_def ret_def split: sum.splits)
  from assms st0 jc obtain master where master: "getCalculatedJenkinsMaster (j_spec j) jc = Some master"
    by (auto simp: getCalculatedSpec_def Let_def crash_def split: option.splits)
  from getJenkinsMasterContainer_Inr(2) [OF jc master] have hd: "hd (jm_containers master) = jc" by auto
  let ?img = "if jc_image jc = [] then ?d else jc_image jc"
  let ?read = "case js_roles (j_spec j) of Some roles \<Rightarrow> ret (Some roles)
        | None \<Rightarrow> bindP (GetDefaultRoleBinding E j) (\<lambda>rb. ret (map_option (\<lambda>rb. [rb_roleRef rb]) rb))"
  let ?K = "\<lambda>img. bindP ?read
      (\<lambda>roles. let spec = (default_spec (as_useNodePort st) img master jc (j_spec j))\<lparr>js_roles := roles\<rparr>
        in ret (Inr spec :: goerr + jenkins_spec, with_spec j spec))"
  have eq: "getCalculatedSpec E D st j = bindP (master_image E j ?img)
      (\<lambda>r. case r of Inl e \<Rightarrow> ret (Inl e, with_spec j ((j_spec j)\<lparr>js_master := Some master\<rparr>)) | Inr img \<Rightarrow> ?K img)"
    unfolding getCalculatedSpec_def Let_def jc sum.case master option.case hd length_0_conv if_not_P [OF st0] ..
  from assms [unfolded eq bindP_Done] obtain r s1 where mi: "master_image E j ?img s = (Done r, s1)"
    and rr: "(case r of Inl e \<Rightarrow> ret (Inl e, with_spec j ((j_spec j)\<lparr>js_master := Some master\<rparr>)) | Inr img \<Rightarrow> ?K img) s1 =
      (Done (Inr spec, j'), s')" by (elim exE conjE)
  from rr obtain img' where r: "r = Inr img'" by (cases r) (simp_all add: ret_def)
  from mi [unfolded r] have mi: "master_image E j ?img s = (Done (Inr img'), s1)" .
  from rr [unfolded r sum.case] have rest: "?K img' s1 = (Done (Inr spec, j'), s')" .
  from rest obtain roles s2 where roles: "(case js_roles (j_spec j) of Some roles \<Rightarrow> ret (Some roles)
        | None \<Rightarrow> bindP (GetDefaultRoleBinding E j) (\<lambda>rb. ret (map_option (\<lambda>rb. [rb_roleRef rb]) rb))) s1 = (Done roles, s2)"
    and eq: "spec = (default_spec (as_useNodePort st) img' master jc (j_spec j))\<lparr>js_roles := roles\<rparr>" "j' = with_spec j spec" "s' = s2"
    by (auto simp: bindP_Done Let_def ret_def)
  from roles have "js_roles (j_spec j) \<noteq> None \<Longrightarrow> roles = js_roles (j_spec j) \<and> s2 = s1"
    by (auto simp: ret_def split: option.splits)
  with eq show ?thesis using that [OF jc master refl mi] by simp
qed

lemma getCalculatedSpec_complete:
  assumes "getCalculatedSpec E D st j s = (Done (Inr spec, j'), s')"
  shows "complete_spec spec \<and> j' = with_spec j spec"
proof -
  from assms obtain jc master img img' roles s1 where
    jc: "getJenkinsMasterContainer (getDefaultJenkinsImage (e_getenv E) (bd_routes D)) (j_spec j) = Inr jc" and
    img: "img = (if jc_image jc = [] then getDefaultJenkinsImage (e_getenv E) (bd_routes D) else jc_image jc)" and
    mi: "master_image E j img s = (Done (Inr img'), s1)" and
    spec: "spec = (default_spec (as_useNodePort st) img' master jc (j_spec j))\<lparr>js_roles := roles\<rparr>" and
    j': "j' = with_spec j spec"
    by (rule getCalculatedSpec_cases)
  have "img \<noteq> []" using img default_image_ne by simp
  with master_image_ne [OF mi] default_spec_complete [OF getJenkinsMasterContainer_Inr(1) [OF jc]] spec j' show ?thesis by simp
qed

section \<open>Defaulting twice\<close>

lemma default_spec_id:
  assumes "complete_spec spec" and m: "js_master spec = Some m" and c: "jm_containers m = c # cs"
  shows "default_spec b (jc_image c) m c spec = spec"
proof -
  from assms have full: "full_container c" "list_all (\<lambda>c. jc_pullPolicy c \<noteq> [] \<and> jc_resources c \<noteq> no_requirements) cs"
    "jm_basePlugins m \<noteq> []" "js_service spec \<noteq> empty_jservice" "js_jnlpService spec \<noteq> empty_jservice" "js_casc spec \<noteq> None"
    by (auto simp: complete_spec_def)
  have "map setDefaultsForContainer cs = cs"
    using full(2) by (induction cs) (simp_all add: setDefaultsForContainer_def Let_def isResourceRequirementsNotSet_def)
  with full c have "m\<lparr>jm_containers := default_container (jc_image c) c # map setDefaultsForContainer (tl (jm_containers m)),
      jm_basePlugins := (if length (jm_basePlugins m) = 0 then basePlugins else jm_basePlugins m)\<rparr> = m"
    by (cases m) (simp add: default_container_id)
  moreover have "default_service ty port (js_service spec) = js_service spec"
    "default_service ty port (js_jnlpService spec) = js_jnlpService spec" "default_casc (js_casc spec) = js_casc spec" for ty port
    using full(4-6) by (auto simp: default_service_def default_casc_def)
  ultimately show ?thesis using m unfolding default_spec_def by (cases spec) simp
qed

lemma calculated_imageRef:
  assumes "getCalculatedSpec E D st j s = (Done (Inr spec, j'), s')"
  shows "js_imageRef spec = js_imageRef (j_spec j)"
  using assms by (rule getCalculatedSpec_cases) (simp add: default_spec_def)

lemma getCalculatedSpec_complete_run:
  assumes "complete_spec (j_spec j)" and "js_imageRef (j_spec j) = []" and "js_roles (j_spec j) \<noteq> None" and "j_status j \<noteq> None"
  shows "getCalculatedSpec E D st j s = (Done (Inr (j_spec j), with_spec j (j_spec j)), s)"
proof -
  let ?spec = "j_spec j"
  obtain m c cs where m: "js_master ?spec = Some m" "jm_containers m = c # cs" "jc_name c = JenkinsMasterContainerName" "jc_image c \<noteq> []"
    using assms(1) by (auto simp: complete_spec_def)
  obtain roles where roles: "js_roles ?spec = Some roles" using assms(3) by blast
  have jc: "getJenkinsMasterContainer img ?spec = Inr c" for img using m by (simp add: getJenkinsMasterContainer_def)
  have ma: "getCalculatedJenkinsMaster ?spec c = Some m" using m by (simp add: getCalculatedJenkinsMaster_def)
  have mi: "master_image E j (if length (jc_image c) = 0 then img else jc_image c) = ret (Inr (jc_image c))" for img
    using assms(2) m(4) by (simp add: master_image_def)
  have hd: "hd (jm_containers m) = c" using m(2) by simp
  have same: "?spec\<lparr>js_roles := Some roles\<rparr> = ?spec" using roles by (cases ?spec) simp
  show ?thesis
    unfolding getCalculatedSpec_def Let_def jc sum.case ma option.case hd mi bindP_ret if_not_P [OF assms(4)]
      roles default_spec_id [OF assms(1) m(1,2)] same
    by (rule run_ret)
qed

section \<open>Panics\<close>

lemma bindP_Crashed_ret:
  assumes "\<And>a s. \<exists>b s'. f a s = (Done b, s')"
  shows "(\<exists>c s'. bindP p f s = (Crashed c, s')) \<longleftrightarrow> (\<exists>c s'. p s = (Crashed c, s'))"
proof -
  have "f a s1 \<noteq> (Crashed c, s2)" for a s1 c s2
    using assms [of a s1] by (elim exE) simp
  then show ?thesis by (simp add: bindP_Crashed)
qed

lemma master_image_crashes:
  "(\<exists>c s'. master_image E j img s = (Crashed c, s')) \<longleftrightarrow> js_imageRef (j_spec j) \<noteq> [] \<and>
     (\<exists>ji. fst (e_get E KJenkinsImage (j_namespace j) (js_imageRef (j_spec j)) (world s)) = Inr (OJenkinsImage ji) \<and>
       ji_phase ji = ImageBuildSuccessful \<and> ji_builds ji = [])"
proof (cases "js_imageRef (j_spec j) = []")
  case True
  then show ?thesis by (simp add: master_image_def ret_def)
next
  case False
  obtain r w where g: "e_get E KJenkinsImage (j_namespace j) (js_imageRef (j_spec j)) (world s) = (r, w)"
    by (cases "e_get E KJenkinsImage (j_namespace j) (js_imageRef (j_spec j)) (world s)")
  have img: "(\<exists>ji. r = Inr (OJenkinsImage ji) \<and> P ji) \<longleftrightarrow> (\<exists>ji. decode as_image r = Inr ji \<and> P ji)" for P
    by (cases r; cases "projr r") (auto simp: decode_def as_image_def)
  obtain s1 where run: "client_get E KJenkinsImage as_image (j_namespace j) (js_imageRef (j_spec j)) s = (Done (decode as_image r), s1)"
    by (simp add: client_get_def perform_def g)
  have eq: "\<exists>F. master_image E j img s = (case decode as_image r of
      Inl e \<Rightarrow> ret (F e)
    | Inr ji \<Rightarrow> if ji_phase ji = ImageBuildSuccessful
        then if ji_builds ji = [] then crash ''index out of range: builds''
          else ret (Inr (im_registry (ji_to ji) @ ''/'' @ im_name (ji_to ji) @ ''@'' @ ib_image (last (ji_builds ji))))
        else ret (Inr img)) s1"
    by (simp only: master_image_def Let_def length_0_conv False if_False run_bindP run prod.case outcome.case case_nonempty)
      (rule exI, rule refl)
  have "(\<exists>c s'. master_image E j img s = (Crashed c, s')) \<longleftrightarrow>
      (\<exists>ji. decode as_image r = Inr ji \<and> ji_phase ji = ImageBuildSuccessful \<and> ji_builds ji = [])"
    using eq by (elim exE) (cases "decode as_image r", simp_all add: ret_def crash_def)
  with False show ?thesis by (simp only: g fst_conv img simp_thms)
qed

text \<open>After the image has been looked up, the calculation of a specification always returns.\<close>

lemma getCalculatedSpec_image:
  assumes "j_status j \<noteq> None"
    and jc: "getJenkinsMasterContainer (getDefaultJenkinsImage (e_getenv E) (bd_routes D)) (j_spec j) = Inr jc"
    and m: "getCalculatedJenkinsMaster (j_spec j) jc = Some master"
  obtains img K where "getCalculatedSpec E D st j = bindP (master_image E j img) K" and "\<And>r s. \<exists>b s'. K r s = (Done b, s')"
proof -
  let ?d = "getDefaultJenkinsImage (e_getenv E) (bd_routes D)" and ?img = "jc_image (hd (jm_containers master))"
  let ?read = "case js_roles (j_spec j) of Some roles \<Rightarrow> ret (Some roles)
    | None \<Rightarrow> bindP (GetDefaultRoleBinding E j) (\<lambda>rb. ret (map_option (\<lambda>rb. [rb_roleRef rb]) rb))"
  let ?K = "\<lambda>r. case r of
      Inl e \<Rightarrow> ret (Inl e :: goerr + jenkins_spec, with_spec j ((j_spec j)\<lparr>js_master := Some master\<rparr>))
    | Inr img \<Rightarrow> bindP ?read
        (\<lambda>roles. let spec = (default_spec (as_useNodePort st) img master jc (j_spec j))\<lparr>js_roles := roles\<rparr>
          in ret (Inr spec, with_spec j spec))"
  have "getCalculatedSpec E D st j = bindP (master_image E j (if length ?img = 0 then ?d else ?img)) ?K"
    unfolding getCalculatedSpec_def Let_def jc sum.case m option.case if_not_P [OF assms(1)] ..
  moreover have read: "\<exists>b s'. ?read s = (Done b, s')" for s
  proof (cases "js_roles (j_spec j)")
    case None
    obtain r w where "client_get E KClusterRole as_cluster_role [] EditClusterRole s =
        (Done r, s\<lparr>world := w, log := log s @ [(CGet KClusterRole [] EditClusterRole, err_part r)]\<rparr>)"
      by (rule client_get_run)
    with None show ?thesis
      by (cases r) (simp_all add: GetDefaultRoleBinding_def run_bindP ret_def)
  qed (simp add: ret_def)
  have "\<exists>b s'. ?K r s = (Done b, s')" for r s
  proof (cases r)
    case (Inr img)
    obtain b s1 where "?read s = (Done b, s1)" using read by blast
    with Inr show ?thesis by (simp add: run_bindP Let_def ret_def)
  qed (simp add: ret_def)
  ultimately show ?thesis by (rule that)
qed

lemma getCalculatedSpec_crashes:
  assumes st: "j_status j \<noteq> None"
  shows "(\<exists>c s'. getCalculatedSpec E D st j s = (Crashed c, s')) \<longleftrightarrow>
    (\<exists>m. js_master (j_spec j) = Some m \<and> jm_containers m = []) \<or>
    (\<exists>jc. getJenkinsMasterContainer (getDefaultJenkinsImage (e_getenv E) (bd_routes D)) (j_spec j) = Inr jc) \<and>
      js_imageRef (j_spec j) \<noteq> [] \<and>
      (\<exists>ji. fst (e_get E KJenkinsImage (j_namespace j) (js_imageRef (j_spec j)) (world s)) = Inr (OJenkinsImage ji) \<and>
        ji_phase ji = ImageBuildSuccessful \<and> ji_builds ji = [])"
    (is "?crash \<longleftrightarrow> ?empty \<or> ?ok \<and> ?builds")
proof -
  let ?d = "getDefaultJenkinsImage (e_getenv E) (bd_routes D)"
  show ?thesis
  proof (cases "getJenkinsMasterContainer ?d (j_spec j)")
    case (Inl e)
    have "getCalculatedSpec E D st j = ret (Inl e, with_spec j (j_spec j))"
      unfolding getCalculatedSpec_def Let_def if_not_P [OF st] Inl sum.case ..
    moreover have "\<not> ?empty" using Inl by (auto simp: getJenkinsMasterContainer_def)
    ultimately show ?thesis using Inl by (simp add: ret_def)
  next
    case (Inr jc)
    show ?thesis
    proof (cases "getCalculatedJenkinsMaster (j_spec j) jc")
      case None
      have "getCalculatedSpec E D st j = crash ''index out of range: Containers''"
        unfolding getCalculatedSpec_def Let_def if_not_P [OF st] Inr sum.case None option.case ..
      moreover have ?empty using None by (auto simp: getCalculatedJenkinsMaster_def split: option.splits if_splits)
      ultimately show ?thesis by (simp add: crash_def)
    next
      case (Some master)
      have ne: "\<not> ?empty" using Some by (auto simp: getCalculatedJenkinsMaster_def)
      obtain img K where eq: "getCalculatedSpec E D st j = bindP (master_image E j img) K"
        and K: "\<And>r s. \<exists>b s'. K r s = (Done b, s')"
        by (rule getCalculatedSpec_image [where st = st, OF assms Inr Some]) (rule that)
      show ?thesis
        unfolding eq bindP_Crashed_ret [OF K] master_image_crashes using ne Inr by (simp only: simp_thms ex_simps) blast
    qed
  qed
qed

section \<open>Properties\<close>

text \<open>
  C7. Whatever was requested, a specification that the defaulting produces is complete: it has a
  master container of the right name with an image, a pull policy, probes, resources and the
  two variables, resources and pull policies everywhere, plugins, services and a configuration
  section; with it in the status, building the deployment does not panic.
\<close>

theorem calculated_spec_complete:
  assumes "getCalculatedSpec E D st j s = (Done (Inr spec, j'), s')"
  shows "complete_spec spec \<and> j' = with_spec j spec \<and> NewJenkinsDeployment getenv meta j' spec \<noteq> None"
proof -
  from getCalculatedSpec_complete [OF assms] have c: "complete_spec spec" and j': "j' = with_spec j spec" by simp_all
  from c have "\<exists>c. first_container spec = Some c" by (auto simp: complete_spec_def first_container_def)
  with j' have "first_container spec \<noteq> None" "has_master_container j'" by (auto simp: has_master_container_iff)
  with c j' NewJenkinsDeployment_None [of getenv meta j' spec] show ?thesis by simp
qed

definition sample_deps :: base_deps where
  "sample_deps = \<lparr>bd_intn = (\<lambda>i k. 0), bd_routes = False, bd_version = ''v'', bd_showTime = (\<lambda>t. [])\<rparr>"

definition sample_settings :: api_settings where
  "sample_settings = \<lparr>as_hostname = [], as_port = 0, as_useNodePort = False\<rparr>"

text \<open>A Jenkins that requests nothing but its roles.\<close>

definition bare_jenkins :: jenkins where
  "bare_jenkins = ready_jenkins (empty_spec\<lparr>js_roles := Some []\<rparr>)"

lemma bare_run:
  "\<exists>spec. getCalculatedSpec (fake_env (\<lambda>q. None)) sample_deps sample_settings bare_jenkins s =
    (Done (Inr spec, with_spec bare_jenkins spec), s) \<and> js_roles spec \<noteq> None"
proof -
  let ?E = "fake_env (\<lambda>q. None)" and ?D = sample_deps
  let ?d = "getDefaultJenkinsImage (e_getenv ?E) (bd_routes ?D)"
  let ?jc = "empty_jcontainer\<lparr>jc_name := JenkinsMasterContainerName, jc_image := ?d\<rparr>"
  have st: "j_status bare_jenkins \<noteq> None" and m: "js_master (j_spec bare_jenkins) = None"
    and i: "js_imageRef (j_spec bare_jenkins) = []" and roles: "js_roles (j_spec bare_jenkins) = Some []"
    by (simp_all add: bare_jenkins_def ready_jenkins_def empty_spec_def)
  have jc: "getJenkinsMasterContainer ?d (j_spec bare_jenkins) = Inr ?jc"
    by (simp only: getJenkinsMasterContainer_def m option.case list.case)
  have ma: "getCalculatedJenkinsMaster (j_spec bare_jenkins) ?jc = Some (empty_master\<lparr>jm_containers := [?jc]\<rparr>)"
    by (simp only: getCalculatedJenkinsMaster_def m option.case)
  have mi: "master_image ?E bare_jenkins img = ret (Inr img)" for img
    by (simp add: master_image_def i)
  have "\<exists>spec. getCalculatedSpec ?E ?D sample_settings bare_jenkins s =
      (Done (Inr (spec\<lparr>js_roles := Some []\<rparr>), with_spec bare_jenkins (spec\<lparr>js_roles := Some []\<rparr>)), s)"
    unfolding getCalculatedSpec_def Let_def if_not_P [OF st] jc sum.case ma option.case mi bindP_ret roles run_ret
    by (rule exI, rule refl)
  then obtain spec where run: "getCalculatedSpec ?E ?D sample_settings bare_jenkins s =
      (Done (Inr (spec\<lparr>js_roles := Some []\<rparr>), with_spec bare_jenkins (spec\<lparr>js_roles := Some []\<rparr>)), s)" ..
  then show ?thesis by (rule exI [of _ "spec\<lparr>js_roles := Some []\<rparr>", OF conjI]) simp
qed

theorem calculated_spec_complete_witness:
  "\<exists>spec. getCalculatedSpec (fake_env (\<lambda>q. None)) sample_deps sample_settings bare_jenkins (sample_start []) =
      (Done (Inr spec, with_spec bare_jenkins spec), sample_start []) \<and> complete_spec spec"
proof -
  obtain spec where run: "getCalculatedSpec (fake_env (\<lambda>q. None)) sample_deps sample_settings bare_jenkins (sample_start []) =
      (Done (Inr spec, with_spec bare_jenkins spec), sample_start [])" using bare_run by blast
  from calculated_spec_complete [OF run] run show ?thesis by blast
qed



text \<open>
  C34. The comparison that should decide whether the calculated specification is stored never does:
  the defaulting only reads, reports no change, and leaves the new specification in the status
  of its own copy alone.
\<close>

theorem setDefaults_never_updates:
  assumes "setDefaults E D st j s = (r, s')"
  shows "(\<exists>es. log s' = log s @ es \<and> (\<forall>e \<in> set es. \<exists>k ns n. fst e = CGet k ns n)) \<and>
    (\<forall>b j'. r = Done (Inr b, j') \<longrightarrow> \<not> b \<and> j_spec j' = j_spec j)"
proof -
  let ?reads = "\<lambda>e :: call \<times> goerr option. \<exists>k ns n. fst e = CGet k ns n"
  have calc: "emits ?reads (getCalculatedSpec E D st j)"
    unfolding getCalculatedSpec_def master_image_def GetDefaultRoleBinding_def Let_def
    by (intro emits_intros) (simp_all add: fst_conv)
  obtain r1 s1 where run: "getCalculatedSpec E D st j s = (r1, s1)" by (cases "getCalculatedSpec E D st j s")
  have both: "s' = s1 \<and> (\<forall>b j'. r = Done (Inr b, j') \<longrightarrow> \<not> b \<and> j_spec j' = j_spec j)"
  proof (cases r1)
    case (Crashed c)
    with assms run show ?thesis by (auto simp: setDefaults_def run_bindP)
  next
    case (Done x)
    obtain q j1 where x: "x = (q, j1)" by (cases x)
    show ?thesis
    proof (cases q)
      case (Inl e)
      with assms run Done x show ?thesis by (auto simp: setDefaults_def run_bindP ret_def)
    next
      case (Inr spec)
      with run Done x getCalculatedSpec_complete [of E D st j s spec j1 s1]
      have "j1 = with_spec j spec" by simp
      with assms run Done x Inr show ?thesis by (auto simp: setDefaults_def run_bindP ret_def)
    qed
  qed
  show ?thesis
    unfolding conjunct1 [OF both] using emits_log [OF calc run] conjunct2 [OF both] by (rule conjI)
qed

theorem setDefaults_never_updates_witness:
  "\<exists>r s'. setDefaults (fake_env (\<lambda>q. None)) sample_deps sample_settings bare_jenkins (sample_start []) = (r, s') \<and>
    (\<exists>es. log s' = log (sample_start []) @ es \<and> (\<forall>e \<in> set es. \<exists>k ns n. fst e = CGet k ns n))"
proof -
  obtain r s' where run: "setDefaults (fake_env (\<lambda>q. None)) sample_deps sample_settings bare_jenkins (sample_start []) = (r, s')"
    by (cases "setDefaults (fake_env (\<lambda>q. None)) sample_deps sample_settings bare_jenkins (sample_start [])")
  from setDefaults_never_updates [OF run] run show ?thesis by blast
qed



end
