(* ===== verification/Jenkins_Reconcile.thy ===== *)
theory Jenkins_Reconcile
  imports Jenkins_Defaults
begin

text \<open>
  The reconciliation of a \<open>Jenkins\<close> as a whole: what it does to an API server on the first pass,
  and which error and which delay it gives back.
\<close>

section \<open>Conditions of a Jenkins\<close>

definition status_conditions :: "jenkins \<Rightarrow> condition list" where
  "status_conditions j = (case Option.bind (j_status j) jst_conditions of None \<Rightarrow> [] | Some cs \<Rightarrow> cs)"

text \<open>The condition is there, whatever its times.\<close>

definition reports :: "jenkins \<Rightarrow> condition \<Rightarrow> bool" where
  "reports j c \<longleftrightarrow> (\<exists>c'. FindStatusCondition (status_conditions j) (cd_type c) = Some c' \<and>
     cd_status c' = cd_status c \<and> cd_reason c' = cd_reason c \<and> cd_message c' = cd_message c)"

lemma completed_types: "distinct (map cd_type completed_conditions)" "distinct (map cd_type initial_conditions)"
  by (simp_all add: completed_conditions_def initial_conditions_def condition_of_def Let_def)

text \<open>The same Jenkins but for its conditions.\<close>

definition same_but_conditions :: "jenkins \<Rightarrow> jenkins \<Rightarrow> bool" where
  "same_but_conditions j j' \<longleftrightarrow> j_meta j' = j_meta j \<and> j_spec j' = j_spec j \<and> j_status j' \<noteq> None \<and>
     status_spec j' = status_spec j"

lemma same_but_conditions_refl: "j_status j \<noteq> None \<Longrightarrow> same_but_conditions j j"
  by (simp add: same_but_conditions_def)

lemma same_but_conditions_trans:
  "same_but_conditions j j1 \<Longrightarrow> same_but_conditions j1 j2 \<Longrightarrow> same_but_conditions j j2"
  by (simp add: same_but_conditions_def)

lemma set_condition_result:
  assumes "j_status j = Some st"
    and "j' = j\<lparr>j_status := Some (st\<lparr>jst_conditions := Some (SetStatusCondition t1 t2 (status_conditions j) c)\<rparr>)\<rparr>"
  shows "same_but_conditions j j'" and "reports j' c" and "cd_type d \<noteq> cd_type c \<Longrightarrow> reports j' d = reports j d"
proof -
  have cs: "status_conditions j' = SetStatusCondition t1 t2 (status_conditions j) c"
    using assms(2) by (simp add: status_conditions_def)
  show "same_but_conditions j j'" using assms by (simp add: same_but_conditions_def status_spec_def)
  show "reports j' c" unfolding reports_def cs by (rule openshift.put_same)
  show "reports j' d = reports j d" if "cd_type d \<noteq> cd_type c"
    unfolding reports_def cs openshift.put_other [OF that] ..
qed

section \<open>Abstract operations\<close>

definition jenkins_key :: "jenkins \<Rightarrow> kind \<times> string \<times> string" where
  "jenkins_key j = (KJenkins, j_namespace j, j_name j)"

lemma jenkins_key_obj: "obj_key (OJenkins j) = jenkins_key j"
  by (simp add: obj_key_def jenkins_key_def j_namespace_def j_name_def)

lemma jenkins_key_same: "j_meta j' = j_meta j \<Longrightarrow> jenkins_key j' = jenkins_key j"
  by (simp add: jenkins_key_def j_namespace_def j_name_def)

definition ensured :: "kobj \<Rightarrow> store \<Rightarrow> store" where
  "ensured x m = (if m (obj_key x) = None then m(obj_key x \<mapsto> x) else m)"

definition with_backup_objects :: "bool \<Rightarrow> jenkins \<Rightarrow> store \<Rightarrow> store" where
  "with_backup_objects enabled j m = (if enabled
     then ensured (OBackupConfig (default_backup_config (j_namespace j) (j_name j)))
       (ensured (OPVC (backup_pvc (j_namespace j) (j_name j))) m)
     else m)"

text \<open>The specification the defaulting computes, but for the roles.\<close>

definition filled_spec :: "'w env \<Rightarrow> base_deps \<Rightarrow> api_settings \<Rightarrow> jenkins \<Rightarrow> jenkins_spec option" where
  "filled_spec E D st j =
     (let d = getDefaultJenkinsImage (e_getenv E) (bd_routes D) in
      case getJenkinsMasterContainer d (j_spec j) of
        Inl e \<Rightarrow> None
      | Inr jc \<Rightarrow> map_option (\<lambda>master. default_spec (as_useNodePort st)
          (if jc_image jc = [] then d else jc_image jc) master jc (j_spec j)) (getCalculatedJenkinsMaster (j_spec j) jc))"

definition passes :: "store \<Rightarrow> jenkins \<Rightarrow> jenkins_spec \<Rightarrow> bool" where
  "passes m j spec \<longleftrightarrow> (case js_master spec of None \<Rightarrow> False
     | Some master \<Rightarrow> valid_master m (with_spec j spec) master \<and> valid_config spec)"

text \<open>Nothing to decide by depends on the roles, or on other kinds of objects.\<close>

lemma base_volumes_same:
  assumes "j_meta j' = j_meta j" and "map_option js_casc (status_spec j') = map_option js_casc (status_spec j)"
  shows "GetJenkinsMasterPodBaseVolumes j' = GetJenkinsMasterPodBaseVolumes j"
  using assms
  by (cases "status_spec j"; cases "status_spec j'")
    (auto simp: GetJenkinsMasterPodBaseVolumes_def name_defs j_name_def)

lemma valid_master_same:
  assumes "j_meta j' = j_meta j" and "map_option js_casc (status_spec j') = map_option js_casc (status_spec j)"
    and "\<And>k n. k \<in> {KConfigMap, KSecret, KPVC} \<Longrightarrow> m' (k, j_namespace j, n) = m (k, j_namespace j, n)"
  shows "valid_master m' j' master = valid_master m j master"
proof -
  have "j_namespace j' = j_namespace j" using assms(1) by (simp add: j_namespace_def)
  then have "referent_ok m' j' = referent_ok m j"
    using assms(3) by (intro ext) (simp add: referent_ok_def split: option.splits)
  then show ?thesis by (simp only: valid_master_def base_volumes_same [OF assms(1,2)])
qed

lemma lost_config_same:
  assumes "j_meta j' = j_meta j" and "js_casc spec' = js_casc spec"
    and "\<And>k n. k \<in> {KConfigMap, KSecret} \<Longrightarrow> m' (k, j_namespace j, n) = m (k, j_namespace j, n)"
  shows "lost_config m' j' spec' = lost_config m j spec"
proof -
  have "j_namespace j' = j_namespace j" using assms(1) by (simp add: j_namespace_def)
  with assms(2,3) show ?thesis by (simp add: lost_config_def config_missing_def split: option.splits)
qed

lemma with_backup_kinds:
  "k \<notin> {KPVC, KBackupConfig} \<Longrightarrow> with_backup_objects b j m (k, ns, n) = m (k, ns, n)"
  by (simp add: with_backup_objects_def ensured_def obj_key_def)

lemma filled_spec_container:
  assumes "filled_spec E D st j = Some spec"
  shows "first_container spec \<noteq> None"
  using assms by (auto simp: filled_spec_def Let_def default_spec_def first_container_def split: sum.splits)

text \<open>Everything the base reconciler keeps for a Jenkins.\<close>

definition managed_keys :: "bool \<Rightarrow> jenkins \<Rightarrow> (kind \<times> string \<times> string) set" where
  "managed_keys routes j = config_keys j \<union> rbac_keys j \<union> network_keys routes j \<union>
     {(KDeployment, j_namespace j, GetJenkinsDeploymentName j)}"

lemma managed_same:
  assumes "j_meta j' = j_meta j"
  shows "managed_keys b j' = managed_keys b j"
  using same_identity [OF assms] assms
  by (simp add: managed_keys_def same_keys [OF assms] config_keys_def rbac_keys_def name_defs)

text \<open>The state of the API server that the base reconciler can work on.\<close>

definition workable :: "store \<Rightarrow> jenkins \<Rightarrow> jenkins_spec \<Rightarrow> bool" where
  "workable m j spec \<longleftrightarrow>
     labels_writable m (KService, j_namespace j, GetJenkinsHTTPServiceName j) (js_service spec) \<and>
     labels_writable m (KService, j_namespace j, GetJenkinsJNLPServiceName j) (js_jnlpService spec) \<and>
     route_has_port m (KRoute, j_namespace j, ''jenkins-'' @ j_name j) \<and>
     m (KDeployment, j_namespace j, GetJenkinsDeploymentName j) = None"

lemma role_free [simp]:
  "js_master (spec\<lparr>js_roles := r\<rparr>) = js_master spec" "js_casc (spec\<lparr>js_roles := r\<rparr>) = js_casc spec"
  "first_container (spec\<lparr>js_roles := r\<rparr>) = first_container spec" "workable m j (spec\<lparr>js_roles := r\<rparr>) = workable m j spec"
  "valid_config (spec\<lparr>js_roles := r\<rparr>) = valid_config spec" "lost_config m j (spec\<lparr>js_roles := r\<rparr>) = lost_config m j spec"
  by (simp_all add: first_container_def workable_def valid_config_def lost_config_def)

lemma workable_same:
  assumes "\<And>k n. k \<in> {KService, KRoute, KDeployment} \<Longrightarrow> m' (k, j_namespace j, n) = m (k, j_namespace j, n)"
  shows "workable m' j spec = workable m j spec"
  using assms by (simp add: workable_def labels_writable_def route_has_port_def)

lemma other_kind_decodes:
  "obj_key x = (KJenkins, ns, n) \<Longrightarrow> as_jenkins x \<noteq> None"
  "obj_key x = (KBackupConfig, ns, n) \<Longrightarrow> as_backup_config x \<noteq> None"
  "obj_key x = (KClusterRole, ns, n) \<Longrightarrow> as_cluster_role x \<noteq> None"
  "obj_key x = (KDeployment, ns, n) \<Longrightarrow> as_deployment x \<noteq> None"
  by (cases x; simp add: obj_key_def as_defs)+

lemma passes_with_roles:
  assumes "js_master spec = Some master" and "\<not> lost_config m j spec"
  shows "passes (with_backup_objects b j m) j spec \<longleftrightarrow>
      valid_master (with_backup_objects b j m) (with_spec j (spec\<lparr>js_roles := roles\<rparr>)) master \<and>
      valid_config (spec\<lparr>js_roles := roles\<rparr>)"
    and "\<not> lost_config (with_backup_objects b j m) (with_spec j (spec\<lparr>js_roles := roles\<rparr>)) (spec\<lparr>js_roles := roles\<rparr>)"
proof -
  let ?mb = "with_backup_objects b j m" and ?spec = "spec\<lparr>js_roles := roles\<rparr>"
  have kinds: "?mb (k, ns, n) = m (k, ns, n)" if "k \<notin> {KPVC, KBackupConfig}" for k ns n
    using that by (rule with_backup_kinds)
  have "map_option js_casc (status_spec (with_spec j ?spec)) = map_option js_casc (status_spec (with_spec j spec))" by simp
  then have "valid_master ?mb (with_spec j ?spec) master = valid_master ?mb (with_spec j spec) master"
    by (intro valid_master_same) simp_all
  then show "passes ?mb j spec \<longleftrightarrow> valid_master ?mb (with_spec j ?spec) master \<and> valid_config ?spec"
    by (simp add: passes_def assms(1))
  show "\<not> lost_config ?mb (with_spec j ?spec) ?spec"
    using assms(2) by (subst lost_config_same [where m = m and j = j and spec = spec]) (auto simp: kinds)
qed

context kube_server
begin

lemma set_conditions_achieve:
  assumes "j_status j \<noteq> None" and "distinct (map cd_type cs)"
  shows "achieves valid stored m (set_conditions E cs j)
    (\<lambda>j' m'. m' = m \<and> same_but_conditions j j' \<and> (\<forall>c \<in> set cs. reports j' c) \<and>
      (cs \<noteq> [] \<longrightarrow> Option.bind (j_status j') jst_conditions \<noteq> None) \<and>
      (\<forall>d. cd_type d \<notin> cd_type ` set cs \<longrightarrow> reports j' d = reports j d))"
  using assms
proof (induction cs arbitrary: j)
  case Nil
  then show ?case by (simp add: achieves_ret same_but_conditions_refl)
next
  case (Cons c cs)
  then obtain st where st: "j_status j = Some st" by blast
  have cs: "(case jst_conditions st of None \<Rightarrow> [] | Some cs \<Rightarrow> cs) = status_conditions j"
    by (simp add: status_conditions_def st)
  have one: "achieves valid stored m (set_condition E c j)
      (\<lambda>j' m'. m' = m \<and> same_but_conditions j j' \<and> reports j' c \<and> Option.bind (j_status j') jst_conditions \<noteq> None \<and>
        (\<forall>d. cd_type d \<noteq> cd_type c \<longrightarrow> reports j' d = reports j d))"
    unfolding set_condition_def st option.case cs Let_def
    by (rule achieves_bindP [OF achieves_now [where Q = "\<lambda>t m'. m' = m"]], rule refl, simp only:,
        rule achieves_bindP [OF achieves_now [where Q = "\<lambda>t m'. m' = m"]], rule refl, simp only:, rule achieves_ret)
      (use set_condition_result [OF st refl] in simp)
  let ?Q = "\<lambda>j' m'. m' = m \<and> same_but_conditions j j' \<and> (\<forall>c \<in> set (c # cs). reports j' c) \<and>
      (c # cs \<noteq> [] \<longrightarrow> Option.bind (j_status j') jst_conditions \<noteq> None) \<and>
      (\<forall>d. cd_type d \<notin> cd_type ` set (c # cs) \<longrightarrow> reports j' d = reports j d)"
  show ?case
    unfolding set_conditions.simps
  proof (rule achieves_bindP [OF one], elim conjE, goal_cases)
    case (1 j1 m1)
    from 1(2) have "j_status j1 \<noteq> None" by (simp add: same_but_conditions_def)
    from Cons.IH [OF this] Cons.prems(2) have rest: "achieves valid stored m (set_conditions E cs j1)
      (\<lambda>j' m'. m' = m \<and> same_but_conditions j1 j' \<and> (\<forall>c \<in> set cs. reports j' c) \<and>
        (cs \<noteq> [] \<longrightarrow> Option.bind (j_status j') jst_conditions \<noteq> None) \<and>
        (\<forall>d. cd_type d \<notin> cd_type ` set cs \<longrightarrow> reports j' d = reports j1 d))" by simp
    have "?Q j2 m2" if q: "m2 = m" "same_but_conditions j1 j2" "\<forall>c \<in> set cs. reports j2 c"
      "\<forall>d. cd_type d \<notin> cd_type ` set cs \<longrightarrow> reports j2 d = reports j1 d" for j2 m2
    proof -
      have "same_but_conditions j j2" using 1(2) q(2) by (rule same_but_conditions_trans)
      moreover have c: "reports j2 c" using q(4) 1(3) Cons.prems(2) by simp
      moreover have "Option.bind (j_status j2) jst_conditions \<noteq> None"
      proof
        assume "Option.bind (j_status j2) jst_conditions = None"
        then have "\<not> reports j2 c" by (simp add: reports_def status_conditions_def)
        with c show False by blast
      qed
      ultimately show ?thesis using q(1,3,4) 1(5) by simp
    qed
    then show ?case unfolding 1(1) by (rule achieves_weaken [OF rest]) simp_all
  qed
qed

lemma update_status_achieves:
  assumes "proper_key (jenkins_key j)" and "m (jenkins_key j) \<noteq> None"
  shows "achieves valid stored m (updateJenkinsStatus E j ns name)
    (gives (Inr j) (m(jenkins_key j \<mapsto> OJenkins j)))"
  unfolding updateJenkinsStatus_def
proof (rule achieves_bindP)
  show "achieves valid stored m (client_status_update E as_jenkins (OJenkins j))
      (gives (Inr j) (m(jenkins_key j \<mapsto> OJenkins j)))"
    using assms by (intro achieves_status) (simp_all add: jenkins_key_obj as_jenkins_def)
qed (simp add: achieves_ret)

lemma initialize_achieves:
  assumes "proper_key (jenkins_key j)" and "m (jenkins_key j) \<noteq> None" and "j_status j \<noteq> None"
  shows "achieves valid stored m (initialize_status E ns name j)
    (\<lambda>r m'. \<exists>j'. r = Inr j' \<and> same_but_conditions j j' \<and> m' (jenkins_key j) \<noteq> None \<and>
      (\<forall>key. key \<noteq> jenkins_key j \<longrightarrow> m' key = m key))"
proof (cases "Option.bind (j_status j) jst_conditions")
  case (Some cs)
  then show ?thesis
    using assms by (simp add: initialize_status_def achieves_ret same_but_conditions_refl)
next
  case None
  show ?thesis
    unfolding initialize_status_def None option.case setInitialConditions_def
  proof (rule achieves_bindP [OF set_conditions_achieve [OF assms(3) completed_types(2)]], elim conjE, goal_cases)
    case (1 j1 m1)
    from 1(2) have key: "jenkins_key j1 = jenkins_key j" by (intro jenkins_key_same) (simp add: same_but_conditions_def)
    have "achieves valid stored m (updateJenkinsStatus E j1 ns name) (gives (Inr j1) (m(jenkins_key j1 \<mapsto> OJenkins j1)))"
      by (rule update_status_achieves) (simp_all add: key assms(1,2))
    then show ?case
      unfolding 1(1) by (rule achieves_weaken) (use 1(2) key in simp)
  qed
qed

lemma report_success_achieves:
  assumes "proper_key (jenkins_key j)" and "m (jenkins_key j) \<noteq> None" and "j_status j \<noteq> None"
  shows "achieves valid stored m (report_success E ns name j)
    (\<lambda>r m'. r = (empty_result, None) \<and>
      (\<exists>j'. m' = m(jenkins_key j \<mapsto> OJenkins j') \<and> same_but_conditions j j' \<and> (\<forall>c \<in> set completed_conditions. reports j' c)))"
  unfolding report_success_def setStatusConditions_def
proof (rule achieves_bindP [OF set_conditions_achieve [OF assms(3) completed_types(1)]], elim conjE, goal_cases)
  case (1 j1 m1)
  from 1(2) have key: "jenkins_key j1 = jenkins_key j" by (intro jenkins_key_same) (simp add: same_but_conditions_def)
  have "achieves valid stored m (updateJenkinsStatus E j1 ns name) (gives (Inr j1) (m(jenkins_key j1 \<mapsto> OJenkins j1)))"
    by (rule update_status_achieves) (simp_all add: key assms(1,2))
  then show ?case
    unfolding 1(1) by (rule achieves_bindP) (use 1(2,3) key in \<open>auto intro!: achieves_ret\<close>)
qed

lemma create_if_missing_achieves:
  assumes "proper_key (obj_key x)" and "\<And>y. obj_key y = obj_key x \<Longrightarrow> sel y \<noteq> None" and "kind_of x = k"
  shows "achieves valid stored m (create_if_missing E k sel x) (gives (Inr ()) (ensured x m))"
proof -
  have key: "obj_key x = (k, om_namespace (meta_of x), om_name (meta_of x))" by (simp add: obj_key_def assms(3))
  obtain a where a: "sel x = Some a" using assms(2) [of x] by blast
  show ?thesis
    unfolding create_if_missing_def
  proof (rule achieves_read, goal_cases)
    case 1
    then show ?case using assms(1) by (simp add: key)
  next
    case (2 y)
    then show ?case using assms(2) [of y] by (simp add: key)
  next
    case (3 e)
    then have none: "m (obj_key x) = None" by (simp add: key)
    have "achieves valid stored m (client_create E sel x) (gives (Inr a) (m(obj_key x \<mapsto> x)))"
      by (rule achieves_create [where a = a]) (simp_all add: assms(1) none a)
    then have "achieves valid stored m (bindE (client_create E sel x) (\<lambda>_. ret (Inr ()))) (gives (Inr ()) (ensured x m))"
      by (rule achieves_bindE) (use none in \<open>auto simp: ensured_def intro: achieves_ret\<close>)
    with 3 show ?case by simp
  next
    case (4 y b)
    then have "ensured x m = m" by (simp add: key ensured_def)
    then show ?case by (simp add: achieves_ret)
  qed
qed

lemma backup_objects_achieve:
  assumes "located j"
  shows "achieves valid stored m
    (if b then ensure_backup_objects E (j_namespace j) (j_name j) j else ret (Inr ()))
    (gives (Inr ()) (with_backup_objects b j m))"
proof (cases b)
  case False
  then show ?thesis by (simp add: achieves_ret with_backup_objects_def)
next
  case True
  let ?p = "OPVC (backup_pvc (j_namespace j) (j_name j))"
  let ?c = "OBackupConfig (default_backup_config (j_namespace j) (j_name j))"
  have keys: "obj_key ?p = (KPVC, j_namespace j, j_name j @ ''-jenkins-backup'')" "obj_key ?c = (KBackupConfig, j_namespace j, ''default'')"
    by (simp_all add: obj_key_def backup_pvc_def default_backup_config_def)
  have 1: "achieves valid stored m (create_if_missing E KPVC as_pvc ?p) (gives (Inr ()) (ensured ?p m))"
    by (rule create_if_missing_achieves)
      (use assms more_kind_decodes(2) in \<open>simp_all add: keys proper_names\<close>)
  have 2: "achieves valid stored m' (create_if_missing E KBackupConfig as_backup_config ?c) (gives (Inr ()) (ensured ?c m'))" for m'
    by (rule create_if_missing_achieves)
      (use assms other_kind_decodes(2) in \<open>simp_all add: keys proper_names\<close>)
  from True show ?thesis
    unfolding ensure_backup_objects_def with_backup_objects_def
    by (simp only: if_True) (rule achieves_bindE [OF 1], simp_all add: 2)
qed

lemma defaults_achieve:
  assumes "j_status j \<noteq> None" and "filled_spec E D st j = Some spec" and "js_imageRef (j_spec j) = []"
  shows "achieves valid stored m (setDefaults E D st j)
    (\<lambda>(r, j') m'. m' = m \<and> r = Inr False \<and> (\<exists>roles. j' = with_spec j (spec\<lparr>js_roles := roles\<rparr>)))"
proof -
  let ?d = "getDefaultJenkinsImage (e_getenv E) (bd_routes D)"
  from assms(2) obtain jc master where jc: "getJenkinsMasterContainer ?d (j_spec j) = Inr jc"
    and ma: "getCalculatedJenkinsMaster (j_spec j) jc = Some master"
    and spec: "spec = default_spec (as_useNodePort st) (if jc_image jc = [] then ?d else jc_image jc) master jc (j_spec j)"
    by (auto simp: filled_spec_def Let_def split: sum.splits)
  from getJenkinsMasterContainer_Inr(2) [OF jc ma] have hd: "hd (jm_containers master) = jc" by auto
  have mi: "master_image E j img = ret (Inr img)" for img by (simp add: master_image_def assms(3))
  let ?read = "case js_roles (j_spec j) of Some roles \<Rightarrow> ret (Some roles)
        | None \<Rightarrow> bindP (GetDefaultRoleBinding E j) (\<lambda>rb. ret (map_option (\<lambda>rb. [rb_roleRef rb]) rb))"
  have eq: "getCalculatedSpec E D st j = bindP ?read
      (\<lambda>roles. ret (Inr (spec\<lparr>js_roles := roles\<rparr>), with_spec j (spec\<lparr>js_roles := roles\<rparr>)))"
    unfolding getCalculatedSpec_def Let_def jc sum.case ma option.case hd length_0_conv if_not_P [OF assms(1)] mi bindP_ret
      spec ..
  have read: "achieves valid stored m ?read (\<lambda>roles m'. m' = m)"
  proof (cases "js_roles (j_spec j)")
    case None
    have "proper_key (KClusterRole, [], EditClusterRole)" by (simp add: proper_key_def EditClusterRole_def)
    then have rb: "achieves valid stored m (GetDefaultRoleBinding E j) (\<lambda>r m'. m' = m)"
      unfolding GetDefaultRoleBinding_def
      by (rule achieves_read) (simp_all add: other_kind_decodes(3) achieves_ret)
    show ?thesis
      unfolding None option.case by (rule achieves_bindP [OF rb]) (simp add: achieves_ret)
  qed (simp add: achieves_ret)
  have "achieves valid stored m (getCalculatedSpec E D st j)
      (\<lambda>(r, j') m'. m' = m \<and> (\<exists>roles. r = Inr (spec\<lparr>js_roles := roles\<rparr>) \<and> j' = with_spec j (spec\<lparr>js_roles := roles\<rparr>)))"
    unfolding eq by (rule achieves_bindP [OF read]) (auto intro!: achieves_ret)
  then show ?thesis
    unfolding setDefaults_def by (rule achieves_bindP) (auto intro!: achieves_ret)
qed

lemma deployment_achieves:
  assumes "located j" and "status_spec j = Some spec" and "first_container spec \<noteq> None"
    and none: "m (KDeployment, j_namespace j, GetJenkinsDeploymentName j) = None"
  shows "achieves valid stored m (ensureJenkinsDeploymentIsPresent E v j (NewResourceObjectMeta j))
    (\<lambda>r m'. (\<exists>e. r = (Inl e, j)) \<and> put_post (KDeployment, j_namespace j, GetJenkinsDeploymentName j) (\<lambda>x. True) m m')"
proof -
  let ?key = "(KDeployment, j_namespace j, GetJenkinsDeploymentName j)"
  have key: "proper_key ?key" using assms(1) by (simp add: proper_names)
  have "has_master_container j" using assms(2,3) by (auto simp: has_master_container_iff)
  with NewJenkinsDeployment_None [of "e_getenv E" "NewResourceObjectMeta j" j spec] assms(3)
  obtain d where d: "NewJenkinsDeployment (e_getenv E) (NewResourceObjectMeta j) j spec = Some d" by blast
  then have meta: "dp_meta d = empty_meta\<lparr>om_name := GetJenkinsDeploymentName j, om_namespace := j_namespace j,
      om_labels := Some (BuildResourceLabels j)\<rparr>"
    by (auto simp: NewJenkinsDeployment_def Let_def bind_eq_Some_conv)
  let ?x = "ODeployment d"
  have x: "obj_key ?x = ?key" "om_ownerRefs (meta_of ?x) = []" "om_namespace (meta_of ?x) = j_namespace j"
    by (simp_all add: obj_key_def meta empty_meta_def)
  let ?d = "d\<lparr>dp_meta := (dp_meta d)\<lparr>om_ownerRefs := [NewControllerRef ''Jenkins'' (j_meta j)]\<rparr>\<rparr>"
  have own: "owned_by j ?x = ODeployment ?d" unfolding owned_by_fresh [OF x(2,3)] by simp
  have created: "om_creation (dp_meta ?d) = None" by (simp add: meta empty_meta_def)
  have recorded: "deployment_recorded v j (Some e) ?d = ret (Inl e, j)" for e
    unfolding deployment_recorded_def if_P [OF created] option.case ..
  have put: "put_post ?key (\<lambda>x. True) m (m(?key \<mapsto> ODeployment ?d))" by (rule put_post_upd) (rule TrueI)
  have create: "achieves valid stored m (CreateResource E as_deployment j ?x) (gives (Inr ?d) (m(?key \<mapsto> ODeployment ?d)))"
    using create_owned [of ?x m as_deployment j ?d] x key none own by (simp add: as_deployment_def)
  have again: "achieves valid stored (m(?key \<mapsto> ODeployment ?d)) (GetJenkinsDeployment E j)
      (gives (Inr ?d) (m(?key \<mapsto> ODeployment ?d)))"
    unfolding GetJenkinsDeployment_def
    by (rule achieves_get_found [where x = "ODeployment ?d"]) (simp_all add: key as_deployment_def)
  show ?thesis
    unfolding ensureJenkinsDeploymentIsPresent_def GetJenkinsDeployment_def
  proof (rule achieves_read [OF key other_kind_decodes(4)], simp, goal_cases)
    case (1 e)
    have found: "(\<not> IsNotFound e) = False" using 1(2) by simp
    show ?case
      unfolding sum.case found if_False assms(2) Option.bind.simps d option.case
      by (rule achieves_bindP [OF achieves_notify [where Q = "\<lambda>u m'. m' = m"]], rule refl, simp only:,
         rule achieves_bindP [OF create],
         simp only: gives_iff sum.case GetJenkinsDeployment_def [symmetric], rule achieves_bindP [OF again],
         simp only: gives_iff sum.case,
         rule achieves_bindP [OF achieves_notify [where Q = "\<lambda>u m'. m' = m(?key \<mapsto> ODeployment ?d)"]], rule refl,
         simp only: recorded, rule achieves_ret, rule conjI, rule exI, rule refl, rule put)
  next
    case (2 x a)
    with none show ?case by simp
  qed
qed

lemma base_achieves:
  assumes "located j" and "status_spec j = Some spec" and "first_container spec \<noteq> None"
    and "distinct (map fst (go_entries (js_saAnnotations (j_spec j))))" and "workable m j spec"
  shows "achieves valid stored m (BaseReconcile E D j)
    (\<lambda>(r, j') m'. (\<exists>e. r = Inl e) \<and> j_meta j' = j_meta j \<and> j_status j' = j_status j \<and>
      (\<forall>key \<in> managed_keys (bd_routes D) j. m' key \<noteq> None) \<and>
      m' (jenkins_key j) = m (jenkins_key j))"
proof -
  let ?j = "write_sa_annotation j" and ?dk = "(KDeployment, j_namespace j, GetJenkinsDeploymentName j)"
  let ?R = "config_keys j \<union> rbac_keys j \<union> network_keys (bd_routes D) j"
  have id: "j_meta ?j = j_meta j" by simp
  note same = same_identity [OF id]
  have deployment_name: "GetJenkinsDeploymentName ?j = GetJenkinsDeploymentName j"
    using same(1) by (simp add: name_defs)
  have l': "located ?j" using assms(1) unfolding same .
  have st': "status_spec ?j = Some spec" using assms(2) status_spec_same [of ?j j] by simp
  have outside: "key \<notin> ?R \<union> extra_keys j" if "fst key \<in> {KJenkins, KDeployment}" for key
    using that by (auto simp: config_keys_def rbac_keys_def network_keys_def extra_keys_def)
  show ?thesis
    unfolding BaseReconcile_def Let_def
  proof (rule achieves_bindP [OF resources_achieve [OF assms(1-4)]], goal_cases)
    case 1 with assms(5) show ?case by (simp add: workable_def)
  next
    case 2 with assms(5) show ?case by (simp add: workable_def)
  next
    case 3 with assms(5) show ?case by (simp add: workable_def)
  next
    case (4 r1 m1)
    then have r1: "r1 = (Inr (), ?j)" and present: "\<And>key. key \<in> ?R \<Longrightarrow> m1 key \<noteq> None"
      and frame: "\<And>key. key \<notin> ?R \<union> extra_keys j \<Longrightarrow> m1 key = m key" by blast+
    have none: "m1 ?dk = None" using frame [OF outside [of ?dk]] assms(5) by (simp add: workable_def)
    have none': "m1 (KDeployment, j_namespace ?j, GetJenkinsDeploymentName ?j) = None"
      unfolding same deployment_name by (rule none)
    have "achieves valid stored m1 (ensureJenkinsDeploymentIsPresent E (bd_version D) ?j (NewResourceObjectMeta ?j))
        (\<lambda>r m'. (\<exists>e. r = (Inl e, ?j)) \<and>
          put_post (KDeployment, j_namespace ?j, GetJenkinsDeploymentName ?j) (\<lambda>x. True) m1 m')"
      by (rule deployment_achieves [where m = m1, OF l' st' assms(3) none'])
    then have dep: "achieves valid stored m1 (ensureJenkinsDeploymentIsPresent E (bd_version D) ?j (NewResourceObjectMeta j))
        (\<lambda>r m'. (\<exists>e. r = (Inl e, ?j)) \<and> put_post ?dk (\<lambda>x. True) m1 m')"
      unfolding same deployment_name .
    show ?case
      unfolding r1 prod.case sum.case
    proof (rule achieves_bindP [OF dep], elim conjE exE, goal_cases)
      case (1 r2 m2 e)
      note f = fills_put [OF 1(1)]
      have "m2 key \<noteq> None" if "key \<in> managed_keys (bd_routes D) j" for key
      proof (cases "key \<in> {?dk}")
        case True
        with f show ?thesis unfolding fills_def by blast
      next
        case False
        with that have "key \<in> ?R" by (simp add: managed_keys_def)
        with fills_same [OF f False] present show ?thesis by simp
      qed
      moreover have "m2 (jenkins_key j) = m (jenkins_key j)"
        using fills_same [OF f, of "jenkins_key j"] frame [OF outside [of "jenkins_key j"]] by (simp add: jenkins_key_def)
      ultimately show ?case unfolding 1(2) prod.case sum.case by (intro achieves_ret) simp
    qed
  qed
qed

lemma reconcile_base_achieves:
  assumes "located j" and "status_spec j = Some spec" and "first_container spec \<noteq> None"
    and "distinct (map fst (go_entries (js_saAnnotations (j_spec j))))" and "workable m j spec"
  shows "achieves valid stored m (reconcile_base E D ns name j)
    (\<lambda>((res, err), j') m'. err = None \<and> j_meta j' = j_meta j \<and> j_status j' = j_status j \<and>
      (\<forall>key \<in> managed_keys (bd_routes D) j. m' key \<noteq> None) \<and>
      m' (jenkins_key j) = m (jenkins_key j))"
  unfolding reconcile_base_def
proof (rule achieves_bindP [OF base_achieves [OF assms]], goal_cases)
  case (1 rj m1)
  then obtain e j' where "rj = (Inl e, j')" by (cases rj) auto
  with 1 show ?case by (simp add: achieves_ret)
qed

text \<open>What follows the validation: a report of its messages, or the base reconciler.\<close>

lemma validated_achieves:
  assumes "located j" and "status_spec j = Some spec" and "first_container spec \<noteq> None"
    and "distinct (map fst (go_entries (js_saAnnotations (j_spec j))))" and "workable m j spec"
  shows "achieves valid stored m
    (if length msgs > 0 then
       bindP (notify (BaseConfigurationFailed_event j
         ''Validation of base configuration failed, please correct Jenkins CR.'' msgs)) (\<lambda>_. ret ((empty_result, None), j, dcm))
     else bindP (reconcile_base E D ns name j) (\<lambda>(r, j). ret (r, j, dcm)))
    (\<lambda>((res, err), j', dcm') m'. err = None \<and> j_meta j' = j_meta j \<and> j_status j' = j_status j \<and>
      m' (jenkins_key j) = m (jenkins_key j) \<and>
      (if msgs = [] then \<forall>key \<in> managed_keys (bd_routes D) j. m' key \<noteq> None else m' = m))"
proof (cases "msgs = []")
  case True
  show ?thesis
    unfolding True
    by (simp only: list.size less_irrefl if_False, rule achieves_bindP [OF reconcile_base_achieves [OF assms]])
      (auto intro!: achieves_ret)
next
  case False
  then have "0 < length msgs" by simp
  then show ?thesis
    by (simp only: if_True, intro achieves_bindP [OF achieves_notify [where Q = "\<lambda>u m'. m' = m"]])
      (use False in \<open>auto intro!: achieves_ret\<close>)
qed

lemma reconcile_achieves:
  assumes l: "located j" and st0: "j_status j \<noteq> None" and filled: "filled_spec E D st j = Some spec"
    and "js_imageRef (j_spec j) = []" and ma: "js_master spec = Some master"
    and named: "list_all referent_named (jm_volumes master)" and found: "\<not> lost_config m j spec"
    and d: "distinct (map fst (go_entries (js_saAnnotations (j_spec j))))" and work: "workable m j spec"
  defines "mb \<equiv> with_backup_objects (js_backupEnabled spec) j m"
  shows "achieves valid stored m (reconcile E D st showVolume (j_namespace j) (j_name j) dcm j)
    (\<lambda>((res, err), j', dcm') m'. err = None \<and> j_meta j' = j_meta j \<and> j_status j' \<noteq> None \<and>
      m' (jenkins_key j) = m (jenkins_key j) \<and>
      (passes mb j spec \<longrightarrow> (\<forall>key \<in> managed_keys (bd_routes D) j. m' key \<noteq> None)) \<and>
      (\<not> passes mb j spec \<longrightarrow> (\<forall>key. key \<noteq> (KConfigMap, j_namespace j, JenkinsDefaultConfigMapName) \<longrightarrow> m' key = mb key)))"
    (is "achieves valid stored m _ ?Q")
  unfolding reconcile_def
proof (rule achieves_bindP [OF defaults_achieve [OF st0 filled assms(4)]], goal_cases)
  case (1 rj m1)
  then obtain roles where m1: "m1 = m" and rj: "rj = (Inr False, with_spec j (spec\<lparr>js_roles := roles\<rparr>))"
    by (auto split: prod.splits)
  let ?spec = "spec\<lparr>js_roles := roles\<rparr>" let ?j = "with_spec j ?spec"
  have id: "j_meta ?j = j_meta j" by simp
  note same = same_identity [OF id]
  have l': "located ?j" using l unfolding same .
  have key: "jenkins_key ?j = jenkins_key j" using id by (rule jenkins_key_same)
  have kinds: "mb (k, ns, n) = m (k, ns, n)" if "k \<notin> {KPVC, KBackupConfig}" for k ns n
    unfolding mb_def using that by (rule with_backup_kinds)
  note passes = passes_with_roles [OF ma found, of "js_backupEnabled spec" roles, folded mb_def]
  have backup: "achieves valid stored m (if js_backupEnabled ?spec then ensure_backup_objects E (j_namespace j) (j_name j) ?j
      else ret (Inr ())) (gives (Inr ()) mb)"
    using backup_objects_achieve [OF l', of m "js_backupEnabled spec"]
    by (cases "js_backupEnabled spec") (simp_all add: mb_def with_backup_objects_def same)
  obtain c where fc: "first_container ?spec = Some c" using filled_spec_container [OF filled] by auto
  have ma': "js_master ?spec = Some master" using ma by simp
  have spec: "status_spec ?j = Some ?spec" by simp
  note validate = Validate_achieves [OF l' spec ma' fc named, of mb showVolume dcm]
  show ?case
    unfolding rj prod.case sum.case m1 spec option.case
  proof (rule achieves_bindP [OF backup], unfold gives_iff, elim conjE,
      simp only: sum.case, rule achieves_bindP [OF validate], goal_cases)
    case (1 r2 m2 rd m3)
    obtain r dcm' where rd: "rd = (r, dcm')" by (cases rd)
    from 1(3) [unfolded rd prod.case same] passes
    have frame: "\<And>key. key \<noteq> (KConfigMap, j_namespace j, JenkinsDefaultConfigMapName) \<Longrightarrow> m3 key = mb key"
      and no_err: "\<nexists>e. r = Inl e" and ok: "r = Inr [] \<longleftrightarrow> passes mb j spec"
      by (blast, blast, blast)
    obtain msgs where r: "r = Inr msgs" using no_err by (cases r) auto
    have jk: "m3 (jenkins_key j) = m (jenkins_key j)"
      using frame [of "jenkins_key j"] kinds by (simp add: jenkins_key_def)
    have "workable m3 j spec = workable m j spec" using frame kinds by (intro workable_same) auto
    then have wk: "workable m3 ?j ?spec" using work by (simp add: workable_def same name_defs)
    obtain st' where st': "j_status ?j = Some st'" using with_spec_simps(4) by blast
    show ?case
      unfolding rd r prod.case sum.case
    proof (rule achieves_weaken [OF validated_achieves [OF l' spec _ _ wk]], goal_cases)
      case (3 x m')
      then show ?case
        unfolding key managed_same [OF id] id st' using ok r jk frame by (cases x) (auto split: if_splits)
    qed (use fc d in simp_all)
  qed
qed

text \<open>The same once the status of the Jenkins has been written.\<close>

lemma reconcile_stored:
  assumes same: "j_meta j1 = j_meta j" "j_spec j1 = j_spec j" "j_status j1 \<noteq> None"
    and frame: "\<And>key. key \<noteq> jenkins_key j \<Longrightarrow> m1 key = m key"
    and "located j" and filled: "filled_spec E D st j = Some spec"
    and ref: "js_imageRef (j_spec j) = []" and ma: "js_master spec = Some master"
    and named: "list_all referent_named (jm_volumes master)" and found: "\<not> lost_config m j spec"
    and d: "distinct (map fst (go_entries (js_saAnnotations (j_spec j))))" and work: "workable m j spec"
  defines "mb \<equiv> with_backup_objects (js_backupEnabled spec) j m"
  shows "achieves valid stored m1 (reconcile E D st showVolume (j_namespace j) (j_name j) dcm j1)
      (\<lambda>((res, err), j', dcm') m'. err = None \<and> j_meta j' = j_meta j1 \<and> j_status j' \<noteq> None \<and>
        m' (jenkins_key j) = m1 (jenkins_key j) \<and>
        (passes mb j spec \<longrightarrow> (\<forall>key \<in> managed_keys (bd_routes D) j. m' key \<noteq> None)) \<and>
        (\<not> passes mb j spec \<longrightarrow> (\<forall>key. key \<noteq> jenkins_key j \<and>
          key \<noteq> (KConfigMap, j_namespace j, JenkinsDefaultConfigMapName) \<longrightarrow> m' key = mb key)))"
proof -
  note ids = same_identity [OF same(1)]
  have k1: "jenkins_key j1 = jenkins_key j" using same(1) by (rule jenkins_key_same)
  have kinds: "m1 (k, ns, n) = m (k, ns, n)" if "k \<noteq> KJenkins" for k ns n
    using frame [of "(k, ns, n)"] that by (simp add: jenkins_key_def)
  have filled1: "filled_spec E D st j1 = Some spec" using filled by (simp only: filled_spec_def same(2))
  have found1: "\<not> lost_config m1 j1 spec"
    using found by (subst lost_config_same [where m = m and j = j and spec = spec]) (auto simp: same(1) kinds)
  have "workable m1 j spec = workable m j spec" by (rule workable_same) (auto simp: kinds)
  then have work1: "workable m1 j1 spec" using work by (simp add: workable_def ids name_defs)
  let ?mb = "with_backup_objects (js_backupEnabled spec) j m1"
  have mb: "?mb key = mb key" if "key \<noteq> jenkins_key j" for key
    using that frame [OF that] kinds
    by (auto simp: mb_def with_backup_objects_def ensured_def obj_key_def backup_pvc_def default_backup_config_def)
  have passes: "passes ?mb j1 spec = passes mb j spec"
    unfolding passes_def ma option.case using same(1) mb
    by (subst valid_master_same [where m = mb and j = "with_spec j spec"])
      (auto simp: jenkins_key_def j_namespace_def [of "with_spec j spec"])
  have "with_backup_objects (js_backupEnabled spec) j1 m1 = ?mb" by (simp only: with_backup_objects_def ids)
  then have "achieves valid stored m1 (reconcile E D st showVolume (j_namespace j) (j_name j) dcm j1)
      (\<lambda>((res, err), j', dcm') m'. err = None \<and> j_meta j' = j_meta j1 \<and> j_status j' \<noteq> None \<and>
        m' (jenkins_key j) = m1 (jenkins_key j) \<and>
        (passes mb j spec \<longrightarrow> (\<forall>key \<in> managed_keys (bd_routes D) j. m' key \<noteq> None)) \<and>
        (\<not> passes mb j spec \<longrightarrow> (\<forall>key. key \<noteq> (KConfigMap, j_namespace j, JenkinsDefaultConfigMapName) \<longrightarrow> m' key = ?mb key)))"
    using reconcile_achieves [where j = j1 and m = m1 and showVolume = showVolume and dcm = dcm, OF _ same(3) filled1 _ ma named found1 _ work1]
      assms(5) ref d passes managed_same [OF same(1)]
    by (simp only: ids k1 same(2) simp_thms)
  then show ?thesis by (rule achieves_weaken) (use mb in \<open>auto split: prod.splits\<close>)
qed

lemma JenkinsReconcile_achieves:
  assumes stored: "m (jenkins_key j) = Some (OJenkins j)" and key: "proper_key (jenkins_key j)"
    and filled: "filled_spec E D st j = Some spec"
    and ref: "js_imageRef (j_spec j) = []" and ma: "js_master spec = Some master"
    and named: "list_all referent_named (jm_volumes master)" and found: "\<not> lost_config m j spec"
    and d: "distinct (map fst (go_entries (js_saAnnotations (j_spec j))))" and work: "workable m j spec"
  defines "mb \<equiv> with_backup_objects (js_backupEnabled spec) j m"
  shows "achieves valid stored m (JenkinsReconcile E D st showVolume (j_namespace j) (j_name j) dcm)
    (\<lambda>((res, err), dcm') m'. res = empty_result \<and> err = None \<and>
      (\<exists>j'. m' (jenkins_key j) = Some (OJenkins j') \<and> (\<forall>c \<in> set completed_conditions. reports j' c)) \<and>
      (passes mb j spec \<longrightarrow> (\<forall>key \<in> managed_keys (bd_routes D) j. m' key \<noteq> None)) \<and>
      (\<not> passes mb j spec \<longrightarrow> (\<forall>key. key \<noteq> jenkins_key j \<and> key \<noteq> (KConfigMap, j_namespace j, JenkinsDefaultConfigMapName) \<longrightarrow>
        m' key = mb key)))"
    (is "achieves valid stored m _ ?Q")
proof -
  let ?j = "ensure_status j"
  have e: "j_meta ?j = j_meta j" "j_spec ?j = j_spec j" "j_status ?j \<noteq> None"
    by (simp_all add: ensure_status_def)
  have ek: "jenkins_key ?j = jenkins_key j" using e(1) by (rule jenkins_key_same)
  have l: "located j" using key by (simp add: proper_key_def jenkins_key_def located_def)
  have get: "achieves valid stored m (client_get E KJenkins as_jenkins (j_namespace j) (j_name j)) (gives (Inr j) m)"
    using stored key unfolding jenkins_key_def
    by (intro achieves_get_found [where x = "OJenkins j"]) (simp_all add: as_jenkins_def)
  have init: "achieves valid stored m (initialize_status E (j_namespace j) (j_name j) ?j)
    (\<lambda>r m'. \<exists>j'. r = Inr j' \<and> same_but_conditions ?j j' \<and> m' (jenkins_key ?j) \<noteq> None \<and>
      (\<forall>key. key \<noteq> jenkins_key ?j \<longrightarrow> m' key = m key))"
    by (rule initialize_achieves) (simp_all add: ek key stored e(3) [simplified])
  show ?thesis
    unfolding JenkinsReconcile_def
  proof (rule achieves_bindP [OF get], unfold gives_iff, elim conjE, simp only: sum.case,
      rule achieves_bindP [OF init], elim exE conjE, goal_cases)
    case (1 r0 m0 r1 m1 j1)
    then have r1: "r1 = Inr j1" and same: "j_meta j1 = j_meta j" "j_spec j1 = j_spec j" "j_status j1 \<noteq> None"
      and here: "m1 (jenkins_key j) \<noteq> None" and frame: "\<And>key. key \<noteq> jenkins_key j \<Longrightarrow> m1 key = m key"
      unfolding same_but_conditions_def e(1,2) ek by blast+
    show ?case
      unfolding r1 sum.case
    proof (rule achieves_bindP [OF reconcile_stored [OF same frame l filled ref ma named found d work, folded mb_def]], goal_cases)
      case (2 x m2)
      obtain res err j2 dcm2 where x: "x = ((res, err), j2, dcm2)" by (cases x) auto
      note post = 2 [unfolded x prod.case]
      then have k2: "jenkins_key j2 = jenkins_key j" using same(1) by (intro jenkins_key_same) simp
      have finish: "achieves valid stored m2 (report_success E (j_namespace j) (j_name j) j2)
        (\<lambda>r m'. r = (empty_result, None) \<and> (\<exists>j'. m' = m2(jenkins_key j \<mapsto> OJenkins j') \<and>
          same_but_conditions j2 j' \<and> (\<forall>c \<in> set completed_conditions. reports j' c)))"
        using report_success_achieves [of j2 m2] key here post unfolding k2 by simp
      have "jenkins_key j \<notin> managed_keys (bd_routes D) j"
        by (auto simp: jenkins_key_def managed_keys_def config_keys_def rbac_keys_def network_keys_def)
      then have "?Q ((empty_result, None), dcm2) (m2(jenkins_key j \<mapsto> OJenkins j'))"
        if "\<forall>c \<in> set completed_conditions. reports j' c" for j'
        using that post by auto
      with post show ?case
        unfolding x prod.case by (simp only: option.case) (intro achieves_bindP [OF finish], auto intro!: achieves_ret)
    qed
  qed
qed

end

section \<open>What the handler returns\<close>

text \<open>The last call of a run, with its error.\<close>

definition last_call :: "'w sys \<Rightarrow> (call \<times> goerr option) option" where
  "last_call s = (if log s = [] then None else Some (last (log s)))"

definition jenkins_call :: "string \<Rightarrow> string \<Rightarrow> call \<Rightarrow> bool" where
  "jenkins_call ns name c \<longleftrightarrow> c = CGet KJenkins ns name \<or> (\<exists>j. c = CStatus (OJenkins j))"

lemma last_call_append [simp]: "last_call (s\<lparr>world := w, log := l @ [x]\<rparr>) = Some x"
  by (simp add: last_call_def)

lemma client_get_last:
  assumes "client_get E k sel ns n s = (Done r, s')"
  shows "last_call s' = Some (CGet k ns n, err_part r)"
  using assms client_get_ex [of E k sel ns n s] by auto

lemma client_status_last:
  assumes "client_status_update E sel x s = (Done r, s')"
  shows "last_call s' = Some (CStatus x, err_part r)"
  using assms client_status_update_ex [of E sel x s] by auto

lemma updateJenkinsStatus_error:
  assumes "updateJenkinsStatus E j ns name s = (Done (Inl e), s')"
  shows "\<exists>c. last_call s' = Some (c, Some e) \<and> jenkins_call ns name c"
proof -
  from assms obtain r :: "goerr + jenkins" and s1 where "(case r of Inr j \<Rightarrow> ret (Inr j)
      | Inl e \<Rightarrow> bindE (client_get E KJenkins as_jenkins ns name) (\<lambda>j.
         bindP (setStatusConditions E (ensure_status j)) (\<lambda>j. client_status_update E as_jenkins (OJenkins j)))) s1 = (Done (Inl e), s')"
    unfolding updateJenkinsStatus_def bindP_Done by (elim exE conjE) (rule that)
  then have "bindE (client_get E KJenkins as_jenkins ns name) (\<lambda>j.
      bindP (setStatusConditions E (ensure_status j)) (\<lambda>j. client_status_update E as_jenkins (OJenkins j))) s1 = (Done (Inl e), s')"
    by (cases r) (simp_all add: ret_def)
  then obtain q s2 where q: "client_get E KJenkins as_jenkins ns name s1 = (Done q, s2)"
    and rest: "(case q of Inl e \<Rightarrow> ret (Inl e) | Inr j \<Rightarrow>
      bindP (setStatusConditions E (ensure_status j)) (\<lambda>j. client_status_update E as_jenkins (OJenkins j))) s2 = (Done (Inl e), s')"
    unfolding bindE_def bindP_Done by (elim exE conjE) (rule that)
  show ?thesis
  proof (cases q)
    case (Inl e')
    with rest client_get_last [OF q] show ?thesis by (simp add: ret_def jenkins_call_def)
  next
    case (Inr j')
    with rest obtain j2 s3 where "client_status_update E as_jenkins (OJenkins j2) s3 = (Done (Inl e), s')"
      by (auto simp: bindP_Done)
    from client_status_last [OF this] show ?thesis by (auto simp: jenkins_call_def)
  qed
qed

lemma report_success_returns:
  assumes "report_success E ns name j s = (Done (res, err), s')"
  shows "err = None \<and> res = empty_result \<or>
    res = requeue_result \<and> (\<exists>e c. err = Some e \<and> last_call s' = Some (c, Some e) \<and> jenkins_call ns name c)"
proof -
  from assms obtain j1 s1 u s2 where u: "updateJenkinsStatus E j1 ns name s1 = (Done u, s2)"
    and r: "(case u of Inl e \<Rightarrow> ret (requeue_result, Some e) | Inr j \<Rightarrow> ret (empty_result, None)) s2 = (Done (res, err), s')"
    unfolding report_success_def bindP_Done by (elim exE conjE) (rule that)
  show ?thesis
  proof (cases u)
    case (Inl e)
    with u r updateJenkinsStatus_error [of E j1 ns name s1 e s2] show ?thesis by (auto simp: ret_def)
  next
    case (Inr j')
    with r show ?thesis by (simp add: ret_def)
  qed
qed

lemma report_failure_returns:
  assumes "report_failure E j res0 e0 s = (Done (res, err), s')"
  shows "res = res0 \<and> (\<exists>j. last_call s' = Some (CStatus (OJenkins j), err))"
proof -
  from assms obtain j1 s1 u where u: "client_status_update E as_jenkins (OJenkins j1) s1 = (Done u, s')"
    and r: "res = res0" "err = err_part u"
    by (auto simp: report_failure_def bindP_Done ret_def)
  from client_status_last [OF u] r show ?thesis by blast
qed

definition returns :: "('a \<Rightarrow> bool) \<Rightarrow> ('w, 'a) prog \<Rightarrow> bool" where
  "returns Q m \<longleftrightarrow> (\<forall>s b s'. m s = (Done b, s') \<longrightarrow> Q b)"

lemma returnsD: "returns Q m \<Longrightarrow> m s = (Done b, s') \<Longrightarrow> Q b"
  unfolding returns_def by blast

lemma returns_ret: "Q a \<Longrightarrow> returns Q (ret a)"
  by (simp add: returns_def ret_def)

lemma returns_crash: "returns Q (crash c)"
  by (simp add: returns_def crash_def)

lemma returns_bindP: "(\<And>a. returns Q (f a)) \<Longrightarrow> returns Q (bindP m f)"
  unfolding returns_def bindP_Done by blast

lemma returns_bindP2: "returns R m \<Longrightarrow> (\<And>a. R a \<Longrightarrow> returns Q (f a)) \<Longrightarrow> returns Q (bindP m f)"
  unfolding returns_def bindP_Done by blast

lemma returns_cases:
  "(\<And>e. returns Q (f e)) \<Longrightarrow> (\<And>a. returns Q (g a)) \<Longrightarrow> returns Q (case q of Inl e \<Rightarrow> f e | Inr a \<Rightarrow> g a)"
  "returns Q h \<Longrightarrow> (\<And>b. returns Q (k b)) \<Longrightarrow> returns Q (case v of None \<Rightarrow> h | Some b \<Rightarrow> k b)"
  "(\<And>a b. returns Q (l a b)) \<Longrightarrow> returns Q (case p of (a, b) \<Rightarrow> l a b)"
  "returns Q h \<Longrightarrow> returns Q h' \<Longrightarrow> returns Q (if c then h else h')"
  by (simp_all split: sum.split option.split prod.split)

lemma reconcile_base_error:
  "returns (\<lambda>((res, err), j'). err = None \<or> res = empty_result) (reconcile_base E D ns name j)"
  unfolding reconcile_base_def by (intro returns_bindP returns_cases returns_ret) simp_all

lemma reconcile_error: "returns (\<lambda>((res, err), x). err = None \<or> res = empty_result) (reconcile E D st showVolume ns name dcm j)"
proof -
  have base: "returns (\<lambda>((res, err), x). err = None \<or> res = empty_result)
      (bindP (reconcile_base E D ns name j) (\<lambda>(r, j). ret (r, j, dcm)))" for j dcm
    by (rule returns_bindP2 [OF reconcile_base_error]) (auto intro!: returns_ret)
  show ?thesis
    unfolding reconcile_def
    by (rule returns_bindP, rule returns_cases(3), rule returns_cases(1), rule returns_ret, simp,
        rule returns_cases(2), rule returns_crash, rule returns_bindP, rule returns_cases(1), rule returns_ret, simp,
        rule returns_bindP, rule returns_cases(3), rule returns_cases(1), rule returns_ret, simp,
        rule returns_cases(4), rule returns_bindP, rule returns_ret, simp, rule base)
qed

text \<open>What the handler returns once the reconciliation proper is through.\<close>

lemma reports_return:
  assumes "bindP (reconcile E D st showVolume ns name dcm j) (\<lambda>((res, err), j, dcm). case err of
      Some e \<Rightarrow> bindP (report_failure E j res e) (\<lambda>r. ret (r, dcm))
    | None \<Rightarrow> bindP (report_success E ns name j) (\<lambda>r. ret (r, dcm))) s = (Done ((res, err), dcm'), s')"
  shows "(res = empty_result \<or> res = requeue_result \<and> err \<noteq> None) \<and>
    (\<forall>e. err = Some e \<longrightarrow> (\<exists>c. last_call s' = Some (c, Some e) \<and> jenkins_call ns name c))"
proof -
  from assms [unfolded bindP_Done] obtain x s3 where
    x: "reconcile E D st showVolume ns name dcm j s = (Done x, s3)"
    and run: "(\<lambda>((res, err), j, dcm). case err of
           Some e \<Rightarrow> bindP (report_failure E j res e) (\<lambda>r. ret (r, dcm))
         | None \<Rightarrow> bindP (report_success E ns name j) (\<lambda>r. ret (r, dcm))) x s3 = (Done ((res, err), dcm'), s')"
    by (elim exE conjE) (rule that)
  obtain res0 err0 j2 dcm2 where xx: "x = ((res0, err0), j2, dcm2)" by (cases x) auto
  show ?thesis
  proof (cases err0)
    case None
    with run xx have "report_success E ns name j2 s3 = (Done (res, err), s')" by (auto simp: bindP_Done ret_def)
    from report_success_returns [OF this] show ?thesis by auto
  next
    case (Some e)
    with returnsD [OF reconcile_error x] xx have "res0 = empty_result" by simp
    moreover from run xx Some have "report_failure E j2 res0 e s3 = (Done (res, err), s')" by (auto simp: bindP_Done ret_def)
    from report_failure_returns [OF this] have "res = res0 \<and> (\<exists>j. last_call s' = Some (CStatus (OJenkins j), err))" .
    ultimately show ?thesis by (auto simp: jenkins_call_def)
  qed
qed

lemma JenkinsReconcile_returns:
  assumes "JenkinsReconcile E D st showVolume ns name dcm s = (Done ((res, err), dcm'), s')"
  shows "(res = empty_result \<or> res = requeue_result \<and> err \<noteq> None) \<and>
    (\<forall>e. err = Some e \<longrightarrow> (\<exists>c. last_call s' = Some (c, Some e) \<and> jenkins_call ns name c))"
proof -
  obtain q s1 where q: "client_get E KJenkins as_jenkins ns name s = (Done q, s1)"
    and run: "(case q of
       Inl e \<Rightarrow> ret ((empty_result, if IsNotFound e then None else Some e), dcm)
     | Inr j \<Rightarrow>
         bindP (initialize_status E ns name (ensure_status j)) (\<lambda>r. case r of
           Inl e \<Rightarrow> ret ((requeue_result, Some e), dcm)
         | Inr j \<Rightarrow>
             bindP (reconcile E D st showVolume ns name dcm j) (\<lambda>((res, err), j, dcm). case err of
               Some e \<Rightarrow> bindP (report_failure E j res e) (\<lambda>r. ret (r, dcm))
             | None \<Rightarrow> bindP (report_success E ns name j) (\<lambda>r. ret (r, dcm))))) s1 = (Done ((res, err), dcm'), s')"
    using assms unfolding JenkinsReconcile_def bindP_Done by (elim exE conjE) (rule that)
  show ?thesis
  proof (cases q)
    case (Inl e)
    with run client_get_last [OF q] show ?thesis by (auto simp: ret_def jenkins_call_def split: if_split_asm)
  next
    case (Inr j)
    from run [unfolded Inr sum.case bindP_Done] obtain r s2 where
      r: "initialize_status E ns name (ensure_status j) s1 = (Done r, s2)"
      and run2: "(case r of
           Inl e \<Rightarrow> ret ((requeue_result, Some e), dcm)
         | Inr j \<Rightarrow>
             bindP (reconcile E D st showVolume ns name dcm j) (\<lambda>((res, err), j, dcm). case err of
               Some e \<Rightarrow> bindP (report_failure E j res e) (\<lambda>r. ret (r, dcm))
             | None \<Rightarrow> bindP (report_success E ns name j) (\<lambda>r. ret (r, dcm)))) s2 = (Done ((res, err), dcm'), s')"
      by (elim exE conjE) (rule that)
    show ?thesis
    proof (cases r)
      case (Inl e)
      with r obtain j' s0 where "updateJenkinsStatus E j' ns name s0 = (Done (Inl e), s2)"
        by (auto simp: initialize_status_def bindP_Done ret_def split: option.split_asm)
      from updateJenkinsStatus_error [OF this] run2 Inl show ?thesis by (auto simp: ret_def)
    next
      case (Inr j1)
      from run2 [unfolded Inr sum.case] show ?thesis by (rule reports_return)
    qed
  qed
qed

section \<open>Properties\<close>


text \<open>A Jenkins whose Java options miss a required flag, alone in a cluster.\<close>

definition flagless_jenkins :: jenkins where
  "flagless_jenkins = \<lparr>j_meta = empty_meta\<lparr>om_name := ''ex'', om_namespace := ''ns''\<rparr>,
     j_spec = empty_spec\<lparr>js_master := Some (empty_master\<lparr>jm_containers :=
       [empty_jcontainer\<lparr>jc_name := ''jenkins'', jc_image := ''jenkins'', jc_env := [env_value ''JAVA_OPTS'' ''-Xmx1g'']\<rparr>]\<rparr>)\<rparr>,
     j_status = None\<rparr>"

definition lonely_cluster :: cluster where
  "lonely_cluster = \<lparr>objects = [OJenkins flagless_jenkins], clock = 0\<rparr>"




end
