(* ===== verification/Jenkins_Failures.thy ===== *)
theory Jenkins_Failures
  imports "HOL-Library.Word" Jenkins_Reconcile
begin

text \<open>
  The part of \<open>Reconcile\<close> (\<^verbatim>\<open>controllers/jenkins_controller.go\<close>) behind the branch for a failed
  reconciliation: it counts equal errors in the package variable \<open>reconcileErrors\<close>, gives up at a
  limit and reports a failed groovy script.  \<open>ReconcileWhole\<close> is the handler with all of its
  statements in their order; it is the handler without them, and never changes the table of errors.
\<close>

section \<open>The table of errors\<close>

record reconcile_error =
  rcl_err :: goerr
  rcl_counter :: "64 word"

type_synonym reconcile_errors = "string \<Rightarrow> reconcile_error option"

definition reconcileFailLimit :: "64 word" where
  "reconcileFailLimit = 10"

definition count_error :: "string \<Rightarrow> goerr \<Rightarrow> reconcile_errors \<Rightarrow> reconcile_error" where
  "count_error name e errs = (case errs name of
     Some prev \<Rightarrow>
       if err_text e = err_text (rcl_err prev) then prev\<lparr>rcl_counter := rcl_counter prev + 1\<rparr>
       else prev\<lparr>rcl_counter := 1, rcl_err := e\<rparr>
   | None \<Rightarrow> \<lparr>rcl_err = e, rcl_counter = 1\<rparr>)"

definition GroovyScriptExecutionFailed_event :: "jenkins \<Rightarrow> string \<Rightarrow> string \<Rightarrow> string \<Rightarrow> string \<Rightarrow> notification" where
  "GroovyScriptExecutionFailed_event j t source name logs =
     (let failed = t @ '' Source  @ source @  Name  @ name @  groovy script execution failed'' in
     \<lparr>nt_jenkins = j, nt_phase = PhaseBase, nt_level = NotificationLevelWarning,
      nt_reason = NewGroovyScriptExecutionFailed OperatorSource [failed] [failed @ '', logs: '' @ logs]\<rparr>)"

text \<open>What the code does with an error that the failure branch has not returned.\<close>

definition after_failure ::
  "string \<Rightarrow> jenkins \<Rightarrow> goerr \<Rightarrow> reconcile_errors \<Rightarrow> ('w, (result \<times> goerr option) \<times> reconcile_errors) prog" where
  "after_failure name j e errs =
     (if IsConflict e then ret ((requeue_result, None), errs)
      else let prev = count_error name e errs; errs = errs(name \<mapsto> prev) in
        if rcl_counter prev \<ge> reconcileFailLimit then
          bindP (notify (ReconcileLoopFailed_event j (unat reconcileFailLimit) e)) (\<lambda>_. ret ((empty_result, None), errs))
        else (case e of
            GroovyErr t source n logs \<Rightarrow>
              bindP (notify (GroovyScriptExecutionFailed_event j t source n logs)) (\<lambda>_. ret ((empty_result, None), errs))
          | _ \<Rightarrow> ret ((empty_result, None), errs)))"

section \<open>The handler with all of its statements\<close>

text \<open>The statements after \<open>r.reconcile\<close>: the branch for a failure returns; what follows tests the error again.\<close>

definition handle_outcome ::
  "'w env \<Rightarrow> string \<Rightarrow> string \<Rightarrow> reconcile_errors \<Rightarrow> (result \<times> goerr option) \<times> jenkins \<times> config_map \<Rightarrow>
    ('w, ((result \<times> goerr option) \<times> config_map) \<times> reconcile_errors) prog" where
  "handle_outcome E ns name errs = (\<lambda>((res, err), j, dcm).
     bindP (case err of Some e \<Rightarrow> bindP (report_failure E j res e) (\<lambda>r. ret (Some r)) | None \<Rightarrow> ret None) (\<lambda>early.
     case early of
       Some r \<Rightarrow> ret ((r, dcm), errs)
     | None \<Rightarrow>
         (case err of
            Some e \<Rightarrow> bindP (after_failure name j e errs) (\<lambda>(r, errs). ret ((r, dcm), errs))
          | None \<Rightarrow> bindP (report_success E ns name j) (\<lambda>r. ret ((r, dcm), errs)))))"

definition ReconcileWhole ::
  "'w env \<Rightarrow> base_deps \<Rightarrow> api_settings \<Rightarrow> (volume \<Rightarrow> string) \<Rightarrow> string \<Rightarrow> string \<Rightarrow> config_map \<Rightarrow> reconcile_errors \<Rightarrow>
    ('w, ((result \<times> goerr option) \<times> config_map) \<times> reconcile_errors) prog" where
  "ReconcileWhole E D st showVolume ns name dcm errs =
     bindP (client_get E KJenkins as_jenkins ns name) (\<lambda>r. case r of
       Inl e \<Rightarrow> ret (((empty_result, if IsNotFound e then None else Some e), dcm), errs)
     | Inr j \<Rightarrow>
         bindP (initialize_status E ns name (ensure_status j)) (\<lambda>r. case r of
           Inl e \<Rightarrow> ret (((requeue_result, Some e), dcm), errs)
         | Inr j \<Rightarrow> bindP (reconcile E D st showVolume ns name dcm j) (handle_outcome E ns name errs)))"

section \<open>The statements behind the failure branch are never reached\<close>

lemma handle_outcome_live:
  "handle_outcome E ns name errs ((res, err), j, dcm) = bindP (case err of
      Some e \<Rightarrow> report_failure E j res e | None \<Rightarrow> report_success E ns name j) (\<lambda>r. ret ((r, dcm), errs))"
  by (cases err) (simp_all add: handle_outcome_def bindP_assoc bindP_ret)

lemma case_bindP:
  "bindP (case q of Inl e \<Rightarrow> f e | Inr a \<Rightarrow> g a) h = (case q of Inl e \<Rightarrow> bindP (f e) h | Inr a \<Rightarrow> bindP (g a) h)"
  "bindP (case v of None \<Rightarrow> m | Some b \<Rightarrow> k b) h = (case v of None \<Rightarrow> bindP m h | Some b \<Rightarrow> bindP (k b) h)"
  by (simp_all split: sum.split option.split)

lemma whole_is_live:
  "ReconcileWhole E D st showVolume ns name dcm errs =
    bindP (JenkinsReconcile E D st showVolume ns name dcm) (\<lambda>x. ret (x, errs))"
proof -
  have outcome: "handle_outcome E ns name errs = (\<lambda>x.
      bindP ((\<lambda>((res, err), j, dcm). case err of
          Some e \<Rightarrow> bindP (report_failure E j res e) (\<lambda>r. ret (r, dcm))
        | None \<Rightarrow> bindP (report_success E ns name j) (\<lambda>r. ret (r, dcm))) x) (\<lambda>x. ret (x, errs)))"
  proof
    fix x :: "(result \<times> goerr option) \<times> jenkins \<times> config_map"
    obtain res err j dcm where "x = ((res, err), j, dcm)" by (cases x) auto
    then show "handle_outcome E ns name errs x =
      bindP ((\<lambda>((res, err), j, dcm). case err of
          Some e \<Rightarrow> bindP (report_failure E j res e) (\<lambda>r. ret (r, dcm))
        | None \<Rightarrow> bindP (report_success E ns name j) (\<lambda>r. ret (r, dcm))) x) (\<lambda>x. ret (x, errs))"
      by (cases err) (simp_all add: handle_outcome_live bindP_assoc)
  qed
  show ?thesis
    unfolding ReconcileWhole_def JenkinsReconcile_def outcome bindP_assoc case_bindP bindP_ret ..
qed

section \<open>What the counter would do\<close>

text \<open>Equal errors are counted: the limit would be reached with the tenth in a row.\<close>

fun count_errors :: "string \<Rightarrow> goerr list \<Rightarrow> reconcile_errors \<Rightarrow> reconcile_errors" where
  "count_errors name [] errs = errs"
| "count_errors name (e # es) errs = count_errors name es (errs(name \<mapsto> count_error name e errs))"

lemma count_errors_same:
  assumes "errs name = Some prev" and "list_all (\<lambda>e. err_text e = err_text (rcl_err prev)) es"
  shows "\<exists>last'. count_errors name es errs name = Some last' \<and> rcl_err last' = rcl_err prev \<and>
    rcl_counter last' = rcl_counter prev + of_nat (length es)"
  using assms
proof (induction es arbitrary: errs prev)
  case (Cons e es)
  let ?last = "prev\<lparr>rcl_counter := rcl_counter prev + 1\<rparr>"
  from Cons.prems have count: "count_error name e errs = ?last" by (simp add: count_error_def)
  have "(errs(name \<mapsto> ?last)) name = Some ?last" and "list_all (\<lambda>e. err_text e = err_text (rcl_err ?last)) es"
    using Cons.prems by simp_all
  from Cons.IH [where errs = "errs(name \<mapsto> ?last)", OF this] obtain last' where "count_errors name es (errs(name \<mapsto> ?last)) name = Some last'"
    and "rcl_err last' = rcl_err ?last" and "rcl_counter last' = rcl_counter ?last + of_nat (length es)" by blast
  then show ?case unfolding count_errors.simps count by (intro exI [of _ last'] conjI) simp_all
qed simp

lemma tenth_failure_gives_up:
  assumes "errs name = None" and "list_all (\<lambda>e'. err_text e' = err_text e) es" and "length es < 2 ^ 63"
  shows "\<exists>prev. count_errors name (e # es) errs name = Some prev \<and>
    (reconcileFailLimit \<le> rcl_counter prev \<longleftrightarrow> 10 \<le> Suc (length es))"
proof -
  let ?last = "\<lparr>rcl_err = e, rcl_counter = 1\<rparr>"
  have count: "count_error name e errs = ?last" using assms(1) by (simp add: count_error_def)
  obtain prev where "count_errors name (e # es) errs name = Some prev"
    and "rcl_counter prev = 1 + of_nat (length es)"
    using count_errors_same [of "errs(name \<mapsto> ?last)" name ?last es] assms(2) unfolding count_errors.simps count by auto
  moreover have "unat (of_nat (Suc (length es)) :: 64 word) = Suc (length es)"
    using assms(3) by (simp add: unat_of_nat take_bit_nat_eq_self del: of_nat_Suc)
  ultimately show ?thesis by (auto simp: reconcileFailLimit_def word_le_nat_alt)
qed

end
