(* ===== verification/Md5.thy ===== *)
theory Md5
  imports Main "HOL-Library.Word"
begin

text \<open>
  The checksum of Go's \<^verbatim>\<open>crypto/md5\<close> (RFC 1321), with which the image controller marks its builds:
  on 32-bit words whose additions wrap, executable.
\<close>

unbundle bit_operations_syntax

type_synonym w32 = "32 word"

definition md5_K :: "w32 list" where
  "md5_K = [
     0xd76aa478, 0xe8c7b756, 0x242070db, 0xc1bdceee, 0xf57c0faf, 0x4787c62a, 0xa8304613, 0xfd469501,
     0x698098d8, 0x8b44f7af, 0xffff5bb1, 0x895cd7be, 0x6b901122, 0xfd987193, 0xa679438e, 0x49b40821,
     0xf61e2562, 0xc040b340, 0x265e5a51, 0xe9b6c7aa, 0xd62f105d, 0x02441453, 0xd8a1e681, 0xe7d3fbc8,
     0x21e1cde6, 0xc33707d6, 0xf4d50d87, 0x455a14ed, 0xa9e3e905, 0xfcefa3f8, 0x676f02d9, 0x8d2a4c8a,
     0xfffa3942, 0x8771f681, 0x6d9d6122, 0xfde5380c, 0xa4beea44, 0x4bdecfa9, 0xf6bb4b60, 0xbebfbc70,
     0x289b7ec6, 0xeaa127fa, 0xd4ef3085, 0x04881d05, 0xd9d4d039, 0xe6db99e5, 0x1fa27cf8, 0xc4ac5665,
     0xf4292244, 0x432aff97, 0xab9423a7, 0xfc93a039, 0x655b59c3, 0x8f0ccc92, 0xffeff47d, 0x85845dd1,
     0x6fa87e4f, 0xfe2ce6e0, 0xa3014314, 0x4e0811a1, 0xf7537e82, 0xbd3af235, 0x2ad7d2bb, 0xeb86d391]"

definition md5_shift :: "nat \<Rightarrow> nat" where
  "md5_shift i =
     (if i < 16 then [7, 12, 17, 22] ! (i mod 4)
      else if i < 32 then [5, 9, 14, 20] ! (i mod 4)
      else if i < 48 then [4, 11, 16, 23] ! (i mod 4)
      else [6, 10, 15, 21] ! (i mod 4))"

text \<open>The mixing function of round \<open>i\<close>, and the word of the block it reads.\<close>

definition md5_mix :: "nat \<Rightarrow> w32 \<Rightarrow> w32 \<Rightarrow> w32 \<Rightarrow> w32 \<times> nat" where
  "md5_mix i b c d =
     (if i < 16 then ((b AND c) OR (NOT b AND d), i)
      else if i < 32 then ((d AND b) OR (NOT d AND c), (5 * i + 1) mod 16)
      else if i < 48 then (b XOR c XOR d, (3 * i + 5) mod 16)
      else (c XOR (b OR NOT d), (7 * i) mod 16))"

definition rotl32 :: "nat \<Rightarrow> w32 \<Rightarrow> w32" where
  "rotl32 n w = push_bit n w OR drop_bit (32 - n) w"

type_synonym md5_state = "w32 \<times> w32 \<times> w32 \<times> w32"

definition md5_step :: "w32 list \<Rightarrow> nat \<Rightarrow> md5_state \<Rightarrow> md5_state" where
  "md5_step M i s = (case s of (a, b, c, d) \<Rightarrow>
     case md5_mix i b c d of (f, g) \<Rightarrow>
       (d, b + rotl32 (md5_shift i) (f + a + md5_K ! i + M ! g), b, c))"

definition md5_block :: "md5_state \<Rightarrow> w32 list \<Rightarrow> md5_state" where
  "md5_block s M = (case (s, fold (md5_step M) [0..<64] s) of
     ((a, b, c, d), (a', b', c', d')) \<Rightarrow> (a + a', b + b', c + c', d + d'))"

text \<open>Little-endian bytes, as numbers below 256.\<close>

fun le_bytes :: "nat \<Rightarrow> nat \<Rightarrow> nat list" where
  "le_bytes 0 n = []"
| "le_bytes (Suc k) n = n mod 256 # le_bytes k (n div 256)"

definition word_bytes :: "w32 \<Rightarrow> nat list" where
  "word_bytes w = map (\<lambda>i. unat (take_bit 8 (drop_bit (8 * i) w))) [0, 1, 2, 3]"

definition bytes_word :: "nat list \<Rightarrow> w32" where
  "bytes_word bs = foldr (\<lambda>b w. word_of_nat b OR push_bit 8 w) bs 0"

text \<open>A one bit, zeros, and the length of the message in bits, as eight bytes (of
  a longer number the low ones).\<close>

definition md5_pad :: "nat list \<Rightarrow> nat list" where
  "md5_pad bs = bs @ 128 # replicate ((119 - length bs mod 64) mod 64) 0 @ le_bytes 8 (8 * length bs)"

text \<open>Cutting into pieces of \<open>n\<close>, for \<open>k\<close> pieces.\<close>

fun pieces :: "nat \<Rightarrow> nat \<Rightarrow> 'a list \<Rightarrow> 'a list list" where
  "pieces 0 n xs = []"
| "pieces (Suc k) n xs = take n xs # pieces k n (drop n xs)"

definition md5_words :: "nat list \<Rightarrow> w32 list" where
  "md5_words block = map (\<lambda>p. bytes_word p) (pieces 16 4 block)"

definition md5_init :: md5_state where
  "md5_init = (0x67452301, 0xefcdab89, 0x98badcfe, 0x10325476)"

definition md5_bytes :: "nat list \<Rightarrow> nat list" where
  "md5_bytes bs = (let padded = md5_pad bs in
     case foldl md5_block md5_init (map md5_words (pieces (length padded div 64) 64 padded)) of
       (a, b, c, d) \<Rightarrow> concat (map (\<lambda>w. word_bytes w) [a, b, c, d]))"

definition hex_alphabet :: string where
  "hex_alphabet = ''0123456789abcdef''"

definition hex_digit :: "nat \<Rightarrow> char" where
  "hex_digit n = hex_alphabet ! n"

text \<open>\<open>fmt.Sprintf("%x", md5.Sum([]byte(s)))\<close>.\<close>

definition md5_hex :: "string \<Rightarrow> string" where
  "md5_hex s = concat (map (\<lambda>b. [hex_digit (b div 16), hex_digit (b mod 16)]) (md5_bytes (map of_char s)))"

section \<open>Lemmas\<close>

lemma length_le_bytes [simp]: "length (le_bytes k n) = k"
  by (induction k arbitrary: n) auto

lemma length_word_bytes [simp]: "length (word_bytes w) = 4"
  by (simp add: word_bytes_def)

lemma word_bytes_byte: "b \<in> set (word_bytes w) \<Longrightarrow> b < 256"
proof -
  have "unat (take_bit 8 v) < 256" for v :: w32
    using take_bit_nat_less_exp [of 8 "unat v"] by (simp add: unsigned_take_bit_eq)
  then show "b \<in> set (word_bytes w) \<Longrightarrow> b < 256" by (auto simp: word_bytes_def)
qed

text \<open>The padded message is a whole number of blocks.\<close>

lemma md5_pad_blocks: "length (md5_pad bs) mod 64 = 0"
proof -
  define q r where "q = length bs div 64" and "r = length bs mod 64"
  have n: "length bs = 64 * q + r" and r: "r < 64" by (simp_all add: q_def r_def)
  have "length (md5_pad bs) = 64 * q + (r + (9 + (119 - r) mod 64))"
    by (simp add: md5_pad_def r_def [symmetric] n [symmetric])
  moreover have "r + (9 + (119 - r) mod 64) = 64 \<or> r + (9 + (119 - r) mod 64) = 128"
  proof (cases "r \<le> 55")
    case True
    then have "(119 - r) mod 64 = 55 - r" by (simp add: le_mod_geq)
    with True show ?thesis by simp
  next
    case False
    with r show ?thesis by simp
  qed
  ultimately show ?thesis by (elim disjE) simp_all
qed

lemma length_md5_hex: "length (md5_hex s) = 32"
proof -
  have "length (md5_bytes bs) = 16" for bs by (simp add: md5_bytes_def Let_def split: prod.split)
  moreover have "length (concat (map (\<lambda>b. [f b, g b]) xs)) = 2 * length xs" for f g :: "nat \<Rightarrow> char" and xs
    by (induction xs) auto
  ultimately show ?thesis by (simp add: md5_hex_def)
qed

text \<open>The digits are hexadecimal.\<close>

lemma hex_digit_range: "n < 16 \<Longrightarrow> hex_digit n \<in> set hex_alphabet"
  unfolding hex_digit_def by (intro nth_mem) (simp add: hex_alphabet_def)

lemma hex_bytes:
  assumes "\<And>b. b \<in> set bs \<Longrightarrow> b < 256"
  shows "set (concat (map (\<lambda>b. [hex_digit (b div 16), hex_digit (b mod 16)]) bs)) \<subseteq> set hex_alphabet"
  using assms by (induction bs) (simp_all add: hex_digit_range less_mult_imp_div_less)

lemma md5_hex_digits: "set (md5_hex s) \<subseteq> set hex_alphabet"
proof -
  have "b < 256" if "b \<in> set (md5_bytes bs)" for b bs
    using that unfolding md5_bytes_def Let_def by (auto split: prod.splits dest: word_bytes_byte)
  then show ?thesis unfolding md5_hex_def by (rule hex_bytes)
qed

section \<open>A test vector\<close>

text \<open>
  The block of the empty message, sixteen steps at a time.  The words are evaluated as integers
  reduced to 32 bits, so that their numerals stay short.
\<close>

definition empty_block :: "w32 list" where
  "empty_block = 128 # replicate 15 0"

lemma word_reduced: "word_of_int (take_bit 32 (uint w)) = (w :: w32)"
  by (rule bit_word_eqI) (simp add: bit_simps)

lemma rotl32_int: "rotl32 n w = word_of_int (take_bit 32 (push_bit n (uint w) OR drop_bit (32 - n) (uint w)))"
  unfolding rotl32_def by (rule bit_word_eqI) (auto simp: bit_simps)

lemma md5_step_eval: "md5_step M i (a, b, c, d) = (case md5_mix i b c d of (f, g) \<Rightarrow>
   (d, word_of_int (take_bit 32 (uint (b + rotl32 (md5_shift i) (f + a + md5_K ! i + M ! g)))), b, c))"
  unfolding word_reduced by (simp add: md5_step_def)

lemmas md5_evaluate = md5_step_eval md5_mix_def md5_shift_def rotl32_int md5_K_def empty_block_def

lemma sixteen: "[0..<64] = [0, 1, 2, 3, 4, 5, 6, 7, 8, 9, 10, 11, 12, 13, 14, 15] @
    [16, 17, 18, 19, 20, 21, 22, 23, 24, 25, 26, 27, 28, 29, 30, 31] @
    [32, 33, 34, 35, 36, 37, 38, 39, 40, 41, 42, 43, 44, 45, 46, 47] @
    [48, 49, 50, 51, 52, 53, 54, 55, 56, 57, 58, 59, 60, 61, 62, 63]"
  by code_simp

lemma md5_round1: "fold (md5_step empty_block) [0, 1, 2, 3, 4, 5, 6, 7, 8, 9, 10, 11, 12, 13, 14, 15] (1732584193, 4023233417, 2562383102, 271733878) = (4117527793, 3598818410, 1520779125, 927548327)"
  by (simp add: md5_evaluate)
lemma md5_round2: "fold (md5_step empty_block) [16, 17, 18, 19, 20, 21, 22, 23, 24, 25, 26, 27, 28, 29, 30, 31] (4117527793, 3598818410, 1520779125, 927548327) = (326135862, 2720030495, 473023364, 2927104987)"
  by (simp add: md5_evaluate)
lemma md5_round3: "fold (md5_step empty_block) [32, 33, 34, 35, 36, 37, 38, 39, 40, 41, 42, 43, 44, 45, 46, 47] (326135862, 2720030495, 473023364, 2927104987) = (1062596093, 3397201341, 1759006370, 581115732)"
  by (simp add: md5_evaluate)
lemma md5_round4: "fold (md5_step empty_block) [48, 49, 50, 51, 52, 53, 54, 55, 56, 57, 58, 59, 60, 61, 62, 63] (1062596093, 3397201341, 1759006370, 581115732) = (1917254355, 350508294, 4283343851, 1846584438)"
  by (simp add: md5_evaluate)

lemma md5_padded_empty: "md5_pad [] = 128 # replicate 63 0" "md5_words (128 # replicate 63 0) = empty_block"
  by code_simp+

lemma md5_empty: "md5_hex [] = ''d41d8cd98f00b204e9800998ecf8427e''"
proof -
  have "fold (md5_step empty_block) [0..<64] md5_init = (1917254355, 350508294, 4283343851, 1846584438)"
    unfolding sixteen md5_init_def fold_append comp_apply md5_round1 md5_round2 md5_round3 md5_round4 ..
  then have "md5_block md5_init empty_block = (1917254355 + 0x67452301, 350508294 + 0xefcdab89, 4283343851 + 0x98badcfe, 1846584438 + 0x10325476)"
    by (simp add: md5_block_def md5_init_def)
  then have "md5_bytes [] = [212, 29, 140, 217, 143, 0, 178, 4, 233, 128, 9, 152, 236, 248, 66, 126]"
    by (simp add: md5_bytes_def md5_padded_empty word_bytes_def)
  then show ?thesis by (simp add: md5_hex_def hex_digit_def hex_alphabet_def)
qed

end
