(* ===== verification/Image_Builder.thy ===== *)
theory Image_Builder
  imports Pod_Resources Object_Resources Kube_Ops
begin

text \<open>
  What the controller of a \<open>JenkinsImage\<close> creates: the config map with the Dockerfile and the pod
  that builds it (\<^verbatim>\<open>resources/builder.go\<close>), the lookup of the secret it pushes with
  (\<^verbatim>\<open>resources/secret.go\<close>) and the check for the image registry of OpenShift
  (\<^verbatim>\<open>resources/registry.go\<close>).
\<close>

section \<open>Constants\<close>

definition BuilderDockerfileArg :: string where "BuilderDockerfileArg = ''--dockerfile=/dockerfile/Dockerfile''"
definition BuilderContextDirArg :: string where "BuilderContextDirArg = ''--context=dir://workspace/''"
definition BuilderNoPushArg :: string where "BuilderNoPushArg = ''--no-push''"
definition BuilderDestinationArg :: string where "BuilderDestinationArg = ''--destination''"
definition BuilderDigestFileArg :: string where "BuilderDigestFileArg = ''--digest-file=/dev/termination-log''"
definition BuilderReproducibleArg :: string where "BuilderReproducibleArg = ''--reproducible''"
definition BuilderSuffix :: string where "BuilderSuffix = ''builder''"
definition DockerfileStorageSuffix :: string where "DockerfileStorageSuffix = ''dockerfile-storage''"
definition DockerSecretSuffix :: string where "DockerSecretSuffix = ''docker-secret''"
definition DockerfileNameSuffix :: string where "DockerfileNameSuffix = ''dockerfile''"
definition JenkinsImageBuilderImage :: string where
  "JenkinsImageBuilderImage = ''quay.io/redhat-developer/openshift-jenkins-image-builder:v1.3.0''"
definition JenkinsImageBuilderName :: string where "JenkinsImageBuilderName = ''jenkins-image-builder''"
definition JenkinsImageDefaultBaseImage :: string where "JenkinsImageDefaultBaseImage = ''jenkins/jenkins:lts''"
definition DefaultImageRegistry :: string where
  "DefaultImageRegistry = ''image-registry.openshift-image-registry.svc:5000''"
definition DefaultImageTag :: string where "DefaultImageTag = ''latest''"
definition DockerfileName :: string where "DockerfileName = ''Dockerfile''"
definition JenkinsImageBuilderEnv :: string where "JenkinsImageBuilderEnv = ''JENKINS_IMAGE_BUILDER_NAME''"
definition ServiceAccountNameAnnotation :: string where
  "ServiceAccountNameAnnotation = ''kubernetes.io/service-account.name''"
definition BuilderServiceAccountName :: string where "BuilderServiceAccountName = ''builder''"
definition DefaultOpenShiftImageRegistryNamespace :: string where
  "DefaultOpenShiftImageRegistryNamespace = ''openshift-image-registry''"

text \<open>\<open>NameWithSuffixFormat\<close>.\<close>

definition suffixed :: "string \<Rightarrow> string \<Rightarrow> string" where
  "suffixed name sfx = name @ ''-'' @ sfx"

section \<open>The Dockerfile\<close>

definition getDefaultedBaseImage :: "jenkins_image \<Rightarrow> string" where
  "getDefaultedBaseImage cr = (if length (im_name (ji_from cr)) \<noteq> 0 then im_name (ji_from cr) else JenkinsImageDefaultBaseImage)"

fun plugins_line :: "image_plugin list \<Rightarrow> string" where
  "plugins_line [] = []"
| "plugins_line (v # vs) = (ip_name v @ '':'' @ ip_version v) @ '' '' @ plugins_line vs"

definition getJenkinsPluginsList :: "jenkins_image \<Rightarrow> string" where
  "getJenkinsPluginsList cr = plugins_line (ji_plugins cr)"

definition dockerfile_text :: "string \<Rightarrow> string \<Rightarrow> string" where
  "dockerfile_text base plugins =
     ''FROM '' @ base @ nl @
     ''RUN curl -o /tmp/install-plugins.sh https://raw.githubusercontent.com/jenkinsci/docker/master/install-plugins.sh'' @ nl @
     ''RUN chmod +x /tmp/install-plugins.sh'' @ nl @
     ''RUN install-plugins.sh '' @ plugins @ '' ''"

definition GetDockerfileConfigMapName :: "jenkins_image \<Rightarrow> string" where
  "GetDockerfileConfigMapName cr = suffixed (om_name (ji_meta cr)) DockerfileNameSuffix"

definition NewDockerfileConfigMap :: "jenkins_image \<Rightarrow> config_map" where
  "NewDockerfileConfigMap cr =
     \<lparr>cm_meta = empty_meta\<lparr>om_name := suffixed (om_name (ji_meta cr)) DockerfileNameSuffix, om_namespace := om_namespace (ji_meta cr)\<rparr>,
      cm_data = Some [(DockerfileName, dockerfile_text (getDefaultedBaseImage cr) (getJenkinsPluginsList cr))]\<rparr>"

section \<open>The push secret\<close>

definition is_builder_secret :: "secret \<Rightarrow> bool" where
  "is_builder_secret s \<longleftrightarrow> go_get (om_annotations (sec_meta s)) ServiceAccountNameAnnotation = Some BuilderServiceAccountName"

definition GetDockerBuilderSecretName :: "'w env \<Rightarrow> string \<Rightarrow> ('w, goerr + string) prog" where
  "GetDockerBuilderSecretName E ns =
     bindE (client_list E KSecret as_secret (Some ns) None) (\<lambda>items.
       ret (Inr (case find is_builder_secret items of Some s \<Rightarrow> om_name (sec_meta s) | None \<Rightarrow> [])))"

definition getPushSecretName :: "'w env \<Rightarrow> jenkins_image \<Rightarrow> ('w, goerr + string) prog" where
  "getPushSecretName E cr =
     (if length (im_secret (ji_to cr)) \<noteq> 0 then ret (Inr (im_secret (ji_to cr)))
      else GetDockerBuilderSecretName E (om_namespace (ji_meta cr)))"

section \<open>The pod\<close>

definition plain_volume :: "string \<Rightarrow> volume" where
  "plain_volume n = \<lparr>vol_name = n, vol_emptyDir = False, vol_configMap = None, vol_secret = None, vol_pvc = None, vol_other = None\<rparr>"

text \<open>An error and an empty name both mean: no secret.\<close>

definition secret_name :: "goerr + string \<Rightarrow> string option" where
  "secret_name r = (case r of Inl e \<Rightarrow> None | Inr n \<Rightarrow> if length n = 0 then None else Some n)"

definition getVolumes :: "'w env \<Rightarrow> jenkins_image \<Rightarrow> ('w, volume list) prog" where
  "getVolumes E instance_of =
     (let name = om_name (ji_meta instance_of);
          storage = (plain_volume (suffixed name DockerfileStorageSuffix))\<lparr>vol_emptyDir := True\<rparr>;
          configName = GetDockerfileConfigMapName instance_of;
          config = (plain_volume configName)\<lparr>vol_configMap := Some \<lparr>cms_name = configName, cms_mode = None, cms_optional = None\<rparr>\<rparr> in
      bindP (getPushSecretName E instance_of) (\<lambda>r. ret ([storage, config] @ (case secret_name r of
          None \<Rightarrow> []
        | Some secretName \<Rightarrow> [(plain_volume (suffixed name DockerSecretSuffix))\<lparr>vol_secret :=
            Some \<lparr>ss_name = secretName, ss_mode = None, ss_optional = None\<rparr>\<rparr>]))))"

definition getVolumesMounts :: "'w env \<Rightarrow> jenkins_image \<Rightarrow> ('w, volume_mount list) prog" where
  "getVolumesMounts E cr =
     (let name = om_name (ji_meta cr);
          storage = getVolumeMount (suffixed name DockerfileStorageSuffix) ''/workspace'' False;
          config = getVolumeMount (suffixed name DockerfileNameSuffix) ''/dockerfile'' False in
      bindP (getPushSecretName E cr) (\<lambda>r. ret ([storage, config] @ (case secret_name r of
          None \<Rightarrow> []
        | Some n \<Rightarrow> [getVolumeMount (suffixed name DockerSecretSuffix) ''/kaniko/.docker/'' False]))))"

definition getJenkinsImageBuilderImage :: "(string \<Rightarrow> string) \<Rightarrow> string" where
  "getJenkinsImageBuilderImage getenv =
     (let img = getenv JenkinsImageBuilderEnv in if length img \<noteq> 0 then img else JenkinsImageBuilderImage)"

text \<open>\<open>registry\<close> is \<open>IsImageRegistryAvailableCached()\<close>.\<close>

definition GetDestinationRepository :: "bool \<Rightarrow> jenkins_image \<Rightarrow> string" where
  "GetDestinationRepository registry cr =
     (let destination = ji_to cr in
      if length (im_registry destination) = 0 then
        (if registry then BuilderDestinationArg @ ''='' @ DefaultImageRegistry @ ''/'' @ om_namespace (ji_meta cr) @ ''/'' @
           om_name (ji_meta cr) @ '':'' @ DefaultImageTag
         else BuilderNoPushArg)
      else BuilderDestinationArg @ ''='' @ im_registry destination @ ''/'' @ im_name destination @ '':'' @ im_tag destination)"

definition getBuilderPod ::
  "(string \<Rightarrow> string) \<Rightarrow> string \<Rightarrow> jenkins_image \<Rightarrow> string list \<Rightarrow> volume_mount list \<Rightarrow> volume list \<Rightarrow> pod" where
  "getBuilderPod getenv name cr builderPodArgs volumeMounts volumes =
     \<lparr>pod_meta = empty_meta\<lparr>om_name := name, om_namespace := om_namespace (ji_meta cr)\<rparr>,
      pod_spec_of = empty_pod_spec\<lparr>psp_restartPolicy := ''Never'',
        psp_containers := [empty_container\<lparr>c_name := JenkinsImageBuilderName,
          c_image := getJenkinsImageBuilderImage getenv,
          c_args := builderPodArgs,
          c_volumeMounts := volumeMounts\<rparr>],
        psp_volumes := volumes\<rparr>,
      pod_phase = [], pod_containerStatuses = []\<rparr>"

definition NewBuilderPod :: "'w env \<Rightarrow> bool \<Rightarrow> jenkins_image \<Rightarrow> ('w, pod) prog" where
  "NewBuilderPod E registry cr =
     (let name = suffixed (om_name (ji_meta cr)) BuilderSuffix;
          builderPodArgs = [BuilderReproducibleArg, BuilderDockerfileArg, BuilderContextDirArg, BuilderDigestFileArg] @
            [GetDestinationRepository registry cr] in
      bindP (getVolumes E cr) (\<lambda>volumes.
      bindP (getVolumesMounts E cr) (\<lambda>volumeMounts.
      ret (getBuilderPod (e_getenv E) name cr builderPodArgs volumeMounts volumes))))"

section \<open>The image registry\<close>

text \<open>The two package variables.\<close>

record registry_check =
  isImageRegistryAvailable :: bool
  imageRegistryAlreadyChecked :: bool

definition initial_check :: registry_check where
  "initial_check = \<lparr>isImageRegistryAvailable = False, imageRegistryAlreadyChecked = False\<rparr>"

definition IsImageRegistryAvailableCached :: "registry_check \<Rightarrow> bool" where
  "IsImageRegistryAvailableCached v = isImageRegistryAvailable v"

text \<open>The text of \<open>ErrCacheNotStarted\<close>.\<close>

definition cache_not_started :: string where
  "cache_not_started = ''the cache is not started, can not read objects''"

text \<open>
  An object of a failed read keeps its zero value: the name of the namespace and the cluster IP
  are empty then.
\<close>

definition IsImageRegistryAvailable :: "'w env \<Rightarrow> registry_check \<Rightarrow> ('w, bool \<times> registry_check) prog" where
  "IsImageRegistryAvailable E v =
     (if imageRegistryAlreadyChecked v then ret (isImageRegistryAvailable v, v)
      else
        bindP (client_get E KNamespace as_namespace [] DefaultOpenShiftImageRegistryNamespace) (\<lambda>r.
        bindP
          (if (case r of Inl e \<Rightarrow> IsNotFound e | Inr a \<Rightarrow> False) then ret (v\<lparr>isImageRegistryAvailable := False\<rparr>)
           else
             bindP (client_get E KService as_service (case r of Inl e \<Rightarrow> [] | Inr a \<Rightarrow> om_name (ns_meta a)) ''image-registry'') (\<lambda>q.
             if (case q of Inl e \<Rightarrow> IsNotFound e | Inr a \<Rightarrow> False) then ret (v\<lparr>isImageRegistryAvailable := False\<rparr>)
             else
               let ip = (case q of Inl e \<Rightarrow> [] | Inr a \<Rightarrow> svc_clusterIP a) in
               ret (v\<lparr>isImageRegistryAvailable := (length ip \<noteq> 0 \<and> ip \<noteq> ''None''), imageRegistryAlreadyChecked := False\<rparr>)))
          (\<lambda>v. let v = (case r of
                   Inl e \<Rightarrow> if err_text e \<noteq> cache_not_started then v\<lparr>imageRegistryAlreadyChecked := False\<rparr> else v
                 | Inr a \<Rightarrow> v) in
               ret (isImageRegistryAvailable v, v))))"

end
