(* ===== verification/Image_Controller.thy ===== *)
theory Image_Controller
  imports Image_Builder Md5 Jenkins_Controller
begin

text \<open>
  The controller of the \<open>JenkinsImage\<close> resource (\<^verbatim>\<open>controllers/jenkinsimage_controller.go\<close>).  A pass
  creates the config map, then the pod, then starts a goroutine that waits for the pod and records
  the build.  The goroutine is a program of its own, on the pod and the \<open>JenkinsImage\<close> as the pass
  read them; a pass returns what it starts the goroutine with.
\<close>

section \<open>Waiting for the pod\<close>

text \<open>One evaluation of the condition; only the phase \<open>Succeeded\<close> ends the wait.\<close>

definition isPodCompleted :: "'w env \<Rightarrow> string \<Rightarrow> string \<Rightarrow> ('w, goerr + bool) prog" where
  "isPodCompleted E podName ns =
     bindE (client_get E KPod as_pod ns podName) (\<lambda>p. ret (Inr (pod_phase p = ''Succeeded'')))"

text \<open>
  \<open>wait.PollUntil\<close> without a stop channel: the condition at every tick until it holds or fails.
  The loop need not end: \<open>n\<close> bounds the ticks, and \<open>None\<close> means that it is still waiting after
  them.
\<close>

fun PollUntil :: "nat \<Rightarrow> ('w, goerr + bool) prog \<Rightarrow> ('w, (goerr + unit) option) prog" where
  "PollUntil 0 condition = ret None"
| "PollUntil (Suc n) condition = bindP condition (\<lambda>r. case r of
     Inl e \<Rightarrow> ret (Some (Inl e))
   | Inr ok \<Rightarrow> if ok then ret (Some (Inr ())) else PollUntil n condition)"

definition WaitForPodIsCompleted :: "nat \<Rightarrow> 'w env \<Rightarrow> string \<Rightarrow> string \<Rightarrow> ('w, (goerr + unit) option) prog" where
  "WaitForPodIsCompleted n E podName ns = PollUntil n (isPodCompleted E podName ns)"

text \<open>
  The wait for a running pod, which nothing calls.  \<open>wait.PollImmediate\<close> evaluates the condition at
  once, then at each of the \<open>n\<close> ticks that its reader receives before the timeout closes the
  channel, and once more after that.
\<close>

definition ErrPodCompleted :: goerr where
  "ErrPodCompleted = TextErr ''pod ran to completion''"

definition ErrWaitTimeout :: goerr where
  "ErrWaitTimeout = TextErr ''timed out waiting for the condition''"

definition isPodRunning :: "'w env \<Rightarrow> string \<Rightarrow> string \<Rightarrow> ('w, goerr + bool) prog" where
  "isPodRunning E podName ns =
     bindE (client_get E KPod as_pod ns podName) (\<lambda>p.
       if pod_phase p = ''Running'' then ret (Inr True)
       else if pod_phase p \<in> set [''Failed'', ''Succeeded'', ''Pending'', ''Unknown''] then ret (Inl ErrPodCompleted)
       else ret (Inr False))"

primrec WaitFor :: "nat \<Rightarrow> ('w, goerr + bool) prog \<Rightarrow> ('w, goerr + unit) prog" where
  "WaitFor 0 condition = bindE condition (\<lambda>ok. ret (if ok then Inr () else Inl ErrWaitTimeout))"
| "WaitFor (Suc n) condition = bindE condition (\<lambda>ok. if ok then ret (Inr ()) else WaitFor n condition)"

definition PollImmediate :: "nat \<Rightarrow> ('w, goerr + bool) prog \<Rightarrow> ('w, goerr + unit) prog" where
  "PollImmediate n condition = bindE condition (\<lambda>ok. if ok then ret (Inr ()) else WaitFor n condition)"

definition WaitForPodRunning :: "nat \<Rightarrow> 'w env \<Rightarrow> string \<Rightarrow> string \<Rightarrow> ('w, goerr + unit) prog" where
  "WaitForPodRunning n E podName ns = PollImmediate n (isPodRunning E podName ns)"

section \<open>Recording the build\<close>

definition YamlMultilineDataFieldCutSet :: string where
  "YamlMultilineDataFieldCutSet = ''|'' @ nl @ '' ''"

text \<open>The config map is looked for in the namespace that has the \<open>name\<close> of the image.\<close>

definition getDockerfileContent :: "'w env \<Rightarrow> jenkins_image \<Rightarrow> ('w, goerr + string) prog" where
  "getDockerfileContent E i =
     bindE (client_get E KConfigMap as_config_map (om_name (ji_meta i)) (GetDockerfileConfigMapName i)) (\<lambda>cm.
       ret (Inr (Trim (case go_get (cm_data cm) DockerfileName of None \<Rightarrow> [] | Some t \<Rightarrow> t) YamlMultilineDataFieldCutSet)))"

fun contains :: "image_build list \<Rightarrow> image_build \<Rightarrow> bool" where
  "contains [] e = False"
| "contains (a # s) e = (if a = e then True else contains s e)"

text \<open>The statements after the wait, with the error of the update (which is only logged).\<close>

definition record_build :: "'w env \<Rightarrow> pod \<Rightarrow> jenkins_image \<Rightarrow> ('w, unit) prog" where
  "record_build E p i =
     (if length (pod_containerStatuses p) = 1 then
        (case hd (pod_containerStatuses p) of
           None \<Rightarrow> ret ()
         | Some message \<Rightarrow>
             bindP (getDockerfileContent E i) (\<lambda>content.
               let builtImage = Trim message YamlMultilineDataFieldCutSet;
                   dockerfileMD5 = Trim (md5_hex (case content of Inl e \<Rightarrow> [] | Inr t \<Rightarrow> t)) YamlMultilineDataFieldCutSet;
                   build = \<lparr>ib_image = builtImage, ib_md5 = dockerfileMD5, ib_plugins = []\<rparr> in
               if \<not> contains (ji_builds i) build then
                 bindP (client_status_update E as_image (OJenkinsImage
                   (i\<lparr>ji_builds := ji_builds i @ [build], ji_phase := ImageBuildSuccessful\<rparr>))) (\<lambda>u. ret ())
               else ret ()))
      else ret ())"

text \<open>\<open>None\<close>: the goroutine is still waiting.\<close>

definition updateJenkinsImageStatusWhenPodIsCompleted ::
  "nat \<Rightarrow> 'w env \<Rightarrow> pod \<Rightarrow> jenkins_image \<Rightarrow> ('w, unit option) prog" where
  "updateJenkinsImageStatusWhenPodIsCompleted n E p i =
     bindP (WaitForPodIsCompleted n E (om_name (pod_meta p)) (om_namespace (pod_meta p))) (\<lambda>r. case r of
       None \<Rightarrow> ret None
     | Some err \<Rightarrow>
         (case err of
            Inl e \<Rightarrow> ret (Some ())
          | Inr _ \<Rightarrow> bindP (record_build E p i) (\<lambda>_. ret (Some ()))))"

section \<open>A pass\<close>

definition empty_pod :: pod where
  "empty_pod = \<lparr>pod_meta = empty_meta, pod_spec_of = empty_pod_spec, pod_phase = [], pod_containerStatuses = []\<rparr>"

text \<open>
  An error of a read other than not-found is dropped, and the zero object used.  \<open>registry\<close> is
  the cached check for the registry.
\<close>

definition ensure_builder_pod :: "'w env \<Rightarrow> bool \<Rightarrow> jenkins_image \<Rightarrow>
    ('w, (result \<times> goerr option) \<times> (pod \<times> jenkins_image) option) prog" where
  "ensure_builder_pod E registry i =
     bindP (NewBuilderPod E registry i) (\<lambda>p.
       case SetControllerReference ''JenkinsImage'' (ji_meta i) (pod_meta p) of
         Inl e \<Rightarrow> ret ((requeue_result, Some e), None)
       | Inr meta \<Rightarrow>
           let p = p\<lparr>pod_meta := meta\<rparr> in
           bindP (client_get E KPod as_pod (om_namespace meta) (om_name meta)) (\<lambda>r. case r of
             Inr foundPod \<Rightarrow> ret ((empty_result, None), Some (foundPod, i))
           | Inl e \<Rightarrow>
               if IsNotFound e then
                 bindP (client_create E as_pod (OPod p)) (\<lambda>c. ret ((empty_result, err_part c), None))
               else ret ((empty_result, None), Some (empty_pod, i))))"

definition ImageReconcile :: "'w env \<Rightarrow> bool \<Rightarrow> string \<Rightarrow> string \<Rightarrow>
    ('w, (result \<times> goerr option) \<times> (pod \<times> jenkins_image) option) prog" where
  "ImageReconcile E registry ns name =
     bindP (client_get E KJenkinsImage as_image ns name) (\<lambda>r. case r of
       Inl e \<Rightarrow> ret ((empty_result, if IsNotFound e then None else Some e), None)
     | Inr i \<Rightarrow>
         let dockerfile = NewDockerfileConfigMap i in
         (case SetControllerReference ''JenkinsImage'' (ji_meta i) (cm_meta dockerfile) of
            Inl e \<Rightarrow> ret ((empty_result, Some e), None)
          | Inr meta \<Rightarrow>
              let dockerfile = dockerfile\<lparr>cm_meta := meta\<rparr> in
              bindP (client_get E KConfigMap as_config_map (om_namespace meta) (om_name meta)) (\<lambda>f.
                if (case f of Inl e \<Rightarrow> IsNotFound e | Inr cm \<Rightarrow> False) then
                  bindP (client_create E as_config_map (OConfigMap dockerfile)) (\<lambda>c.
                    ret ((empty_result, err_part c), None))
                else ensure_builder_pod E registry i)))"

end
