(* ===== verification/Image_Correct.thy ===== *)
theory Image_Correct
  imports Image_Controller Jenkins_Reconcile
begin

text \<open>
  The image controller: when the wait for a pod ends, what is recorded of a build, where the passes
  lead on an API server, and what a Jenkins gets from a built image.
\<close>

section \<open>The wait\<close>

text \<open>The answers that successive reads of the pod get.\<close>

definition pod_read :: "'w env \<Rightarrow> string \<Rightarrow> string \<Rightarrow> 'w \<Rightarrow> goerr + pod" where
  "pod_read E podName ns w = decode as_pod (fst (e_get E KPod ns podName w))"

primrec world_at :: "'w env \<Rightarrow> string \<Rightarrow> string \<Rightarrow> 'w \<Rightarrow> nat \<Rightarrow> 'w" where
  "world_at E podName ns w 0 = w"
| "world_at E podName ns w (Suc k) = world_at E podName ns (snd (e_get E KPod ns podName w)) k"

definition nth_read :: "'w env \<Rightarrow> string \<Rightarrow> string \<Rightarrow> 'w \<Rightarrow> nat \<Rightarrow> goerr + pod" where
  "nth_read E podName ns w k = pod_read E podName ns (world_at E podName ns w k)"

text \<open>What a read decides; \<open>None\<close>: wait on.\<close>

definition verdict :: "goerr + pod \<Rightarrow> (goerr + unit) option" where
  "verdict r = (case r of Inl e \<Rightarrow> Some (Inl e)
     | Inr p \<Rightarrow> if pod_phase p = ''Succeeded'' then Some (Inr ()) else None)"

text \<open>The first verdict among \<open>n\<close> answers.\<close>

definition first_verdict :: "nat \<Rightarrow> (nat \<Rightarrow> goerr + pod) \<Rightarrow> (goerr + unit) option" where
  "first_verdict n reads = (case find (\<lambda>k. verdict (reads k) \<noteq> None) [0..<n] of
     None \<Rightarrow> None | Some k \<Rightarrow> verdict (reads k))"

lemma find_map: "find P (map f xs) = map_option f (find (P \<circ> f) xs)"
  by (induction xs) auto

lemma first_verdict_Suc:
  "first_verdict (Suc n) reads = (case verdict (reads 0) of
     None \<Rightarrow> first_verdict n (\<lambda>k. reads (Suc k)) | Some v \<Rightarrow> Some v)"
proof -
  have "[0..<Suc n] = 0 # map Suc [0..<n]" by (simp add: upt_conv_Cons map_Suc_upt del: upt_Suc)
  then show ?thesis
    by (simp add: first_verdict_def find_map comp_def split: option.split)
qed

lemma isPodCompleted_run:
  "isPodCompleted E podName ns s = (case e_get E KPod ns podName (world s) of (r, w) \<Rightarrow>
     (Done (case decode as_pod r of Inl e \<Rightarrow> Inl e | Inr p \<Rightarrow> Inr (pod_phase p = ''Succeeded'')),
      s\<lparr>world := w, log := log s @ [(CGet KPod ns podName, err_part (decode as_pod r))]\<rparr>))"
  by (simp add: isPodCompleted_def bindE_def run_bindP client_get_def perform_def ret_def split: prod.split sum.split)

lemma wait_runs:
  "\<exists>s'. WaitForPodIsCompleted n E podName ns s = (Done (first_verdict n (nth_read E podName ns (world s))), s') \<and>
    (\<exists>es. log s' = log s @ es \<and> list_all (\<lambda>e. fst e = CGet KPod ns podName) es)"
proof (induction n arbitrary: s)
  case 0
  then show ?case by (simp add: WaitForPodIsCompleted_def first_verdict_def ret_def)
next
  case (Suc n)
  obtain r w where g: "e_get E KPod ns podName (world s) = (r, w)" by (cases "e_get E KPod ns podName (world s)")
  let ?s1 = "s\<lparr>world := w, log := log s @ [(CGet KPod ns podName, err_part (decode as_pod r))]\<rparr>"
  have zero: "nth_read E podName ns (world s) 0 = decode as_pod r" by (simp add: nth_read_def pod_read_def g)
  have later: "nth_read E podName ns (world s) (Suc k) = nth_read E podName ns w k" for k
    by (simp add: nth_read_def g)
  have run: "WaitForPodIsCompleted (Suc n) E podName ns s = (case verdict (decode as_pod r) of
      Some v \<Rightarrow> (Done (Some v), ?s1) | None \<Rightarrow> WaitForPodIsCompleted n E podName ns ?s1)"
    by (simp add: WaitForPodIsCompleted_def run_bindP isPodCompleted_run g verdict_def ret_def split: sum.split)
  have first: "first_verdict (Suc n) (nth_read E podName ns (world s)) = (case verdict (decode as_pod r) of
      Some v \<Rightarrow> Some v | None \<Rightarrow> first_verdict n (nth_read E podName ns w))"
    unfolding first_verdict_Suc zero by (cases "verdict (decode as_pod r)") (simp_all add: later)
  show ?case
  proof (cases "verdict (decode as_pod r)")
    case (Some v)
    then show ?thesis unfolding run first by simp
  next
    case None
    from Suc.IH [of ?s1] obtain s' es where "WaitForPodIsCompleted n E podName ns ?s1 =
        (Done (first_verdict n (nth_read E podName ns w)), s')"
      "log s' = log ?s1 @ es" "list_all (\<lambda>e. fst e = CGet KPod ns podName) es" by auto
    with None show ?thesis unfolding run first by (intro exI [of _ s'] conjI) auto
  qed
qed

text \<open>
  The wait for a running pod is over with its first read, unless the pod has no phase yet; a pod that
  is still pending ends it with the error that the pod has completed.
\<close>

lemma running_decided_at_once:
  assumes "e_get E KPod ns podName (world s) = (Inr (OPod p), w)"
    and "pod_phase p \<in> set [''Running'', ''Failed'', ''Succeeded'', ''Pending'', ''Unknown'']"
  shows "\<exists>s'. WaitForPodRunning n E podName ns s =
    (Done (if pod_phase p = ''Running'' then Inr () else Inl ErrPodCompleted), s')"
proof -
  have "\<exists>s'. isPodRunning E podName ns s =
      (Done (if pod_phase p = ''Running'' then Inr True else Inl ErrPodCompleted), s')"
    using assms by (auto simp: isPodRunning_def bindE_def run_bindP client_get_def perform_def decode_def as_pod_def ret_def)
  then show ?thesis by (auto simp: WaitForPodRunning_def PollImmediate_def bindE_def run_bindP ret_def)
qed

lemma first_verdict_None: "first_verdict n reads = None \<longleftrightarrow> (\<forall>k < n. verdict (reads k) = None)"
proof (induction n arbitrary: reads)
  case (Suc n)
  then show ?case by (simp only: first_verdict_Suc All_less_Suc2) (simp split: option.split)
qed (simp add: first_verdict_def)

section \<open>The goroutine\<close>

lemma record_build_idle:
  assumes "\<nexists>msg. pod_containerStatuses p = [Some msg]"
  shows "record_build E p i = ret ()"
proof (cases "length (pod_containerStatuses p) = 1")
  case True
  then obtain x where "pod_containerStatuses p = [x]" by (auto simp: length_Suc_conv)
  with assms show ?thesis by (cases x) (simp_all add: record_build_def)
qed (simp add: record_build_def)

lemma Trim_no_cut:
  assumes "set s \<inter> set cutset = {}"
  shows "Trim s cutset = s"
proof -
  have drop: "dropWhile (\<lambda>c. c \<in> set cutset) t = t" if "set t \<inter> set cutset = {}" for t
    using that by (cases t) auto
  show ?thesis using assms by (simp add: Trim_def TrimLeft_def drop)
qed

lemma md5_trimmed: "Trim (md5_hex t) YamlMultilineDataFieldCutSet = md5_hex t"
proof (rule Trim_no_cut)
  have "set hex_alphabet \<inter> set YamlMultilineDataFieldCutSet = {}"
    by (simp add: hex_alphabet_def YamlMultilineDataFieldCutSet_def nl_def)
  with md5_hex_digits show "set (md5_hex t) \<inter> set YamlMultilineDataFieldCutSet = {}" by blast
qed

lemma contains_iff: "contains bs b \<longleftrightarrow> b \<in> set bs"
  by (induction bs) auto

section \<open>The passes\<close>

definition dockerfile_key :: "jenkins_image \<Rightarrow> kind \<times> string \<times> string" where
  "dockerfile_key i = (KConfigMap, om_namespace (ji_meta i), suffixed (om_name (ji_meta i)) DockerfileNameSuffix)"

definition builder_key :: "jenkins_image \<Rightarrow> kind \<times> string \<times> string" where
  "builder_key i = (KPod, om_namespace (ji_meta i), suffixed (om_name (ji_meta i)) BuilderSuffix)"

definition image_key :: "jenkins_image \<Rightarrow> kind \<times> string \<times> string" where
  "image_key i = (KJenkinsImage, om_namespace (ji_meta i), om_name (ji_meta i))"

definition owned_dockerfile :: "jenkins_image \<Rightarrow> config_map" where
  "owned_dockerfile i = (NewDockerfileConfigMap i)\<lparr>cm_meta := (cm_meta (NewDockerfileConfigMap i))\<lparr>om_ownerRefs :=
     [NewControllerRef ''JenkinsImage'' (ji_meta i)]\<rparr>\<rparr>"

lemma image_keys:
  "obj_key (OConfigMap (owned_dockerfile i)) = dockerfile_key i" "dockerfile_key i \<noteq> builder_key i"
  "image_key i \<noteq> dockerfile_key i" "image_key i \<noteq> builder_key i"
  "om_namespace (ji_meta i) \<noteq> [] \<Longrightarrow> proper_key (dockerfile_key i) \<and> proper_key (builder_key i)"
  by (simp_all add: owned_dockerfile_def NewDockerfileConfigMap_def obj_key_def dockerfile_key_def builder_key_def
      image_key_def proper_key_def suffixed_def)

lemma dockerfile_meta:
  "SetControllerReference ''JenkinsImage'' (ji_meta i) (cm_meta (NewDockerfileConfigMap i)) =
     Inr (cm_meta (owned_dockerfile i))"
  "om_namespace (cm_meta (owned_dockerfile i)) = om_namespace (ji_meta i)"
  "om_name (cm_meta (owned_dockerfile i)) = suffixed (om_name (ji_meta i)) DockerfileNameSuffix"
  "(NewDockerfileConfigMap i)\<lparr>cm_meta := cm_meta (owned_dockerfile i)\<rparr> = owned_dockerfile i"
  using SetControllerReference_fresh [of "cm_meta (NewDockerfileConfigMap i)" "ji_meta i" "''JenkinsImage''"]
  by (simp_all add: owned_dockerfile_def NewDockerfileConfigMap_def empty_meta_def)

text \<open>What one pass does to the objects, the config map first.\<close>

definition pass_post :: "jenkins_image \<Rightarrow> store \<Rightarrow> (result \<times> goerr option) \<times> (pod \<times> jenkins_image) option \<Rightarrow> store \<Rightarrow> bool" where
  "pass_post i m r m' \<longleftrightarrow> fst r = (empty_result, None) \<and>
     (if m (dockerfile_key i) = None then m' = m(dockerfile_key i \<mapsto> OConfigMap (owned_dockerfile i)) \<and> snd r = None
      else if m (builder_key i) = None then put_post (builder_key i) (\<lambda>x. True) m m' \<and> snd r = None
      else m' = m \<and> (\<exists>p. m (builder_key i) = Some (OPod p) \<and> snd r = Some (p, i)))"

lemma pod_kind: "obj_key x = (KPod, ns, n) \<Longrightarrow> \<exists>p. x = OPod p"
  by (cases x; simp add: obj_key_def)

context kube_server
begin

lemma push_secret_achieves:
  assumes "om_namespace (ji_meta i) \<noteq> []"
  shows "achieves valid stored m (getPushSecretName E i) (\<lambda>r m'. m' = m)"
proof (cases "length (im_secret (ji_to i)) \<noteq> 0")
  case True
  then show ?thesis by (simp add: getPushSecretName_def achieves_ret)
next
  case False
  have list: "achieves valid stored m (client_list E KSecret as_secret (Some (om_namespace (ji_meta i))) None) (\<lambda>r m'. m' = m)"
    by (rule achieves_list) (simp_all add: assms)
  have "achieves valid stored m (GetDockerBuilderSecretName E (om_namespace (ji_meta i))) (\<lambda>r m'. m' = m)"
    unfolding GetDockerBuilderSecretName_def by (rule achieves_bindE [OF list]) (simp_all add: achieves_ret)
  with False show ?thesis by (simp add: getPushSecretName_def)
qed

lemma builder_pod_achieves:
  assumes "om_namespace (ji_meta i) \<noteq> []"
  shows "achieves valid stored m (NewBuilderPod E registry i)
    (\<lambda>p m'. m' = m \<and> pod_meta p = empty_meta\<lparr>om_name := suffixed (om_name (ji_meta i)) BuilderSuffix,
      om_namespace := om_namespace (ji_meta i)\<rparr>)"
  unfolding NewBuilderPod_def getVolumes_def getVolumesMounts_def Let_def bindP_assoc bindP_ret
  by (rule achieves_bindP [OF push_secret_achieves [OF assms]], simp only:,
      rule achieves_bindP [OF push_secret_achieves [OF assms]], simp only:, rule achieves_ret)
    (simp add: getBuilderPod_def)

lemma ensure_pod_achieves:
  assumes "om_namespace (ji_meta i) \<noteq> []" and d: "m (dockerfile_key i) \<noteq> None"
  shows "achieves valid stored m (ensure_builder_pod E registry i) (pass_post i m)"
  unfolding ensure_builder_pod_def
proof (rule achieves_bindP [OF builder_pod_achieves [OF assms(1)]], elim conjE, goal_cases)
  case (1 p m1)
  let ?meta = "(pod_meta p)\<lparr>om_ownerRefs := [NewControllerRef ''JenkinsImage'' (ji_meta i)]\<rparr>"
  let ?p = "p\<lparr>pod_meta := ?meta\<rparr>"
  have owner: "SetControllerReference ''JenkinsImage'' (ji_meta i) (pod_meta p) = Inr ?meta"
    by (rule SetControllerReference_fresh) (simp_all add: 1(2) empty_meta_def)
  have key: "(KPod, om_namespace ?meta, om_name ?meta) = builder_key i" by (simp add: 1(2) builder_key_def)
  have pkey: "obj_key (OPod ?p) = builder_key i" by (simp add: obj_key_def 1(2) builder_key_def)
  have proper: "proper_key (builder_key i)" using image_keys(5) assms(1) by blast
  show ?case
    unfolding owner sum.case Let_def 1(1)
  proof (rule achieves_read, goal_cases)
    case 1 show ?case unfolding key by (rule proper)
  next
    case (2 x) then show ?case using pod_kind [of x] by (auto simp: as_pod_def)
  next
    case (3 e)
    then have none: "m (builder_key i) = None" unfolding key by blast
    have "achieves valid stored m (client_create E as_pod (OPod ?p)) (gives (Inr ?p) (m(builder_key i \<mapsto> OPod ?p)))"
      using proper none by (intro achieves_create [where a = ?p]) (simp_all add: pkey as_pod_def)
    then have "achieves valid stored m (bindP (client_create E as_pod (OPod ?p)) (\<lambda>c. ret ((empty_result, err_part c), None))) (pass_post i m)"
      by (rule achieves_bindP) (use d none in \<open>auto intro!: achieves_ret put_post_upd simp: pass_post_def\<close>)
    with 3 show ?case by simp
  next
    case (4 x a)
    then have "m (builder_key i) = Some (OPod a)" unfolding key by (auto simp: as_pod_def split: kobj.split_asm)
    with d show ?case by (simp add: achieves_ret pass_post_def)
  qed
qed

lemma pass_achieves:
  assumes "m (image_key i) = Some (OJenkinsImage i)" and "proper_key (image_key i)"
  shows "achieves valid stored m (ImageReconcile E registry (om_namespace (ji_meta i)) (om_name (ji_meta i))) (pass_post i m)"
proof -
  have ns: "om_namespace (ji_meta i) \<noteq> []" using assms(2) by (simp add: proper_key_def image_key_def)
  have get: "achieves valid stored m (client_get E KJenkinsImage as_image (om_namespace (ji_meta i)) (om_name (ji_meta i))) (gives (Inr i) m)"
    using assms unfolding image_key_def by (intro achieves_get_found [where x = "OJenkinsImage i"]) (simp_all add: as_image_def)
  have key: "(KConfigMap, om_namespace (ji_meta i), suffixed (om_name (ji_meta i)) DockerfileNameSuffix) = dockerfile_key i"
    by (simp add: dockerfile_key_def)
  have proper: "proper_key (dockerfile_key i)" using image_keys(5) [OF ns] by blast
  have cm: "achieves valid stored m (client_get E KConfigMap as_config_map (om_namespace (ji_meta i))
      (suffixed (om_name (ji_meta i)) DockerfileNameSuffix)) (\<lambda>r m'. m' = m \<and>
        ((case r of Inl e \<Rightarrow> IsNotFound e | Inr cm \<Rightarrow> False) \<longleftrightarrow> m (dockerfile_key i) = None))"
  proof (rule achieves_get, unfold key, rule proper)
    fix x assume "m (dockerfile_key i) = Some x" "obj_key x = dockerfile_key i"
    moreover obtain a where "as_config_map x = Some a"
      using more_kind_decodes(1) [of x] \<open>obj_key x = dockerfile_key i\<close> by (auto simp: dockerfile_key_def)
    ultimately show "m = m \<and> ((case decode as_config_map (Inr x) of Inl e \<Rightarrow> IsNotFound e | Inr cm \<Rightarrow> False) \<longleftrightarrow> m (dockerfile_key i) = None)"
      by (simp add: decode_def)
  qed simp
  let ?c = "owned_dockerfile i"
  show ?thesis
    unfolding ImageReconcile_def
  proof (rule achieves_bindP [OF get], unfold gives_iff, elim conjE,
      simp only: sum.case Let_def dockerfile_meta, rule achieves_bindP [OF cm], elim conjE, goal_cases)
    case (1 r m1 q m2)
    show ?case
    proof (cases "m (dockerfile_key i) = None")
      case True
      have "achieves valid stored m (client_create E as_config_map (OConfigMap ?c)) (gives (Inr ?c) (m(dockerfile_key i \<mapsto> OConfigMap ?c)))"
        using proper True by (intro achieves_create [where a = ?c]) (simp_all add: image_keys as_config_map_def)
      then have "achieves valid stored m (bindP (client_create E as_config_map (OConfigMap ?c)) (\<lambda>c. ret ((empty_result, err_part c), None))) (pass_post i m)"
        by (rule achieves_bindP) (use True in \<open>auto intro!: achieves_ret simp: pass_post_def\<close>)
      with 1 True show ?thesis by simp
    next
      case False
      with 1 ensure_pod_achieves [where m = m, OF ns False] show ?thesis by simp
    qed
  qed
qed

end

text \<open>Three passes in a row.\<close>

definition three_passes :: "'w env \<Rightarrow> bool \<Rightarrow> string \<Rightarrow> string \<Rightarrow>
    ('w, ((result \<times> goerr option) \<times> (pod \<times> jenkins_image) option) list) prog" where
  "three_passes E registry ns name =
     bindP (ImageReconcile E registry ns name) (\<lambda>r1.
     bindP (ImageReconcile E registry ns name) (\<lambda>r2.
     bindP (ImageReconcile E registry ns name) (\<lambda>r3. ret [r1, r2, r3])))"

lemma put_post_elsewhere: "put_post key P m m' \<Longrightarrow> k \<noteq> key \<Longrightarrow> m' k = m k"
  unfolding put_post_def by blast

lemma put_post_there: "put_post key P m m' \<Longrightarrow> m' key \<noteq> None"
  unfolding put_post_def by blast

lemma pass_post_grows:
  assumes "pass_post i m r m'"
  shows "m (dockerfile_key i) \<noteq> None \<Longrightarrow> m' (dockerfile_key i) = m (dockerfile_key i)"
    and "m (builder_key i) \<noteq> None \<Longrightarrow> m' (builder_key i) = m (builder_key i)"
    and "key \<noteq> dockerfile_key i \<Longrightarrow> key \<noteq> builder_key i \<Longrightarrow> m' key = m key"
    and "m' (dockerfile_key i) \<noteq> None"
    and "m (dockerfile_key i) \<noteq> None \<Longrightarrow> m' (builder_key i) \<noteq> None"
proof -
  note keys = image_keys(2) [of i] image_keys(2) [of i, symmetric]
  consider (config) "m (dockerfile_key i) = None" "m' = m(dockerfile_key i \<mapsto> OConfigMap (owned_dockerfile i))"
    | (pod) "m (dockerfile_key i) \<noteq> None" "m (builder_key i) = None" "put_post (builder_key i) (\<lambda>x. True) m m'"
    | (same) "m (dockerfile_key i) \<noteq> None" "m (builder_key i) \<noteq> None" "m' = m"
    using assms unfolding pass_post_def by presburger
  then have all: "(m (dockerfile_key i) \<noteq> None \<longrightarrow> m' (dockerfile_key i) = m (dockerfile_key i)) \<and>
    (m (builder_key i) \<noteq> None \<longrightarrow> m' (builder_key i) = m (builder_key i)) \<and>
    (key \<noteq> dockerfile_key i \<longrightarrow> key \<noteq> builder_key i \<longrightarrow> m' key = m key) \<and> m' (dockerfile_key i) \<noteq> None \<and>
    (m (dockerfile_key i) \<noteq> None \<longrightarrow> m' (builder_key i) \<noteq> None)"
  proof cases
    case config
    then show ?thesis using keys by simp
  next
    case pod
    from put_post_elsewhere [OF pod(3) keys(1)] put_post_there [OF pod(3)] put_post_elsewhere [OF pod(3)] pod(1,2)
    show ?thesis by simp
  next
    case same
    then show ?thesis by simp
  qed
  from all show "m (dockerfile_key i) \<noteq> None \<Longrightarrow> m' (dockerfile_key i) = m (dockerfile_key i)" by blast
  from all show "m (builder_key i) \<noteq> None \<Longrightarrow> m' (builder_key i) = m (builder_key i)" by blast
  from all show "key \<noteq> dockerfile_key i \<Longrightarrow> key \<noteq> builder_key i \<Longrightarrow> m' key = m key" by blast
  from all show "m' (dockerfile_key i) \<noteq> None" by blast
  from all show "m (dockerfile_key i) \<noteq> None \<Longrightarrow> m' (builder_key i) \<noteq> None" by blast
qed

lemma pass_post_stable:
  assumes "pass_post i m r m'" and "m (dockerfile_key i) \<noteq> None" and "m (builder_key i) \<noteq> None"
  shows "m' = m \<and> fst r = (empty_result, None) \<and> (\<exists>p. m (builder_key i) = Some (OPod p) \<and> snd r = Some (p, i))"
  using assms by (simp add: pass_post_def)

definition passes_post :: "jenkins_image \<Rightarrow> store \<Rightarrow> ((result \<times> goerr option) \<times> (pod \<times> jenkins_image) option) list \<Rightarrow> store \<Rightarrow> bool" where
  "passes_post i m rs m' \<longleftrightarrow> map fst rs = replicate 3 (empty_result, None) \<and>
     m' (dockerfile_key i) = Some (case m (dockerfile_key i) of None \<Rightarrow> OConfigMap (owned_dockerfile i) | Some x \<Rightarrow> x) \<and>
     (\<exists>p. m' (builder_key i) = Some (OPod p) \<and> snd (last rs) = Some (p, i) \<and>
       (case m (builder_key i) of None \<Rightarrow> True | Some x \<Rightarrow> x = OPod p)) \<and>
     (\<forall>key. key \<noteq> dockerfile_key i \<longrightarrow> key \<noteq> builder_key i \<longrightarrow> m' key = m key)"

lemma three_posts:
  assumes 1: "pass_post i m r1 m1" and 2: "pass_post i m1 r2 m2" and 3: "pass_post i m2 r3 m3"
  shows "passes_post i m [r1, r2, r3] m3"
proof -
  have d1: "m1 (dockerfile_key i) = Some (case m (dockerfile_key i) of None \<Rightarrow> OConfigMap (owned_dockerfile i) | Some x \<Rightarrow> x)"
  proof (cases "m (dockerfile_key i)")
    case None
    with 1 show ?thesis by (simp add: pass_post_def)
  next
    case (Some x)
    with pass_post_grows(1) [OF 1] show ?thesis by simp
  qed
  with 2 have d2: "m2 (dockerfile_key i) = m1 (dockerfile_key i)" by (simp add: pass_post_grows(1))
  have b2: "m2 (builder_key i) \<noteq> None" using pass_post_grows(5) [OF 2] d1 by simp
  have kept: "m2 (builder_key i) = m (builder_key i)" if "m (builder_key i) \<noteq> None"
    using pass_post_grows(2) [OF 1 that] pass_post_grows(2) [OF 2] that by simp
  from pass_post_stable [OF 3] d1 d2 b2 obtain p where p: "m3 = m2" "fst r3 = (empty_result, None)"
    "m2 (builder_key i) = Some (OPod p)" "snd r3 = Some (p, i)" by auto
  have "fst r1 = (empty_result, None)" "fst r2 = (empty_result, None)" using 1 2 by (simp_all add: pass_post_def)
  moreover have "m3 key = m key" if "key \<noteq> dockerfile_key i" "key \<noteq> builder_key i" for key
    using p(1) pass_post_grows(3) [OF 1 that] pass_post_grows(3) [OF 2 that] by simp
  moreover have "case m (builder_key i) of None \<Rightarrow> True | Some x \<Rightarrow> x = OPod p"
    using kept p(3) by (cases "m (builder_key i)") simp_all
  ultimately show ?thesis using p d1 d2 by (simp add: passes_post_def numeral_3_eq_3)
qed

lemma pass_post_image: "pass_post i m r m' \<Longrightarrow> m' (image_key i) = m (image_key i)"
  by (rule pass_post_grows(3) [OF _ image_keys(3,4)])

context kube_server
begin

lemma three_passes_achieve:
  assumes "m (image_key i) = Some (OJenkinsImage i)" and "proper_key (image_key i)"
  shows "achieves valid stored m (three_passes E registry (om_namespace (ji_meta i)) (om_name (ji_meta i))) (passes_post i m)"
  unfolding three_passes_def
proof (rule achieves_bindP [OF pass_achieves [where m = m and i = i, OF assms]])
  fix r1 m1
  assume 1: "pass_post i m r1 m1"
  have s1: "m1 (image_key i) = Some (OJenkinsImage i)" using pass_post_image [OF 1] assms(1) by simp
  show "achieves valid stored m1 (bindP (ImageReconcile E registry (om_namespace (ji_meta i)) (om_name (ji_meta i))) (\<lambda>r2.
     bindP (ImageReconcile E registry (om_namespace (ji_meta i)) (om_name (ji_meta i))) (\<lambda>r3. ret [r1, r2, r3]))) (passes_post i m)"
  proof (rule achieves_bindP [OF pass_achieves [where m = m1 and i = i, OF s1 assms(2)]])
    fix r2 m2
    assume 2: "pass_post i m1 r2 m2"
    have s2: "m2 (image_key i) = Some (OJenkinsImage i)" using pass_post_image [OF 2] s1 by simp
    show "achieves valid stored m2 (bindP (ImageReconcile E registry (om_namespace (ji_meta i)) (om_name (ji_meta i)))
        (\<lambda>r3. ret [r1, r2, r3])) (passes_post i m)"
      by (rule achieves_bindP [OF pass_achieves [where m = m2 and i = i, OF s2 assms(2)]]) (rule achieves_ret, rule three_posts [OF 1 2])
  qed
qed

end

text \<open>A pass and, when it starts one, its goroutine; \<open>None\<close>: none was started or it still waits.\<close>

definition build_pass :: "nat \<Rightarrow> 'w env \<Rightarrow> bool \<Rightarrow> string \<Rightarrow> string \<Rightarrow> ('w, (result \<times> goerr option) \<times> unit option) prog" where
  "build_pass n E registry ns name = bindP (ImageReconcile E registry ns name) (\<lambda>(res, started). case started of
     None \<Rightarrow> ret (res, None)
   | Some (p, i) \<Rightarrow> bindP (updateJenkinsImageStatusWhenPodIsCompleted n E p i) (\<lambda>d. ret (res, d)))"

text \<open>The Dockerfile the goroutine reads: in the namespace with the name of the image.\<close>

definition dockerfile_seen :: "store \<Rightarrow> jenkins_image \<Rightarrow> string" where
  "dockerfile_seen m i = (case m (KConfigMap, om_name (ji_meta i), GetDockerfileConfigMapName i) of
     Some (OConfigMap c) \<Rightarrow> Trim (case go_get (cm_data c) DockerfileName of None \<Rightarrow> [] | Some t \<Rightarrow> t) YamlMultilineDataFieldCutSet
   | _ \<Rightarrow> [])"

definition with_build :: "string \<Rightarrow> string \<Rightarrow> jenkins_image \<Rightarrow> jenkins_image" where
  "with_build content message i =
     (let build = \<lparr>ib_image = Trim message YamlMultilineDataFieldCutSet, ib_md5 = md5_hex content, ib_plugins = []\<rparr> in
      if build \<in> set (ji_builds i) then i
      else i\<lparr>ji_builds := ji_builds i @ [build], ji_phase := ImageBuildSuccessful\<rparr>)"

lemma config_map_kind: "obj_key x = (KConfigMap, ns, n) \<Longrightarrow> \<exists>c. x = OConfigMap c"
  by (cases x; simp add: obj_key_def)

context kube_server
begin

lemma content_achieves:
  assumes "om_name (ji_meta i) \<noteq> []"
  shows "achieves valid stored m (getDockerfileContent E i)
    (\<lambda>r m'. m' = m \<and> (case r of Inl e \<Rightarrow> [] | Inr t \<Rightarrow> t) = dockerfile_seen m i)"
proof -
  let ?key = "(KConfigMap, om_name (ji_meta i), GetDockerfileConfigMapName i)"
  have proper: "proper_key ?key" using assms by (simp add: proper_key_def GetDockerfileConfigMapName_def suffixed_def)
  show ?thesis
    unfolding getDockerfileContent_def bindE_def
  proof (rule achieves_read [OF proper], goal_cases)
    case (1 x) then show ?case using config_map_kind [of x] by (auto simp: as_config_map_def)
  next
    case (2 e) then show ?case by (simp add: achieves_ret dockerfile_seen_def)
  next
    case (3 x c)
    then have "m ?key = Some (OConfigMap c)" by (auto simp: as_config_map_def split: kobj.split_asm)
    then show ?case by (simp add: achieves_ret dockerfile_seen_def)
  qed
qed

lemma record_achieves:
  assumes "m (image_key i) = Some (OJenkinsImage i)" and "proper_key (image_key i)" and "pod_containerStatuses p = [Some message]"
  shows "achieves valid stored m (record_build E p i)
    (\<lambda>r m'. m' = m(image_key i \<mapsto> OJenkinsImage (with_build (dockerfile_seen m i) message i)))"
proof -
  let ?build = "\<lparr>ib_image = Trim message YamlMultilineDataFieldCutSet, ib_md5 = md5_hex (dockerfile_seen m i), ib_plugins = []\<rparr>"
  let ?j = "i\<lparr>ji_builds := ji_builds i @ [?build], ji_phase := ImageBuildSuccessful\<rparr>"
  have n: "om_name (ji_meta i) \<noteq> []" using assms(2) by (simp add: proper_key_def image_key_def)
  have key: "obj_key (OJenkinsImage ?j) = image_key i" by (simp add: obj_key_def image_key_def)
  have "achieves valid stored m (client_status_update E as_image (OJenkinsImage ?j)) (gives (Inr ?j) (m(image_key i \<mapsto> OJenkinsImage ?j)))"
    using assms(1,2) by (intro achieves_status [where a = ?j]) (simp_all add: key as_image_def)
  then have put: "achieves valid stored m (bindP (client_status_update E as_image (OJenkinsImage ?j)) (\<lambda>u. ret ()))
      (\<lambda>r m'. m' = m(image_key i \<mapsto> OJenkinsImage ?j))"
    by (rule achieves_bindP) (simp add: achieves_ret)
  have run: "record_build E p i = bindP (getDockerfileContent E i) (\<lambda>content.
      let build = \<lparr>ib_image = Trim message YamlMultilineDataFieldCutSet,
        ib_md5 = md5_hex (case content of Inl e \<Rightarrow> [] | Inr t \<Rightarrow> t), ib_plugins = []\<rparr> in
      if \<not> contains (ji_builds i) build then
        bindP (client_status_update E as_image (OJenkinsImage
          (i\<lparr>ji_builds := ji_builds i @ [build], ji_phase := ImageBuildSuccessful\<rparr>))) (\<lambda>u. ret ())
      else ret ())"
    using assms(3) by (simp add: record_build_def Let_def md5_trimmed)
  show ?thesis
    unfolding run
  proof (rule achieves_bindP [OF content_achieves [OF n]], elim conjE, simp only: Let_def, goal_cases)
    case (1 r m1)
    show ?case
    proof (cases "?build \<in> set (ji_builds i)")
      case True
      with assms(1) have "m = m(image_key i \<mapsto> OJenkinsImage (with_build (dockerfile_seen m i) message i))"
        by (simp add: with_build_def fun_upd_idem)
      with True show ?thesis by (simp add: contains_iff achieves_ret)
    next
      case False
      with put show ?thesis by (simp add: contains_iff with_build_def)
    qed
  qed
qed

lemma wait_achieves:
  assumes "m (KPod, ns, n) = Some (OPod p)" and "proper_key (KPod, ns, n)" and "pod_phase p = ''Succeeded''"
  shows "achieves valid stored m (WaitForPodIsCompleted (Suc k) E n ns) (gives (Some (Inr ())) m)"
proof -
  have "achieves valid stored m (isPodCompleted E n ns) (gives (Inr True) m)"
    unfolding isPodCompleted_def bindE_def
    by (rule achieves_bindP [OF achieves_get_found [where m = m and Q = "gives (Inr p) m", OF assms(2,1)]])
      (simp_all add: as_pod_def achieves_ret assms(3))
  then show ?thesis
    unfolding WaitForPodIsCompleted_def PollUntil.simps by (rule achieves_bindP) (simp add: achieves_ret)
qed

lemma build_pass_achieves:
  assumes "m (image_key i) = Some (OJenkinsImage i)" and "proper_key (image_key i)"
    and "m (dockerfile_key i) \<noteq> None" and "m (builder_key i) = Some (OPod p)"
    and "pod_phase p = ''Succeeded''" and "pod_containerStatuses p = [Some message]"
    and "obj_key (OPod p) = builder_key i"
  shows "achieves valid stored m (build_pass (Suc k) E registry (om_namespace (ji_meta i)) (om_name (ji_meta i)))
    (gives ((empty_result, None), Some ()) (m(image_key i \<mapsto> OJenkinsImage (with_build (dockerfile_seen m i) message i))))"
proof -
  have ns: "om_namespace (ji_meta i) \<noteq> []" using assms(2) by (simp add: proper_key_def image_key_def)
  have k: "builder_key i = (KPod, om_namespace (pod_meta p), om_name (pod_meta p))"
    using assms(7) by (simp add: obj_key_def)
  have proper: "proper_key (KPod, om_namespace (pod_meta p), om_name (pod_meta p))"
    using image_keys(5) [OF ns] unfolding k by blast
  show ?thesis
    unfolding build_pass_def
  proof (rule achieves_bindP [OF pass_achieves [where m = m and i = i, OF assms(1,2)]], goal_cases)
    case (1 r m1)
    with assms(3,4) have m1: "m1 = m" and r: "r = ((empty_result, None), Some (p, i))"
      by (auto simp: pass_post_def prod_eq_iff)
    let ?m = "m(image_key i \<mapsto> OJenkinsImage (with_build (dockerfile_seen m i) message i))"
    have "achieves valid stored m (bindP (record_build E p i) (\<lambda>_. ret (Some ()))) (gives (Some ()) ?m)"
      by (rule achieves_bindP [OF record_achieves [where m = m, OF assms(1,2,6)]]) (simp add: achieves_ret)
    then have recorded: "achieves valid stored m (bindP (bindP (record_build E p i) (\<lambda>_. ret (Some ())))
        (\<lambda>d. ret ((empty_result, None :: goerr option), d))) (gives ((empty_result, None), Some ()) ?m)"
      by (rule achieves_bindP) (simp add: achieves_ret)
    show ?case
      unfolding m1 r prod.case option.case updateJenkinsImageStatusWhenPodIsCompleted_def bindP_assoc
      by (rule achieves_bindP [OF wait_achieves [where m = m, OF assms(4) [unfolded k] proper assms(5)]])
        (simp add: recorded)
  qed
qed

end

section \<open>The pod and the registry\<close>

text \<open>With a list of the secrets that stays the same, both lookups find the same secret.\<close>

lemma push_secret_stable:
  assumes "\<And>w. e_list E KSecret (Some (om_namespace (ji_meta i))) None w = (items, w)"
  obtains r where "\<And>s. \<exists>s'. getPushSecretName E i s = (Done r, s')"
proof (cases "length (im_secret (ji_to i)) \<noteq> 0")
  case True
  then show ?thesis using that [of "Inr (im_secret (ji_to i))"] by (simp add: getPushSecretName_def ret_def)
next
  case False
  let ?r = "case decode_list as_secret items of Inl e \<Rightarrow> Inl e
    | Inr items \<Rightarrow> Inr (case find is_builder_secret items of Some s \<Rightarrow> om_name (sec_meta s) | None \<Rightarrow> [])"
  have "\<exists>s'. getPushSecretName E i s = (Done ?r, s')" for s
    using False by (simp add: getPushSecretName_def GetDockerBuilderSecretName_def bindE_def run_bindP client_list_def
        perform_def assms ret_def split: sum.split)
  then show ?thesis by (rule that)
qed

definition pod_mount_names :: "pod \<Rightarrow> string set" where
  "pod_mount_names p = vm_name ` (\<Union>c \<in> set (psp_containers (pod_spec_of p)). set (c_volumeMounts c))"

definition pod_volume_names :: "pod \<Rightarrow> string set" where
  "pod_volume_names p = vol_name ` set (psp_volumes (pod_spec_of p))"

lemma builder_pod_mounts:
  assumes "\<And>w. e_list E KSecret (Some (om_namespace (ji_meta i))) None w = (items, w)"
    and "NewBuilderPod E registry i s = (Done p, s')"
  shows "pod_mount_names p = pod_volume_names p"
proof -
  obtain r where r: "\<And>s. \<exists>s'. getPushSecretName E i s = (Done r, s')" using push_secret_stable [OF assms(1)] by blast
  obtain s1 s2 where 1: "getPushSecretName E i s = (Done r, s1)" and 2: "getPushSecretName E i s1 = (Done r, s2)"
    using r [of s] r by blast
  from assms(2) have "pod_volume_names p = {suffixed (om_name (ji_meta i)) DockerfileStorageSuffix,
      suffixed (om_name (ji_meta i)) DockerfileNameSuffix} \<union> (if secret_name r = None then {} else {suffixed (om_name (ji_meta i)) DockerSecretSuffix})"
    "pod_mount_names p = {suffixed (om_name (ji_meta i)) DockerfileStorageSuffix,
      suffixed (om_name (ji_meta i)) DockerfileNameSuffix} \<union> (if secret_name r = None then {} else {suffixed (om_name (ji_meta i)) DockerSecretSuffix})"
    by (cases "secret_name r"; auto simp: NewBuilderPod_def getVolumes_def getVolumesMounts_def Let_def run_bindP 1 2 ret_def
        getBuilderPod_def pod_volume_names_def pod_mount_names_def GetDockerfileConfigMapName_def plain_volume_def getVolumeMount_def)+
  then show ?thesis by simp
qed

text \<open>The registry is there: its namespace, and its service with a cluster IP.\<close>

definition registry_there :: "store \<Rightarrow> bool" where
  "registry_there m \<longleftrightarrow> m (KNamespace, [], DefaultOpenShiftImageRegistryNamespace) \<noteq> None \<and>
     (case m (KService, DefaultOpenShiftImageRegistryNamespace, ''image-registry'') of
        Some (OService a) \<Rightarrow> svc_clusterIP a \<noteq> [] \<and> svc_clusterIP a \<noteq> ''None''
      | _ \<Rightarrow> False)"

lemma namespace_kind: "obj_key x = (KNamespace, ns, n) \<Longrightarrow> \<exists>a. x = ONamespace a \<and> om_name (ns_meta a) = n"
  by (cases x; simp add: obj_key_def)

lemma service_kind: "obj_key x = (KService, ns, n) \<Longrightarrow> \<exists>a. x = OService a"
  by (cases x; simp add: obj_key_def)

context kube_server
begin

lemma registry_service_achieves:
  assumes "\<not> imageRegistryAlreadyChecked v" and n: "m (KNamespace, [], DefaultOpenShiftImageRegistryNamespace) \<noteq> None"
  shows "achieves valid stored m
    (bindP (client_get E KService as_service DefaultOpenShiftImageRegistryNamespace ''image-registry'') (\<lambda>q.
       if (case q of Inl e \<Rightarrow> IsNotFound e | Inr a \<Rightarrow> False) then ret (v\<lparr>isImageRegistryAvailable := False\<rparr>)
       else
         let ip = (case q of Inl e \<Rightarrow> [] | Inr a \<Rightarrow> svc_clusterIP a) in
         ret (v\<lparr>isImageRegistryAvailable := (length ip \<noteq> 0 \<and> ip \<noteq> ''None''), imageRegistryAlreadyChecked := False\<rparr>)))
    (gives (v\<lparr>isImageRegistryAvailable := registry_there m\<rparr>) m)"
proof (rule achieves_read, goal_cases)
  case 1 show ?case by (simp add: proper_key_def cluster_scoped_def DefaultOpenShiftImageRegistryNamespace_def)
next
  case (2 x) then show ?case using service_kind [of x] by (auto simp: as_service_def)
next
  case (3 e) then show ?case by (simp add: achieves_ret registry_there_def)
next
  case (4 x a)
  then have x: "m (KService, DefaultOpenShiftImageRegistryNamespace, ''image-registry'') = Some (OService a)"
    by (auto simp: as_service_def split: kobj.split_asm)
  have there: "registry_there m \<longleftrightarrow> svc_clusterIP a \<noteq> [] \<and> svc_clusterIP a \<noteq> ''None''"
    unfolding registry_there_def x using n by simp
  have "v\<lparr>isImageRegistryAvailable := b, imageRegistryAlreadyChecked := False\<rparr> = v\<lparr>isImageRegistryAvailable := b\<rparr>" for b
    using assms(1) by (cases v) simp
  then show ?case by (simp add: Let_def achieves_ret there)
qed

lemma registry_achieves:
  assumes "\<not> imageRegistryAlreadyChecked v"
  shows "achieves valid stored m (IsImageRegistryAvailable E v)
    (gives (registry_there m, v\<lparr>isImageRegistryAvailable := registry_there m\<rparr>) m)"
  unfolding IsImageRegistryAvailable_def if_not_P [OF assms]
proof (rule achieves_read, goal_cases)
  case 1 show ?case by (simp add: proper_key_def cluster_scoped_def DefaultOpenShiftImageRegistryNamespace_def)
next
  case (2 x) then show ?case using namespace_kind [of x] by (auto simp: as_namespace_def)
next
  case (3 e)
  have "v\<lparr>isImageRegistryAvailable := False, imageRegistryAlreadyChecked := False\<rparr> = v\<lparr>isImageRegistryAvailable := False\<rparr>"
    using assms by (cases v) simp
  with 3 show ?case by (simp add: Let_def achieves_ret registry_there_def)
next
  case (4 x a)
  then have name: "om_name (ns_meta a) = DefaultOpenShiftImageRegistryNamespace"
    using namespace_kind [of x] by (auto simp: as_namespace_def)
  have "m (KNamespace, [], DefaultOpenShiftImageRegistryNamespace) \<noteq> None" using 4(1) by simp
  from achieves_bindP [OF registry_service_achieves [where m = m, OF assms this],
      where R = "gives (registry_there m, v\<lparr>isImageRegistryAvailable := registry_there m\<rparr>) m"
      and f = "\<lambda>v. ret (isImageRegistryAvailable v, v)"]
  show ?case by (simp add: name Let_def achieves_ret)
qed

end

lemma registry_check_calls:
  assumes "\<not> imageRegistryAlreadyChecked v" and "IsImageRegistryAvailable E v s = (out, s')"
  shows "\<exists>r es. log s' = log s @ (CGet KNamespace [] DefaultOpenShiftImageRegistryNamespace, r) # es"
proof -
  obtain q w where g: "client_get E KNamespace as_namespace [] DefaultOpenShiftImageRegistryNamespace s =
      (Done q, s\<lparr>world := w, log := log s @ [(CGet KNamespace [] DefaultOpenShiftImageRegistryNamespace, err_part q)]\<rparr>)"
    by (rule client_get_run)
  have "\<exists>F. emits (\<lambda>e. True) (F q) \<and> IsImageRegistryAvailable E v =
      bindP (client_get E KNamespace as_namespace [] DefaultOpenShiftImageRegistryNamespace) F"
    unfolding IsImageRegistryAvailable_def if_not_P [OF assms(1)] Let_def
    by (rule exI, rule conjI [OF _ refl]) (intro emits_intros TrueI)
  then obtain F where F: "emits (\<lambda>e. True) (F q)" and eq: "IsImageRegistryAvailable E v =
      bindP (client_get E KNamespace as_namespace [] DefaultOpenShiftImageRegistryNamespace) F" by blast
  from assms(2) have "F q (s\<lparr>world := w, log := log s @ [(CGet KNamespace [] DefaultOpenShiftImageRegistryNamespace, err_part q)]\<rparr>) = (out, s')"
    unfolding eq run_bindP g by simp
  from emits_log [OF F this] show ?thesis by auto
qed

section \<open>A Jenkins on a built image\<close>

lemma slash_image_rejected: "\<not> container_ok vols (c\<lparr>jc_image := CHR ''/'' # w\<rparr>)"
proof -
  have "\<not> image_ok (CHR ''/'' # w)"
    using slash_not_reference [of w] by (simp add: image_ok_def word_chars_def digits_def upper_def lower_def)
  then show ?thesis by (simp add: container_ok_def)
qed

lemma image_ok_matches: "image_ok w \<longleftrightarrow> MatchString dockerImageRegexp w \<or> MatchString ReferenceRegexp w"
  unfolding image_ok_def dockerImageRegexp_iff unfolding MatchString_lang by blast

text \<open>The path of an image, after the registry and the slash.\<close>

definition PathRegexp :: regex where
  "PathRegexp = expression [nameComponentRegexp, optional [repeated [literal (CHR ''/''), nameComponentRegexp]]]"

lemma SeqI: "u \<in> lang r \<Longrightarrow> v \<in> lang s \<Longrightarrow> u @ v \<in> lang (Seq r s)"
  by auto

lemma optional_some: "w \<in> lang (expression rs) \<Longrightarrow> w \<in> lang (optional rs)"
  by (simp add: optional_def)

lemma star_class: "set w \<subseteq> set cs \<Longrightarrow> w \<in> lang (Star (Class cs))"
  by (induction w) (auto intro: star_Nil simp: star_of_Cons)

lemma at_least_class: "set w \<subseteq> set cs \<Longrightarrow> n \<le> length w \<Longrightarrow> w \<in> lang (at_least n (Class cs))"
proof (induction n arbitrary: w)
  case 0 then show ?case by (simp add: star_class del: lang.simps)
next
  case (Suc n)
  then obtain c v where "w = [c] @ v" and "c \<in> set cs" and "v \<in> lang (at_least n (Class cs))"
    by (cases w) auto
  then show ?case unfolding at_least.simps by (simp only:) (intro SeqI, simp_all)
qed

lemma sha256_digest:
  assumes "set w \<subseteq> set xdigits" and "32 \<le> length w"
  shows "''sha256:'' @ w \<in> lang DigestRegexp"
proof -
  have none: "[] \<in> lang (Star r)" for r by (simp add: star_Nil)
  have "''s'' @ ''ha256'' @ [] @ '':'' @ w \<in> lang DigestRegexp"
    unfolding DigestRegexp_def
    by (intro SeqI at_least_class assms star_class none) (simp_all add: upper_def lower_def digits_def)
  then show ?thesis by simp
qed

lemma name_component:
  assumes "set (c # w) \<subseteq> set lower"
  shows "c # w \<in> lang nameComponentRegexp"
proof -
  have "([c] @ w) @ [] @ [] \<in> lang nameComponentRegexp"
    unfolding nameComponentRegexp_def alphaNumericRegexp_def plus_def expression.simps
    by (intro SeqI star_class) (use assms in \<open>auto simp: optional_def\<close>)
  then show ?thesis by simp
qed

lemma repeated_once: "w \<in> lang (expression rs) \<Longrightarrow> w \<in> lang (repeated rs)"
  unfolding repeated_def using SeqI [of w "expression rs" "[]" "Star (expression rs)"] by (simp add: star_Nil)

lemma two_part_path:
  assumes "set (c # v) \<subseteq> set lower" and "set (d # w) \<subseteq> set lower"
  shows "(c # v) @ ''/'' @ d # w \<in> lang PathRegexp"
proof -
  have "''/'' @ (d # w) @ [] \<in> lang (expression [literal (CHR ''/''), nameComponentRegexp])"
    unfolding expression.simps by (intro SeqI name_component assms(2)) (simp_all add: literal_def)
  from repeated_once [OF this] have "(c # v) @ (''/'' @ (d # w) @ []) @ [] \<in> lang PathRegexp"
    unfolding PathRegexp_def expression.simps(2)
    by (intro SeqI name_component assms(1) optional_some) (simp_all only: expression_single, simp)
  then show ?thesis by simp
qed

lemma domain_component:
  assumes "{c, d} \<union> set w \<subseteq> set lower"
  shows "c # w @ [d] \<in> lang domainComponentRegexp"
proof -
  have "[c] @ w @ [d] \<in> lang (Seq (Class (lower @ upper @ digits)) (Seq (Star (Class (lower @ upper @ digits @ ''-'')))
      (Class (lower @ upper @ digits))))"
    by (intro SeqI star_class) (use assms in auto)
  then show ?thesis by (simp add: domainComponentRegexp_def)
qed

lemma two_part_domain:
  assumes "{a, b} \<union> set v \<subseteq> set lower" and "{c, d} \<union> set w \<subseteq> set lower"
  shows "(a # v @ [b]) @ ''.'' @ c # w @ [d] \<in> lang DomainRegexp"
proof -
  have "''.'' @ (c # w @ [d]) @ [] \<in> lang (expression [literal (CHR ''.''), domainComponentRegexp])"
    unfolding expression.simps by (intro SeqI domain_component assms(2)) (simp_all add: literal_def)
  note once = repeated_once [OF this]
  have none: "[] \<in> lang (optional rs)" for rs by (simp add: optional_def)
  from once have "(a # v @ [b]) @ (''.'' @ (c # w @ [d]) @ []) @ [] @ [] \<in> lang DomainRegexp"
    unfolding DomainRegexp_def expression.simps(2)
    by (intro SeqI domain_component assms(1) none optional_some) (simp_all only: expression_single, simp)
  then show ?thesis by simp
qed

lemma full_reference:
  assumes "domain \<in> lang DomainRegexp" and "path \<in> lang PathRegexp" and "digest \<in> lang DigestRegexp"
  shows "domain @ ''/'' @ path @ ''@'' @ digest \<in> lang ReferenceRegexp"
proof -
  have lit: "[c] \<in> lang (literal c)" for c by (simp add: literal_def)
  have "(domain @ ''/'' @ []) @ path \<in> lang NameRegexp"
    unfolding NameRegexp_def expression.simps(2)
    using assms(2) [unfolded PathRegexp_def expression.simps(2)]
    by (intro SeqI optional_some) (simp_all only: expression.simps lang.simps,
        auto intro!: exI [of _ domain] exI [of _ "''/''"] assms(1) simp: literal_def)
  moreover have "''@'' @ digest @ [] \<in> lang (optional [literal (CHR ''@''), capture [DigestRegexp]])"
    by (intro optional_some, unfold expression.simps capture_def, intro SeqI lit) (simp_all add: assms(3))
  moreover have "[] \<in> lang (optional [literal (CHR '':''), capture [TagRegexp]])" by (simp add: optional_def)
  ultimately have "((domain @ ''/'' @ []) @ path) @ [] @ (''@'' @ digest @ []) @ [] \<in> lang (expression [capture [NameRegexp],
      optional [literal (CHR '':''), capture [TagRegexp]], optional [literal (CHR ''@''), capture [DigestRegexp]]])"
    unfolding expression.simps by (intro SeqI) (simp_all add: capture_def)
  then show ?thesis by (simp add: ReferenceRegexp_def anchored_def)
qed

lemma built_image_run:
  assumes "fst (e_get E KJenkinsImage (j_namespace j) (js_imageRef (j_spec j)) (world s)) = Inr (OJenkinsImage i)"
    and "js_imageRef (j_spec j) \<noteq> []" and "ji_phase i = ImageBuildSuccessful" and "ji_builds i \<noteq> []"
  shows "\<exists>s'. master_image E j img s = (Done (Inr (im_registry (ji_to i) @ ''/'' @ im_name (ji_to i) @ ''@'' @
    ib_image (last (ji_builds i)))), s')"
proof -
  obtain w where g: "e_get E KJenkinsImage (j_namespace j) (js_imageRef (j_spec j)) (world s) = (Inr (OJenkinsImage i), w)"
    using assms(1) by (metis prod.collapse)
  have get: "client_get E KJenkinsImage as_image (j_namespace j) (js_imageRef (j_spec j)) s =
      (Done (Inr i), s\<lparr>world := w, log := log s @ [(CGet KJenkinsImage (j_namespace j) (js_imageRef (j_spec j)), None)]\<rparr>)"
    by (rule client_get_answer [OF g]) (simp add: as_image_def)
  show ?thesis
    using assms(2-4) by (simp add: master_image_def Let_def run_bindP get case_nonempty ret_def)
qed

section \<open>Properties\<close>

definition sample_image :: jenkins_image where
  "sample_image = \<lparr>ji_meta = empty_meta\<lparr>om_name := ''img'', om_namespace := ''ns''\<rparr>,
     ji_from = \<lparr>im_name = [], im_tag = [], im_registry = [], im_secret = []\<rparr>,
     ji_to = \<lparr>im_name = ''jenkins'', im_tag = ''1'', im_registry = [], im_secret = ''push''\<rparr>,
     ji_plugins = [\<lparr>ip_name = ''git'', ip_version = ''4.0'', ip_updateCenter = []\<rparr>],
     ji_updateCenter = [], ji_phase = [], ji_builds = []\<rparr>"

text \<open>The sample image after a build, with a given target registry.\<close>

definition built_sample :: "string \<Rightarrow> jenkins_image" where
  "built_sample r = sample_image\<lparr>ji_to := (ji_to sample_image)\<lparr>im_registry := r, im_name := ''team/jenkins''\<rparr>,
    ji_builds := [\<lparr>ib_image = ''sha256:0123456789abcdef0123456789abcdef'', ib_md5 = [], ib_plugins = []\<rparr>],
    ji_phase := ''ImageBuildSuccessful''\<rparr>"

definition build_pod :: "string \<Rightarrow> pod" where
  "build_pod phase = \<lparr>pod_meta = empty_meta\<lparr>om_name := ''img-builder'', om_namespace := ''ns''\<rparr>,
     pod_spec_of = empty_pod_spec, pod_phase = phase, pod_containerStatuses = [Some (''sha256:1'' @ nl)]\<rparr>"

definition image_cluster :: "kobj list \<Rightarrow> cluster sys" where
  "image_cluster xs = \<lparr>world = \<lparr>objects = OJenkinsImage sample_image # xs, clock = 0\<rparr>, log = []\<rparr>"

lemma sample_image_keys:
  "image_key sample_image = (KJenkinsImage, ''ns'', ''img'')" "proper_key (image_key sample_image)"
  "dockerfile_key sample_image = (KConfigMap, ''ns'', ''img-dockerfile'')"
  "builder_key sample_image = (KPod, ''ns'', ''img-builder'')"
  "obj_key (OJenkinsImage sample_image) = (KJenkinsImage, ''ns'', ''img'')"
  "obj_key (OPod (build_pod phase)) = (KPod, ''ns'', ''img-builder'')"
  by (simp_all add: sample_image_def image_key_def dockerfile_key_def builder_key_def obj_key_def build_pod_def
      proper_key_def cluster_scoped_def suffixed_def DockerfileNameSuffix_def BuilderSuffix_def)

text \<open>
  C11. Three passes over a \<open>JenkinsImage\<close> on the (in-memory) API server end without an error; then
  its config map exists (the one with the Dockerfile of its specification, owned by it, unless one of
  that name was there before), its builder pod exists (a pod that was there before is kept), the
  third pass starts the goroutine on that pod, and no other object has changed.
\<close>

theorem image_passes:
  assumes "wf_cluster (world s)" and "lookup (world s) (KJenkinsImage, ns, name) = Some (OJenkinsImage i)"
  shows "\<exists>rs s'. three_passes (fake_env runs) registry ns name s = (Done rs, s') \<and>
    passes_post i (lookup (world s)) rs (lookup (world s'))"
proof -
  from lookup_key [OF assms(2)] assms(1) have k: "image_key i = (KJenkinsImage, ns, name)" "proper_key (image_key i)"
    by (auto simp: image_key_def obj_key_def wf_cluster_def)
  then have "om_namespace (ji_meta i) = ns" "om_name (ji_meta i) = name" by (simp_all add: image_key_def)
  with fake.three_passes_achieve [where m = "lookup (world s)" and i = i, OF _ k(2)] assms(2) k(1)
  have "achieves wf_cluster lookup (lookup (world s)) (three_passes (fake_env runs) registry ns name) (passes_post i (lookup (world s)))"
    by simp
  from achievesE [OF this assms(1) refl] show ?thesis by metis
qed

theorem image_passes_witness:
  "\<exists>rs s'. three_passes (fake_env (\<lambda>q. None)) False ''ns'' ''img'' (image_cluster []) = (Done rs, s') \<and>
    lookup (world s') (KConfigMap, ''ns'', ''img-dockerfile'') = Some (OConfigMap (owned_dockerfile sample_image)) \<and>
    lookup (world s') (KPod, ''ns'', ''img-builder'') \<noteq> None"
proof -
  have wf: "wf_cluster (world (image_cluster []))"
    by (simp add: wf_cluster_def image_cluster_def sample_image_keys proper_key_def cluster_scoped_def)
  have found: "lookup (world (image_cluster [])) = [(KJenkinsImage, ''ns'', ''img'') \<mapsto> OJenkinsImage sample_image]"
    by (rule ext) (simp add: lookup_def image_cluster_def sample_image_keys)
  have at: "lookup (world (image_cluster [])) (KJenkinsImage, ''ns'', ''img'') = Some (OJenkinsImage sample_image)"
    unfolding found by simp
  obtain rs s' where run: "three_passes (fake_env (\<lambda>q. None)) False ''ns'' ''img'' (image_cluster []) = (Done rs, s')"
    and post: "passes_post sample_image (lookup (world (image_cluster []))) rs (lookup (world s'))"
    using image_passes [OF wf at] by metis
  have "lookup (world s') (KConfigMap, ''ns'', ''img-dockerfile'') = Some (OConfigMap (owned_dockerfile sample_image))"
    using post unfolding passes_post_def sample_image_keys found by simp
  moreover have "lookup (world s') (KPod, ''ns'', ''img-builder'') \<noteq> None"
    using post unfolding passes_post_def sample_image_keys by auto
  ultimately show ?thesis using run by blast
qed

text \<open>
  C12. Once the builder pod has succeeded with one terminated container, a pass and its goroutine
  record the build: the stored image gets the message of the container as one more build (unless it
  has that build already) and its phase becomes successful, so a Jenkins that refers to the image can
  use it; nothing else changes.  The checksum recorded is that of the Dockerfile in the namespace
  with the name of the image, of the empty text when there is none.
\<close>

theorem build_recorded:
  assumes "wf_cluster (world s)" and "lookup (world s) (KJenkinsImage, ns, name) = Some (OJenkinsImage i)"
    and "lookup (world s) (dockerfile_key i) \<noteq> None" and "lookup (world s) (builder_key i) = Some (OPod p)"
    and "pod_phase p = ''Succeeded''" and "pod_containerStatuses p = [Some message]"
  shows "\<exists>s'. build_pass (Suc k) (fake_env runs) registry ns name s = (Done ((empty_result, None), Some ()), s') \<and>
    lookup (world s') = (lookup (world s))((KJenkinsImage, ns, name) \<mapsto>
      OJenkinsImage (with_build (dockerfile_seen (lookup (world s)) i) message i))"
proof -
  from lookup_key [OF assms(2)] assms(1) have key: "image_key i = (KJenkinsImage, ns, name)" "proper_key (image_key i)"
    by (auto simp: image_key_def obj_key_def wf_cluster_def)
  then have n: "om_namespace (ji_meta i) = ns" "om_name (ji_meta i) = name" by (simp_all add: image_key_def)
  have pod: "obj_key (OPod p) = builder_key i" using lookup_key [OF assms(4)] by simp
  have at: "lookup (world s) (image_key i) = Some (OJenkinsImage i)" unfolding key(1) by (rule assms(2))
  from achievesE [OF fake.build_pass_achieves [where m = "lookup (world s)" and i = i, OF at key(2) assms(3-6) pod] assms(1) refl]
  show ?thesis unfolding n key(1) gives_iff by metis
qed

text \<open>The image \<open>img\<close> in the namespace \<open>ns\<close>: its own Dockerfile is not the one that is summed.\<close>

theorem build_recorded_witness:
  "\<exists>s'. build_pass (Suc 0) (fake_env (\<lambda>q. None)) False ''ns'' ''img''
      (image_cluster [OPod (build_pod ''Succeeded''), OConfigMap (owned_dockerfile sample_image)]) =
      (Done ((empty_result, None), Some ()), s') \<and>
    lookup (world s') (KJenkinsImage, ''ns'', ''img'') = Some (OJenkinsImage (sample_image\<lparr>ji_builds :=
      [\<lparr>ib_image = ''sha256:1'', ib_md5 = ''d41d8cd98f00b204e9800998ecf8427e'', ib_plugins = []\<rparr>], ji_phase := ''ImageBuildSuccessful''\<rparr>))"
proof -
  let ?s = "image_cluster [OPod (build_pod ''Succeeded''), OConfigMap (owned_dockerfile sample_image)]"
  have cm: "obj_key (OConfigMap (owned_dockerfile sample_image)) = (KConfigMap, ''ns'', ''img-dockerfile'')"
    unfolding image_keys(1) sample_image_keys ..
  have wf: "wf_cluster (world ?s)"
    by (simp add: wf_cluster_def image_cluster_def sample_image_keys cm proper_key_def cluster_scoped_def)
  have found: "lookup (world ?s) = [(KJenkinsImage, ''ns'', ''img'') \<mapsto> OJenkinsImage sample_image,
      (KPod, ''ns'', ''img-builder'') \<mapsto> OPod (build_pod ''Succeeded''),
      (KConfigMap, ''ns'', ''img-dockerfile'') \<mapsto> OConfigMap (owned_dockerfile sample_image)]"
    by (rule ext) (simp add: lookup_def image_cluster_def sample_image_keys cm)
  have at: "lookup (world ?s) (KJenkinsImage, ''ns'', ''img'') = Some (OJenkinsImage sample_image)"
    "lookup (world ?s) (dockerfile_key sample_image) \<noteq> None"
    "lookup (world ?s) (builder_key sample_image) = Some (OPod (build_pod ''Succeeded''))"
    unfolding found sample_image_keys by simp_all
  have pod: "pod_phase (build_pod ''Succeeded'') = ''Succeeded''"
    "pod_containerStatuses (build_pod ''Succeeded'') = [Some (''sha256:1'' @ nl)]" by (simp_all add: build_pod_def)
  have seen: "dockerfile_seen (lookup (world ?s)) sample_image = []"
    unfolding found by (simp add: dockerfile_seen_def sample_image_def)
  have msg: "Trim (''sha256:1'' @ nl) YamlMultilineDataFieldCutSet = ''sha256:1''" by code_simp
  have img: "with_build [] (''sha256:1'' @ nl) sample_image = sample_image\<lparr>ji_builds :=
      [\<lparr>ib_image = ''sha256:1'', ib_md5 = ''d41d8cd98f00b204e9800998ecf8427e'', ib_plugins = []\<rparr>], ji_phase := ''ImageBuildSuccessful''\<rparr>"
    by (simp only: with_build_def Let_def msg md5_empty ImageBuildSuccessful_def) (simp add: sample_image_def)
  from build_recorded [OF wf at pod, of 0 "\<lambda>q. None" False] show ?thesis
    unfolding seen img by (auto simp only: fun_upd_same)
qed

text \<open>
  C13. The wait for the builder pod ends with the first read that fails or finds the pod succeeded, with
  that outcome, and makes no other call; it has not ended after \<open>n\<close> reads exactly when each of them
  found a pod of another phase.  A pod that failed is one of those: the wait for it never ends.
\<close>

theorem wait_for_pod:
  "\<exists>s' es. WaitForPodIsCompleted n E podName ns s = (Done (first_verdict n (nth_read E podName ns (world s))), s') \<and>
    log s' = log s @ es \<and> (\<forall>e \<in> set es. fst e = CGet KPod ns podName) \<and>
    (first_verdict n (nth_read E podName ns (world s)) = None \<longleftrightarrow>
      (\<forall>k < n. \<exists>p. nth_read E podName ns (world s) k = Inr p \<and> pod_phase p \<noteq> ''Succeeded''))"
proof -
  have "verdict r = None \<longleftrightarrow> (\<exists>p. r = Inr p \<and> pod_phase p \<noteq> ''Succeeded'')" for r
    by (cases r) (simp_all add: verdict_def)
  with wait_runs [of n E podName ns s] show ?thesis
    by (simp only: first_verdict_None list_all_iff) blast
qed

theorem wait_for_pod_witness:
  "\<forall>n. \<exists>s'. WaitForPodIsCompleted n (fake_env (\<lambda>q. None)) ''img-builder'' ''ns''
    (image_cluster [OPod (build_pod ''Failed'')]) = (Done None, s')"
proof
  fix n
  let ?E = "fake_env (\<lambda>q. None)" and ?s = "image_cluster [OPod (build_pod ''Failed'')]"
  have get: "e_get ?E KPod ''ns'' ''img-builder'' (world ?s) = (Inr (OPod (build_pod ''Failed'')), world ?s)"
    by (simp add: fake_env_def tracker_get_def filterByNamespaceAndName_def matches_def image_cluster_def build_pod_def)
  have same: "world_at ?E ''img-builder'' ''ns'' (world ?s) k = world ?s" for k
    by (induction k) (simp_all add: get)
  have "nth_read ?E ''img-builder'' ''ns'' (world ?s) k = Inr (build_pod ''Failed'')" for k
    unfolding nth_read_def same pod_read_def get by (simp add: decode_def as_pod_def)
  moreover have "pod_phase (build_pod ''Failed'') \<noteq> ''Succeeded''" by (simp add: build_pod_def)
  ultimately show "\<exists>s'. WaitForPodIsCompleted n ?E ''img-builder'' ''ns'' ?s = (Done None, s')"
    using wait_for_pod [of n ?E "''img-builder''" "''ns''" ?s] by auto
qed



text \<open>
  The check for the image registry answers whether the service of the registry has a cluster IP, and
  changes nothing on the API server.  It is never marked as done: the next check
  reads from the API server again.
\<close>

theorem registry_check_correct:
  assumes "wf_cluster (world s)" and "\<not> imageRegistryAlreadyChecked v"
  defines "there \<equiv> registry_there (lookup (world s))"
  shows "\<exists>s' r es. IsImageRegistryAvailable (fake_env runs) v s =
      (Done (there, \<lparr>isImageRegistryAvailable = there, imageRegistryAlreadyChecked = False\<rparr>), s') \<and>
    lookup (world s') = lookup (world s) \<and>
    log s' = log s @ (CGet KNamespace [] DefaultOpenShiftImageRegistryNamespace, r) # es"
proof -
  have v: "v\<lparr>isImageRegistryAvailable := there\<rparr> = \<lparr>isImageRegistryAvailable = there, imageRegistryAlreadyChecked = False\<rparr>"
    using assms(2) by (cases v) simp
  obtain s' where run: "IsImageRegistryAvailable (fake_env runs) v s = (Done (there, v\<lparr>isImageRegistryAvailable := there\<rparr>), s')"
    and same: "lookup (world s') = lookup (world s)"
    using achievesE [OF fake.registry_achieves [where m = "lookup (world s)", OF assms(2)] assms(1) refl]
    unfolding gives_iff there_def by metis
  from registry_check_calls [OF assms(2) run] run same show ?thesis unfolding v by blast
qed

theorem registry_check_correct_witness:
  "\<exists>s'. IsImageRegistryAvailable (fake_env (\<lambda>q. None)) initial_check (image_cluster []) = (Done (False, initial_check), s')"
proof -
  have wf: "wf_cluster (world (image_cluster []))"
    by (simp add: wf_cluster_def image_cluster_def sample_image_keys proper_key_def cluster_scoped_def)
  have "lookup (world (image_cluster [])) = [(KJenkinsImage, ''ns'', ''img'') \<mapsto> OJenkinsImage sample_image]"
    by (rule ext) (simp add: lookup_def image_cluster_def sample_image_keys)
  then have there: "registry_there (lookup (world (image_cluster []))) = False" by (simp add: registry_there_def)
  have v: "\<not> imageRegistryAlreadyChecked initial_check"
    "\<lparr>isImageRegistryAvailable = False, imageRegistryAlreadyChecked = False\<rparr> = initial_check" by (simp_all add: initial_check_def)
  from registry_check_correct [OF wf v(1), of "\<lambda>q. None"] show ?thesis unfolding there v(2) by blast
qed

text \<open>
  C36. The image name that a Jenkins gets from a successful build is the target registry, the target name
  and the digest of the last build.  It passes the image check of the validation when the
  registry is a domain, the name a path and the build a digest; without a target registry it fails the check,
  although the image is then pushed to the registry of the cluster.
\<close>

theorem built_image_reference:
  assumes "fst (e_get E KJenkinsImage (j_namespace j) (js_imageRef (j_spec j)) (world s)) = Inr (OJenkinsImage i)"
    and "js_imageRef (j_spec j) \<noteq> []" and "ji_phase i = ImageBuildSuccessful" and "ji_builds i \<noteq> []"
  defines "img \<equiv> im_registry (ji_to i) @ ''/'' @ im_name (ji_to i) @ ''@'' @ ib_image (last (ji_builds i))"
  shows "(\<exists>s'. master_image E j given s = (Done (Inr img), s')) \<and>
    (MatchString DomainRegexp (im_registry (ji_to i)) \<longrightarrow> MatchString PathRegexp (im_name (ji_to i)) \<longrightarrow>
      MatchString DigestRegexp (ib_image (last (ji_builds i))) \<longrightarrow> image_ok img) \<and>
    (im_registry (ji_to i) = [] \<longrightarrow> \<not> container_ok vols (c\<lparr>jc_image := img\<rparr>) \<and>
      GetDestinationRepository True i = ''--destination=image-registry.openshift-image-registry.svc:5000/'' @
        om_namespace (ji_meta i) @ ''/'' @ om_name (ji_meta i) @ '':latest'')"
proof (intro conjI impI)
  show "\<exists>s'. master_image E j given s = (Done (Inr img), s')"
    unfolding img_def by (rule built_image_run [OF assms(1-4)])
next
  assume "MatchString DomainRegexp (im_registry (ji_to i))" and "MatchString PathRegexp (im_name (ji_to i))"
    and "MatchString DigestRegexp (ib_image (last (ji_builds i)))"
  then show "image_ok img"
    unfolding img_def image_ok_matches MatchString_lang by (intro disjI2 full_reference)
next
  assume "im_registry (ji_to i) = []"
  then show "\<not> container_ok vols (c\<lparr>jc_image := img\<rparr>)" unfolding img_def by (simp add: slash_image_rejected)
next
  assume "im_registry (ji_to i) = []"
  then show "GetDestinationRepository True i = ''--destination=image-registry.openshift-image-registry.svc:5000/'' @
      om_namespace (ji_meta i) @ ''/'' @ om_name (ji_meta i) @ '':latest''"
    by (simp add: GetDestinationRepository_def Let_def BuilderDestinationArg_def DefaultImageRegistry_def DefaultImageTag_def)
qed

theorem built_image_reference_witness:
  "\<exists>s'. master_image (fake_env (\<lambda>q. None)) (sample_jenkins\<lparr>j_spec := empty_spec\<lparr>js_imageRef := ''img''\<rparr>\<rparr>) []
      \<lparr>world = \<lparr>objects = [OJenkinsImage (built_sample ''quay.io'')], clock = 0\<rparr>, log = []\<rparr> =
      (Done (Inr ''quay.io/team/jenkins@sha256:0123456789abcdef0123456789abcdef''), s') \<and>
    image_ok ''quay.io/team/jenkins@sha256:0123456789abcdef0123456789abcdef'' \<and>
    \<not> container_ok [] (empty_jcontainer\<lparr>jc_image := ''/team/jenkins@sha256:0123456789abcdef0123456789abcdef''\<rparr>)"
proof -
  let ?j = "sample_jenkins\<lparr>j_spec := empty_spec\<lparr>js_imageRef := ''img''\<rparr>\<rparr>"
  let ?s = "\<lambda>r. \<lparr>world = \<lparr>objects = [OJenkinsImage (built_sample r)], clock = 0\<rparr>, log = []\<rparr>"
  have get: "fst (e_get (fake_env (\<lambda>q. None)) KJenkinsImage (j_namespace ?j) (js_imageRef (j_spec ?j)) (world (?s r))) =
      Inr (OJenkinsImage (built_sample r))" for r
    by (simp add: fake_env_def tracker_get_def filterByNamespaceAndName_def matches_def built_sample_def sample_image_def
        sample_jenkins_def sample_meta_def j_namespace_def empty_spec_def)
  have ref: "js_imageRef (j_spec ?j) \<noteq> []" by simp
  have built: "ji_phase (built_sample r) = ImageBuildSuccessful" "ji_builds (built_sample r) \<noteq> []" for r
    by (simp_all add: ImageBuildSuccessful_def built_sample_def)
  have parts: "im_registry (ji_to (built_sample r)) = r" "im_name (ji_to (built_sample r)) = ''team/jenkins''"
    "ib_image (last (ji_builds (built_sample r))) = ''sha256:0123456789abcdef0123456789abcdef''" for r
    by (simp_all add: built_sample_def)
  have dom: "MatchString DomainRegexp ''quay.io''"
    unfolding MatchString_lang using two_part_domain [of "CHR ''q''" "CHR ''y''" "''ua''" "CHR ''i''" "CHR ''o''" "[]"]
    by (simp add: lower_def)
  have path: "MatchString PathRegexp ''team/jenkins''"
    unfolding MatchString_lang using two_part_path [of "CHR ''t''" "''eam''" "CHR ''j''" "''enkins''"] by (simp add: lower_def)
  have digest: "MatchString DigestRegexp ''sha256:0123456789abcdef0123456789abcdef''"
    unfolding MatchString_lang using sha256_digest [of "''0123456789abcdef0123456789abcdef''"] by (simp add: xdigits_def digits_def)
  have img: "''quay.io'' @ ''/'' @ ''team/jenkins'' @ ''@'' @ ''sha256:0123456789abcdef0123456789abcdef'' =
      ''quay.io/team/jenkins@sha256:0123456789abcdef0123456789abcdef''"
    "[] @ ''/'' @ ''team/jenkins'' @ ''@'' @ ''sha256:0123456789abcdef0123456789abcdef'' =
      ''/team/jenkins@sha256:0123456789abcdef0123456789abcdef''" by simp_all
  note full = built_image_reference [OF get ref built, of "[]" "''quay.io''", unfolded parts img]
  note empty = built_image_reference [OF get ref built, of "[]" "[]" "[]" empty_jcontainer, unfolded parts img]
  have ok: "image_ok ''quay.io/team/jenkins@sha256:0123456789abcdef0123456789abcdef''"
    by (rule full [THEN conjunct2, THEN conjunct1, rule_format, OF dom path digest])
  have bad: "\<not> container_ok [] (empty_jcontainer\<lparr>jc_image := ''/team/jenkins@sha256:0123456789abcdef0123456789abcdef''\<rparr>)"
    by (rule empty [THEN conjunct2, THEN conjunct2, rule_format, OF refl, THEN conjunct1])
  from full [THEN conjunct1] show ?thesis by (elim exE) (intro exI conjI ok bad)
qed

end
