(* ===== verification/Jenkins_Client.thy ===== *)
theory Jenkins_Client
  imports Kube_Ops Plugins
begin

text \<open>
  The client of the Jenkins API: \<^verbatim>\<open>pkg/client\<close>, and what it uses of the vendored \<^verbatim>\<open>bndr/gojenkins\<close>
  (its requester, jobs, builds and plugins).  The transport is a parameter: \<open>n_do\<close> answers a
  request with an error or a response.  So are the decoder of \<open>encoding/json\<close> (\<open>n_string\<close> gives the
  string a text decodes into the field at a path, if any), the encoder of forms and the parser of
  addresses.  The raw structures are read only in the fields modelled here.
\<close>

section \<open>Requests\<close>

datatype auth = NoAuth | Basic string string | Bearer string

record http_request =
  hq_method :: string
  hq_url :: string
  hq_query :: "(string \<times> string) list"
  hq_headers :: "(string \<times> string) list"
  hq_body :: "string option"
  hq_auth :: auth

record http_response =
  hp_status :: int
  hp_xerror :: string
  hp_body :: string

record 'w net =
  n_do :: "http_request \<Rightarrow> 'w \<Rightarrow> (goerr + http_response) \<times> 'w"
  n_string :: "string \<Rightarrow> string list \<Rightarrow> string option"
  n_plugins :: "string \<Rightarrow> installed_plugin list option"
  n_encode :: "(string \<times> string) list \<Rightarrow> string"
  n_requestURI :: "string \<Rightarrow> goerr + string"

record requester =
  rq_base :: string
  rq_basic :: "(string \<times> string) option"
  rq_token :: "string option"

text \<open>The transport \<open>setBearerToken\<close> sets the header last.\<close>

definition auth_of :: "requester \<Rightarrow> auth" where
  "auth_of rq = (case rq_token rq of
     Some t \<Rightarrow> Bearer t
   | None \<Rightarrow> (case rq_basic rq of None \<Rightarrow> NoAuth | Some (u, p) \<Rightarrow> Basic u p))"

definition http_do :: "'w net \<Rightarrow> http_request \<Rightarrow> ('w, goerr + http_response) prog" where
  "http_do N q = (\<lambda>s. case n_do N q (world s) of (r, w) \<Rightarrow> (Done r, s\<lparr>world := w\<rparr>))"

definition Do ::
  "'w net \<Rightarrow> requester \<Rightarrow> string \<Rightarrow> string \<Rightarrow> string \<Rightarrow> (string \<times> string) list \<Rightarrow> string option \<Rightarrow> (string \<times> string) list \<Rightarrow>
    ('w, goerr + http_response) prog" where
  "Do N rq method endpoint sfx headers body query =
     (let endpoint = (if \<not> suffix ''/'' endpoint \<and> method \<noteq> ''POST'' then endpoint @ ''/'' else endpoint) in
      bindE (http_do N \<lparr>hq_method = method, hq_url = rq_base rq @ endpoint @ sfx, hq_query = query, hq_headers = headers,
        hq_body = body, hq_auth = auth_of rq\<rparr>) (\<lambda>p.
      ret (if hp_xerror p \<noteq> [] then Inl (TextErr (hp_xerror p)) else Inr p)))"

definition json_type :: "string \<times> string" where "json_type = (''Content-Type'', ''application/json'')"
definition xml_type :: "string \<times> string" where "xml_type = (''Content-Type'', ''application/xml'')"
definition form_type :: "string \<times> string" where "form_type = (''Content-Type'', ''application/x-www-form-urlencoded'')"

definition GetJSON :: "'w net \<Rightarrow> requester \<Rightarrow> string \<Rightarrow> (string \<times> string) list \<Rightarrow> ('w, goerr + http_response) prog" where
  "GetJSON N rq endpoint query = Do N rq ''GET'' endpoint ''api/json'' [json_type] None query"

definition GetXML :: "'w net \<Rightarrow> requester \<Rightarrow> string \<Rightarrow> (string \<times> string) list \<Rightarrow> ('w, goerr + http_response) prog" where
  "GetXML N rq endpoint query = Do N rq ''GET'' endpoint [] [xml_type] None query"

text \<open>The error of the read is dropped, and the missing response dereferenced.\<close>

definition SetCrumb :: "'w net \<Rightarrow> requester \<Rightarrow> ('w, (string \<times> string) list) prog" where
  "SetCrumb N rq = bindP (GetJSON N rq ''/crumbIssuer/api/json'' []) (\<lambda>r. case r of
     Inl e \<Rightarrow> crash ''nil pointer dereference: response''
   | Inr p \<Rightarrow>
       let crumb = (\<lambda>k. case n_string N (hp_body p) [k] of None \<Rightarrow> [] | Some v \<Rightarrow> v) in
       ret (if hp_status p = 200 \<and> crumb ''crumbRequestField'' \<noteq> [] then [(crumb ''crumbRequestField'', crumb ''crumb'')] else []))"

definition Post :: "'w net \<Rightarrow> requester \<Rightarrow> string \<Rightarrow> (string \<times> string) list \<Rightarrow> ('w, goerr + http_response) prog" where
  "Post N rq endpoint query = bindP (SetCrumb N rq) (\<lambda>crumb.
     Do N rq ''POST'' endpoint [] (crumb @ [form_type]) None query)"

definition PostXML :: "'w net \<Rightarrow> requester \<Rightarrow> string \<Rightarrow> string \<Rightarrow> (string \<times> string) list \<Rightarrow> ('w, goerr + http_response) prog" where
  "PostXML N rq endpoint xml query = bindP (SetCrumb N rq) (\<lambda>crumb.
     Do N rq ''POST'' endpoint [] (crumb @ [xml_type]) (Some xml) query)"

section \<open>Jobs\<close>

record job =
  jb_base :: string
  jb_url :: string

definition status_error :: "int \<Rightarrow> goerr" where
  "status_error st = TextErr (fmt_d st)"

text \<open>Decoding a body into the raw job.\<close>

definition job_decode :: "'w net \<Rightarrow> http_response \<Rightarrow> job \<Rightarrow> job" where
  "job_decode N p j = (case n_string N (hp_body p) [''url''] of None \<Rightarrow> j | Some u \<Rightarrow> j\<lparr>jb_url := u\<rparr>)"

definition job_Poll :: "'w net \<Rightarrow> requester \<Rightarrow> job \<Rightarrow> ('w, goerr + int \<times> job) prog" where
  "job_Poll N rq j = bindE (GetJSON N rq (jb_base j) []) (\<lambda>p. ret (Inr (hp_status p, job_decode N p j)))"

definition GetJob :: "'w net \<Rightarrow> requester \<Rightarrow> string \<Rightarrow> ('w, goerr + job) prog" where
  "GetJob N rq name = bindE (job_Poll N rq \<lparr>jb_base = ''/job/'' @ name, jb_url = []\<rparr>) (\<lambda>(st, j).
     ret (if st = 200 then Inr j else Inl (status_error st)))"

text \<open>\<open>strings.LastIndex\<close>.\<close>

fun last_index :: "string \<Rightarrow> string \<Rightarrow> nat option" where
  "last_index [] sub = (if sub = [] then Some 0 else None)"
| "last_index (c # s) sub = (case last_index s sub of
     Some k \<Rightarrow> Some (Suc k)
   | None \<Rightarrow> if prefix sub (c # s) then Some 0 else None)"

definition parentBase :: "job \<Rightarrow> string option" where
  "parentBase j = map_option (\<lambda>k. take k (jb_base j)) (last_index (jb_base j) ''/job/'')"

text \<open>The poll after a successful write only refreshes the raw job.\<close>

definition job_refresh :: "'w net \<Rightarrow> requester \<Rightarrow> job \<Rightarrow> ('w, job) prog" where
  "job_refresh N rq j = bindP (job_Poll N rq j) (\<lambda>r. ret (case r of Inl e \<Rightarrow> j | Inr (st, j) \<Rightarrow> j))"

definition job_Create :: "'w net \<Rightarrow> requester \<Rightarrow> job \<Rightarrow> string \<Rightarrow> (string \<times> string) list \<Rightarrow> ('w, goerr + job) prog" where
  "job_Create N rq j config qr = (case parentBase j of
     None \<Rightarrow> crash ''slice bounds out of range''
   | Some parent \<Rightarrow>
       bindE (PostXML N rq (parent @ ''/createItem'') config qr) (\<lambda>p.
         if hp_status p = 200 then bindP (job_refresh N rq (job_decode N p j)) (\<lambda>j. ret (Inr j))
         else ret (Inl (status_error (hp_status p)))))"

definition CreateJob :: "'w net \<Rightarrow> requester \<Rightarrow> string \<Rightarrow> string \<Rightarrow> ('w, goerr + job) prog" where
  "CreateJob N rq config name = job_Create N rq \<lparr>jb_base = ''/job/'' @ name, jb_url = []\<rparr> config [(''name'', name)]"

definition UpdateConfig :: "'w net \<Rightarrow> requester \<Rightarrow> job \<Rightarrow> string \<Rightarrow> ('w, goerr + job) prog" where
  "UpdateConfig N rq j config =
     bindE (PostXML N rq (jb_base j @ ''/config.xml'') config []) (\<lambda>p.
       if hp_status p = 200 then bindP (job_refresh N rq j) (\<lambda>j. ret (Inr j))
       else ret (Inl (status_error (hp_status p))))"

definition isNotFoundError :: "goerr \<Rightarrow> bool" where
  "isNotFoundError e \<longleftrightarrow> err_text e = ''404''"

text \<open>The job, whether it was created, and the error.\<close>

definition CreateOrUpdateJob :: "'w net \<Rightarrow> requester \<Rightarrow> string \<Rightarrow> string \<Rightarrow> ('w, (job option \<times> bool) \<times> goerr option) prog" where
  "CreateOrUpdateJob N rq config jobName = bindP (GetJob N rq jobName) (\<lambda>r. case r of
     Inl e \<Rightarrow>
       if isNotFoundError e then
         bindP (CreateJob N rq config jobName) (\<lambda>c. ret (case c of
           Inl e \<Rightarrow> ((None, True), Some (Stacked e)) | Inr j \<Rightarrow> ((Some j, True), None)))
       else ret ((None, False), Some (Stacked e))
   | Inr j \<Rightarrow>
       bindP (UpdateConfig N rq j config) (\<lambda>u. ret (case u of
         Inl e \<Rightarrow> ((Some j, False), Some (Stacked e)) | Inr j \<Rightarrow> ((Some j, False), None))))"

section \<open>Builds\<close>

text \<open>\<open>strings.Replace(s, old, "", -1)\<close> for a text that is not empty.\<close>

fun remove_all :: "nat \<Rightarrow> string \<Rightarrow> string \<Rightarrow> string" where
  "remove_all 0 sub s = s"
| "remove_all (Suc n) sub [] = []"
| "remove_all (Suc n) sub (c # s) =
     (if sub \<noteq> [] \<and> prefix sub (c # s) then remove_all n sub (drop (length sub) (c # s)) else c # remove_all n sub s)"

definition job_GetBuild :: "'w net \<Rightarrow> requester \<Rightarrow> job \<Rightarrow> int \<Rightarrow> ('w, goerr + string) prog" where
  "job_GetBuild N rq j number =
     (let jobURL = remove_all (length (jb_url j)) (rq_base rq) (jb_url j); base = jobURL @ ''/'' @ fmt_d number in
      bindE (GetJSON N rq base [(''depth'', fmt_d 1)]) (\<lambda>p.
        ret (if hp_status p = 200 then Inr base else Inl (status_error (hp_status p)))))"

text \<open>The result names the build by its address.\<close>

definition GetBuild :: "'w net \<Rightarrow> requester \<Rightarrow> string \<Rightarrow> int \<Rightarrow> ('w, goerr + string) prog" where
  "GetBuild N rq jobName number =
     bindE (GetJob N rq jobName) (\<lambda>j. case n_requestURI N (jb_url j) of
       Inl e \<Rightarrow> ret (Inl e)
     | Inr uri \<Rightarrow> job_GetBuild N rq (j\<lparr>jb_url := uri\<rparr>) number)"

section \<open>Scripts\<close>

definition executeScript :: "'w net \<Rightarrow> requester \<Rightarrow> string \<Rightarrow> string \<Rightarrow> ('w, string \<times> goerr option) prog" where
  "executeScript N rq script verifier =
     (let fullScript = script @ nl @ ''print println('' @ quoted verifier @ '')'' in
      bindP (SetCrumb N rq) (\<lambda>crumb.
      bindP (Do N rq ''POST'' ''/scriptText'' [] (crumb @ [form_type]) (Some (n_encode N [(''script'', fullScript)])) []) (\<lambda>r.
      ret (case r of
        Inl e \<Rightarrow> ([], Some (Wrapped (''couldn'' @ [CHR 0x27] @ ''t execute groovy script, logs '' @ quoted []) e))
      | Inr p \<Rightarrow>
          if hp_status p \<noteq> 200
          then (hp_body p, Some (TextErr (''invalid status code '' @ quoted (fmt_d (hp_status p)) @ '', logs '' @ quoted (hp_body p))))
          else if \<not> Contains (hp_body p) verifier then (hp_body p, Some (GroovyErr [] [] [] []))
          else (hp_body p, None)))))"

definition ExecuteScript :: "'w env \<Rightarrow> 'w net \<Rightarrow> requester \<Rightarrow> string \<Rightarrow> ('w, string \<times> goerr option) prog" where
  "ExecuteScript E N rq script = bindP (now E) (\<lambda>t. executeScript N rq script (''verifier-'' @ fmt_d t))"

section \<open>Tokens, plugins and secrets\<close>

record user_token =
  ut_value :: string
  ut_base :: string

definition GenerateToken :: "'w net \<Rightarrow> requester \<Rightarrow> string \<Rightarrow> string \<Rightarrow> ('w, goerr + user_token) prog" where
  "GenerateToken N rq userName tokenName =
     (let endpoint = ''/user/'' @ userName @ ''/descriptorByName/jenkins.security.ApiTokenProperty/generateNewToken'' in
      bindP (Post N rq endpoint [(''newTokenName'', tokenName)]) (\<lambda>r. ret (case r of
        Inl e \<Rightarrow> Inl (Wrapped (''couldn'' @ [CHR 0x27] @ ''t generate API token'') e)
      | Inr p \<Rightarrow>
          let field = (\<lambda>path. case n_string N (hp_body p) path of None \<Rightarrow> [] | Some v \<Rightarrow> v) in
          if hp_status p = 200 then
            (if field [''status''] = ''ok'' then Inr \<lparr>ut_value = field [''data'', ''tokenValue''], ut_base = endpoint\<rparr>
             else Inl (TextErr (field [''status''])))
          else Inl (TextErr (''couldn'' @ [CHR 0x27] @ ''t generate API token: '' @ fmt_d (hp_status p))))))"

definition GetToken :: "user_token \<Rightarrow> string" where
  "GetToken token = ut_value token"

definition GetPlugins :: "'w net \<Rightarrow> requester \<Rightarrow> int \<Rightarrow> ('w, goerr + installed_plugin list) prog" where
  "GetPlugins N rq depth =
     bindE (GetJSON N rq ''/pluginManager'' [(''depth'', fmt_d depth)]) (\<lambda>p.
       ret (if hp_status p \<noteq> 200 then Inl (TextErr (''invalid status code returned: '' @ fmt_d (hp_status p)))
            else Inr (case n_plugins N (hp_body p) of None \<Rightarrow> [] | Some ps \<Rightarrow> ps)))"

text \<open>
  The expression for the secret of a node: fixed characters and (\<open>None\<close>) dots, which match any
  character but a line break, then letters and digits as many as there are.
\<close>

definition secret_marker :: "char option list" where
  "secret_marker = map Some (''<application-desc main-class='' @ dquote @ ''hudson'') @ [None] @ map Some ''remoting'' @ [None] @
     map Some ''jnlp'' @ [None] @ map Some (''Main'' @ dquote @ ''><argument>'')"

fun matches_at :: "char option list \<Rightarrow> string \<Rightarrow> bool" where
  "matches_at [] s = True"
| "matches_at (p # ps) [] = False"
| "matches_at (p # ps) (c # s) = ((case p of None \<Rightarrow> c \<noteq> CHR 0x0A | Some d \<Rightarrow> c = d) \<and> matches_at ps s)"

definition secret_chars :: string where "secret_chars = ''abcdefghijklmnopqrstuvwxyz0123456789''"

text \<open>The leftmost match.\<close>

fun find_secret :: "string \<Rightarrow> string option" where
  "find_secret [] = None"
| "find_secret (c # s) =
     (if matches_at secret_marker (c # s)
      then Some (takeWhile (\<lambda>c. c \<in> set secret_chars) (drop (length secret_marker) (c # s)))
      else find_secret s)"

definition GetNodeSecret :: "'w net \<Rightarrow> requester \<Rightarrow> string \<Rightarrow> ('w, goerr + string) prog" where
  "GetNodeSecret N rq name =
     bindP (GetXML N rq (''/computer/'' @ name @ ''/slave-agent.jnlp'') []) (\<lambda>r. ret (case r of
       Inl e \<Rightarrow> Inl (Stacked e)
     | Inr p \<Rightarrow> (case find_secret (hp_body p) of
         None \<Rightarrow> Inl (TextErr ''Node secret cannot be parsed'') | Some secret \<Rightarrow> Inr secret)))"

section \<open>Making a client\<close>

definition newClient :: "'w net \<Rightarrow> string \<Rightarrow> string \<Rightarrow> string \<Rightarrow> ('w, goerr + requester) prog" where
  "newClient N url userName passwordOrToken =
     (let url = (if suffix ''/'' url then butlast url else url);
          basic = length userName > 0 \<and> length passwordOrToken > 0;
          rq = \<lparr>rq_base = url, rq_basic = (if basic then Some (userName, passwordOrToken) else None),
            rq_token = (if basic then None else Some passwordOrToken)\<rparr> in
      bindP (GetJSON N rq ''/'' []) (\<lambda>init. case init of
        Inl e \<Rightarrow> ret (Inl (Wrapped (''couldn'' @ [CHR 0x27] @ ''t init Jenkins API client'') e))
      | Inr _ \<Rightarrow> bindP (GetJSON N rq ''/'' []) (\<lambda>poll. ret (case poll of
          Inl e \<Rightarrow> Inl (Wrapped (''couldn'' @ [CHR 0x27] @ ''t poll data from Jenkins API'') e)
        | Inr p \<Rightarrow>
            if hp_status p \<noteq> 200
            then Inl (TextErr (''couldn'' @ [CHR 0x27] @ ''t poll data from Jenkins API, invalid status code returned: '' @ fmt_d (hp_status p)))
            else Inr rq))))"

definition NewUserAndPasswordAuthorization :: "'w net \<Rightarrow> string \<Rightarrow> string \<Rightarrow> string \<Rightarrow> ('w, goerr + requester) prog" where
  "NewUserAndPasswordAuthorization N url userName passwordOrToken = newClient N url userName passwordOrToken"

definition NewBearerTokenAuthorization :: "'w net \<Rightarrow> string \<Rightarrow> string \<Rightarrow> ('w, goerr + requester) prog" where
  "NewBearerTokenAuthorization N url token = newClient N url [] token"

text \<open>
  \<open>Configuration.Exec\<close>: the clientset (\<open>None\<close> when nil), the executor and its stream, which gives
  the two outputs.
\<close>

definition Exec ::
  "bool \<Rightarrow> (exec_request \<Rightarrow> goerr option) \<Rightarrow> (exec_request \<Rightarrow> 'w \<Rightarrow> (goerr option \<times> string \<times> string) \<times> 'w) \<Rightarrow>
    jenkins \<Rightarrow> string \<Rightarrow> string \<Rightarrow> string list \<Rightarrow> ('w, goerr + string) prog" where
  "Exec clientSet newExecutor stream j podName containerName command =
     (if \<not> clientSet then crash ''nil pointer dereference: clientSet''
      else
       (let req = \<lparr>xr_pod = podName, xr_namespace = j_namespace j, xr_container = containerName, xr_command = command\<rparr> in
        case newExecutor req of
          Some e \<Rightarrow> ret (Inl (Wrapped ''pod exec error while creating Executor'' e))
        | None \<Rightarrow> (\<lambda>s. case stream req (world s) of ((err, stdout, stderr), w) \<Rightarrow>
            (Done (case err of None \<Rightarrow> Inr stdout
               | Some e \<Rightarrow> Inl (Wrapped (''pod exec error operation on stream: stdout '' @ quoted stdout @ '' stderr '' @ quoted stderr) e)),
             s\<lparr>world := w\<rparr>))))"

definition GetJenkinsClientFromServiceAccount ::
  "'w env \<Rightarrow> 'w net \<Rightarrow> api_settings \<Rightarrow> bool \<Rightarrow> (exec_request \<Rightarrow> goerr option) \<Rightarrow>
    (exec_request \<Rightarrow> 'w \<Rightarrow> (goerr option \<times> string \<times> string) \<times> 'w) \<Rightarrow> jenkins \<Rightarrow> ('w, goerr + requester) prog" where
  "GetJenkinsClientFromServiceAccount E N st clientSet newExecutor stream j =
     bindE (getJenkinsAPIUrl E st j) (\<lambda>url.
     bindP (GetPodByDeployment E j) (\<lambda>r. case r of
       Inl e \<Rightarrow> crash ''nil pointer dereference: masterPod''
     | Inr masterPod \<Rightarrow>
         bindE (Exec clientSet newExecutor stream j (om_name (pod_meta masterPod)) ''jenkins''
             [''cat'', ''/var/run/secrets/kubernetes.io/serviceaccount/token'']) (\<lambda>token.
           NewBearerTokenAuthorization N url token)))"

end
