(* ===== verification/Jenkins_Client_Correct.thy ===== *)
theory Jenkins_Client_Correct
  imports Jenkins_Client
begin

text \<open>
  The Jenkins client against a Jenkins: creating or updating a job, the outcome of a script, the
  secret of a node.
\<close>

section \<open>Creating or updating a job\<close>

text \<open>
  What the API of a Jenkins does with the job \<open>n\<close>: reads are answered and change nothing, and tell
  by their status whether the job is there; an item is created when it is not, and its
  configuration written when it is.
\<close>

definition answers ::
  "'w net \<Rightarrow> ('w \<Rightarrow> bool) \<Rightarrow> ('w \<Rightarrow> string \<Rightarrow> string option) \<Rightarrow> http_request \<Rightarrow> 'w \<Rightarrow> (int \<Rightarrow> bool) \<Rightarrow> (string \<Rightarrow> string option) \<Rightarrow> bool" where
  "answers N valid jobs q w st jobs' \<longleftrightarrow> (\<exists>p w'. n_do N q w = (Inr p, w') \<and> hp_xerror p = [] \<and> st (hp_status p) \<and>
     valid w' \<and> jobs w' = jobs')"

definition serves_job :: "'w net \<Rightarrow> string \<Rightarrow> ('w \<Rightarrow> bool) \<Rightarrow> ('w \<Rightarrow> string \<Rightarrow> string option) \<Rightarrow> string \<Rightarrow> bool" where
  "serves_job N base valid jobs n \<longleftrightarrow> (\<forall>w q. valid w \<longrightarrow>
     (hq_method q = ''GET'' \<longrightarrow> answers N valid jobs q w
       (\<lambda>st. hq_url q = base @ ''/job/'' @ n @ ''/api/json'' \<longrightarrow> st = (if jobs w n = None then 404 else 200)) (jobs w)) \<and>
     (\<forall>config. hq_method q = ''POST'' \<longrightarrow> hq_body q = Some config \<longrightarrow>
       (hq_url q = base @ ''/createItem'' \<longrightarrow> hq_query q = [(''name'', n)] \<longrightarrow> jobs w n = None \<longrightarrow>
         answers N valid jobs q w (\<lambda>st. st = 200) ((jobs w)(n \<mapsto> config))) \<and>
       (hq_url q = base @ ''/job/'' @ n @ ''/config.xml'' \<longrightarrow> jobs w n \<noteq> None \<longrightarrow>
         answers N valid jobs q w (\<lambda>st. st = 200) ((jobs w)(n \<mapsto> config)))))"

lemma Do_run:
  assumes "answers N valid jobs \<lparr>hq_method = method,
      hq_url = rq_base rq @ (if \<not> suffix ''/'' endpoint \<and> method \<noteq> ''POST'' then endpoint @ ''/'' else endpoint) @ sfx,
      hq_query = query, hq_headers = headers, hq_body = body, hq_auth = auth_of rq\<rparr> (world s) st jobs'"
  obtains p s' where "Do N rq method endpoint sfx headers body query s = (Done (Inr p), s')"
    "st (hp_status p)" "valid (world s')" "jobs (world s') = jobs'"
proof -
  let ?q = "\<lparr>hq_method = method,
      hq_url = rq_base rq @ (if \<not> suffix ''/'' endpoint \<and> method \<noteq> ''POST'' then endpoint @ ''/'' else endpoint) @ sfx,
      hq_query = query, hq_headers = headers, hq_body = body, hq_auth = auth_of rq\<rparr>"
  from assms obtain p w' where a: "n_do N ?q (world s) = (Inr p, w')" "hp_xerror p = []" "st (hp_status p)" "valid w'" "jobs w' = jobs'"
    unfolding answers_def by (elim exE conjE)
  have "Do N rq method endpoint sfx headers body query s = (Done (Inr p), s\<lparr>world := w'\<rparr>)"
    unfolding Do_def Let_def bindE_def run_bindP http_do_def append_assoc a(1) by (simp add: ret_def a(2))
  then show ?thesis by (rule that) (simp_all add: a(3-5))
qed

lemma last_index_here: "prefix sub s \<Longrightarrow> (\<And>k. 0 < k \<Longrightarrow> k \<le> length s \<Longrightarrow> \<not> prefix sub (drop k s)) \<Longrightarrow> last_index s sub = Some 0"
proof -
  have none: "(\<And>k. k \<le> length t \<Longrightarrow> \<not> prefix sub (drop k t)) \<Longrightarrow> last_index t sub = None" for t
  proof (induction t)
    case Nil
    from Nil [of 0] show ?case by simp
  next
    case (Cons c t)
    have "last_index t sub = None" by (rule Cons.IH) (use Cons.prems [of "Suc _"] in simp)
    with Cons.prems [of 0] show ?case by simp
  qed
  assume p: "prefix sub s" and no: "\<And>k. 0 < k \<Longrightarrow> k \<le> length s \<Longrightarrow> \<not> prefix sub (drop k s)"
  show ?thesis
  proof (cases s)
    case Nil
    with p show ?thesis by simp
  next
    case (Cons c t)
    have "last_index t sub = None" by (rule none) (use no [of "Suc _"] Cons in simp)
    with p Cons show ?thesis by simp
  qed
qed

lemma parent_of_plain_job:
  assumes "CHR ''/'' \<notin> set n"
  shows "parentBase \<lparr>jb_base = ''/job/'' @ n, jb_url = u\<rparr> = Some []"
proof -
  have late: "\<not> prefix ''/job/'' (drop i n)" for i
  proof
    assume "prefix ''/job/'' (drop i n)"
    then have "CHR ''/'' \<in> set (drop i n)" by (auto simp: prefix_def)
    with assms show False by (meson in_set_dropD)
  qed
  have "last_index (''/job/'' @ n) ''/job/'' = Some 0"
  proof (rule last_index_here)
    fix k :: nat assume "0 < k"
    then consider "k = 1" | "k = 2" | "k = 3" | "k = 4" | "k \<ge> 5" by linarith
    then show "\<not> prefix ''/job/'' (drop k (''/job/'' @ n))"
    proof cases
      case 4
      with assms show ?thesis by (auto simp: numeral_eq_Suc prefix_def)
    next
      case 5
      then have "drop k (''/job/'' @ n) = drop (k - 5) n" by (subst drop_append) (simp add: numeral_eq_Suc)
      with late show ?thesis by simp
    qed (simp_all add: numeral_eq_Suc)
  qed simp
  then show ?thesis by (simp add: parentBase_def)
qed

lemma serves_jobD:
  assumes "serves_job N base valid jobs n" and "valid w"
  shows "hq_method q = ''GET'' \<Longrightarrow> answers N valid jobs q w
      (\<lambda>st. hq_url q = base @ ''/job/'' @ n @ ''/api/json'' \<longrightarrow> st = (if jobs w n = None then 404 else 200)) (jobs w)"
    and "hq_method q = ''POST'' \<Longrightarrow> hq_body q = Some config \<Longrightarrow> hq_url q = base @ ''/createItem'' \<Longrightarrow>
      hq_query q = [(''name'', n)] \<Longrightarrow> jobs w n = None \<Longrightarrow> answers N valid jobs q w (\<lambda>st. st = 200) ((jobs w)(n \<mapsto> config))"
    and "hq_method q = ''POST'' \<Longrightarrow> hq_body q = Some config \<Longrightarrow> hq_url q = base @ ''/job/'' @ n @ ''/config.xml'' \<Longrightarrow>
      jobs w n \<noteq> None \<Longrightarrow> answers N valid jobs q w (\<lambda>st. st = 200) ((jobs w)(n \<mapsto> config))"
  using assms(1) [unfolded serves_job_def, rule_format, OF assms(2), of q] by blast+

lemma read_run:
  assumes "serves_job N (rq_base rq) valid jobs n" and "valid (world s)"
  obtains p s' where "GetJSON N rq endpoint query s = (Done (Inr p), s')" "valid (world s')" "jobs (world s') = jobs (world s)"
    "rq_base rq @ (if \<not> suffix ''/'' endpoint then endpoint @ ''/'' else endpoint) @ ''api/json'' = rq_base rq @ ''/job/'' @ n @ ''/api/json'' \<longrightarrow>
      hp_status p = (if jobs (world s) n = None then 404 else 200)"
proof -
  let ?url = "rq_base rq @ (if \<not> suffix ''/'' endpoint \<and> ''GET'' \<noteq> ''POST'' then endpoint @ ''/'' else endpoint) @ ''api/json''"
  let ?q = "\<lparr>hq_method = ''GET'', hq_url = ?url, hq_query = query, hq_headers = [json_type], hq_body = None, hq_auth = auth_of rq\<rparr>"
  have "answers N valid jobs ?q (world s) (\<lambda>st. hq_url ?q = rq_base rq @ ''/job/'' @ n @ ''/api/json'' \<longrightarrow>
      st = (if jobs (world s) n = None then 404 else 200)) (jobs (world s))"
    by (rule serves_jobD(1) [OF assms]) simp
  then obtain p s' where "Do N rq ''GET'' endpoint ''api/json'' [json_type] None query s = (Done (Inr p), s')"
    "hq_url ?q = rq_base rq @ ''/job/'' @ n @ ''/api/json'' \<longrightarrow> hp_status p = (if jobs (world s) n = None then 404 else 200)"
    "valid (world s')" "jobs (world s') = jobs (world s)"
    by (rule Do_run)
  then show ?thesis by (intro that [of p s']) (simp_all add: GetJSON_def)
qed

lemma crumb_run:
  assumes "serves_job N (rq_base rq) valid jobs n" and "valid (world s)"
  obtains crumb s' where "SetCrumb N rq s = (Done crumb, s')" "valid (world s')" "jobs (world s') = jobs (world s)"
proof -
  obtain p s' where g: "GetJSON N rq ''/crumbIssuer/api/json'' [] s = (Done (Inr p), s')" and s': "valid (world s')" "jobs (world s') = jobs (world s)"
    using assms by (rule read_run)
  have "\<exists>crumb. SetCrumb N rq s = (Done crumb, s')" by (simp add: SetCrumb_def run_bindP g ret_def Let_def)
  with s' that show ?thesis by blast
qed

lemma refresh_run:
  assumes "serves_job N (rq_base rq) valid jobs n" and "valid (world s)"
  obtains u s' where "job_refresh N rq j s = (Done (j\<lparr>jb_url := u\<rparr>), s')" "valid (world s')" "jobs (world s') = jobs (world s)"
proof -
  obtain p s' where g: "GetJSON N rq (jb_base j) [] s = (Done (Inr p), s')" and s': "valid (world s')" "jobs (world s') = jobs (world s)"
    using assms by (rule read_run)
  have "\<exists>u. job_refresh N rq j s = (Done (j\<lparr>jb_url := u\<rparr>), s')"
  proof (cases "n_string N (hp_body p) [''url'']")
    case None
    then show ?thesis
      by (intro exI [of _ "jb_url j"]) (simp add: job_refresh_def job_Poll_def bindE_def run_bindP g ret_def job_decode_def)
  next
    case (Some u)
    then show ?thesis
      by (intro exI [of _ u]) (simp add: job_refresh_def job_Poll_def bindE_def run_bindP g ret_def job_decode_def)
  qed
  with s' that show ?thesis by blast
qed

lemma write_run:
  assumes "serves_job N (rq_base rq) valid jobs n" and "valid (world s)"
    and "endpoint = ''/createItem'' \<and> query = [(''name'', n)] \<and> jobs (world s) n = None \<or>
      endpoint = ''/job/'' @ n @ ''/config.xml'' \<and> jobs (world s) n \<noteq> None"
  obtains p s' where "PostXML N rq endpoint config query s = (Done (Inr p), s')" "hp_status p = 200" "valid (world s')"
    "jobs (world s') = (jobs (world s))(n \<mapsto> config)"
proof -
  obtain crumb s1 where c: "SetCrumb N rq s = (Done crumb, s1)" and v: "valid (world s1)" and same: "jobs (world s1) = jobs (world s)"
    using crumb_run [OF assms(1,2)] by blast
  let ?q = "\<lparr>hq_method = ''POST'',
      hq_url = rq_base rq @ (if \<not> suffix ''/'' endpoint \<and> ''POST'' \<noteq> ''POST'' then endpoint @ ''/'' else endpoint) @ [],
      hq_query = query, hq_headers = crumb @ [xml_type], hq_body = Some config, hq_auth = auth_of rq\<rparr>"
  have "answers N valid jobs ?q (world s1) (\<lambda>st. st = 200) ((jobs (world s))(n \<mapsto> config))"
    using assms(3)
  proof
    assume a: "endpoint = ''/createItem'' \<and> query = [(''name'', n)] \<and> jobs (world s) n = None"
    show ?thesis
      unfolding same [symmetric] by (rule serves_jobD(2) [OF assms(1) v]) (use a in \<open>simp_all add: same\<close>)
  next
    assume a: "endpoint = ''/job/'' @ n @ ''/config.xml'' \<and> jobs (world s) n \<noteq> None"
    show ?thesis
      unfolding same [symmetric] by (rule serves_jobD(3) [OF assms(1) v]) (use a in \<open>simp_all add: same\<close>)
  qed
  then obtain p s' where d: "Do N rq ''POST'' endpoint [] (crumb @ [xml_type]) (Some config) query s1 = (Done (Inr p), s')"
    and s': "hp_status p = 200" "valid (world s')" "jobs (world s') = (jobs (world s))(n \<mapsto> config)"
    by (rule Do_run)
  have "PostXML N rq endpoint config query s = (Done (Inr p), s')" by (simp add: PostXML_def run_bindP c d)
  with s' that show ?thesis by blast
qed

lemma get_job_run:
  assumes "serves_job N (rq_base rq) valid jobs n" and "valid (world s)" and "n \<noteq> []" and "CHR ''/'' \<notin> set n"
  obtains u s' where "GetJob N rq n s = (Done (if jobs (world s) n = None then Inl (status_error 404)
      else Inr \<lparr>jb_base = ''/job/'' @ n, jb_url = u\<rparr>), s')" "valid (world s')" "jobs (world s') = jobs (world s)"
proof -
  let ?j = "\<lparr>jb_base = ''/job/'' @ n, jb_url = []\<rparr>"
  have no: "\<not> suffix ''/'' (''/job/'' @ n)" using assms(3,4) by (auto simp: suffix_def append_eq_append_conv2 append_eq_Cons_conv Cons_eq_append_conv)
  obtain p s' where g: "GetJSON N rq (jb_base ?j) [] s = (Done (Inr p), s')" and s': "valid (world s')" "jobs (world s') = jobs (world s)"
    and st: "rq_base rq @ (if \<not> suffix ''/'' (jb_base ?j) then jb_base ?j @ ''/'' else jb_base ?j) @ ''api/json'' = rq_base rq @ ''/job/'' @ n @ ''/api/json'' \<longrightarrow>
      hp_status p = (if jobs (world s) n = None then 404 else 200)"
    using assms(1,2) by (rule read_run)
  have st: "hp_status p = (if jobs (world s) n = None then 404 else 200)" using st no by simp
  obtain u where u: "job_decode N p ?j = \<lparr>jb_base = ''/job/'' @ n, jb_url = u\<rparr>"
    by (cases "n_string N (hp_body p) [''url'']") (simp_all add: job_decode_def)
  have "GetJob N rq n s = (Done (if jobs (world s) n = None then Inl (status_error 404)
      else Inr \<lparr>jb_base = ''/job/'' @ n, jb_url = u\<rparr>), s')"
    using g by (simp add: GetJob_def job_Poll_def bindE_def run_bindP ret_def u [simplified] st)
  with s' that show ?thesis by blast
qed

lemma create_run:
  assumes "serves_job N (rq_base rq) valid jobs n" and "valid (world s)" and "CHR ''/'' \<notin> set n" and "jobs (world s) n = None"
  shows "\<exists>u s'. CreateJob N rq config n s = (Done (Inr \<lparr>jb_base = ''/job/'' @ n, jb_url = u\<rparr>), s') \<and> valid (world s') \<and>
    jobs (world s') = (jobs (world s))(n \<mapsto> config)"
proof -
  let ?j = "\<lambda>u. \<lparr>jb_base = ''/job/'' @ n, jb_url = u\<rparr>"
  have endpoint: "''/createItem'' = ''/createItem'' \<and> [(''name'', n)] = [(''name'', n)] \<and> jobs (world s) n = None \<or>
    ''/createItem'' = ''/job/'' @ n @ ''/config.xml'' \<and> jobs (world s) n \<noteq> None" by (simp add: assms(4))
  obtain p s2 where w: "PostXML N rq ''/createItem'' config [(''name'', n)] s = (Done (Inr p), s2)" "hp_status p = 200"
    and v2: "valid (world s2)" and j2: "jobs (world s2) = (jobs (world s))(n \<mapsto> config)"
    using write_run [OF assms(1,2) endpoint] by blast
  obtain u2 where d: "job_decode N p (?j []) = ?j u2"
    by (cases "n_string N (hp_body p) [''url'']") (simp_all add: job_decode_def)
  obtain u3 s3 where r: "job_refresh N rq (?j u2) s2 = (Done ((?j u2)\<lparr>jb_url := u3\<rparr>), s3)" and v3: "valid (world s3)"
    and j3: "jobs (world s3) = jobs (world s2)"
    using assms(1) v2 by (rule refresh_run)
  have "CreateJob N rq config n s = (Done (Inr (?j u3)), s3)"
    unfolding CreateJob_def job_Create_def parent_of_plain_job [OF assms(3)] option.case append_Nil bindE_def run_bindP w(1)
    by (simp only: prod.case outcome.case sum.case w(2) if_True run_bindP d) (simp add: ret_def r [simplified])
  with v3 j3 j2 show ?thesis by metis
qed

lemma update_run:
  assumes "serves_job N (rq_base rq) valid jobs n" and "valid (world s)" and "jobs (world s) n \<noteq> None"
  shows "\<exists>u' s'. UpdateConfig N rq \<lparr>jb_base = ''/job/'' @ n, jb_url = u\<rparr> config s =
      (Done (Inr \<lparr>jb_base = ''/job/'' @ n, jb_url = u'\<rparr>), s') \<and> valid (world s') \<and>
    jobs (world s') = (jobs (world s))(n \<mapsto> config)"
proof -
  let ?j = "\<lambda>u. \<lparr>jb_base = ''/job/'' @ n, jb_url = u\<rparr>"
  have endpoint: "''/job/'' @ n @ ''/config.xml'' = ''/createItem'' \<and> [] = [(''name'', n)] \<and> jobs (world s) n = None \<or>
    ''/job/'' @ n @ ''/config.xml'' = ''/job/'' @ n @ ''/config.xml'' \<and> jobs (world s) n \<noteq> None" by (simp add: assms(3))
  obtain p s2 where w: "PostXML N rq (''/job/'' @ n @ ''/config.xml'') config [] s = (Done (Inr p), s2)" "hp_status p = 200"
    and v2: "valid (world s2)" and j2: "jobs (world s2) = (jobs (world s))(n \<mapsto> config)"
    using write_run [OF assms(1,2) endpoint] by blast
  obtain u3 s3 where r: "job_refresh N rq (?j u) s2 = (Done ((?j u)\<lparr>jb_url := u3\<rparr>), s3)" and v3: "valid (world s3)"
    and j3: "jobs (world s3) = jobs (world s2)"
    using assms(1) v2 by (rule refresh_run)
  have "UpdateConfig N rq (?j u) config s = (Done (Inr (?j u3)), s3)"
    unfolding UpdateConfig_def job.select_convs append_assoc bindE_def run_bindP w(1)
    by (simp only: prod.case outcome.case sum.case w(2) if_True run_bindP) (simp add: ret_def r [simplified])
  with v3 j3 j2 show ?thesis by metis
qed

lemma not_found_status: "isNotFoundError (status_error 404)"
  by code_simp

section \<open>Scripts\<close>

text \<open>A transport on which reads are answered without an error and change nothing.\<close>

definition reads_answered :: "'w net \<Rightarrow> bool" where
  "reads_answered N \<longleftrightarrow> (\<forall>q w. hq_method q = ''GET'' \<longrightarrow> (\<exists>p. n_do N q w = (Inr p, w) \<and> hp_xerror p = []))"

lemma crumb_read:
  assumes "reads_answered N"
  obtains crumb where "SetCrumb N rq s = (Done crumb, s)"
proof -
  let ?q = "\<lparr>hq_method = ''GET'', hq_url = rq_base rq @ ''/crumbIssuer/api/json/api/json'', hq_query = [],
    hq_headers = [json_type], hq_body = None, hq_auth = auth_of rq\<rparr>"
  from assms obtain p where p: "n_do N ?q (world s) = (Inr p, world s)" "hp_xerror p = []"
    unfolding reads_answered_def by (metis http_request.select_convs(1))
  have get: "GetJSON N rq ''/crumbIssuer/api/json'' [] s = (Done (Inr p), s)"
    using p by (simp add: GetJSON_def Do_def Let_def bindE_def run_bindP http_do_def ret_def suffix_def)
  have "\<exists>crumb. SetCrumb N rq s = (Done crumb, s)" by (simp add: SetCrumb_def run_bindP get ret_def Let_def)
  with that show ?thesis by blast
qed

text \<open>The console runs a program: its output, and whether it ran to its end.\<close>

definition runs_scripts :: "'w net \<Rightarrow> string \<Rightarrow> (string \<Rightarrow> string) \<Rightarrow> bool" where
  "runs_scripts N base console \<longleftrightarrow> (\<forall>q w code. hq_method q = ''POST'' \<longrightarrow> hq_url q = base @ ''/scriptText'' \<longrightarrow>
     hq_body q = Some (n_encode N [(''script'', code)]) \<longrightarrow>
     (\<exists>w'. n_do N q w = (Inr \<lparr>hp_status = 200, hp_xerror = [], hp_body = console code\<rparr>, w')))"

lemma script_run:
  fixes script verifier :: string
  assumes "reads_answered N" and "runs_scripts N (rq_base rq) console"
  defines "body \<equiv> console (script @ nl @ ''print println('' @ quoted verifier @ '')'')"
  shows "\<exists>s'. executeScript N rq script verifier s =
    (Done (body, if Contains body verifier then None else Some (GroovyErr [] [] [] [])), s')"
proof -
  obtain crumb where c: "SetCrumb N rq s = (Done crumb, s)" using assms(1) by (rule crumb_read)
  let ?code = "script @ nl @ ''print println('' @ quoted verifier @ '')''"
  let ?q = "\<lparr>hq_method = ''POST'', hq_url = rq_base rq @ ''/scriptText'', hq_query = [], hq_headers = crumb @ [form_type],
    hq_body = Some (n_encode N [(''script'', ?code)]), hq_auth = auth_of rq\<rparr>"
  obtain w' where w: "n_do N ?q (world s) = (Inr \<lparr>hp_status = 200, hp_xerror = [], hp_body = body\<rparr>, w')"
    using assms(2) [unfolded runs_scripts_def, rule_format, of ?q ?code "world s"] unfolding body_def by auto
  have "Do N rq ''POST'' ''/scriptText'' [] (crumb @ [form_type]) (Some (n_encode N [(''script'', ?code)])) [] s =
      (Done (Inr \<lparr>hp_status = 200, hp_xerror = [], hp_body = body\<rparr>), s\<lparr>world := w'\<rparr>)"
    using w by (simp add: Do_def Let_def bindE_def run_bindP http_do_def ret_def)
  then have "executeScript N rq script verifier s =
      (Done (body, if Contains body verifier then None else Some (GroovyErr [] [] [] [])), s\<lparr>world := w'\<rparr>)"
    by (simp add: executeScript_def Let_def run_bindP c ret_def)
  then show ?thesis ..
qed

section \<open>The secret of a node\<close>

text \<open>The text before a secret in the page, and a page without a secret before a position.\<close>

definition secret_prefix :: string where
  "secret_prefix = ''<application-desc main-class='' @ dquote @ ''hudson.remoting.jnlp.Main'' @ dquote @ ''><argument>''"

lemma secret_prefix_matches: "matches_at secret_marker (secret_prefix @ t)" "length secret_marker = length secret_prefix"
  by (simp_all add: secret_marker_def secret_prefix_def dquote_def)

lemma matches_at_append: "matches_at ps s \<Longrightarrow> matches_at ps (s @ t)"
  by (induction ps s rule: matches_at.induct) auto

lemma find_secret_skip:
  "(\<And>k. k < length pre \<Longrightarrow> \<not> matches_at secret_marker (drop k (pre @ t))) \<Longrightarrow> find_secret (pre @ t) = find_secret t"
proof (induction pre)
  case (Cons c pre)
  have "find_secret (pre @ t) = find_secret t" by (rule Cons.IH) (use Cons.prems [of "Suc _"] in simp)
  with Cons.prems [of 0] show ?case by simp
qed simp

lemma find_secret_page:
  assumes "\<And>k. k < length pre \<Longrightarrow> \<not> matches_at secret_marker (drop k (pre @ secret_prefix @ secret @ post))"
    and "set secret \<subseteq> set secret_chars" and "\<And>c cs. post = c # cs \<Longrightarrow> c \<notin> set secret_chars"
  shows "find_secret (pre @ secret_prefix @ secret @ post) = Some secret"
proof -
  have take: "takeWhile (\<lambda>c. c \<in> set secret_chars) (secret @ post) = secret"
    using assms(2,3) by (cases post) (auto simp: subset_iff)
  obtain c cs where cs: "secret_prefix @ secret @ post = c # cs" by (simp add: secret_prefix_def)
  have "drop (length secret_marker) (secret_prefix @ secret @ post) = secret @ post"
    by (simp add: secret_prefix_matches(2))
  with take secret_prefix_matches(1) [of "secret @ post"] have "find_secret (secret_prefix @ secret @ post) = Some secret"
    unfolding cs find_secret.simps by simp
  then show ?thesis using find_secret_skip [OF assms(1)] by simp
qed

section \<open>Properties\<close>

text \<open>A small Jenkins for the witnesses: one job named \<open>a\<close>, a console and one agent page.\<close>

definition sample_net :: "string \<Rightarrow> string \<Rightarrow> (string \<Rightarrow> string option) net" where
  "sample_net output page =
     \<lparr>n_do = (\<lambda>q w.
        if hq_method q = ''GET'' then
          (Inr \<lparr>hp_status = (if hq_url q = ''http://j/job/a/api/json'' \<and> w ''a'' = None then 404 else 200),
             hp_xerror = [], hp_body = page\<rparr>, w)
        else
          (Inr \<lparr>hp_status = 200, hp_xerror = [], hp_body = output\<rparr>,
           (if hq_url q = ''http://j/scriptText'' then w else w(''a'' := hq_body q)))),
      n_string = (\<lambda>text path. None), n_plugins = (\<lambda>text. None), n_encode = (\<lambda>kvs. concat (map snd kvs)),
      n_requestURI = Inr\<rparr>"

definition sample_requester :: requester where
  "sample_requester = \<lparr>rq_base = ''http://j'', rq_basic = None, rq_token = Some ''t''\<rparr>"

text \<open>
  C38. Creating or updating a job, on a Jenkins that serves it: the job then has the given
  configuration and no other job has changed; the client reports whether the job was created, and no
  error.
\<close>

theorem create_or_update_job:
  assumes "serves_job N (rq_base rq) valid jobs n" and "valid (world s)" and "n \<noteq> []" and "CHR ''/'' \<notin> set n"
  shows "\<exists>j s'. CreateOrUpdateJob N rq config n s = (Done ((Some j, jobs (world s) n = None), None), s') \<and>
    jb_base j = ''/job/'' @ n \<and> valid (world s') \<and> jobs (world s') = (jobs (world s))(n \<mapsto> config)"
proof -
  obtain u s1 where g: "GetJob N rq n s = (Done (if jobs (world s) n = None then Inl (status_error 404)
      else Inr \<lparr>jb_base = ''/job/'' @ n, jb_url = u\<rparr>), s1)" and v1: "valid (world s1)" and j1: "jobs (world s1) = jobs (world s)"
    using assms by (rule get_job_run)
  show ?thesis
  proof (cases "jobs (world s) n = None")
    case True
    obtain u' s' where c: "CreateJob N rq config n s1 = (Done (Inr \<lparr>jb_base = ''/job/'' @ n, jb_url = u'\<rparr>), s')"
      and s': "valid (world s')" "jobs (world s') = (jobs (world s1))(n \<mapsto> config)"
      using create_run [OF assms(1) v1 assms(4)] True j1 by metis
    have "CreateOrUpdateJob N rq config n s = (Done ((Some \<lparr>jb_base = ''/job/'' @ n, jb_url = u'\<rparr>, True), None), s')"
      by (simp add: CreateOrUpdateJob_def run_bindP g [unfolded if_P [OF True]] not_found_status c [simplified] ret_def)
    with True s' j1 show ?thesis by (intro exI [of _ "\<lparr>jb_base = ''/job/'' @ n, jb_url = u'\<rparr>"] exI [of _ s']) simp
  next
    case False
    obtain u' s' where c: "UpdateConfig N rq \<lparr>jb_base = ''/job/'' @ n, jb_url = u\<rparr> config s1 =
        (Done (Inr \<lparr>jb_base = ''/job/'' @ n, jb_url = u'\<rparr>), s')"
      and s': "valid (world s')" "jobs (world s') = (jobs (world s1))(n \<mapsto> config)"
      using update_run [OF assms(1) v1] False j1 by metis
    have "CreateOrUpdateJob N rq config n s = (Done ((Some \<lparr>jb_base = ''/job/'' @ n, jb_url = u'\<rparr>, False), None), s')"
      by (simp add: CreateOrUpdateJob_def run_bindP g [unfolded if_not_P [OF False], simplified] c [simplified] ret_def)
    with False s' j1 show ?thesis by (intro exI [of _ "\<lparr>jb_base = ''/job/'' @ n, jb_url = u'\<rparr>"] exI [of _ s']) simp
  qed
qed

theorem create_or_update_job_witness:
  "\<exists>j s'. CreateOrUpdateJob (sample_net [] []) sample_requester ''<project/>'' ''a'' \<lparr>world = Map.empty, log = []\<rparr> =
      (Done ((Some j, True), None), s') \<and> world s' ''a'' = Some ''<project/>''"
proof -
  have server: "serves_job (sample_net [] []) (rq_base sample_requester) (\<lambda>w. True) (\<lambda>w. w) ''a''"
    by (auto simp: serves_job_def answers_def sample_net_def sample_requester_def)
  have "CHR ''/'' \<notin> set ''a''" "''a'' \<noteq> []" by simp_all
  from create_or_update_job [where s = "\<lparr>world = Map.empty, log = []\<rparr>" and config = "''<project/>''", OF server TrueI this(2,1)]
  obtain j s' where "CreateOrUpdateJob (sample_net [] []) sample_requester ''<project/>'' ''a'' \<lparr>world = Map.empty, log = []\<rparr> =
      (Done ((Some j, True), None), s')" "world s' = [''a'' \<mapsto> ''<project/>'']" by auto
  then show ?thesis by (intro exI [of _ j] exI [of _ s']) simp
qed

text \<open>
  C39. Running a script, on a Jenkins whose console prints the text of a \<open>println\<close> that is reached and
  stops at a failure: the script is reported as failed exactly when it failed, with what it printed,
  as long as a failing script does not print the verifier itself.
\<close>

theorem script_outcome:
  fixes script verifier :: string
  assumes "reads_answered N" and "runs_scripts N (rq_base rq) console"
    and "console (script @ nl @ ''print println('' @ quoted verifier @ '')'') =
      (case result of Inl trace \<Rightarrow> trace | Inr out \<Rightarrow> out @ verifier @ rest)"
    and "\<And>trace. result = Inl trace \<Longrightarrow> \<not> Contains trace verifier"
  shows "\<exists>s'. executeScript N rq script verifier s = (Done (case result of
    Inl trace \<Rightarrow> (trace, Some (GroovyErr [] [] [] [])) | Inr out \<Rightarrow> (out @ verifier @ rest, None)), s')"
proof -
  obtain s' where run: "executeScript N rq script verifier s =
      (Done (case result of Inl trace \<Rightarrow> trace | Inr out \<Rightarrow> out @ verifier @ rest,
        if Contains (case result of Inl trace \<Rightarrow> trace | Inr out \<Rightarrow> out @ verifier @ rest) verifier then None
        else Some (GroovyErr [] [] [] [])), s')"
    using script_run [OF assms(1,2), of script verifier s] unfolding assms(3) by blast
  have "Contains (out @ verifier @ rest) verifier" for out by (auto simp: Contains_iff)
  with run assms(4) show ?thesis by (cases result) auto
qed

theorem script_outcome_witness:
  "\<exists>s'. executeScript (sample_net ''Exception'' []) sample_requester ''throw new Exception()'' ''verifier-1'' \<lparr>world = Map.empty, log = []\<rparr> =
    (Done (''Exception'', Some (GroovyErr [] [] [] [])), s')"
proof -
  have reads: "reads_answered (sample_net ''Exception'' [])" by (simp add: reads_answered_def sample_net_def)
  have runs: "runs_scripts (sample_net ''Exception'' []) (rq_base sample_requester) (\<lambda>code. ''Exception'')"
    by (simp add: runs_scripts_def sample_net_def sample_requester_def)
  have result: "''Exception'' = (case Inl ''Exception'' of Inl trace \<Rightarrow> trace | Inr out \<Rightarrow> out @ ''verifier-1'' @ [])" by simp
  have no: "\<not> Contains trace ''verifier-1''" if "(Inl ''Exception'' :: string + string) = Inl trace" for trace
    using that by auto
  from script_outcome [OF reads runs result no, of "''throw new Exception()''"] show ?thesis by simp
qed

text \<open>
  The secret of a node is read from the page of its agent: whatever stands around it, the letters
  and digits after the first place that looks like the argument of the agent program are returned.
\<close>

theorem node_secret_read:
  assumes "n_do N \<lparr>hq_method = ''GET'', hq_url = rq_base rq @ ''/computer/'' @ name @ ''/slave-agent.jnlp/'', hq_query = [],
      hq_headers = [xml_type], hq_body = None, hq_auth = auth_of rq\<rparr> (world s) = (Inr p, w)" and "hp_xerror p = []"
    and "hp_body p = pre @ secret_prefix @ secret @ post"
    and "\<And>k. k < length pre \<Longrightarrow> \<not> matches_at secret_marker (drop k (hp_body p))"
    and "set secret \<subseteq> set secret_chars" and "\<And>c cs. post = c # cs \<Longrightarrow> c \<notin> set secret_chars"
  shows "\<exists>s'. GetNodeSecret N rq name s = (Done (Inr secret), s')"
proof -
  have "find_secret (hp_body p) = Some secret"
    unfolding assms(3) by (rule find_secret_page) (use assms(4-6) in \<open>simp_all add: assms(3)\<close>)
  moreover have "\<not> suffix ''/'' (''/computer/'' @ name @ ''/slave-agent.jnlp'')"
    by (auto simp: suffix_def append_eq_append_conv2 append_eq_Cons_conv Cons_eq_append_conv)
  ultimately show ?thesis
    using assms(1,2) by (simp add: GetNodeSecret_def GetXML_def Do_def Let_def bindE_def run_bindP http_do_def ret_def)
qed

theorem node_secret_read_witness:
  "\<exists>s'. GetNodeSecret (sample_net [] (''<jnlp>'' @ secret_prefix @ ''abc123'' @ ''</argument>'')) sample_requester ''n''
    \<lparr>world = Map.empty, log = []\<rparr> = (Done (Inr ''abc123''), s')"
proof -
  let ?page = "''<jnlp>'' @ secret_prefix @ ''abc123'' @ ''</argument>''"
  let ?N = "sample_net [] ?page" and ?w = "Map.empty :: string \<Rightarrow> string option"
  let ?p = "\<lparr>hp_status = 200, hp_xerror = [], hp_body = ?page\<rparr>"
  have get: "n_do ?N \<lparr>hq_method = ''GET'', hq_url = rq_base sample_requester @ ''/computer/'' @ ''n'' @ ''/slave-agent.jnlp/'', hq_query = [],
      hq_headers = [xml_type], hq_body = None, hq_auth = auth_of sample_requester\<rparr> (world \<lparr>world = ?w, log = []\<rparr>) = (Inr ?p, ?w)"
    by (simp add: sample_net_def sample_requester_def)
  have p: "hp_xerror ?p = []" "hp_body ?p = ?page" by simp_all
  have none: "\<forall>k \<in> {0, 1, 2, 3, 4, 5}. \<not> matches_at secret_marker (drop k ?page)"
    by (simp add: secret_marker_def dquote_def)
  have early: "\<not> matches_at secret_marker (drop k (hp_body ?p))" if "k < length ''<jnlp>''" for k
  proof -
    from that have "k \<in> {0, 1, 2, 3, 4, 5}" by auto
    with none show ?thesis unfolding p(2) by blast
  qed
  have secret: "set ''abc123'' \<subseteq> set secret_chars" by (simp add: secret_chars_def)
  have post: "c \<notin> set secret_chars" if "''</argument>'' = c # cs" for c cs using that by (auto simp: secret_chars_def)
  from node_secret_read [OF get p early secret post] show ?thesis .
qed

end
