(* ===== verification/Operator_Main.thy ===== *)
theory Operator_Main
  imports Image_Builder Fake_Client
begin

text \<open>
  The start of the operator (\<^verbatim>\<open>main.go\<close>): flags, manager, checks of the cluster, listener and the
  registration of the four controllers.  A function of the start may end the process: its result
  is an exit code or a value.  What the code calls of its libraries and may fail is one parameter,
  \<open>mc_call\<close>, and the calls are recorded.
\<close>

section \<open>The process\<close>

record manager_options =
  op_metricsAddr :: string
  op_port :: int
  op_leaderElection :: bool
  op_leaderElectionID :: string
  op_namespace :: string

datatype controller = JenkinsController | JenkinsImageController | BackupController | RestoreController

datatype boot_call =
    GetConfigOrDie
  | NewManager manager_options
  | GetConfig
  | NewRecorder string
  | CheckRegistry
  | NewForConfig
  | CheckRoutes
  | StartListener
  | SetupWithManager controller
  | StartManager

text \<open>
  \<open>mc_parse\<close> is \<open>flag.Parse\<close> for the two flags: their values, or the exit code for arguments it
  does not accept; \<open>mc_supported\<close> says whether the discovery finds the route API.
\<close>

record 'w machine =
  mc_args :: "string list"
  mc_parse :: "string list \<Rightarrow> int + string \<times> bool"
  mc_call :: "boot_call \<Rightarrow> 'w \<Rightarrow> goerr option \<times> 'w"
  mc_env :: "'w env"
  mc_supported :: "'w \<Rightarrow> bool"

text \<open>The package variables of the two checks are part of the process.\<close>

record 'w boot =
  bt_sys :: "'w sys"
  bt_registry :: registry_check
  bt_routes :: "bool \<times> bool"
  bt_calls :: "boot_call list"

type_synonym ('w, 'a) boot_prog = "'w boot \<Rightarrow> (int + 'a) \<times> 'w boot"

definition retB :: "'a \<Rightarrow> ('w, 'a) boot_prog" where
  "retB a = (\<lambda>b. (Inr a, b))"

definition bindB :: "('w, 'a) boot_prog \<Rightarrow> ('a \<Rightarrow> ('w, 'b) boot_prog) \<Rightarrow> ('w, 'b) boot_prog" where
  "bindB m f = (\<lambda>b. case m b of (Inl c, b') \<Rightarrow> (Inl c, b') | (Inr a, b') \<Rightarrow> f a b')"

definition call_or_exit :: "'w machine \<Rightarrow> boot_call \<Rightarrow> int \<Rightarrow> ('w, unit) boot_prog" where
  "call_or_exit M c code = (\<lambda>b. case mc_call M c (world (bt_sys b)) of (e, w) \<Rightarrow>
     ((case e of None \<Rightarrow> Inr () | Some _ \<Rightarrow> Inl code),
      b\<lparr>bt_sys := (bt_sys b)\<lparr>world := w\<rparr>, bt_calls := bt_calls b @ [c]\<rparr>))"

section \<open>The steps\<close>

text \<open>
  The flags are bound to the parameters of the function, which are copies: their values are lost
  when it returns.
\<close>

definition parseFlags :: "'w machine \<Rightarrow> string \<Rightarrow> bool \<Rightarrow> ('w, unit) boot_prog" where
  "parseFlags M metricsAddr enableLeaderElection = (\<lambda>b. case mc_parse M (mc_args M) of
     Inl code \<Rightarrow> (Inl code, b)
   | Inr (metricsAddr, enableLeaderElection) \<Rightarrow> (Inr (), b))"

definition getWatchNamespace :: "'w machine \<Rightarrow> string" where
  "getWatchNamespace M = e_getenv (mc_env M) ''WATCH_NAMESPACE''"

definition startManager :: "'w machine \<Rightarrow> string \<Rightarrow> bool \<Rightarrow> ('w, unit) boot_prog" where
  "startManager M metricsAddr enableLeaderElection =
     (let options = \<lparr>op_metricsAddr = metricsAddr, op_port = 9443, op_leaderElection = enableLeaderElection,
        op_leaderElectionID = ''9cf053ac.jenkins.io'', op_namespace = getWatchNamespace M\<rparr> in
      bindB (call_or_exit M GetConfigOrDie 1) (\<lambda>_. call_or_exit M (NewManager options) 1))"

definition initManager :: "'w machine \<Rightarrow> string \<Rightarrow> bool \<Rightarrow> ('w, unit) boot_prog" where
  "initManager M metricsAddr enableLeaderElection = startManager M metricsAddr enableLeaderElection"

definition GetRestClient :: "'w machine \<Rightarrow> ('w, unit) boot_prog" where
  "GetRestClient M = call_or_exit M GetConfig (- 1)"

definition getEventsRecorder :: "'w machine \<Rightarrow> ('w, unit) boot_prog" where
  "getEventsRecorder M = call_or_exit M (NewRecorder ''jenkins-operator'') (- 1)"

text \<open>A panic would end the process with status 2.\<close>

definition checkAvailableFeatures :: "'w machine \<Rightarrow> ('w, unit) boot_prog" where
  "checkAvailableFeatures M = (\<lambda>b.
     case IsImageRegistryAvailable (mc_env M) (bt_registry b) (bt_sys b) of
       (Done (_, v), s) \<Rightarrow> (Inr (), b\<lparr>bt_sys := s, bt_registry := v, bt_calls := bt_calls b @ [CheckRegistry]\<rparr>)
     | (Crashed m, s) \<Rightarrow> (Inl 2, b\<lparr>bt_sys := s, bt_calls := bt_calls b @ [CheckRegistry]\<rparr>))"

definition checkRouteAPIAvailable :: "'w machine \<Rightarrow> ('w, unit) boot_prog" where
  "checkRouteAPIAvailable M = (\<lambda>b.
     case IsRouteAPIAvailable (mc_supported M (world (bt_sys b))) (bt_routes b) of
       (_, routes) \<Rightarrow> (Inr (), b\<lparr>bt_routes := routes, bt_calls := bt_calls b @ [CheckRoutes]\<rparr>))"

definition start_listener :: "('w, unit) boot_prog" where
  "start_listener = (\<lambda>b. (Inr (), b\<lparr>bt_calls := bt_calls b @ [StartListener]\<rparr>))"

definition setupJenkinsRenconciler :: "'w machine \<Rightarrow> ('w, unit) boot_prog" where
  "setupJenkinsRenconciler M = call_or_exit M (SetupWithManager JenkinsController) 1"

definition setupJenkinsImageRenconciler :: "'w machine \<Rightarrow> ('w, unit) boot_prog" where
  "setupJenkinsImageRenconciler M = call_or_exit M (SetupWithManager JenkinsImageController) 1"

definition setupJenkinsBackupRenconciler :: "'w machine \<Rightarrow> ('w, unit) boot_prog" where
  "setupJenkinsBackupRenconciler M = call_or_exit M (SetupWithManager BackupController) 1"

definition setupJenkinsRestoreRenconciler :: "'w machine \<Rightarrow> ('w, unit) boot_prog" where
  "setupJenkinsRestoreRenconciler M = call_or_exit M (SetupWithManager RestoreController) 1"

definition runMananger :: "'w machine \<Rightarrow> ('w, unit) boot_prog" where
  "runMananger M = call_or_exit M StartManager 1"

text \<open>\<open>pflag.Parse\<close> is never called, so the debug flag keeps its default; it changes the log only.\<close>

definition main :: "'w machine \<Rightarrow> ('w, unit) boot_prog" where
  "main M =
     (let metricsAddr = []; enableLeaderElection = False in
      bindB (parseFlags M metricsAddr enableLeaderElection) (\<lambda>_.
      bindB (initManager M metricsAddr enableLeaderElection) (\<lambda>_.
      bindB (GetRestClient M) (\<lambda>_.
      bindB (getEventsRecorder M) (\<lambda>_.
      bindB (checkAvailableFeatures M) (\<lambda>_.
      bindB (call_or_exit M GetConfig (- 1)) (\<lambda>_.
      bindB (call_or_exit M NewForConfig (- 1)) (\<lambda>_.
      bindB (checkRouteAPIAvailable M) (\<lambda>_.
      bindB start_listener (\<lambda>_.
      bindB (setupJenkinsRenconciler M) (\<lambda>_.
      bindB (setupJenkinsImageRenconciler M) (\<lambda>_.
      bindB (setupJenkinsBackupRenconciler M) (\<lambda>_.
      bindB (setupJenkinsRestoreRenconciler M) (\<lambda>_.
      runMananger M))))))))))))))"

section \<open>The order of the start\<close>

definition startup_plan :: "string \<Rightarrow> boot_call list" where
  "startup_plan ns = [GetConfigOrDie,
     NewManager \<lparr>op_metricsAddr = [], op_port = 9443, op_leaderElection = False,
       op_leaderElectionID = ''9cf053ac.jenkins.io'', op_namespace = ns\<rparr>,
     GetConfig, NewRecorder ''jenkins-operator'', CheckRegistry, GetConfig, NewForConfig, CheckRoutes, StartListener,
     SetupWithManager JenkinsController, SetupWithManager JenkinsImageController, SetupWithManager BackupController,
     SetupWithManager RestoreController, StartManager]"

text \<open>A program that makes the calls of a plan, up to the first that ends the process.\<close>

definition follows :: "boot_call list \<Rightarrow> ('w, 'a) boot_prog \<Rightarrow> bool" where
  "follows plan p \<longleftrightarrow> (\<forall>b. \<exists>xs. bt_calls (snd (p b)) = bt_calls b @ xs \<and> prefix xs plan \<and>
     (\<forall>a. fst (p b) = Inr a \<longrightarrow> xs = plan))"

lemma follows_bindB:
  assumes "follows xs m" and "\<And>a. follows ys (f a)"
  shows "follows (xs @ ys) (bindB m f)"
  unfolding follows_def
proof
  fix b
  obtain r b1 where m: "m b = (r, b1)" by (cases "m b")
  from assms(1) m obtain us where us: "bt_calls b1 = bt_calls b @ us" "prefix us xs" "\<And>a. r = Inr a \<Longrightarrow> us = xs"
    unfolding follows_def by (metis fst_conv snd_conv)
  show "\<exists>zs. bt_calls (snd (bindB m f b)) = bt_calls b @ zs \<and> prefix zs (xs @ ys) \<and>
     (\<forall>a. fst (bindB m f b) = Inr a \<longrightarrow> zs = xs @ ys)"
  proof (cases r)
    case (Inl c)
    with us m show ?thesis by (intro exI [of _ us]) (auto simp: bindB_def prefix_def)
  next
    case (Inr a)
    obtain vs where "bt_calls (snd (f a b1)) = bt_calls b1 @ vs" "prefix vs ys" "\<forall>c. fst (f a b1) = Inr c \<longrightarrow> vs = ys"
      using assms(2) [of a, unfolded follows_def, rule_format, of b1] by blast
    with us Inr m show ?thesis by (intro exI [of _ "xs @ vs"]) (auto simp: bindB_def)
  qed
qed

lemma follows_call: "follows [c] (call_or_exit M c code)"
  by (auto simp: follows_def call_or_exit_def split: prod.split)

lemma follows_flags: "follows [] (parseFlags M a l)"
  by (auto simp: follows_def parseFlags_def split: sum.split prod.split)

lemma follows_checks:
  "follows [CheckRegistry] (checkAvailableFeatures M)" "follows [CheckRoutes] (checkRouteAPIAvailable M)"
  "follows [StartListener] start_listener"
  by (auto simp: follows_def checkAvailableFeatures_def checkRouteAPIAvailable_def start_listener_def
      split: prod.split outcome.split)

lemmas main_steps = initManager_def startManager_def GetRestClient_def getEventsRecorder_def
  setupJenkinsRenconciler_def setupJenkinsImageRenconciler_def setupJenkinsBackupRenconciler_def
  setupJenkinsRestoreRenconciler_def runMananger_def

lemma main_follows: "follows (startup_plan (getWatchNamespace M)) (main M)"
proof -
  let ?o = "\<lparr>op_metricsAddr = [], op_port = 9443, op_leaderElection = False,
       op_leaderElectionID = ''9cf053ac.jenkins.io'', op_namespace = getWatchNamespace M\<rparr>"
  have "follows ([] @ ([GetConfigOrDie] @ [NewManager ?o]) @ [GetConfig] @ [NewRecorder ''jenkins-operator''] @ [CheckRegistry] @
      [GetConfig] @ [NewForConfig] @ [CheckRoutes] @ [StartListener] @ [SetupWithManager JenkinsController] @
      [SetupWithManager JenkinsImageController] @ [SetupWithManager BackupController] @ [SetupWithManager RestoreController] @
      [StartManager]) (main M)"
    unfolding main_def Let_def main_steps by (intro follows_bindB follows_call follows_flags follows_checks)
  then show ?thesis by (simp add: startup_plan_def)
qed

lemma prefix_to_last: "z \<notin> set ys \<Longrightarrow> prefix xs (ys @ [z]) \<Longrightarrow> z \<in> set xs \<Longrightarrow> xs = ys @ [z]"
  by (auto simp: prefix_snoc dest: set_mono_prefix)

section \<open>Properties\<close>


text \<open>A machine on which every call succeeds.\<close>

definition sample_machine :: "string list \<Rightarrow> cluster machine" where
  "sample_machine args = \<lparr>mc_args = args,
     mc_parse = (\<lambda>args. if args = [] then Inr ('':8080'', False)
       else if args = [''-enable-leader-election''] then Inr ('':8080'', True) else Inl 2),
     mc_call = (\<lambda>c w. (None, w)), mc_env = fake_env (\<lambda>q. None), mc_supported = (\<lambda>w. True)\<rparr>"

definition sample_boot :: "cluster boot" where
  "sample_boot = \<lparr>bt_sys = \<lparr>world = \<lparr>objects = [], clock = 0\<rparr>, log = []\<rparr>, bt_registry = initial_check,
     bt_routes = (False, False), bt_calls = []\<rparr>"


text \<open>
  The flags have no effect: two starts of the same machine whose arguments are accepted behave the
  same, whatever address for the metrics and whatever leader election their flags ask for.
\<close>

theorem flags_have_no_effect:
  assumes "mc_parse M (mc_args M) = Inr flags" and "mc_parse M args = Inr flags'"
  shows "main (M\<lparr>mc_args := args\<rparr>) = main M"
proof -
  have flags: "parseFlags (M\<lparr>mc_args := args\<rparr>) a l = parseFlags M a l" for a l
    using assms by (cases flags; cases flags') (simp add: parseFlags_def)
  have calls: "call_or_exit (M\<lparr>mc_args := args\<rparr>) c code b = call_or_exit M c code b" for c code b by (simp add: call_or_exit_def)
  have rest: "call_or_exit (M\<lparr>mc_args := args\<rparr>) = call_or_exit M" by (intro ext calls)
  have ns: "getWatchNamespace (M\<lparr>mc_args := args\<rparr>) = getWatchNamespace M" by (simp add: getWatchNamespace_def)
  have checks: "checkAvailableFeatures (M\<lparr>mc_args := args\<rparr>) = checkAvailableFeatures M"
    "checkRouteAPIAvailable (M\<lparr>mc_args := args\<rparr>) = checkRouteAPIAvailable M"
    by (simp_all add: checkAvailableFeatures_def checkRouteAPIAvailable_def)
  show ?thesis unfolding main_def main_steps flags rest ns checks ..
qed

theorem flags_have_no_effect_witness:
  "main (sample_machine [''-enable-leader-election'']) = main (sample_machine [])"
proof -
  have "mc_parse (sample_machine []) (mc_args (sample_machine [])) = Inr ('':8080'', False)"
    "mc_parse (sample_machine []) [''-enable-leader-election''] = Inr ('':8080'', True)" by (simp_all add: sample_machine_def)
  from flags_have_no_effect [OF this] show ?thesis by (simp add: sample_machine_def)
qed

end
