(* ===== verification/Go_Heap.thy ===== *)
theory Go_Heap
  imports Prelude
begin

text \<open>
  Data of the code that is shared by pointers: a heap of cells, the types of its values, and what it
  means that a value is a deep copy of another.  The other theories work on plain values, which is
  right as long as nothing is written through a second pointer; \<open>Deep_Copy\<close> uses this heap for the
  functions whose purpose is to cut such sharing.

  A pointer is the address of a variable, a slice an interval of an array, a map the address of its
  entries.  Everything without a pointer in it (text, numbers, truth values) is \<open>Data\<close>.
\<close>

section \<open>Values, cells, types\<close>

datatype gval =
    Data string
  | NilRef
  | PtrTo nat
  | SliceOf nat nat nat
  | MapAt nat
  | Fields "(string \<times> gval) list"

datatype cell = Var gval | Array "gval list" | Entries "(string \<times> gval) list"

type_synonym heap = "cell list"

datatype ty =
    TData
  | TPtr ty
  | TSlice ty
  | TMap ty
  | TStruct "(string \<times> ty) list"

text \<open>The contents of the cell a value refers to; an empty list for a cell of another sort.\<close>

definition var_at :: "heap \<Rightarrow> nat \<Rightarrow> gval option" where
  "var_at h a = (if a < length h then (case h ! a of Var v \<Rightarrow> Some v | _ \<Rightarrow> None) else None)"

definition slice_at :: "heap \<Rightarrow> nat \<Rightarrow> nat \<Rightarrow> nat \<Rightarrow> gval list option" where
  "slice_at h a i n = (if a < length h
     then (case h ! a of Array vs \<Rightarrow> (if i + n \<le> length vs then Some (take n (drop i vs)) else None) | _ \<Rightarrow> None)
     else None)"

definition entries_at :: "heap \<Rightarrow> nat \<Rightarrow> (string \<times> gval) list option" where
  "entries_at h a = (if a < length h then (case h ! a of Entries es \<Rightarrow> Some es | _ \<Rightarrow> None) else None)"

text \<open>Induction over types, with the fields of a struct by membership.\<close>

lemma ty_induct [case_names TData TPtr TSlice TMap TStruct]:
  assumes "P TData" and "\<And>t. P t \<Longrightarrow> P (TPtr t)" and "\<And>t. P t \<Longrightarrow> P (TSlice t)" and "\<And>t. P t \<Longrightarrow> P (TMap t)"
    and "\<And>fts. (\<And>f t. (f, t) \<in> set fts \<Longrightarrow> P t) \<Longrightarrow> P (TStruct fts)"
  shows "P t"
  by (induction t) (use assms in \<open>force+\<close>)

text \<open>A value of a type in a heap: it and everything it leads to has the cells the type asks for.\<close>

primrec has_type :: "ty \<Rightarrow> heap \<Rightarrow> gval \<Rightarrow> bool" where
  "has_type TData = (\<lambda>h v. case v of Data s \<Rightarrow> True | _ \<Rightarrow> False)"
| "has_type (TPtr t) = (\<lambda>h v. case v of NilRef \<Rightarrow> True
     | PtrTo a \<Rightarrow> (case var_at h a of Some w \<Rightarrow> has_type t h w | None \<Rightarrow> False) | _ \<Rightarrow> False)"
| "has_type (TSlice t) = (\<lambda>h v. case v of NilRef \<Rightarrow> True
     | SliceOf a i n \<Rightarrow> (case slice_at h a i n of Some ws \<Rightarrow> list_all (has_type t h) ws | None \<Rightarrow> False) | _ \<Rightarrow> False)"
| "has_type (TMap t) = (\<lambda>h v. case v of NilRef \<Rightarrow> True
     | MapAt a \<Rightarrow> (case entries_at h a of Some es \<Rightarrow> list_all (has_type t h) (map snd es) | None \<Rightarrow> False) | _ \<Rightarrow> False)"
| "has_type (TStruct fts) = (\<lambda>h v. case v of
     Fields fvs \<Rightarrow> list_all2 (\<lambda>(f, p) (g, w). f = g \<and> p h w) (map (map_prod id has_type) fts) fvs | _ \<Rightarrow> False)"

text \<open>What a program sees of a value when it follows its pointers: the value without addresses.\<close>

datatype tree =
    VData string
  | VNil
  | VPtr tree
  | VSlice "tree list"
  | VMap "(string \<times> tree) list"
  | VStruct "(string \<times> tree) list"

primrec view :: "ty \<Rightarrow> heap \<Rightarrow> gval \<Rightarrow> tree" where
  "view TData = (\<lambda>h v. case v of Data s \<Rightarrow> VData s | _ \<Rightarrow> VNil)"
| "view (TPtr t) = (\<lambda>h v. case v of
     PtrTo a \<Rightarrow> (case var_at h a of Some w \<Rightarrow> VPtr (view t h w) | None \<Rightarrow> VNil) | _ \<Rightarrow> VNil)"
| "view (TSlice t) = (\<lambda>h v. case v of
     SliceOf a i n \<Rightarrow> (case slice_at h a i n of Some ws \<Rightarrow> VSlice (map (view t h) ws) | None \<Rightarrow> VNil) | _ \<Rightarrow> VNil)"
| "view (TMap t) = (\<lambda>h v. case v of
     MapAt a \<Rightarrow> (case entries_at h a of Some es \<Rightarrow> VMap (map (map_prod id (view t h)) es) | None \<Rightarrow> VNil) | _ \<Rightarrow> VNil)"
| "view (TStruct fts) = (\<lambda>h v. case v of
     Fields fvs \<Rightarrow> VStruct (map2 (\<lambda>(f, q) (g, w). (g, q h w)) (map (map_prod id view) fts) fvs) | _ \<Rightarrow> VNil)"

text \<open>The addresses a value leads to.\<close>

primrec reach :: "ty \<Rightarrow> heap \<Rightarrow> gval \<Rightarrow> nat set" where
  "reach TData = (\<lambda>h v. {})"
| "reach (TPtr t) = (\<lambda>h v. case v of
     PtrTo a \<Rightarrow> (case var_at h a of Some w \<Rightarrow> insert a (reach t h w) | None \<Rightarrow> {a}) | _ \<Rightarrow> {})"
| "reach (TSlice t) = (\<lambda>h v. case v of
     SliceOf a i n \<Rightarrow> (case slice_at h a i n of Some ws \<Rightarrow> insert a (\<Union>(reach t h ` set ws)) | None \<Rightarrow> {a}) | _ \<Rightarrow> {})"
| "reach (TMap t) = (\<lambda>h v. case v of
     MapAt a \<Rightarrow> (case entries_at h a of Some es \<Rightarrow> insert a (\<Union>(reach t h ` set (map snd es))) | None \<Rightarrow> {a}) | _ \<Rightarrow> {})"
| "reach (TStruct fts) = (\<lambda>h v. case v of
     Fields fvs \<Rightarrow> \<Union>(set (map2 (\<lambda>(f, r) (g, w). r h w) (map (map_prod id reach) fts) fvs)) | _ \<Rightarrow> {})"

text \<open>Types without pointers: an assignment copies their values.\<close>

primrec flat :: "ty \<Rightarrow> bool" where
  "flat TData = True"
| "flat (TPtr t) = False"
| "flat (TSlice t) = False"
| "flat (TMap t) = False"
| "flat (TStruct fts) = list_all (\<lambda>(f, p). p) (map (map_prod id flat) fts)"

primrec wf_ty :: "ty \<Rightarrow> bool" where
  "wf_ty TData = True"
| "wf_ty (TPtr t) = wf_ty t"
| "wf_ty (TSlice t) = wf_ty t"
| "wf_ty (TMap t) = wf_ty t"
| "wf_ty (TStruct fts) = (distinct (map fst fts) \<and> list_all (\<lambda>(f, p). p) (map (map_prod id wf_ty) fts))"

section \<open>Structs, field by field\<close>

lemma has_type_struct:
  "has_type (TStruct fts) h v \<longleftrightarrow> (\<exists>fvs. v = Fields fvs \<and> length fvs = length fts \<and>
     (\<forall>i < length fts. fst (fvs ! i) = fst (fts ! i) \<and> has_type (snd (fts ! i)) h (snd (fvs ! i))))"
  by (cases v) (auto simp: list_all2_conv_all_nth split_def)

lemma view_struct:
  assumes "length fvs = length fts"
  shows "view (TStruct fts) h (Fields fvs) =
    VStruct (map (\<lambda>i. (fst (fvs ! i), view (snd (fts ! i)) h (snd (fvs ! i)))) [0..<length fts])"
  using assms by (auto simp: split_def intro!: nth_equalityI)

lemma reach_struct:
  assumes "length fvs = length fts"
  shows "reach (TStruct fts) h (Fields fvs) = (\<Union>i < length fts. reach (snd (fts ! i)) h (snd (fvs ! i)))"
  using assms by (auto simp: split_def set_zip set_conv_nth)

lemma flat_struct: "flat (TStruct fts) \<longleftrightarrow> (\<forall>i < length fts. flat (snd (fts ! i)))"
  by (auto simp: list_all_length split_def)

declare has_type.simps(5) [simp del] view.simps(5) [simp del] reach.simps(5) [simp del] flat.simps(5) [simp del]

section \<open>What a value looks like depends on the cells it reaches\<close>

lemma same_cells:
  "a < length h' \<Longrightarrow> h' ! a = h ! a \<Longrightarrow> a < length h \<Longrightarrow> var_at h' a = var_at h a"
  "a < length h' \<Longrightarrow> h' ! a = h ! a \<Longrightarrow> a < length h \<Longrightarrow> slice_at h' a i n = slice_at h a i n"
  "a < length h' \<Longrightarrow> h' ! a = h ! a \<Longrightarrow> a < length h \<Longrightarrow> entries_at h' a = entries_at h a"
  by (simp_all add: var_at_def slice_at_def entries_at_def)

lemma at_bound:
  "var_at h a = Some w \<Longrightarrow> a < length h"
  "slice_at h a i n = Some ws \<Longrightarrow> a < length h"
  "entries_at h a = Some es \<Longrightarrow> a < length h"
  by (simp_all add: var_at_def slice_at_def entries_at_def split: if_splits)

lemma reach_bound: "has_type t h v \<Longrightarrow> reach t h v \<subseteq> {..<length h}"
proof (induction t arbitrary: v rule: ty_induct)
  case (TPtr t)
  then show ?case by (fastforce split: gval.splits option.splits dest: at_bound)
next
  case (TSlice t)
  then show ?case by (fastforce simp: list_all_iff split: gval.splits option.splits dest: at_bound)
next
  case (TMap t)
  then show ?case by (fastforce simp: list_all_iff split: gval.splits option.splits dest: at_bound)
next
  case (TStruct fts)
  then obtain fvs where v: "v = Fields fvs" "length fvs = length fts"
    and f: "\<And>i. i < length fts \<Longrightarrow> has_type (snd (fts ! i)) h (snd (fvs ! i))" unfolding has_type_struct by blast
  have "reach (snd (fts ! i)) h (snd (fvs ! i)) \<subseteq> {..<length h}" if "i < length fts" for i
    by (rule TStruct.IH [of "fst (fts ! i)"]) (use that f in simp_all)
  then show ?case unfolding v(1) reach_struct [OF v(2)] by blast
qed simp

text \<open>The same cells below a value: the value has the same type, looks the same and reaches the same.\<close>

definition looks_same :: "ty \<Rightarrow> heap \<Rightarrow> heap \<Rightarrow> gval \<Rightarrow> bool" where
  "looks_same t h h' v \<longleftrightarrow> has_type t h' v \<and> view t h' v = view t h v \<and> reach t h' v = reach t h v"

definition agree_on :: "nat set \<Rightarrow> heap \<Rightarrow> heap \<Rightarrow> bool" where
  "agree_on A h h' \<longleftrightarrow> (\<forall>a \<in> A. a < length h' \<and> h' ! a = h ! a)"

lemma agree_on_mono: "agree_on A h h' \<Longrightarrow> B \<subseteq> A \<Longrightarrow> agree_on B h h'"
  unfolding agree_on_def by blast

lemma agreement:
  "has_type t h v \<Longrightarrow> agree_on (reach t h v) h h' \<Longrightarrow> looks_same t h h' v"
proof (induction t arbitrary: v rule: ty_induct)
  case TData
  then show ?case by (simp add: looks_same_def)
next
  case (TPtr t)
  show ?case
  proof (cases "v = NilRef")
    case False
    with TPtr.prems(1) obtain a w where v: "v = PtrTo a" and w: "var_at h a = Some w" "has_type t h w"
      by (auto split: gval.splits option.splits)
    with TPtr.prems(2) have "var_at h' a = Some w"
      using at_bound(1) [OF w(1)] same_cells(1) [of a h' h] by (simp add: agree_on_def)
    moreover have "looks_same t h h' w" using TPtr.prems(2) v w by (intro TPtr.IH) (auto simp: agree_on_def)
    ultimately show ?thesis using v w by (simp add: looks_same_def)
  qed (simp add: looks_same_def)
next
  case (TSlice t)
  show ?case
  proof (cases "v = NilRef")
    case False
    with TSlice.prems(1) obtain a i n ws where v: "v = SliceOf a i n" and w: "slice_at h a i n = Some ws" "list_all (has_type t h) ws"
      by (auto split: gval.splits option.splits)
    with TSlice.prems(2) have "slice_at h' a i n = Some ws"
      using at_bound(2) [OF w(1)] same_cells(2) [of a h' h] by (simp add: agree_on_def)
    moreover have "\<forall>x \<in> set ws. looks_same t h h' x"
      using TSlice.prems(2) v w by (intro ballI TSlice.IH) (auto simp: agree_on_def list_all_iff)
    ultimately show ?thesis using v w by (auto simp: looks_same_def list_all_iff)
  qed (simp add: looks_same_def)
next
  case (TMap t)
  show ?case
  proof (cases "v = NilRef")
    case False
    with TMap.prems(1) obtain a es where v: "v = MapAt a" and w: "entries_at h a = Some es" "list_all (has_type t h) (map snd es)"
      by (auto split: gval.splits option.splits)
    with TMap.prems(2) have "entries_at h' a = Some es"
      using at_bound(3) [OF w(1)] same_cells(3) [of a h' h] by (simp add: agree_on_def)
    moreover have "\<forall>x \<in> set (map snd es). looks_same t h h' x"
      using TMap.prems(2) v w by (intro ballI TMap.IH) (auto simp: agree_on_def list_all_iff)
    ultimately show ?thesis using v w by (auto simp: looks_same_def list_all_iff)
  qed (simp add: looks_same_def)
next
  case (TStruct fts)
  then obtain fvs where v: "v = Fields fvs" "length fvs = length fts"
    and f: "\<And>i. i < length fts \<Longrightarrow> fst (fvs ! i) = fst (fts ! i) \<and> has_type (snd (fts ! i)) h (snd (fvs ! i))"
    unfolding has_type_struct by blast
  have "looks_same (snd (fts ! i)) h h' (snd (fvs ! i))" if "i < length fts" for i
  proof (rule TStruct.IH [of "fst (fts ! i)"])
    show "agree_on (reach (snd (fts ! i)) h (snd (fvs ! i))) h h'"
      using TStruct.prems(2) that unfolding v(1) reach_struct [OF v(2)] by (rule_tac agree_on_mono) auto
  qed (use that f in simp_all)
  then show ?case
    using f v(2) by (auto simp: looks_same_def v(1) has_type_struct view_struct reach_struct)
qed

text \<open>So it does not change when the heap grows.\<close>

lemma looks_same_extended: "has_type t h v \<Longrightarrow> looks_same t h (h @ k) v"
  by (rule agreement) (use reach_bound [of t h v] in \<open>auto simp: agree_on_def nth_append subset_iff\<close>)

lemma flat_reaches_nothing: "flat t \<Longrightarrow> has_type t h v \<Longrightarrow> reach t h v = {}"
proof (induction t arbitrary: v rule: ty_induct)
  case (TStruct fts)
  then obtain fvs where v: "v = Fields fvs" "length fvs = length fts"
    and f: "\<And>i. i < length fts \<Longrightarrow> has_type (snd (fts ! i)) h (snd (fvs ! i))" unfolding has_type_struct by blast
  have "reach (snd (fts ! i)) h (snd (fvs ! i)) = {}" if "i < length fts" for i
    by (rule TStruct.IH [of "fst (fts ! i)"]) (use that f TStruct.prems(1) in \<open>simp_all add: flat_struct\<close>)
  then show ?case unfolding v(1) reach_struct [OF v(2)] by blast
qed simp_all

section \<open>Copying\<close>

text \<open>A copier gets the heap and a value and gives the heap with what it has allocated and its result.\<close>

type_synonym copier = "heap \<Rightarrow> gval \<Rightarrow> heap \<times> gval"

text \<open>What is left of a copy: it looks like the original and leads to new cells only.\<close>

definition copied :: "ty \<Rightarrow> heap \<Rightarrow> gval \<Rightarrow> heap \<Rightarrow> gval \<Rightarrow> bool" where
  "copied t h v h' v' \<longleftrightarrow> has_type t h' v' \<and> view t h' v' = view t h v \<and> reach t h' v' \<inter> {..<length h} = {}"

definition deep :: "ty \<Rightarrow> copier \<Rightarrow> bool" where
  "deep t c \<longleftrightarrow> (\<forall>h v. has_type t h v \<longrightarrow> (\<exists>k v'. c h v = (h @ k, v') \<and> copied t h v (h @ k) v'))"

lemma deepE:
  assumes "deep t c" and "has_type t h v"
  obtains k v' where "c h v = (h @ k, v')" and "copied t h v (h @ k) v'"
  using assms unfolding deep_def by blast

lemma copied_later:
  assumes "copied t h v h' v'"
  shows "copied t h v (h' @ k) v'"
  using assms looks_same_extended [of t h' v' k] by (simp add: copied_def looks_same_def)

text \<open>A copy of a value in a heap that has grown is one of the value before.\<close>

lemma copied_earlier:
  assumes "has_type t h v" and "copied t (h @ k) v h' v'"
  shows "copied t h v h' v'"
  using assms looks_same_extended [of t h v k] by (auto simp: copied_def looks_same_def)

text \<open>
  The statements of the code that copy: an assignment; \<open>new\<close> and a copy into the new variable; \<open>make\<close>
  and a copy of each element, or the built-in \<open>copy\<close>; \<open>make\<close> and an assignment of each entry.  What is
  nil stays nil.  A new cell is put on the heap after the copies of its contents.
\<close>

definition assign :: copier where
  "assign h v = (h, v)"

definition copy_pointer :: "copier \<Rightarrow> copier" where
  "copy_pointer c h v = (case v of
     PtrTo a \<Rightarrow> (case var_at h a of
         Some w \<Rightarrow> (let (h, w) = c h w in (h @ [Var w], PtrTo (length h)))
       | None \<Rightarrow> (h, v))
   | _ \<Rightarrow> (h, v))"

primrec copy_elements :: "copier \<Rightarrow> heap \<Rightarrow> gval list \<Rightarrow> heap \<times> gval list" where
  "copy_elements c h [] = (h, [])"
| "copy_elements c h (v # vs) = (let (h, v) = c h v; (h, vs) = copy_elements c h vs in (h, v # vs))"

definition copy_slice :: "copier \<Rightarrow> copier" where
  "copy_slice c h v = (case v of
     SliceOf a i n \<Rightarrow> (case slice_at h a i n of
         Some ws \<Rightarrow> (let (h, ws) = copy_elements c h ws in (h @ [Array ws], SliceOf (length h) 0 (length ws)))
       | None \<Rightarrow> (h, v))
   | _ \<Rightarrow> (h, v))"

definition copy_map :: "copier \<Rightarrow> copier" where
  "copy_map c h v = (case v of
     MapAt a \<Rightarrow> (case entries_at h a of
         Some es \<Rightarrow> (let (h, ws) = copy_elements c h (map snd es) in (h @ [Entries (zip (map fst es) ws)], MapAt (length h)))
       | None \<Rightarrow> (h, v))
   | _ \<Rightarrow> (h, v))"

text \<open>\<open>*out = *in\<close>, then the statements for single fields in their order, which read from \<open>in\<close>.\<close>

definition field_of :: "gval \<Rightarrow> string \<Rightarrow> gval" where
  "field_of v f = (case v of Fields fvs \<Rightarrow> (case map_of fvs f of Some w \<Rightarrow> w | None \<Rightarrow> NilRef) | _ \<Rightarrow> NilRef)"

definition set_field :: "string \<Rightarrow> gval \<Rightarrow> gval \<Rightarrow> gval" where
  "set_field f w v = (case v of Fields fvs \<Rightarrow> Fields (map (\<lambda>(g, u). (g, if g = f then w else u)) fvs) | _ \<Rightarrow> v)"

primrec copy_fields :: "(string \<times> copier) list \<Rightarrow> gval \<Rightarrow> heap \<Rightarrow> gval \<Rightarrow> heap \<times> gval" where
  "copy_fields [] inp h out = (h, out)"
| "copy_fields (fc # fcs) inp h out =
     (let (h, w) = snd fc h (field_of inp (fst fc)) in copy_fields fcs inp h (set_field (fst fc) w out))"

definition copy_struct :: "(string \<times> copier) list \<Rightarrow> copier" where
  "copy_struct fcs h v = copy_fields fcs v h v"

section \<open>The statements copy deeply\<close>

named_theorems deep_intros

lemma deep_assign [deep_intros]: "flat t \<Longrightarrow> deep t assign"
  unfolding deep_def assign_def copied_def by (intro allI impI exI [of _ "[]"]) (simp add: flat_reaches_nothing)

lemma deep_pointer [deep_intros]:
  assumes "deep t c"
  shows "deep (TPtr t) (copy_pointer c)"
  unfolding deep_def
proof (intro allI impI)
  fix h v assume v: "has_type (TPtr t) h v"
  show "\<exists>k v'. copy_pointer c h v = (h @ k, v') \<and> copied (TPtr t) h v (h @ k) v'"
  proof (cases "v = NilRef")
    case True
    then show ?thesis by (intro exI [of _ "[]"]) (simp add: copy_pointer_def copied_def)
  next
    case False
    with v obtain a w where a: "v = PtrTo a" "var_at h a = Some w" and w: "has_type t h w"
      by (auto split: gval.splits option.splits)
    from assms w obtain k w' where c: "c h w = (h @ k, w')" and "copied t h w (h @ k) w'" by (rule deepE)
    then have "copied t h w (h @ k @ [Var w']) w'" using copied_later [of t h w "h @ k" w' "[Var w']"] by simp
    moreover have "var_at (h @ k @ [Var w']) (length h + length k) = Some w'"
      by (simp add: var_at_def nth_append)
    ultimately have "copied (TPtr t) h v (h @ k @ [Var w']) (PtrTo (length h + length k))"
      using a by (auto simp: copied_def)
    then show ?thesis by (intro exI [of _ "k @ [Var w']"]) (simp add: copy_pointer_def a c)
  qed
qed

lemma copy_elements_deep:
  assumes "deep t c"
  shows "list_all (has_type t h) vs \<Longrightarrow>
    \<exists>k ws. copy_elements c h vs = (h @ k, ws) \<and> list_all2 (\<lambda>v w. copied t h v (h @ k) w) vs ws"
proof (induction vs arbitrary: h)
  case Nil
  then show ?case by (intro exI [of _ "[]"]) simp
next
  case (Cons v vs)
  then have v: "has_type t h v" and vs: "list_all (has_type t h) vs" by simp_all
  from assms v obtain k w where c: "c h v = (h @ k, w)" and w: "copied t h v (h @ k) w" by (rule deepE)
  have "list_all (has_type t (h @ k)) vs"
    using vs looks_same_extended [of t h _ k] by (auto simp: list_all_iff looks_same_def)
  from Cons.IH [OF this] obtain k' ws where e: "copy_elements c (h @ k) vs = (h @ k @ k', ws)"
    and all: "list_all2 (\<lambda>v w. copied t (h @ k) v (h @ k @ k') w) vs ws" by auto
  have "list_all2 (\<lambda>v w. copied t h v (h @ k @ k') w) vs ws"
  proof (rule list.rel_mono_strong [OF all])
    fix v w assume "v \<in> set vs" and "copied t (h @ k) v (h @ k @ k') w"
    with vs show "copied t h v (h @ k @ k') w" by (intro copied_earlier [of t h v k]) (simp_all add: list_all_iff)
  qed
  moreover have "copied t h v (h @ k @ k') w" using copied_later [OF w, of k'] by simp
  ultimately show ?case by (intro exI [of _ "k @ k'"] exI [of _ "w # ws"]) (simp add: c e)
qed

lemma copied_list:
  assumes "list_all2 (\<lambda>v w. copied t h v h' w) vs ws"
  shows "list_all (has_type t h') ws" "map (view t h') ws = map (view t h) vs" "length ws = length vs"
    "\<Union>(reach t h' ` set ws) \<inter> {..<length h} = {}"
  using assms by (auto simp: list_all2_conv_all_nth list_all_length copied_def set_conv_nth intro!: nth_equalityI)

lemma list_copied_later:
  "list_all2 (\<lambda>v w. copied t h v h' w) vs ws \<Longrightarrow> list_all2 (\<lambda>v w. copied t h v (h' @ k) w) vs ws"
  by (auto elim!: list.rel_mono_strong intro: copied_later)

lemma deep_slice [deep_intros]:
  assumes "deep t c"
  shows "deep (TSlice t) (copy_slice c)"
  unfolding deep_def
proof (intro allI impI)
  fix h v assume v: "has_type (TSlice t) h v"
  show "\<exists>k v'. copy_slice c h v = (h @ k, v') \<and> copied (TSlice t) h v (h @ k) v'"
  proof (cases "v = NilRef")
    case True
    then show ?thesis by (intro exI [of _ "[]"]) (simp add: copy_slice_def copied_def)
  next
    case False
    with v obtain a i n vs where a: "v = SliceOf a i n" "slice_at h a i n = Some vs" and vs: "list_all (has_type t h) vs"
      by (auto split: gval.splits option.splits)
    from copy_elements_deep [OF assms vs] obtain k ws where e: "copy_elements c h vs = (h @ k, ws)"
      and "list_all2 (\<lambda>v w. copied t h v (h @ k) w) vs ws" by blast
    then have "list_all2 (\<lambda>v w. copied t h v (h @ k @ [Array ws]) w) vs ws"
      using list_copied_later [of t h "h @ k" vs ws "[Array ws]"] by simp
    note all = copied_list [OF this]
    have "slice_at (h @ k @ [Array ws]) (length h + length k) 0 (length ws) = Some ws"
      by (simp add: slice_at_def nth_append)
    with all have "copied (TSlice t) h v (h @ k @ [Array ws]) (SliceOf (length h + length k) 0 (length ws))"
      using a by (auto simp: copied_def)
    then show ?thesis by (intro exI [of _ "k @ [Array ws]"]) (simp add: copy_slice_def a e)
  qed
qed

lemma deep_map [deep_intros]:
  assumes "deep t c"
  shows "deep (TMap t) (copy_map c)"
  unfolding deep_def
proof (intro allI impI)
  fix h v assume v: "has_type (TMap t) h v"
  show "\<exists>k v'. copy_map c h v = (h @ k, v') \<and> copied (TMap t) h v (h @ k) v'"
  proof (cases "v = NilRef")
    case True
    then show ?thesis by (intro exI [of _ "[]"]) (simp add: copy_map_def copied_def)
  next
    case False
    with v obtain a es where a: "v = MapAt a" "entries_at h a = Some es" and es: "list_all (has_type t h) (map snd es)"
      by (auto split: gval.splits option.splits)
    from copy_elements_deep [OF assms es] obtain k ws where e: "copy_elements c h (map snd es) = (h @ k, ws)"
      and "list_all2 (\<lambda>v w. copied t h v (h @ k) w) (map snd es) ws" by blast
    let ?es = "zip (map fst es) ws" and ?h = "h @ k @ [Entries (zip (map fst es) ws)]"
    have "list_all2 (\<lambda>v w. copied t h v ?h w) (map snd es) ws"
      using list_copied_later [of t h "h @ k" "map snd es" ws "[Entries ?es]"] \<open>list_all2 _ (map snd es) ws\<close> by simp
    note all = copied_list [OF this]
    have "map snd ?es = ws" using all(3) by simp
    moreover have "map (map_prod id (view t ?h)) ?es = map (map_prod id (view t h)) es"
      using all(2,3) by (auto simp: list_eq_iff_nth_eq prod_eq_iff)
    moreover have "entries_at ?h (length h + length k) = Some ?es" by (simp add: entries_at_def nth_append)
    ultimately have "copied (TMap t) h v ?h (MapAt (length h + length k))"
      using a all(1,4) by (auto simp: copied_def)
    then show ?thesis by (intro exI [of _ "k @ [Entries ?es]"]) (simp add: copy_map_def a e)
  qed
qed

text \<open>A struct is copied deeply when every field with a pointer in it has a statement that copies it deeply.\<close>

lemma field_of_nth:
  assumes "distinct (map fst fvs)" and "i < length fvs"
  shows "field_of (Fields fvs) (fst (fvs ! i)) = snd (fvs ! i)"
proof -
  have "map_of fvs (fst (fvs ! i)) = Some (snd (fvs ! i))" using assms by (intro map_of_is_SomeI) simp_all
  then show ?thesis by (simp add: field_of_def)
qed

lemma set_field_nth:
  assumes "distinct (map fst fvs)" and "j < length fvs"
  shows "set_field (fst (fvs ! j)) w (Fields fvs) = Fields (fvs[j := (fst (fvs ! j), w)])"
proof -
  have "fst (fvs ! i) = fst (fvs ! j) \<longleftrightarrow> i = j" if "i < length fvs" for i
    using assms that by (auto simp: distinct_conv_nth)
  then show ?thesis by (auto simp: set_field_def split_def nth_list_update prod_eq_iff intro!: nth_equalityI)
qed

definition field_done :: "ty \<Rightarrow> heap \<Rightarrow> gval \<Rightarrow> heap \<Rightarrow> bool \<Rightarrow> gval \<Rightarrow> gval \<Rightarrow> bool" where
  "field_done t h v h' listed old new \<longleftrightarrow> (if listed then copied t h v h' new else new = old)"

lemma copy_fields_deep:
  assumes d: "distinct (map fst fts)" and v: "map fst fvs = map fst fts"
    and typed: "\<And>i. i < length fts \<Longrightarrow> has_type (snd (fts ! i)) h (snd (fvs ! i))"
  shows "distinct (map fst fcs) \<Longrightarrow> \<forall>fc \<in> set fcs. \<exists>i < length fts. fst fc = fst (fts ! i) \<and> deep (snd (fts ! i)) (snd fc) \<Longrightarrow>
    map fst ows = map fst fts \<Longrightarrow>
    \<exists>k' ows'. copy_fields fcs (Fields fvs) (h @ k) (Fields ows) = (h @ k @ k', Fields ows') \<and> map fst ows' = map fst fts \<and>
      (\<forall>i < length fts. field_done (snd (fts ! i)) h (snd (fvs ! i)) (h @ k @ k') (fst (fts ! i) \<in> fst ` set fcs)
        (snd (ows ! i)) (snd (ows' ! i)))"
proof (induction fcs arbitrary: k ows)
  case Nil
  then show ?case by (intro exI [of _ "[]"] exI [of _ ows]) (simp add: field_done_def)
next
  case (Cons fc fcs)
  from v have len: "length fvs = length fts" by (rule map_eq_imp_length_eq)
  from Cons.prems(3) have leno: "length ows = length fts" by (rule map_eq_imp_length_eq)
  have nth: "fst (fvs ! i) = fst (fts ! i)" "fst (ows ! i) = fst (fts ! i)" if "i < length fts" for i
    using that v Cons.prems(3) len leno by (metis nth_map)+
  from Cons.prems(2) obtain j where j: "j < length fts" "fst fc = fst (fts ! j)" and c: "deep (snd (fts ! j)) (snd fc)" by auto
  let ?t = "snd (fts ! j)" and ?v = "snd (fvs ! j)"
  have read: "field_of (Fields fvs) (fst fc) = ?v"
    using field_of_nth [of fvs j] d v j nth(1) [OF j(1)] len by simp
  have "has_type ?t (h @ k) ?v" using looks_same_extended [OF typed [OF j(1)], of k] by (simp add: looks_same_def)
  from deepE [OF c this] obtain k1 w where run: "snd fc (h @ k) ?v = (h @ k @ k1, w)" and "copied ?t (h @ k) ?v (h @ k @ k1) w"
    by (metis append.assoc)
  then have w: "copied ?t h ?v (h @ k @ k1) w" by (intro copied_earlier [OF typed [OF j(1)]])
  let ?ows = "ows[j := (fst fc, w)]"
  have set: "set_field (fst fc) w (Fields ows) = Fields ?ows"
    using set_field_nth [of ows j w] d Cons.prems(3) leno j nth(2) [OF j(1)] by simp
  have names: "map fst ?ows = map fst fts"
    using Cons.prems(3) j leno by (simp add: map_update) (metis list_update_id nth_map)
  from Cons.IH [of ?ows "k @ k1"] Cons.prems names obtain k' ows' where
    rest: "copy_fields fcs (Fields fvs) (h @ k @ k1) (Fields ?ows) = (h @ k @ k1 @ k', Fields ows')"
    and names': "map fst ows' = map fst fts"
    and fd: "\<And>i. i < length fts \<Longrightarrow> field_done (snd (fts ! i)) h (snd (fvs ! i)) (h @ k @ k1 @ k')
      (fst (fts ! i) \<in> fst ` set fcs) (snd (?ows ! i)) (snd (ows' ! i))" by auto
  have "field_done (snd (fts ! i)) h (snd (fvs ! i)) (h @ k @ k1 @ k') (fst (fts ! i) \<in> fst ` set (fc # fcs))
      (snd (ows ! i)) (snd (ows' ! i))" if i: "i < length fts" for i
  proof (cases "i = j")
    case True
    have "fst (fts ! j) \<notin> fst ` set fcs" using Cons.prems(1) j(2) by auto
    with fd [OF j(1)] have "snd (ows' ! j) = w" using j(1) leno by (simp add: field_done_def)
    then show ?thesis using True j(2) copied_later [OF w, of k'] by (simp add: field_done_def)
  next
    case False
    have "fst (fts ! i) \<noteq> fst (fts ! j)" using d False i j(1) by (auto simp: distinct_conv_nth)
    with fd [OF i] False show ?thesis using j(2) by (simp add: field_done_def)
  qed
  then show ?case
    using names' by (intro exI [of _ "k1 @ k'"] exI [of _ ows']) (simp add: read run set rest)
qed

lemma deep_struct:
  assumes "distinct (map fst fts)" and "distinct (map fst fcs)" and "fst ` set fcs \<subseteq> fst ` set fts"
    and each: "\<And>f t. (f, t) \<in> set fts \<Longrightarrow> (case map_of fcs f of Some c \<Rightarrow> deep t c | None \<Rightarrow> flat t)"
  shows "deep (TStruct fts) (copy_struct fcs)"
  unfolding deep_def
proof (intro allI impI)
  fix h v assume "has_type (TStruct fts) h v"
  then obtain fvs where v: "v = Fields fvs" and len: "length fvs = length fts"
    and typed: "\<And>i. i < length fts \<Longrightarrow> fst (fvs ! i) = fst (fts ! i) \<and> has_type (snd (fts ! i)) h (snd (fvs ! i))"
    unfolding has_type_struct by blast
  have names: "map fst fvs = map fst fts" using typed len by (auto intro: nth_equalityI)
  have "\<exists>i < length fts. fst fc = fst (fts ! i) \<and> deep (snd (fts ! i)) (snd fc)" if "fc \<in> set fcs" for fc
  proof -
    from that assms(3) have "fst fc \<in> set (map fst fts)" by auto
    then obtain i where i: "i < length fts" "fst fc = fst (fts ! i)" by (auto simp: in_set_conv_nth)
    have "map_of fcs (fst (fts ! i)) = Some (snd fc)" using assms(2) that i(2) by (metis map_of_is_SomeI prod.collapse)
    with each [of "fst (fts ! i)" "snd (fts ! i)"] i show ?thesis by auto
  qed
  then obtain k ws where run: "copy_fields fcs (Fields fvs) h (Fields fvs) = (h @ k, Fields ws)"
    and names': "map fst ws = map fst fts"
    and fd: "\<And>i. i < length fts \<Longrightarrow> field_done (snd (fts ! i)) h (snd (fvs ! i)) (h @ k) (fst (fts ! i) \<in> fst ` set fcs)
      (snd (fvs ! i)) (snd (ws ! i))"
    using copy_fields_deep [OF assms(1) names _ assms(2), of h fvs "[]"] typed names by auto
  have lenw: "length ws = length fts" using names' by (rule map_eq_imp_length_eq)
  have "copied (snd (fts ! i)) h (snd (fvs ! i)) (h @ k) (snd (ws ! i))" if i: "i < length fts" for i
  proof (cases "fst (fts ! i) \<in> fst ` set fcs")
    case True
    with fd [OF i] show ?thesis by (simp add: field_done_def)
  next
    case False
    then have "map_of fcs (fst (fts ! i)) = None" by (simp add: map_of_eq_None_iff)
    with each [of "fst (fts ! i)" "snd (fts ! i)"] i have flat: "flat (snd (fts ! i))" by simp
    from False fd [OF i] have "ws ! i = fvs ! i \<or> snd (ws ! i) = snd (fvs ! i)" by (simp add: field_done_def)
    with looks_same_extended [of "snd (fts ! i)" h "snd (fvs ! i)" k] typed [OF i] flat_reaches_nothing [OF flat]
    show ?thesis by (auto simp: copied_def looks_same_def)
  qed
  moreover have "fst (ws ! i) = fst (fts ! i)" if "i < length fts" for i
    using that names' lenw by (metis nth_map)
  ultimately have "copied (TStruct fts) h v (h @ k) (Fields ws)"
    using typed len lenw by (auto simp: copied_def v has_type_struct view_struct reach_struct)
  then show "\<exists>k v'. copy_struct fcs h v = (h @ k, v') \<and> copied (TStruct fts) h v (h @ k) v'"
    using run by (auto simp: copy_struct_def v)
qed

section \<open>Writes through one of the two\<close>

lemma copy_unaffected:
  assumes "copied t h v h' v'" and "a < length h"
  shows "looks_same t h' (h'[a := x]) v'"
proof (rule agreement)
  show typed: "has_type t h' v'" using assms(1) by (simp add: copied_def)
  show "agree_on (reach t h' v') h' (h'[a := x])"
  proof -
    have "b \<noteq> a \<and> b < length h'" if "b \<in> reach t h' v'" for b
      using that assms reach_bound [OF typed] by (auto simp: copied_def)
    then show ?thesis unfolding agree_on_def by (metis length_list_update nth_list_update_neq)
  qed
qed

lemma original_unaffected:
  assumes "has_type t h v" and "length h \<le> a"
  shows "looks_same t h ((h @ k)[a := x]) v"
  using assms reach_bound [OF assms(1)]
  by (intro agreement) (auto simp: agree_on_def nth_list_update nth_append subset_iff)

section \<open>A copier for every type\<close>

primrec clone :: "ty \<Rightarrow> copier" where
  "clone TData = assign"
| "clone (TPtr t) = copy_pointer (clone t)"
| "clone (TSlice t) = copy_slice (clone t)"
| "clone (TMap t) = copy_map (clone t)"
| "clone (TStruct fts) = copy_struct (map (map_prod id clone) fts)"

lemma deep_clone: "wf_ty t \<Longrightarrow> deep t (clone t)"
proof (induction t rule: ty_induct)
  case (TStruct fts)
  then have d: "distinct (map fst fts)" and wf: "\<And>f t. (f, t) \<in> set fts \<Longrightarrow> wf_ty t" by (auto simp: list_all_iff)
  have names: "map fst (map (map_prod id clone) fts) = map fst fts" by simp
  show ?case
    unfolding clone.simps
  proof (rule deep_struct [OF d])
    show "distinct (map fst (map (map_prod id clone) fts))" using d unfolding names .
    show "fst ` set (map (map_prod id clone) fts) \<subseteq> fst ` set fts" by (simp add: image_image)
    fix f t assume ft: "(f, t) \<in> set fts"
    with d have "map_of (map (map_prod id clone) fts) f = Some (clone t)"
      unfolding names [symmetric] by (intro map_of_is_SomeI) force+
    with TStruct.IH [OF ft wf [OF ft]]
    show "case map_of (map (map_prod id clone) fts) f of Some c \<Rightarrow> deep t c | None \<Rightarrow> flat t" by simp
  qed
qed (simp_all add: deep_intros)

text \<open>The zero value of a type.\<close>

primrec zero_value :: "ty \<Rightarrow> gval" where
  "zero_value TData = Data []"
| "zero_value (TPtr t) = NilRef"
| "zero_value (TSlice t) = NilRef"
| "zero_value (TMap t) = NilRef"
| "zero_value (TStruct fts) = Fields (map (map_prod id zero_value) fts)"

end
