(* ===== verification/Deep_Copy.thy ===== *)
theory Deep_Copy
  imports Go_Heap
begin

text \<open>
  The generated deep copies of the API types (\<^verbatim>\<open>api/v1alpha2/zz_generated.deepcopy.go\<close>) on the heap
  of \<open>Go_Heap\<close>, and the function of the Jenkins controller that relies on one.  For each Go struct
  \<open>S\<close>, \<open>T_S\<close> is its type (\<^verbatim>\<open>api/v1alpha2/*_types.go\<close>) and \<open>DeepCopyInto_S\<close> its method: the value
  \<open>*in\<close> is the argument, the value written to \<open>*out\<close> the result.  The types of other packages are a
  parameter: for each name its type and its \<open>DeepCopyInto\<close>.
\<close>

section \<open>Types\<close>

type_synonym externals = "string \<Rightarrow> ty \<times> copier"

definition ext_ty :: "externals \<Rightarrow> string \<Rightarrow> ty" where
  "ext_ty X n = fst (X n)"

definition ext_copy :: "externals \<Rightarrow> string \<Rightarrow> copier" where
  "ext_copy X n = snd (X n)"

text \<open>The types of other packages that the code copies by assignment; none has a pointer in it.\<close>

definition T_TypeMeta :: ty where
  "T_TypeMeta = TStruct [(''Kind'', TData), (''APIVersion'', TData)]"

definition T_ContainerPort :: ty where
  "T_ContainerPort = TStruct [(''Name'', TData), (''HostPort'', TData), (''ContainerPort'', TData),
     (''Protocol'', TData), (''HostIP'', TData)]"

definition T_LocalObjectReference :: ty where
  "T_LocalObjectReference = TStruct [(''Name'', TData)]"

definition T_RoleRef :: ty where
  "T_RoleRef = TStruct [(''APIGroup'', TData), (''Kind'', TData), (''Name'', TData)]"

text \<open>The API types, each after those it contains.\<close>

definition T_BackupSpec :: ty where
  "T_BackupSpec = TStruct [(''ConfigRef'', TData)]"

definition T_BackupStatus :: "externals \<Rightarrow> ty" where
  "T_BackupStatus X = TStruct [(''Conditions'', TSlice (ext_ty X ''status.Condition''))]"

definition T_Backup :: "externals \<Rightarrow> ty" where
  "T_Backup X = TStruct [(''TypeMeta'', T_TypeMeta), (''ObjectMeta'', ext_ty X ''metav1.ObjectMeta''),
     (''Spec'', T_BackupSpec), (''Status'', T_BackupStatus X)]"

definition T_BackupOptions :: ty where
  "T_BackupOptions = TStruct [(''Jobs'', TData), (''Plugins'', TData), (''Config'', TData)]"

definition T_RestartConfig :: ty where
  "T_RestartConfig = TStruct [(''Enabled'', TData), (''Safe'', TData)]"

definition T_BackupConfigSpec :: ty where
  "T_BackupConfigSpec = TStruct [(''JenkinsRef'', TData), (''QuietDownDuringBackup'', TData),
     (''Options'', T_BackupOptions), (''RestartAfterRestore'', T_RestartConfig)]"

definition T_BackupConfigStatus :: ty where
  "T_BackupConfigStatus = TStruct []"

definition T_BackupConfig :: "externals \<Rightarrow> ty" where
  "T_BackupConfig X = TStruct [(''TypeMeta'', T_TypeMeta), (''ObjectMeta'', ext_ty X ''metav1.ObjectMeta''),
     (''Spec'', T_BackupConfigSpec), (''Status'', T_BackupConfigStatus)]"

definition T_BackupConfigList :: "externals \<Rightarrow> ty" where
  "T_BackupConfigList X = TStruct [(''TypeMeta'', T_TypeMeta), (''ListMeta'', ext_ty X ''metav1.ListMeta''),
     (''Items'', TSlice (T_BackupConfig X))]"

definition T_BackupList :: "externals \<Rightarrow> ty" where
  "T_BackupList X = TStruct [(''TypeMeta'', T_TypeMeta), (''ListMeta'', ext_ty X ''metav1.ListMeta''),
     (''Items'', TSlice (T_Backup X))]"

definition T_ConfigMapRef :: ty where
  "T_ConfigMapRef = TStruct [(''Name'', TData)]"

definition T_SecretRef :: ty where
  "T_SecretRef = TStruct [(''Name'', TData)]"

definition T_Configuration :: ty where
  "T_Configuration = TStruct [(''Enabled'', TData), (''DefaultConfig'', TData), (''Secret'', T_SecretRef),
     (''Configurations'', TSlice T_ConfigMapRef), (''EnableAutoReload'', TData)]"

definition T_Container :: "externals \<Rightarrow> ty" where
  "T_Container X = TStruct [(''Name'', TData), (''Image'', TData), (''ImagePullPolicy'', TData),
     (''Resources'', ext_ty X ''corev1.ResourceRequirements''), (''Command'', TSlice TData),
     (''Args'', TSlice TData), (''WorkingDir'', TData), (''Ports'', TSlice T_ContainerPort),
     (''EnvFrom'', TSlice (ext_ty X ''corev1.EnvFromSource'')), (''Env'', TSlice (ext_ty X ''corev1.EnvVar'')),
     (''VolumeMounts'', TSlice (ext_ty X ''corev1.VolumeMount'')),
     (''LivenessProbe'', TPtr (ext_ty X ''corev1.Probe'')),
     (''ReadinessProbe'', TPtr (ext_ty X ''corev1.Probe'')),
     (''Lifecycle'', TPtr (ext_ty X ''corev1.Lifecycle'')),
     (''SecurityContext'', TPtr (ext_ty X ''corev1.SecurityContext''))]"

definition T_Image :: ty where
  "T_Image = TStruct [(''Name'', TData), (''Tag'', TData), (''Registry'', TData), (''Secret'', TData)]"

definition T_Plugin :: ty where
  "T_Plugin = TStruct [(''Name'', TData), (''Version'', TData), (''DownloadURL'', TData)]"

definition T_JenkinsMaster :: "externals \<Rightarrow> ty" where
  "T_JenkinsMaster X = TStruct [(''Annotations'', TMap TData), (''AnnotationsDeprecated'', TMap TData),
     (''Labels'', TMap TData), (''NodeSelector'', TMap TData),
     (''SecurityContext'', TPtr (ext_ty X ''corev1.PodSecurityContext'')),
     (''Containers'', TSlice (T_Container X)), (''ImagePullSecrets'', TSlice T_LocalObjectReference),
     (''Volumes'', TSlice (ext_ty X ''corev1.Volume'')),
     (''Tolerations'', TSlice (ext_ty X ''corev1.Toleration'')), (''BasePlugins'', TSlice T_Plugin),
     (''PriorityClassName'', TData)]"

definition T_Service :: ty where
  "T_Service = TStruct [(''Annotations'', TMap TData), (''Labels'', TMap TData), (''Type'', TData),
     (''Port'', TData), (''NodePort'', TData), (''LoadBalancerSourceRanges'', TSlice TData),
     (''LoadBalancerIP'', TData)]"

definition T_ServiceAccount :: ty where
  "T_ServiceAccount = TStruct [(''Annotations'', TMap TData)]"

definition T_JenkinsAPISettings :: ty where
  "T_JenkinsAPISettings = TStruct [(''AuthorizationStrategy'', TData)]"

definition T_JenkinsSpec :: "externals \<Rightarrow> ty" where
  "T_JenkinsSpec X = TStruct [(''Master'', TPtr (T_JenkinsMaster X)), (''JenkinsImageRef'', TData),
     (''ForceBasePluginsInstall'', TData), (''Service'', T_Service), (''JNLPService'', T_Service),
     (''Roles'', TSlice T_RoleRef), (''ServiceAccount'', T_ServiceAccount),
     (''JenkinsAPISettings'', T_JenkinsAPISettings), (''ConfigurationAsCode'', TPtr T_Configuration),
     (''BackupEnabled'', TData)]"

definition T_JenkinsStatus :: "externals \<Rightarrow> ty" where
  "T_JenkinsStatus X = TStruct [(''OperatorVersion'', TData),
     (''Conditions'', TSlice (ext_ty X ''conditionsv1.Condition'')),
     (''ProvisionStartTime'', TPtr (ext_ty X ''metav1.Time'')), (''UserAndPasswordHash'', TData),
     (''Spec'', TPtr (T_JenkinsSpec X))]"

definition T_Jenkins :: "externals \<Rightarrow> ty" where
  "T_Jenkins X = TStruct [(''TypeMeta'', T_TypeMeta), (''ObjectMeta'', ext_ty X ''metav1.ObjectMeta''),
     (''Spec'', T_JenkinsSpec X), (''Status'', TPtr (T_JenkinsStatus X))]"

definition T_JenkinsPlugin :: ty where
  "T_JenkinsPlugin = TStruct [(''Name'', TData), (''Version'', TData), (''UpdateCenter'', TData)]"

definition T_JenkinsImageSpec :: ty where
  "T_JenkinsImageSpec = TStruct [(''From'', T_Image), (''To'', T_Image), (''Plugins'', TSlice T_JenkinsPlugin),
     (''DefaultUpdateCenter'', TData)]"

definition T_JenkinsImageBuild :: ty where
  "T_JenkinsImageBuild = TStruct [(''Image'', TData), (''MD5Sum'', TData), (''InstalledPlugins'', TData)]"

definition T_JenkinsImageStatus :: ty where
  "T_JenkinsImageStatus = TStruct [(''Phase'', TData), (''Builds'', TSlice T_JenkinsImageBuild)]"

definition T_JenkinsImage :: "externals \<Rightarrow> ty" where
  "T_JenkinsImage X = TStruct [(''TypeMeta'', T_TypeMeta), (''ObjectMeta'', ext_ty X ''metav1.ObjectMeta''),
     (''Spec'', T_JenkinsImageSpec), (''Status'', T_JenkinsImageStatus)]"

definition T_JenkinsImageList :: "externals \<Rightarrow> ty" where
  "T_JenkinsImageList X = TStruct [(''TypeMeta'', T_TypeMeta), (''ListMeta'', ext_ty X ''metav1.ListMeta''),
     (''Items'', TSlice (T_JenkinsImage X))]"

definition T_JenkinsList :: "externals \<Rightarrow> ty" where
  "T_JenkinsList X = TStruct [(''TypeMeta'', T_TypeMeta), (''ListMeta'', ext_ty X ''metav1.ListMeta''),
     (''Items'', TSlice (T_Jenkins X))]"

definition T_RestoreSpec :: ty where
  "T_RestoreSpec = TStruct [(''BackupRef'', TData)]"

definition T_RestoreStatus :: "externals \<Rightarrow> ty" where
  "T_RestoreStatus X = TStruct [(''Conditions'', TSlice (ext_ty X ''status.Condition''))]"

definition T_Restore :: "externals \<Rightarrow> ty" where
  "T_Restore X = TStruct [(''TypeMeta'', T_TypeMeta), (''ObjectMeta'', ext_ty X ''metav1.ObjectMeta''),
     (''Spec'', T_RestoreSpec), (''Status'', T_RestoreStatus X)]"

definition T_RestoreList :: "externals \<Rightarrow> ty" where
  "T_RestoreList X = TStruct [(''TypeMeta'', T_TypeMeta), (''ListMeta'', ext_ty X ''metav1.ListMeta''),
     (''Items'', TSlice (T_Restore X))]"

definition T_SecretKeySelector :: ty where
  "T_SecretKeySelector = TStruct [(''LocalObjectReference'', T_LocalObjectReference), (''Key'', TData)]"

section \<open>The generated methods\<close>

text \<open>
  \<open>DeepCopy\<close> allocates a variable and copies into it, and keeps nil; \<open>DeepCopyObject\<close> answers an
  interface, which is nil (\<open>None\<close>) for a nil pointer, not an interface that holds one.
\<close>

type_synonym object_copier = "heap \<Rightarrow> gval \<Rightarrow> heap \<times> gval option"

definition as_object :: "copier \<Rightarrow> object_copier" where
  "as_object c h v = (let (h, w) = c h v in (h, if w \<noteq> NilRef then Some w else None))"

definition DeepCopyInto_BackupSpec :: copier where
  "DeepCopyInto_BackupSpec = copy_struct []"

definition DeepCopy_BackupSpec :: copier where
  "DeepCopy_BackupSpec = copy_pointer DeepCopyInto_BackupSpec"

definition DeepCopyInto_BackupStatus :: "externals \<Rightarrow> copier" where
  "DeepCopyInto_BackupStatus X = copy_struct [(''Conditions'', copy_slice (ext_copy X ''status.Condition''))]"

definition DeepCopy_BackupStatus :: "externals \<Rightarrow> copier" where
  "DeepCopy_BackupStatus X = copy_pointer (DeepCopyInto_BackupStatus X)"

definition DeepCopyInto_Backup :: "externals \<Rightarrow> copier" where
  "DeepCopyInto_Backup X = copy_struct [(''TypeMeta'', assign),
     (''ObjectMeta'', ext_copy X ''metav1.ObjectMeta''), (''Spec'', assign),
     (''Status'', DeepCopyInto_BackupStatus X)]"

definition DeepCopy_Backup :: "externals \<Rightarrow> copier" where
  "DeepCopy_Backup X = copy_pointer (DeepCopyInto_Backup X)"

definition DeepCopyObject_Backup :: "externals \<Rightarrow> object_copier" where
  "DeepCopyObject_Backup X = as_object (DeepCopy_Backup X)"

definition DeepCopyInto_BackupOptions :: copier where
  "DeepCopyInto_BackupOptions = copy_struct []"

definition DeepCopy_BackupOptions :: copier where
  "DeepCopy_BackupOptions = copy_pointer DeepCopyInto_BackupOptions"

definition DeepCopyInto_RestartConfig :: copier where
  "DeepCopyInto_RestartConfig = copy_struct []"

definition DeepCopy_RestartConfig :: copier where
  "DeepCopy_RestartConfig = copy_pointer DeepCopyInto_RestartConfig"

definition DeepCopyInto_BackupConfigSpec :: copier where
  "DeepCopyInto_BackupConfigSpec = copy_struct [(''Options'', assign), (''RestartAfterRestore'', assign)]"

definition DeepCopy_BackupConfigSpec :: copier where
  "DeepCopy_BackupConfigSpec = copy_pointer DeepCopyInto_BackupConfigSpec"

definition DeepCopyInto_BackupConfigStatus :: copier where
  "DeepCopyInto_BackupConfigStatus = copy_struct []"

definition DeepCopy_BackupConfigStatus :: copier where
  "DeepCopy_BackupConfigStatus = copy_pointer DeepCopyInto_BackupConfigStatus"

definition DeepCopyInto_BackupConfig :: "externals \<Rightarrow> copier" where
  "DeepCopyInto_BackupConfig X = copy_struct [(''TypeMeta'', assign),
     (''ObjectMeta'', ext_copy X ''metav1.ObjectMeta''), (''Spec'', assign), (''Status'', assign)]"

definition DeepCopy_BackupConfig :: "externals \<Rightarrow> copier" where
  "DeepCopy_BackupConfig X = copy_pointer (DeepCopyInto_BackupConfig X)"

definition DeepCopyObject_BackupConfig :: "externals \<Rightarrow> object_copier" where
  "DeepCopyObject_BackupConfig X = as_object (DeepCopy_BackupConfig X)"

definition DeepCopyInto_BackupConfigList :: "externals \<Rightarrow> copier" where
  "DeepCopyInto_BackupConfigList X = copy_struct [(''TypeMeta'', assign),
     (''ListMeta'', ext_copy X ''metav1.ListMeta''), (''Items'', copy_slice (DeepCopyInto_BackupConfig X))]"

definition DeepCopy_BackupConfigList :: "externals \<Rightarrow> copier" where
  "DeepCopy_BackupConfigList X = copy_pointer (DeepCopyInto_BackupConfigList X)"

definition DeepCopyObject_BackupConfigList :: "externals \<Rightarrow> object_copier" where
  "DeepCopyObject_BackupConfigList X = as_object (DeepCopy_BackupConfigList X)"

definition DeepCopyInto_BackupList :: "externals \<Rightarrow> copier" where
  "DeepCopyInto_BackupList X = copy_struct [(''TypeMeta'', assign),
     (''ListMeta'', ext_copy X ''metav1.ListMeta''), (''Items'', copy_slice (DeepCopyInto_Backup X))]"

definition DeepCopy_BackupList :: "externals \<Rightarrow> copier" where
  "DeepCopy_BackupList X = copy_pointer (DeepCopyInto_BackupList X)"

definition DeepCopyObject_BackupList :: "externals \<Rightarrow> object_copier" where
  "DeepCopyObject_BackupList X = as_object (DeepCopy_BackupList X)"

definition DeepCopyInto_ConfigMapRef :: copier where
  "DeepCopyInto_ConfigMapRef = copy_struct []"

definition DeepCopy_ConfigMapRef :: copier where
  "DeepCopy_ConfigMapRef = copy_pointer DeepCopyInto_ConfigMapRef"

definition DeepCopyInto_SecretRef :: copier where
  "DeepCopyInto_SecretRef = copy_struct []"

definition DeepCopy_SecretRef :: copier where
  "DeepCopy_SecretRef = copy_pointer DeepCopyInto_SecretRef"

definition DeepCopyInto_Configuration :: copier where
  "DeepCopyInto_Configuration = copy_struct [(''Secret'', assign), (''Configurations'', copy_slice assign)]"

definition DeepCopy_Configuration :: copier where
  "DeepCopy_Configuration = copy_pointer DeepCopyInto_Configuration"

definition DeepCopyInto_Container :: "externals \<Rightarrow> copier" where
  "DeepCopyInto_Container X = copy_struct [(''Resources'', ext_copy X ''corev1.ResourceRequirements''),
     (''Command'', copy_slice assign), (''Args'', copy_slice assign), (''Ports'', copy_slice assign),
     (''EnvFrom'', copy_slice (ext_copy X ''corev1.EnvFromSource'')),
     (''Env'', copy_slice (ext_copy X ''corev1.EnvVar'')),
     (''VolumeMounts'', copy_slice (ext_copy X ''corev1.VolumeMount'')),
     (''LivenessProbe'', copy_pointer (ext_copy X ''corev1.Probe'')),
     (''ReadinessProbe'', copy_pointer (ext_copy X ''corev1.Probe'')),
     (''Lifecycle'', copy_pointer (ext_copy X ''corev1.Lifecycle'')),
     (''SecurityContext'', copy_pointer (ext_copy X ''corev1.SecurityContext''))]"

definition DeepCopy_Container :: "externals \<Rightarrow> copier" where
  "DeepCopy_Container X = copy_pointer (DeepCopyInto_Container X)"

definition DeepCopyInto_Image :: copier where
  "DeepCopyInto_Image = copy_struct []"

definition DeepCopy_Image :: copier where
  "DeepCopy_Image = copy_pointer DeepCopyInto_Image"

definition DeepCopyInto_Plugin :: copier where
  "DeepCopyInto_Plugin = copy_struct []"

definition DeepCopy_Plugin :: copier where
  "DeepCopy_Plugin = copy_pointer DeepCopyInto_Plugin"

definition DeepCopyInto_JenkinsMaster :: "externals \<Rightarrow> copier" where
  "DeepCopyInto_JenkinsMaster X = copy_struct [(''Annotations'', copy_map assign),
     (''AnnotationsDeprecated'', copy_map assign), (''Labels'', copy_map assign),
     (''NodeSelector'', copy_map assign),
     (''SecurityContext'', copy_pointer (ext_copy X ''corev1.PodSecurityContext'')),
     (''Containers'', copy_slice (DeepCopyInto_Container X)), (''ImagePullSecrets'', copy_slice assign),
     (''Volumes'', copy_slice (ext_copy X ''corev1.Volume'')),
     (''Tolerations'', copy_slice (ext_copy X ''corev1.Toleration'')), (''BasePlugins'', copy_slice assign)]"

definition DeepCopy_JenkinsMaster :: "externals \<Rightarrow> copier" where
  "DeepCopy_JenkinsMaster X = copy_pointer (DeepCopyInto_JenkinsMaster X)"

definition DeepCopyInto_Service :: copier where
  "DeepCopyInto_Service = copy_struct [(''Annotations'', copy_map assign), (''Labels'', copy_map assign),
     (''LoadBalancerSourceRanges'', copy_slice assign)]"

definition DeepCopy_Service :: copier where
  "DeepCopy_Service = copy_pointer DeepCopyInto_Service"

definition DeepCopyInto_ServiceAccount :: copier where
  "DeepCopyInto_ServiceAccount = copy_struct [(''Annotations'', copy_map assign)]"

definition DeepCopy_ServiceAccount :: copier where
  "DeepCopy_ServiceAccount = copy_pointer DeepCopyInto_ServiceAccount"

definition DeepCopyInto_JenkinsAPISettings :: copier where
  "DeepCopyInto_JenkinsAPISettings = copy_struct []"

definition DeepCopy_JenkinsAPISettings :: copier where
  "DeepCopy_JenkinsAPISettings = copy_pointer DeepCopyInto_JenkinsAPISettings"

definition DeepCopyInto_JenkinsSpec :: "externals \<Rightarrow> copier" where
  "DeepCopyInto_JenkinsSpec X = copy_struct [(''Master'', copy_pointer (DeepCopyInto_JenkinsMaster X)),
     (''Service'', DeepCopyInto_Service), (''JNLPService'', DeepCopyInto_Service),
     (''Roles'', copy_slice assign), (''ServiceAccount'', DeepCopyInto_ServiceAccount),
     (''JenkinsAPISettings'', assign), (''ConfigurationAsCode'', copy_pointer DeepCopyInto_Configuration)]"

definition DeepCopy_JenkinsSpec :: "externals \<Rightarrow> copier" where
  "DeepCopy_JenkinsSpec X = copy_pointer (DeepCopyInto_JenkinsSpec X)"

definition DeepCopyInto_JenkinsStatus :: "externals \<Rightarrow> copier" where
  "DeepCopyInto_JenkinsStatus X = copy_struct [
     (''Conditions'', copy_slice (ext_copy X ''conditionsv1.Condition'')),
     (''ProvisionStartTime'', copy_pointer (ext_copy X ''metav1.Time'')),
     (''Spec'', copy_pointer (DeepCopyInto_JenkinsSpec X))]"

definition DeepCopy_JenkinsStatus :: "externals \<Rightarrow> copier" where
  "DeepCopy_JenkinsStatus X = copy_pointer (DeepCopyInto_JenkinsStatus X)"

definition DeepCopyInto_Jenkins :: "externals \<Rightarrow> copier" where
  "DeepCopyInto_Jenkins X = copy_struct [(''TypeMeta'', assign),
     (''ObjectMeta'', ext_copy X ''metav1.ObjectMeta''), (''Spec'', DeepCopyInto_JenkinsSpec X),
     (''Status'', copy_pointer (DeepCopyInto_JenkinsStatus X))]"

definition DeepCopy_Jenkins :: "externals \<Rightarrow> copier" where
  "DeepCopy_Jenkins X = copy_pointer (DeepCopyInto_Jenkins X)"

definition DeepCopyObject_Jenkins :: "externals \<Rightarrow> object_copier" where
  "DeepCopyObject_Jenkins X = as_object (DeepCopy_Jenkins X)"

definition DeepCopyInto_JenkinsPlugin :: copier where
  "DeepCopyInto_JenkinsPlugin = copy_struct []"

definition DeepCopy_JenkinsPlugin :: copier where
  "DeepCopy_JenkinsPlugin = copy_pointer DeepCopyInto_JenkinsPlugin"

definition DeepCopyInto_JenkinsImageSpec :: copier where
  "DeepCopyInto_JenkinsImageSpec = copy_struct [(''From'', assign), (''To'', assign),
     (''Plugins'', copy_slice assign)]"

definition DeepCopy_JenkinsImageSpec :: copier where
  "DeepCopy_JenkinsImageSpec = copy_pointer DeepCopyInto_JenkinsImageSpec"

definition DeepCopyInto_JenkinsImageBuild :: copier where
  "DeepCopyInto_JenkinsImageBuild = copy_struct []"

definition DeepCopy_JenkinsImageBuild :: copier where
  "DeepCopy_JenkinsImageBuild = copy_pointer DeepCopyInto_JenkinsImageBuild"

definition DeepCopyInto_JenkinsImageStatus :: copier where
  "DeepCopyInto_JenkinsImageStatus = copy_struct [(''Builds'', copy_slice assign)]"

definition DeepCopy_JenkinsImageStatus :: copier where
  "DeepCopy_JenkinsImageStatus = copy_pointer DeepCopyInto_JenkinsImageStatus"

definition DeepCopyInto_JenkinsImage :: "externals \<Rightarrow> copier" where
  "DeepCopyInto_JenkinsImage X = copy_struct [(''TypeMeta'', assign),
     (''ObjectMeta'', ext_copy X ''metav1.ObjectMeta''), (''Spec'', DeepCopyInto_JenkinsImageSpec),
     (''Status'', DeepCopyInto_JenkinsImageStatus)]"

definition DeepCopy_JenkinsImage :: "externals \<Rightarrow> copier" where
  "DeepCopy_JenkinsImage X = copy_pointer (DeepCopyInto_JenkinsImage X)"

definition DeepCopyObject_JenkinsImage :: "externals \<Rightarrow> object_copier" where
  "DeepCopyObject_JenkinsImage X = as_object (DeepCopy_JenkinsImage X)"

definition DeepCopyInto_JenkinsImageList :: "externals \<Rightarrow> copier" where
  "DeepCopyInto_JenkinsImageList X = copy_struct [(''TypeMeta'', assign),
     (''ListMeta'', ext_copy X ''metav1.ListMeta''), (''Items'', copy_slice (DeepCopyInto_JenkinsImage X))]"

definition DeepCopy_JenkinsImageList :: "externals \<Rightarrow> copier" where
  "DeepCopy_JenkinsImageList X = copy_pointer (DeepCopyInto_JenkinsImageList X)"

definition DeepCopyObject_JenkinsImageList :: "externals \<Rightarrow> object_copier" where
  "DeepCopyObject_JenkinsImageList X = as_object (DeepCopy_JenkinsImageList X)"

definition DeepCopyInto_JenkinsList :: "externals \<Rightarrow> copier" where
  "DeepCopyInto_JenkinsList X = copy_struct [(''TypeMeta'', assign),
     (''ListMeta'', ext_copy X ''metav1.ListMeta''), (''Items'', copy_slice (DeepCopyInto_Jenkins X))]"

definition DeepCopy_JenkinsList :: "externals \<Rightarrow> copier" where
  "DeepCopy_JenkinsList X = copy_pointer (DeepCopyInto_JenkinsList X)"

definition DeepCopyObject_JenkinsList :: "externals \<Rightarrow> object_copier" where
  "DeepCopyObject_JenkinsList X = as_object (DeepCopy_JenkinsList X)"

definition DeepCopyInto_RestoreSpec :: copier where
  "DeepCopyInto_RestoreSpec = copy_struct []"

definition DeepCopy_RestoreSpec :: copier where
  "DeepCopy_RestoreSpec = copy_pointer DeepCopyInto_RestoreSpec"

definition DeepCopyInto_RestoreStatus :: "externals \<Rightarrow> copier" where
  "DeepCopyInto_RestoreStatus X = copy_struct [(''Conditions'', copy_slice (ext_copy X ''status.Condition''))]"

definition DeepCopy_RestoreStatus :: "externals \<Rightarrow> copier" where
  "DeepCopy_RestoreStatus X = copy_pointer (DeepCopyInto_RestoreStatus X)"

definition DeepCopyInto_Restore :: "externals \<Rightarrow> copier" where
  "DeepCopyInto_Restore X = copy_struct [(''TypeMeta'', assign),
     (''ObjectMeta'', ext_copy X ''metav1.ObjectMeta''), (''Spec'', assign),
     (''Status'', DeepCopyInto_RestoreStatus X)]"

definition DeepCopy_Restore :: "externals \<Rightarrow> copier" where
  "DeepCopy_Restore X = copy_pointer (DeepCopyInto_Restore X)"

definition DeepCopyObject_Restore :: "externals \<Rightarrow> object_copier" where
  "DeepCopyObject_Restore X = as_object (DeepCopy_Restore X)"

definition DeepCopyInto_RestoreList :: "externals \<Rightarrow> copier" where
  "DeepCopyInto_RestoreList X = copy_struct [(''TypeMeta'', assign),
     (''ListMeta'', ext_copy X ''metav1.ListMeta''), (''Items'', copy_slice (DeepCopyInto_Restore X))]"

definition DeepCopy_RestoreList :: "externals \<Rightarrow> copier" where
  "DeepCopy_RestoreList X = copy_pointer (DeepCopyInto_RestoreList X)"

definition DeepCopyObject_RestoreList :: "externals \<Rightarrow> object_copier" where
  "DeepCopyObject_RestoreList X = as_object (DeepCopy_RestoreList X)"

definition DeepCopyInto_SecretKeySelector :: copier where
  "DeepCopyInto_SecretKeySelector = copy_struct [(''LocalObjectReference'', assign)]"

definition DeepCopy_SecretKeySelector :: copier where
  "DeepCopy_SecretKeySelector = copy_pointer DeepCopyInto_SecretKeySelector"

section \<open>All of them\<close>

definition generated :: "externals \<Rightarrow> (string \<times> ty \<times> copier) list" where
  "generated X = [(''BackupSpec'', T_BackupSpec, DeepCopyInto_BackupSpec),
     (''BackupStatus'', T_BackupStatus X, DeepCopyInto_BackupStatus X),
     (''Backup'', T_Backup X, DeepCopyInto_Backup X),
     (''BackupOptions'', T_BackupOptions, DeepCopyInto_BackupOptions),
     (''RestartConfig'', T_RestartConfig, DeepCopyInto_RestartConfig),
     (''BackupConfigSpec'', T_BackupConfigSpec, DeepCopyInto_BackupConfigSpec),
     (''BackupConfigStatus'', T_BackupConfigStatus, DeepCopyInto_BackupConfigStatus),
     (''BackupConfig'', T_BackupConfig X, DeepCopyInto_BackupConfig X),
     (''BackupConfigList'', T_BackupConfigList X, DeepCopyInto_BackupConfigList X),
     (''BackupList'', T_BackupList X, DeepCopyInto_BackupList X),
     (''ConfigMapRef'', T_ConfigMapRef, DeepCopyInto_ConfigMapRef),
     (''SecretRef'', T_SecretRef, DeepCopyInto_SecretRef),
     (''Configuration'', T_Configuration, DeepCopyInto_Configuration),
     (''Container'', T_Container X, DeepCopyInto_Container X),
     (''Image'', T_Image, DeepCopyInto_Image),
     (''Plugin'', T_Plugin, DeepCopyInto_Plugin),
     (''JenkinsMaster'', T_JenkinsMaster X, DeepCopyInto_JenkinsMaster X),
     (''Service'', T_Service, DeepCopyInto_Service),
     (''ServiceAccount'', T_ServiceAccount, DeepCopyInto_ServiceAccount),
     (''JenkinsAPISettings'', T_JenkinsAPISettings, DeepCopyInto_JenkinsAPISettings),
     (''JenkinsSpec'', T_JenkinsSpec X, DeepCopyInto_JenkinsSpec X),
     (''JenkinsStatus'', T_JenkinsStatus X, DeepCopyInto_JenkinsStatus X),
     (''Jenkins'', T_Jenkins X, DeepCopyInto_Jenkins X),
     (''JenkinsPlugin'', T_JenkinsPlugin, DeepCopyInto_JenkinsPlugin),
     (''JenkinsImageSpec'', T_JenkinsImageSpec, DeepCopyInto_JenkinsImageSpec),
     (''JenkinsImageBuild'', T_JenkinsImageBuild, DeepCopyInto_JenkinsImageBuild),
     (''JenkinsImageStatus'', T_JenkinsImageStatus, DeepCopyInto_JenkinsImageStatus),
     (''JenkinsImage'', T_JenkinsImage X, DeepCopyInto_JenkinsImage X),
     (''JenkinsImageList'', T_JenkinsImageList X, DeepCopyInto_JenkinsImageList X),
     (''JenkinsList'', T_JenkinsList X, DeepCopyInto_JenkinsList X),
     (''RestoreSpec'', T_RestoreSpec, DeepCopyInto_RestoreSpec),
     (''RestoreStatus'', T_RestoreStatus X, DeepCopyInto_RestoreStatus X),
     (''Restore'', T_Restore X, DeepCopyInto_Restore X),
     (''RestoreList'', T_RestoreList X, DeepCopyInto_RestoreList X),
     (''SecretKeySelector'', T_SecretKeySelector, DeepCopyInto_SecretKeySelector)]"

text \<open>The methods that allocate, by the type their pointer points to.\<close>

definition generated_new :: "externals \<Rightarrow> (string \<times> ty \<times> copier) list" where
  "generated_new X = [(''BackupSpec'', T_BackupSpec, DeepCopy_BackupSpec),
     (''BackupStatus'', T_BackupStatus X, DeepCopy_BackupStatus X),
     (''Backup'', T_Backup X, DeepCopy_Backup X),
     (''BackupOptions'', T_BackupOptions, DeepCopy_BackupOptions),
     (''RestartConfig'', T_RestartConfig, DeepCopy_RestartConfig),
     (''BackupConfigSpec'', T_BackupConfigSpec, DeepCopy_BackupConfigSpec),
     (''BackupConfigStatus'', T_BackupConfigStatus, DeepCopy_BackupConfigStatus),
     (''BackupConfig'', T_BackupConfig X, DeepCopy_BackupConfig X),
     (''BackupConfigList'', T_BackupConfigList X, DeepCopy_BackupConfigList X),
     (''BackupList'', T_BackupList X, DeepCopy_BackupList X),
     (''ConfigMapRef'', T_ConfigMapRef, DeepCopy_ConfigMapRef),
     (''SecretRef'', T_SecretRef, DeepCopy_SecretRef),
     (''Configuration'', T_Configuration, DeepCopy_Configuration),
     (''Container'', T_Container X, DeepCopy_Container X),
     (''Image'', T_Image, DeepCopy_Image),
     (''Plugin'', T_Plugin, DeepCopy_Plugin),
     (''JenkinsMaster'', T_JenkinsMaster X, DeepCopy_JenkinsMaster X),
     (''Service'', T_Service, DeepCopy_Service),
     (''ServiceAccount'', T_ServiceAccount, DeepCopy_ServiceAccount),
     (''JenkinsAPISettings'', T_JenkinsAPISettings, DeepCopy_JenkinsAPISettings),
     (''JenkinsSpec'', T_JenkinsSpec X, DeepCopy_JenkinsSpec X),
     (''JenkinsStatus'', T_JenkinsStatus X, DeepCopy_JenkinsStatus X),
     (''Jenkins'', T_Jenkins X, DeepCopy_Jenkins X),
     (''JenkinsPlugin'', T_JenkinsPlugin, DeepCopy_JenkinsPlugin),
     (''JenkinsImageSpec'', T_JenkinsImageSpec, DeepCopy_JenkinsImageSpec),
     (''JenkinsImageBuild'', T_JenkinsImageBuild, DeepCopy_JenkinsImageBuild),
     (''JenkinsImageStatus'', T_JenkinsImageStatus, DeepCopy_JenkinsImageStatus),
     (''JenkinsImage'', T_JenkinsImage X, DeepCopy_JenkinsImage X),
     (''JenkinsImageList'', T_JenkinsImageList X, DeepCopy_JenkinsImageList X),
     (''JenkinsList'', T_JenkinsList X, DeepCopy_JenkinsList X),
     (''RestoreSpec'', T_RestoreSpec, DeepCopy_RestoreSpec),
     (''RestoreStatus'', T_RestoreStatus X, DeepCopy_RestoreStatus X),
     (''Restore'', T_Restore X, DeepCopy_Restore X),
     (''RestoreList'', T_RestoreList X, DeepCopy_RestoreList X),
     (''SecretKeySelector'', T_SecretKeySelector, DeepCopy_SecretKeySelector)]"

definition generated_objects :: "externals \<Rightarrow> (string \<times> ty \<times> object_copier) list" where
  "generated_objects X = [(''Backup'', T_Backup X, DeepCopyObject_Backup X),
     (''BackupConfig'', T_BackupConfig X, DeepCopyObject_BackupConfig X),
     (''BackupConfigList'', T_BackupConfigList X, DeepCopyObject_BackupConfigList X),
     (''BackupList'', T_BackupList X, DeepCopyObject_BackupList X),
     (''Jenkins'', T_Jenkins X, DeepCopyObject_Jenkins X),
     (''JenkinsImage'', T_JenkinsImage X, DeepCopyObject_JenkinsImage X),
     (''JenkinsImageList'', T_JenkinsImageList X, DeepCopyObject_JenkinsImageList X),
     (''JenkinsList'', T_JenkinsList X, DeepCopyObject_JenkinsList X),
     (''Restore'', T_Restore X, DeepCopyObject_Restore X),
     (''RestoreList'', T_RestoreList X, DeepCopyObject_RestoreList X)]"

section \<open>The copy the Jenkins controller makes\<close>

text \<open>
  \<open>getCalculatedJenkinsMaster\<close> of \<^verbatim>\<open>controllers/jenkins_controller.go\<close>, with the specification behind a
  pointer.  It returns a deep copy of the master, and writes the container into the original; \<open>None\<close>
  is the panic of a nil pointer or an index out of range.
\<close>

definition new_var :: "heap \<Rightarrow> gval \<Rightarrow> heap \<times> gval" where
  "new_var h v = (h @ [Var v], PtrTo (length h))"

definition write_first :: "heap \<Rightarrow> gval \<Rightarrow> gval \<Rightarrow> heap option" where
  "write_first h slice w = (case slice of
     SliceOf a i n \<Rightarrow> (case h ! a of Array vs \<Rightarrow> (if n = 0 then None else Some (h[a := Array (vs[i := w])])) | _ \<Rightarrow> None)
   | _ \<Rightarrow> None)"

definition calculated_master :: "externals \<Rightarrow> heap \<Rightarrow> nat \<Rightarrow> gval \<Rightarrow> (heap \<times> gval) option" where
  "calculated_master X h calculatedSpec jenkinsContainer = (case var_at h calculatedSpec of
     None \<Rightarrow> None
   | Some spec \<Rightarrow>
       (case field_of spec ''Master'' of
          NilRef \<Rightarrow>
            let containers = SliceOf (length h) 0 1; h = h @ [Array [jenkinsContainer]] in
            Some (new_var h (set_field ''Containers'' containers (zero_value (T_JenkinsMaster X))))
        | original \<Rightarrow>
            let (h, master) = DeepCopy_JenkinsMaster X h original in
            (case original of
               PtrTo m \<Rightarrow> (case var_at h m of
                   Some old \<Rightarrow> map_option (\<lambda>h. (h, master)) (write_first h (field_of old ''Containers'') jenkinsContainer)
                 | None \<Rightarrow> None)
             | _ \<Rightarrow> None)))"

end
