(* ===== verification/Vendored_Layouts.thy ===== *)
theory Vendored_Layouts
  imports Deep_Copy
begin

text \<open>
  The layouts of the types of other packages that occur in the API types, from their declarations
  (\<^verbatim>\<open>vendor/k8s.io/api/core/v1/types.go\<close>, \<^verbatim>\<open>vendor/k8s.io/apimachinery/pkg/apis/meta/v1/types.go\<close>
  and the two packages of conditions), and the instance of \<open>externals\<close> with these layouts and a copier
  made from each.  \<open>time.Time\<close>, numbers and texts are \<open>Data\<close>.
\<close>

definition V_Quantity :: ty where
  "V_Quantity = TStruct [(''i'', TStruct [(''value'', TData), (''scale'', TData)]),
     (''d'', TStruct [(''Dec'', TPtr (TStruct [(''unscaled'', TStruct [(''neg'', TData), (''abs'', TSlice TData)]),
       (''scale'', TData)]))]), (''s'', TData), (''Format'', TData)]"

definition V_OwnerReference :: ty where
  "V_OwnerReference = TStruct [(''APIVersion'', TData), (''Kind'', TData), (''Name'', TData), (''UID'', TData),
     (''Controller'', TPtr TData), (''BlockOwnerDeletion'', TPtr TData)]"

definition V_FieldsV1 :: ty where
  "V_FieldsV1 = TStruct [(''Raw'', TSlice TData)]"

definition V_ManagedFieldsEntry :: ty where
  "V_ManagedFieldsEntry = TStruct [(''Manager'', TData), (''Operation'', TData), (''APIVersion'', TData),
     (''Time'', TPtr TData), (''FieldsType'', TData), (''FieldsV1'', TPtr V_FieldsV1)]"

definition V_ObjectMeta :: ty where
  "V_ObjectMeta = TStruct [(''Name'', TData), (''GenerateName'', TData), (''Namespace'', TData),
     (''SelfLink'', TData), (''UID'', TData), (''ResourceVersion'', TData), (''Generation'', TData),
     (''CreationTimestamp'', TData), (''DeletionTimestamp'', TPtr TData),
     (''DeletionGracePeriodSeconds'', TPtr TData), (''Labels'', TMap TData), (''Annotations'', TMap TData),
     (''OwnerReferences'', TSlice V_OwnerReference), (''Finalizers'', TSlice TData), (''ClusterName'', TData),
     (''ManagedFields'', TSlice V_ManagedFieldsEntry)]"

definition V_ListMeta :: ty where
  "V_ListMeta = TStruct [(''SelfLink'', TData), (''ResourceVersion'', TData), (''Continue'', TData),
     (''RemainingItemCount'', TPtr TData)]"

definition V_ResourceRequirements :: ty where
  "V_ResourceRequirements = TStruct [(''Limits'', TMap V_Quantity), (''Requests'', TMap V_Quantity)]"

definition V_LocalObjectReference :: ty where
  "V_LocalObjectReference = TStruct [(''Name'', TData)]"

definition V_ConfigMapEnvSource :: ty where
  "V_ConfigMapEnvSource = TStruct [(''LocalObjectReference'', V_LocalObjectReference),
     (''Optional'', TPtr TData)]"

definition V_SecretEnvSource :: ty where
  "V_SecretEnvSource = TStruct [(''LocalObjectReference'', V_LocalObjectReference), (''Optional'', TPtr TData)]"

definition V_EnvFromSource :: ty where
  "V_EnvFromSource = TStruct [(''Prefix'', TData), (''ConfigMapRef'', TPtr V_ConfigMapEnvSource),
     (''SecretRef'', TPtr V_SecretEnvSource)]"

definition V_ObjectFieldSelector :: ty where
  "V_ObjectFieldSelector = TStruct [(''APIVersion'', TData), (''FieldPath'', TData)]"

definition V_ResourceFieldSelector :: ty where
  "V_ResourceFieldSelector = TStruct [(''ContainerName'', TData), (''Resource'', TData),
     (''Divisor'', V_Quantity)]"

definition V_ConfigMapKeySelector :: ty where
  "V_ConfigMapKeySelector = TStruct [(''LocalObjectReference'', V_LocalObjectReference), (''Key'', TData),
     (''Optional'', TPtr TData)]"

definition V_SecretKeySelector :: ty where
  "V_SecretKeySelector = TStruct [(''LocalObjectReference'', V_LocalObjectReference), (''Key'', TData),
     (''Optional'', TPtr TData)]"

definition V_EnvVarSource :: ty where
  "V_EnvVarSource = TStruct [(''FieldRef'', TPtr V_ObjectFieldSelector),
     (''ResourceFieldRef'', TPtr V_ResourceFieldSelector), (''ConfigMapKeyRef'', TPtr V_ConfigMapKeySelector),
     (''SecretKeyRef'', TPtr V_SecretKeySelector)]"

definition V_EnvVar :: ty where
  "V_EnvVar = TStruct [(''Name'', TData), (''Value'', TData), (''ValueFrom'', TPtr V_EnvVarSource)]"

definition V_VolumeMount :: ty where
  "V_VolumeMount = TStruct [(''Name'', TData), (''ReadOnly'', TData), (''MountPath'', TData),
     (''SubPath'', TData), (''MountPropagation'', TPtr TData), (''SubPathExpr'', TData)]"

definition V_ExecAction :: ty where
  "V_ExecAction = TStruct [(''Command'', TSlice TData)]"

definition V_IntOrString :: ty where
  "V_IntOrString = TStruct [(''Type'', TData), (''IntVal'', TData), (''StrVal'', TData)]"

definition V_HTTPHeader :: ty where
  "V_HTTPHeader = TStruct [(''Name'', TData), (''Value'', TData)]"

definition V_HTTPGetAction :: ty where
  "V_HTTPGetAction = TStruct [(''Path'', TData), (''Port'', V_IntOrString), (''Host'', TData),
     (''Scheme'', TData), (''HTTPHeaders'', TSlice V_HTTPHeader)]"

definition V_TCPSocketAction :: ty where
  "V_TCPSocketAction = TStruct [(''Port'', V_IntOrString), (''Host'', TData)]"

definition V_Handler :: ty where
  "V_Handler = TStruct [(''Exec'', TPtr V_ExecAction), (''HTTPGet'', TPtr V_HTTPGetAction),
     (''TCPSocket'', TPtr V_TCPSocketAction)]"

definition V_Probe :: ty where
  "V_Probe = TStruct [(''Handler'', V_Handler), (''InitialDelaySeconds'', TData), (''TimeoutSeconds'', TData),
     (''PeriodSeconds'', TData), (''SuccessThreshold'', TData), (''FailureThreshold'', TData)]"

definition V_Lifecycle :: ty where
  "V_Lifecycle = TStruct [(''PostStart'', TPtr V_Handler), (''PreStop'', TPtr V_Handler)]"

definition V_Capabilities :: ty where
  "V_Capabilities = TStruct [(''Add'', TSlice TData), (''Drop'', TSlice TData)]"

definition V_SELinuxOptions :: ty where
  "V_SELinuxOptions = TStruct [(''User'', TData), (''Role'', TData), (''Type'', TData), (''Level'', TData)]"

definition V_WindowsSecurityContextOptions :: ty where
  "V_WindowsSecurityContextOptions = TStruct [(''GMSACredentialSpecName'', TPtr TData),
     (''GMSACredentialSpec'', TPtr TData), (''RunAsUserName'', TPtr TData)]"

definition V_SecurityContext :: ty where
  "V_SecurityContext = TStruct [(''Capabilities'', TPtr V_Capabilities), (''Privileged'', TPtr TData),
     (''SELinuxOptions'', TPtr V_SELinuxOptions), (''WindowsOptions'', TPtr V_WindowsSecurityContextOptions),
     (''RunAsUser'', TPtr TData), (''RunAsGroup'', TPtr TData), (''RunAsNonRoot'', TPtr TData),
     (''ReadOnlyRootFilesystem'', TPtr TData), (''AllowPrivilegeEscalation'', TPtr TData),
     (''ProcMount'', TPtr TData)]"

definition V_Sysctl :: ty where
  "V_Sysctl = TStruct [(''Name'', TData), (''Value'', TData)]"

definition V_PodSecurityContext :: ty where
  "V_PodSecurityContext = TStruct [(''SELinuxOptions'', TPtr V_SELinuxOptions),
     (''WindowsOptions'', TPtr V_WindowsSecurityContextOptions), (''RunAsUser'', TPtr TData),
     (''RunAsGroup'', TPtr TData), (''RunAsNonRoot'', TPtr TData), (''SupplementalGroups'', TSlice TData),
     (''FSGroup'', TPtr TData), (''Sysctls'', TSlice V_Sysctl)]"

definition V_HostPathVolumeSource :: ty where
  "V_HostPathVolumeSource = TStruct [(''Path'', TData), (''Type'', TPtr TData)]"

definition V_EmptyDirVolumeSource :: ty where
  "V_EmptyDirVolumeSource = TStruct [(''Medium'', TData), (''SizeLimit'', TPtr V_Quantity)]"

definition V_GCEPersistentDiskVolumeSource :: ty where
  "V_GCEPersistentDiskVolumeSource = TStruct [(''PDName'', TData), (''FSType'', TData), (''Partition'', TData),
     (''ReadOnly'', TData)]"

definition V_AWSElasticBlockStoreVolumeSource :: ty where
  "V_AWSElasticBlockStoreVolumeSource = TStruct [(''VolumeID'', TData), (''FSType'', TData),
     (''Partition'', TData), (''ReadOnly'', TData)]"

definition V_GitRepoVolumeSource :: ty where
  "V_GitRepoVolumeSource = TStruct [(''Repository'', TData), (''Revision'', TData), (''Directory'', TData)]"

definition V_KeyToPath :: ty where
  "V_KeyToPath = TStruct [(''Key'', TData), (''Path'', TData), (''Mode'', TPtr TData)]"

definition V_SecretVolumeSource :: ty where
  "V_SecretVolumeSource = TStruct [(''SecretName'', TData), (''Items'', TSlice V_KeyToPath),
     (''DefaultMode'', TPtr TData), (''Optional'', TPtr TData)]"

definition V_NFSVolumeSource :: ty where
  "V_NFSVolumeSource = TStruct [(''Server'', TData), (''Path'', TData), (''ReadOnly'', TData)]"

definition V_ISCSIVolumeSource :: ty where
  "V_ISCSIVolumeSource = TStruct [(''TargetPortal'', TData), (''IQN'', TData), (''Lun'', TData),
     (''ISCSIInterface'', TData), (''FSType'', TData), (''ReadOnly'', TData), (''Portals'', TSlice TData),
     (''DiscoveryCHAPAuth'', TData), (''SessionCHAPAuth'', TData),
     (''SecretRef'', TPtr V_LocalObjectReference), (''InitiatorName'', TPtr TData)]"

definition V_GlusterfsVolumeSource :: ty where
  "V_GlusterfsVolumeSource = TStruct [(''EndpointsName'', TData), (''Path'', TData), (''ReadOnly'', TData)]"

definition V_PersistentVolumeClaimVolumeSource :: ty where
  "V_PersistentVolumeClaimVolumeSource = TStruct [(''ClaimName'', TData), (''ReadOnly'', TData)]"

definition V_RBDVolumeSource :: ty where
  "V_RBDVolumeSource = TStruct [(''CephMonitors'', TSlice TData), (''RBDImage'', TData), (''FSType'', TData),
     (''RBDPool'', TData), (''RadosUser'', TData), (''Keyring'', TData),
     (''SecretRef'', TPtr V_LocalObjectReference), (''ReadOnly'', TData)]"

definition V_FlexVolumeSource :: ty where
  "V_FlexVolumeSource = TStruct [(''Driver'', TData), (''FSType'', TData),
     (''SecretRef'', TPtr V_LocalObjectReference), (''ReadOnly'', TData), (''Options'', TMap TData)]"

definition V_CinderVolumeSource :: ty where
  "V_CinderVolumeSource = TStruct [(''VolumeID'', TData), (''FSType'', TData), (''ReadOnly'', TData),
     (''SecretRef'', TPtr V_LocalObjectReference)]"

definition V_CephFSVolumeSource :: ty where
  "V_CephFSVolumeSource = TStruct [(''Monitors'', TSlice TData), (''Path'', TData), (''User'', TData),
     (''SecretFile'', TData), (''SecretRef'', TPtr V_LocalObjectReference), (''ReadOnly'', TData)]"

definition V_FlockerVolumeSource :: ty where
  "V_FlockerVolumeSource = TStruct [(''DatasetName'', TData), (''DatasetUUID'', TData)]"

definition V_DownwardAPIVolumeFile :: ty where
  "V_DownwardAPIVolumeFile = TStruct [(''Path'', TData), (''FieldRef'', TPtr V_ObjectFieldSelector),
     (''ResourceFieldRef'', TPtr V_ResourceFieldSelector), (''Mode'', TPtr TData)]"

definition V_DownwardAPIVolumeSource :: ty where
  "V_DownwardAPIVolumeSource = TStruct [(''Items'', TSlice V_DownwardAPIVolumeFile),
     (''DefaultMode'', TPtr TData)]"

definition V_FCVolumeSource :: ty where
  "V_FCVolumeSource = TStruct [(''TargetWWNs'', TSlice TData), (''Lun'', TPtr TData), (''FSType'', TData),
     (''ReadOnly'', TData), (''WWIDs'', TSlice TData)]"

definition V_AzureFileVolumeSource :: ty where
  "V_AzureFileVolumeSource = TStruct [(''SecretName'', TData), (''ShareName'', TData), (''ReadOnly'', TData)]"

definition V_ConfigMapVolumeSource :: ty where
  "V_ConfigMapVolumeSource = TStruct [(''LocalObjectReference'', V_LocalObjectReference),
     (''Items'', TSlice V_KeyToPath), (''DefaultMode'', TPtr TData), (''Optional'', TPtr TData)]"

definition V_VsphereVirtualDiskVolumeSource :: ty where
  "V_VsphereVirtualDiskVolumeSource = TStruct [(''VolumePath'', TData), (''FSType'', TData),
     (''StoragePolicyName'', TData), (''StoragePolicyID'', TData)]"

definition V_QuobyteVolumeSource :: ty where
  "V_QuobyteVolumeSource = TStruct [(''Registry'', TData), (''Volume'', TData), (''ReadOnly'', TData),
     (''User'', TData), (''Group'', TData), (''Tenant'', TData)]"

definition V_AzureDiskVolumeSource :: ty where
  "V_AzureDiskVolumeSource = TStruct [(''DiskName'', TData), (''DataDiskURI'', TData),
     (''CachingMode'', TPtr TData), (''FSType'', TPtr TData), (''ReadOnly'', TPtr TData), (''Kind'', TPtr TData)]"

definition V_PhotonPersistentDiskVolumeSource :: ty where
  "V_PhotonPersistentDiskVolumeSource = TStruct [(''PdID'', TData), (''FSType'', TData)]"

definition V_SecretProjection :: ty where
  "V_SecretProjection = TStruct [(''LocalObjectReference'', V_LocalObjectReference),
     (''Items'', TSlice V_KeyToPath), (''Optional'', TPtr TData)]"

definition V_DownwardAPIProjection :: ty where
  "V_DownwardAPIProjection = TStruct [(''Items'', TSlice V_DownwardAPIVolumeFile)]"

definition V_ConfigMapProjection :: ty where
  "V_ConfigMapProjection = TStruct [(''LocalObjectReference'', V_LocalObjectReference),
     (''Items'', TSlice V_KeyToPath), (''Optional'', TPtr TData)]"

definition V_ServiceAccountTokenProjection :: ty where
  "V_ServiceAccountTokenProjection = TStruct [(''Audience'', TData), (''ExpirationSeconds'', TPtr TData),
     (''Path'', TData)]"

definition V_VolumeProjection :: ty where
  "V_VolumeProjection = TStruct [(''Secret'', TPtr V_SecretProjection),
     (''DownwardAPI'', TPtr V_DownwardAPIProjection), (''ConfigMap'', TPtr V_ConfigMapProjection),
     (''ServiceAccountToken'', TPtr V_ServiceAccountTokenProjection)]"

definition V_ProjectedVolumeSource :: ty where
  "V_ProjectedVolumeSource = TStruct [(''Sources'', TSlice V_VolumeProjection), (''DefaultMode'', TPtr TData)]"

definition V_PortworxVolumeSource :: ty where
  "V_PortworxVolumeSource = TStruct [(''VolumeID'', TData), (''FSType'', TData), (''ReadOnly'', TData)]"

definition V_ScaleIOVolumeSource :: ty where
  "V_ScaleIOVolumeSource = TStruct [(''Gateway'', TData), (''System'', TData),
     (''SecretRef'', TPtr V_LocalObjectReference), (''SSLEnabled'', TData), (''ProtectionDomain'', TData),
     (''StoragePool'', TData), (''StorageMode'', TData), (''VolumeName'', TData), (''FSType'', TData),
     (''ReadOnly'', TData)]"

definition V_StorageOSVolumeSource :: ty where
  "V_StorageOSVolumeSource = TStruct [(''VolumeName'', TData), (''VolumeNamespace'', TData),
     (''FSType'', TData), (''ReadOnly'', TData), (''SecretRef'', TPtr V_LocalObjectReference)]"

definition V_CSIVolumeSource :: ty where
  "V_CSIVolumeSource = TStruct [(''Driver'', TData), (''ReadOnly'', TPtr TData), (''FSType'', TPtr TData),
     (''VolumeAttributes'', TMap TData), (''NodePublishSecretRef'', TPtr V_LocalObjectReference)]"

definition V_VolumeSource :: ty where
  "V_VolumeSource = TStruct [(''HostPath'', TPtr V_HostPathVolumeSource),
     (''EmptyDir'', TPtr V_EmptyDirVolumeSource),
     (''GCEPersistentDisk'', TPtr V_GCEPersistentDiskVolumeSource),
     (''AWSElasticBlockStore'', TPtr V_AWSElasticBlockStoreVolumeSource),
     (''GitRepo'', TPtr V_GitRepoVolumeSource), (''Secret'', TPtr V_SecretVolumeSource),
     (''NFS'', TPtr V_NFSVolumeSource), (''ISCSI'', TPtr V_ISCSIVolumeSource),
     (''Glusterfs'', TPtr V_GlusterfsVolumeSource),
     (''PersistentVolumeClaim'', TPtr V_PersistentVolumeClaimVolumeSource), (''RBD'', TPtr V_RBDVolumeSource),
     (''FlexVolume'', TPtr V_FlexVolumeSource), (''Cinder'', TPtr V_CinderVolumeSource),
     (''CephFS'', TPtr V_CephFSVolumeSource), (''Flocker'', TPtr V_FlockerVolumeSource),
     (''DownwardAPI'', TPtr V_DownwardAPIVolumeSource), (''FC'', TPtr V_FCVolumeSource),
     (''AzureFile'', TPtr V_AzureFileVolumeSource), (''ConfigMap'', TPtr V_ConfigMapVolumeSource),
     (''VsphereVolume'', TPtr V_VsphereVirtualDiskVolumeSource), (''Quobyte'', TPtr V_QuobyteVolumeSource),
     (''AzureDisk'', TPtr V_AzureDiskVolumeSource),
     (''PhotonPersistentDisk'', TPtr V_PhotonPersistentDiskVolumeSource),
     (''Projected'', TPtr V_ProjectedVolumeSource), (''PortworxVolume'', TPtr V_PortworxVolumeSource),
     (''ScaleIO'', TPtr V_ScaleIOVolumeSource), (''StorageOS'', TPtr V_StorageOSVolumeSource),
     (''CSI'', TPtr V_CSIVolumeSource)]"

definition V_Volume :: ty where
  "V_Volume = TStruct [(''Name'', TData), (''VolumeSource'', V_VolumeSource)]"

definition V_Toleration :: ty where
  "V_Toleration = TStruct [(''Key'', TData), (''Operator'', TData), (''Value'', TData), (''Effect'', TData),
     (''TolerationSeconds'', TPtr TData)]"

definition V_status_Condition :: ty where
  "V_status_Condition = TStruct [(''Type'', TData), (''Status'', TData), (''Reason'', TData),
     (''Message'', TData), (''LastTransitionTime'', TData)]"

definition V_conditionsv1_Condition :: ty where
  "V_conditionsv1_Condition = TStruct [(''Type'', TData), (''Status'', TData), (''Reason'', TData),
     (''Message'', TData), (''LastHeartbeatTime'', TData), (''LastTransitionTime'', TData)]"

text \<open>By name; every other name stands for a type without fields.\<close>

definition vendored_types :: "(string \<times> ty) list" where
  "vendored_types = [(''metav1.ObjectMeta'', V_ObjectMeta), (''metav1.ListMeta'', V_ListMeta),
     (''corev1.ResourceRequirements'', V_ResourceRequirements), (''corev1.EnvFromSource'', V_EnvFromSource),
     (''corev1.EnvVar'', V_EnvVar), (''corev1.VolumeMount'', V_VolumeMount), (''corev1.Probe'', V_Probe),
     (''corev1.Lifecycle'', V_Lifecycle), (''corev1.SecurityContext'', V_SecurityContext),
     (''corev1.PodSecurityContext'', V_PodSecurityContext), (''corev1.Volume'', V_Volume),
     (''corev1.Toleration'', V_Toleration), (''status.Condition'', V_status_Condition),
     (''conditionsv1.Condition'', V_conditionsv1_Condition), (''metav1.Time'', TData)]"

definition vendored_type :: "string \<Rightarrow> ty" where
  "vendored_type n = (case map_of vendored_types n of Some t \<Rightarrow> t | None \<Rightarrow> TStruct [])"

definition vendored :: externals where
  "vendored n = (vendored_type n, clone (vendored_type n))"

section \<open>They are well formed\<close>

lemma wf_list: "wf_ty (TStruct fts) \<longleftrightarrow> distinct (map fst fts) \<and> list_all (\<lambda>(f, t). wf_ty t) fts"
  by (auto simp: list_all_iff)

lemma wf_vendored1 [simp]:
  "wf_ty V_Quantity" "wf_ty V_OwnerReference" "wf_ty V_FieldsV1" "wf_ty V_ManagedFieldsEntry"
  "wf_ty V_ObjectMeta" "wf_ty V_ListMeta" "wf_ty V_ResourceRequirements" "wf_ty V_LocalObjectReference"
  "wf_ty V_ConfigMapEnvSource" "wf_ty V_SecretEnvSource" "wf_ty V_EnvFromSource" "wf_ty V_ObjectFieldSelector"
  "wf_ty V_ResourceFieldSelector" "wf_ty V_ConfigMapKeySelector" "wf_ty V_SecretKeySelector" "wf_ty V_EnvVarSource"
  "wf_ty V_EnvVar" "wf_ty V_VolumeMount"
  by (simp_all add: wf_list V_Quantity_def V_OwnerReference_def V_FieldsV1_def V_ManagedFieldsEntry_def
    V_ObjectMeta_def V_ListMeta_def V_ResourceRequirements_def V_LocalObjectReference_def
    V_ConfigMapEnvSource_def V_SecretEnvSource_def V_EnvFromSource_def V_ObjectFieldSelector_def
    V_ResourceFieldSelector_def V_ConfigMapKeySelector_def V_SecretKeySelector_def V_EnvVarSource_def
    V_EnvVar_def V_VolumeMount_def del: wf_ty.simps(5))

lemma wf_vendored2 [simp]:
  "wf_ty V_ExecAction" "wf_ty V_IntOrString" "wf_ty V_HTTPHeader" "wf_ty V_HTTPGetAction"
  "wf_ty V_TCPSocketAction" "wf_ty V_Handler" "wf_ty V_Probe" "wf_ty V_Lifecycle"
  "wf_ty V_Capabilities" "wf_ty V_SELinuxOptions" "wf_ty V_WindowsSecurityContextOptions" "wf_ty V_SecurityContext"
  "wf_ty V_Sysctl" "wf_ty V_PodSecurityContext" "wf_ty V_HostPathVolumeSource" "wf_ty V_EmptyDirVolumeSource"
  "wf_ty V_GCEPersistentDiskVolumeSource" "wf_ty V_AWSElasticBlockStoreVolumeSource"
  by (simp_all add: wf_list V_ExecAction_def V_IntOrString_def V_HTTPHeader_def V_HTTPGetAction_def
    V_TCPSocketAction_def V_Handler_def V_Probe_def V_Lifecycle_def
    V_Capabilities_def V_SELinuxOptions_def V_WindowsSecurityContextOptions_def V_SecurityContext_def
    V_Sysctl_def V_PodSecurityContext_def V_HostPathVolumeSource_def V_EmptyDirVolumeSource_def
    V_GCEPersistentDiskVolumeSource_def V_AWSElasticBlockStoreVolumeSource_def del: wf_ty.simps(5))

lemma wf_vendored3 [simp]:
  "wf_ty V_GitRepoVolumeSource" "wf_ty V_KeyToPath" "wf_ty V_SecretVolumeSource" "wf_ty V_NFSVolumeSource"
  "wf_ty V_ISCSIVolumeSource" "wf_ty V_GlusterfsVolumeSource" "wf_ty V_PersistentVolumeClaimVolumeSource" "wf_ty V_RBDVolumeSource"
  "wf_ty V_FlexVolumeSource" "wf_ty V_CinderVolumeSource" "wf_ty V_CephFSVolumeSource" "wf_ty V_FlockerVolumeSource"
  "wf_ty V_DownwardAPIVolumeFile" "wf_ty V_DownwardAPIVolumeSource" "wf_ty V_FCVolumeSource" "wf_ty V_AzureFileVolumeSource"
  "wf_ty V_ConfigMapVolumeSource" "wf_ty V_VsphereVirtualDiskVolumeSource"
  by (simp_all add: wf_list V_GitRepoVolumeSource_def V_KeyToPath_def V_SecretVolumeSource_def V_NFSVolumeSource_def
    V_ISCSIVolumeSource_def V_GlusterfsVolumeSource_def V_PersistentVolumeClaimVolumeSource_def V_RBDVolumeSource_def
    V_FlexVolumeSource_def V_CinderVolumeSource_def V_CephFSVolumeSource_def V_FlockerVolumeSource_def
    V_DownwardAPIVolumeFile_def V_DownwardAPIVolumeSource_def V_FCVolumeSource_def V_AzureFileVolumeSource_def
    V_ConfigMapVolumeSource_def V_VsphereVirtualDiskVolumeSource_def del: wf_ty.simps(5))

lemma wf_vendored4 [simp]:
  "wf_ty V_QuobyteVolumeSource" "wf_ty V_AzureDiskVolumeSource" "wf_ty V_PhotonPersistentDiskVolumeSource" "wf_ty V_SecretProjection"
  "wf_ty V_DownwardAPIProjection" "wf_ty V_ConfigMapProjection" "wf_ty V_ServiceAccountTokenProjection" "wf_ty V_VolumeProjection"
  "wf_ty V_ProjectedVolumeSource" "wf_ty V_PortworxVolumeSource" "wf_ty V_ScaleIOVolumeSource" "wf_ty V_StorageOSVolumeSource"
  "wf_ty V_CSIVolumeSource" "wf_ty V_VolumeSource" "wf_ty V_Volume" "wf_ty V_Toleration"
  "wf_ty V_status_Condition" "wf_ty V_conditionsv1_Condition"
  by (simp_all add: wf_list V_QuobyteVolumeSource_def V_AzureDiskVolumeSource_def V_PhotonPersistentDiskVolumeSource_def V_SecretProjection_def
    V_DownwardAPIProjection_def V_ConfigMapProjection_def V_ServiceAccountTokenProjection_def V_VolumeProjection_def
    V_ProjectedVolumeSource_def V_PortworxVolumeSource_def V_ScaleIOVolumeSource_def V_StorageOSVolumeSource_def
    V_CSIVolumeSource_def V_VolumeSource_def V_Volume_def V_Toleration_def
    V_status_Condition_def V_conditionsv1_Condition_def del: wf_ty.simps(5))

lemma wf_vendored_types: "list_all (\<lambda>(n, t). wf_ty t) vendored_types"
  by (simp add: vendored_types_def)

lemma wf_vendored_type: "wf_ty (vendored_type n)"
proof (cases "map_of vendored_types n")
  case (Some t)
  then have "(n, t) \<in> set vendored_types" by (rule map_of_SomeD)
  with wf_vendored_types show ?thesis by (auto simp: list_all_iff vendored_type_def Some)
qed (simp add: vendored_type_def)

lemma vendored_deep: "deep (ext_ty vendored n) (ext_copy vendored n)"
  by (simp add: ext_ty_def ext_copy_def vendored_def deep_clone wf_vendored_type)

end
