(* ===== verification/Deep_Copy_Correct.thy ===== *)
theory Deep_Copy_Correct
  imports Vendored_Layouts
begin

text \<open>
  The generated methods make deep copies: what they return looks like the original and shares no
  cell with it, so a write through one is not seen through the other.  The methods of other
  packages are assumed to do the same; the locale \<open>deep_externals\<close> is that contract.
\<close>

section \<open>The types without pointers\<close>

lemma flat_list: "flat (TStruct fts) \<longleftrightarrow> list_all (\<lambda>(f, t). flat t) fts"
  by (auto simp: flat_struct list_all_length split_def)

lemmas flat_defs = T_TypeMeta_def T_ContainerPort_def T_LocalObjectReference_def T_RoleRef_def
  T_BackupSpec_def T_BackupOptions_def T_RestartConfig_def T_BackupConfigSpec_def T_BackupConfigStatus_def T_ConfigMapRef_def T_SecretRef_def T_Image_def T_Plugin_def T_JenkinsAPISettings_def T_JenkinsPlugin_def T_JenkinsImageBuild_def T_RestoreSpec_def

lemma flat_types [simp]:
  "flat T_TypeMeta" "flat T_ContainerPort" "flat T_LocalObjectReference" "flat T_RoleRef"
  "flat T_BackupSpec" "flat T_BackupOptions" "flat T_RestartConfig" "flat T_BackupConfigSpec"
  "flat T_BackupConfigStatus" "flat T_ConfigMapRef" "flat T_SecretRef" "flat T_Image"
  "flat T_Plugin" "flat T_JenkinsAPISettings" "flat T_JenkinsPlugin" "flat T_JenkinsImageBuild"
  "flat T_RestoreSpec"
  by (simp_all add: flat_list flat_defs)

section \<open>Method by method\<close>

text \<open>The conditions of \<open>deep_struct\<close> as computations on the two lists.\<close>

lemma deep_structI:
  assumes "distinct (map fst fts) \<and> distinct (map fst fcs) \<and> list_all (\<lambda>f. f \<in> set (map fst fts)) (map fst fcs)"
    and "list_all (\<lambda>(f, t). case map_of fcs f of Some c \<Rightarrow> deep t c | None \<Rightarrow> flat t) fts"
  shows "deep (TStruct fts) (copy_struct fcs)"
  by (rule deep_struct) (use assms in \<open>auto simp: list_all_iff\<close>)

lemma deep_plain1 [deep_intros]:
  "deep T_BackupSpec DeepCopyInto_BackupSpec"
  "deep T_BackupOptions DeepCopyInto_BackupOptions"
  "deep T_RestartConfig DeepCopyInto_RestartConfig"
  "deep T_BackupConfigStatus DeepCopyInto_BackupConfigStatus"
  "deep T_ConfigMapRef DeepCopyInto_ConfigMapRef"
  "deep T_SecretRef DeepCopyInto_SecretRef"
  "deep T_Image DeepCopyInto_Image"
  "deep T_Plugin DeepCopyInto_Plugin"
  "deep T_Service DeepCopyInto_Service"
  "deep T_ServiceAccount DeepCopyInto_ServiceAccount"
  "deep T_JenkinsAPISettings DeepCopyInto_JenkinsAPISettings"
  "deep T_JenkinsPlugin DeepCopyInto_JenkinsPlugin"
  "deep T_JenkinsImageBuild DeepCopyInto_JenkinsImageBuild"
  "deep T_RestoreSpec DeepCopyInto_RestoreSpec"
  "deep T_SecretKeySelector DeepCopyInto_SecretKeySelector"
  unfolding T_BackupSpec_def DeepCopyInto_BackupSpec_def T_BackupOptions_def DeepCopyInto_BackupOptions_def
    T_RestartConfig_def DeepCopyInto_RestartConfig_def T_BackupConfigStatus_def DeepCopyInto_BackupConfigStatus_def
    T_ConfigMapRef_def DeepCopyInto_ConfigMapRef_def T_SecretRef_def DeepCopyInto_SecretRef_def
    T_Image_def DeepCopyInto_Image_def T_Plugin_def DeepCopyInto_Plugin_def
    T_Service_def DeepCopyInto_Service_def T_ServiceAccount_def DeepCopyInto_ServiceAccount_def
    T_JenkinsAPISettings_def DeepCopyInto_JenkinsAPISettings_def T_JenkinsPlugin_def DeepCopyInto_JenkinsPlugin_def
    T_JenkinsImageBuild_def DeepCopyInto_JenkinsImageBuild_def T_RestoreSpec_def DeepCopyInto_RestoreSpec_def
    T_SecretKeySelector_def DeepCopyInto_SecretKeySelector_def
  by (rule deep_structI; simp add: deep_intros)+

lemma deep_plain2 [deep_intros]:
  "deep T_BackupConfigSpec DeepCopyInto_BackupConfigSpec"
  "deep T_Configuration DeepCopyInto_Configuration"
  "deep T_JenkinsImageSpec DeepCopyInto_JenkinsImageSpec"
  "deep T_JenkinsImageStatus DeepCopyInto_JenkinsImageStatus"
  unfolding T_BackupConfigSpec_def DeepCopyInto_BackupConfigSpec_def T_Configuration_def DeepCopyInto_Configuration_def
    T_JenkinsImageSpec_def DeepCopyInto_JenkinsImageSpec_def T_JenkinsImageStatus_def DeepCopyInto_JenkinsImageStatus_def
  by (rule deep_structI; simp add: deep_intros)+

text \<open>Every \<open>DeepCopy\<close> allocates and calls the \<open>DeepCopyInto\<close> of its type.\<close>

lemma generated_new_eq: "generated_new X = map (\<lambda>(n, t, c). (n, t, copy_pointer c)) (generated X)"
  by (simp add: generated_new_def generated_def
    DeepCopy_BackupSpec_def DeepCopy_BackupStatus_def DeepCopy_Backup_def DeepCopy_BackupOptions_def
    DeepCopy_RestartConfig_def DeepCopy_BackupConfigSpec_def DeepCopy_BackupConfigStatus_def DeepCopy_BackupConfig_def
    DeepCopy_BackupConfigList_def DeepCopy_BackupList_def DeepCopy_ConfigMapRef_def DeepCopy_SecretRef_def
    DeepCopy_Configuration_def DeepCopy_Container_def DeepCopy_Image_def DeepCopy_Plugin_def
    DeepCopy_JenkinsMaster_def DeepCopy_Service_def DeepCopy_ServiceAccount_def DeepCopy_JenkinsAPISettings_def
    DeepCopy_JenkinsSpec_def DeepCopy_JenkinsStatus_def DeepCopy_Jenkins_def DeepCopy_JenkinsPlugin_def
    DeepCopy_JenkinsImageSpec_def DeepCopy_JenkinsImageBuild_def DeepCopy_JenkinsImageStatus_def DeepCopy_JenkinsImage_def
    DeepCopy_JenkinsImageList_def DeepCopy_JenkinsList_def DeepCopy_RestoreSpec_def DeepCopy_RestoreStatus_def
    DeepCopy_Restore_def DeepCopy_RestoreList_def DeepCopy_SecretKeySelector_def)

lemma generated_objects_eq:
  "generated_objects X = map (\<lambda>(n, t, c). (n, t, as_object c))
     (filter (\<lambda>(n, t, c). n \<in> set (map fst (generated_objects X))) (generated_new X))"
  by (simp add: generated_objects_def generated_new_def
    DeepCopyObject_Backup_def DeepCopyObject_BackupConfig_def DeepCopyObject_BackupConfigList_def
    DeepCopyObject_BackupList_def DeepCopyObject_Jenkins_def DeepCopyObject_JenkinsImage_def
    DeepCopyObject_JenkinsImageList_def DeepCopyObject_JenkinsList_def DeepCopyObject_Restore_def
    DeepCopyObject_RestoreList_def)

text \<open>The contract of the types of other packages.\<close>

locale deep_externals =
  fixes X :: externals
  assumes external [deep_intros]: "deep (ext_ty X n) (ext_copy X n)"
begin

lemma deep_api1 [deep_intros]:
  "deep (T_BackupStatus X) (DeepCopyInto_BackupStatus X)"
  "deep (T_Container X) (DeepCopyInto_Container X)"
  "deep (T_RestoreStatus X) (DeepCopyInto_RestoreStatus X)"
  unfolding T_BackupStatus_def DeepCopyInto_BackupStatus_def T_Container_def DeepCopyInto_Container_def
    T_RestoreStatus_def DeepCopyInto_RestoreStatus_def
  by (rule deep_structI; simp add: deep_intros)+

lemma deep_api2 [deep_intros]:
  "deep (T_Backup X) (DeepCopyInto_Backup X)"
  "deep (T_JenkinsMaster X) (DeepCopyInto_JenkinsMaster X)"
  "deep (T_Restore X) (DeepCopyInto_Restore X)"
  unfolding T_Backup_def DeepCopyInto_Backup_def T_JenkinsMaster_def DeepCopyInto_JenkinsMaster_def
    T_Restore_def DeepCopyInto_Restore_def
  by (rule deep_structI; simp add: deep_intros)+

lemma deep_api3 [deep_intros]:
  "deep (T_BackupConfig X) (DeepCopyInto_BackupConfig X)"
  "deep (T_BackupList X) (DeepCopyInto_BackupList X)"
  "deep (T_JenkinsSpec X) (DeepCopyInto_JenkinsSpec X)"
  "deep (T_JenkinsImage X) (DeepCopyInto_JenkinsImage X)"
  "deep (T_RestoreList X) (DeepCopyInto_RestoreList X)"
  unfolding T_BackupConfig_def DeepCopyInto_BackupConfig_def T_BackupList_def DeepCopyInto_BackupList_def
    T_JenkinsSpec_def DeepCopyInto_JenkinsSpec_def T_JenkinsImage_def DeepCopyInto_JenkinsImage_def
    T_RestoreList_def DeepCopyInto_RestoreList_def
  by (rule deep_structI; simp add: deep_intros)+

lemma deep_api4 [deep_intros]:
  "deep (T_BackupConfigList X) (DeepCopyInto_BackupConfigList X)"
  "deep (T_JenkinsStatus X) (DeepCopyInto_JenkinsStatus X)"
  "deep (T_JenkinsImageList X) (DeepCopyInto_JenkinsImageList X)"
  unfolding T_BackupConfigList_def DeepCopyInto_BackupConfigList_def T_JenkinsStatus_def DeepCopyInto_JenkinsStatus_def
    T_JenkinsImageList_def DeepCopyInto_JenkinsImageList_def
  by (rule deep_structI; simp add: deep_intros)+

lemma deep_api5 [deep_intros]:
  "deep (T_Jenkins X) (DeepCopyInto_Jenkins X)"
  unfolding T_Jenkins_def DeepCopyInto_Jenkins_def
  by (rule deep_structI; simp add: deep_intros)+

lemma deep_api6 [deep_intros]:
  "deep (T_JenkinsList X) (DeepCopyInto_JenkinsList X)"
  unfolding T_JenkinsList_def DeepCopyInto_JenkinsList_def
  by (rule deep_structI; simp add: deep_intros)+

lemma generated_deep: "(name, t, c) \<in> set (generated X) \<Longrightarrow> deep t c"
  unfolding generated_def by (auto intro: deep_intros)

lemma generated_new_deep:
  assumes "(name, t, c) \<in> set (generated_new X)"
  shows "deep (TPtr t) c"
proof -
  from assms obtain d where "(name, t, d) \<in> set (generated X)" and "c = copy_pointer d"
    unfolding generated_new_eq by auto
  with generated_deep show ?thesis by (auto intro: deep_pointer)
qed

lemma generated_object_deep:
  assumes "(name, t, c) \<in> set (generated_objects X)"
  obtains d where "deep (TPtr t) d" and "c = as_object d"
proof -
  from assms obtain d where "(name, t, d) \<in> set (generated_new X)" and "c = as_object d"
    by (subst (asm) generated_objects_eq) auto
  with generated_new_deep that show ?thesis by blast
qed

end

interpretation vendored: deep_externals vendored
  by unfold_locales (rule vendored_deep)

section \<open>Pointers to copies\<close>

lemma isolated:
  assumes "deep t c" and "has_type t h v"
  shows "\<exists>k v'. c h v = (h @ k, v') \<and> view t (h @ k) v' = view t h v \<and>
    (\<forall>a x. a < length h \<longrightarrow> view t ((h @ k)[a := x]) v' = view t h v) \<and>
    (\<forall>a x. length h \<le> a \<longrightarrow> view t ((h @ k)[a := x]) v = view t h v)"
proof -
  from assms obtain k v' where run: "c h v = (h @ k, v')" and cp: "copied t h v (h @ k) v'" by (rule deepE)
  have "view t ((h @ k)[a := x]) v' = view t h v" if "a < length h" for a x
    using copy_unaffected [OF cp that, of x] cp by (simp add: looks_same_def copied_def)
  moreover have "view t ((h @ k)[a := x]) v = view t h v" if "length h \<le> a" for a x
    using original_unaffected [OF assms(2) that] by (simp add: looks_same_def)
  ultimately show ?thesis using run cp by (auto simp: copied_def)
qed

lemma deep_nil: "deep (TPtr t) c \<Longrightarrow> \<exists>k. c h NilRef = (h @ k, NilRef)"
proof -
  assume c: "deep (TPtr t) c"
  have "has_type (TPtr t) h NilRef" by simp
  with c obtain k w where "c h NilRef = (h @ k, w)" and w: "copied (TPtr t) h NilRef (h @ k) w" by (rule deepE)
  moreover have "w = NilRef" using w by (auto simp: copied_def split: gval.splits option.splits)
  ultimately show ?thesis by blast
qed

lemma field_type:
  assumes "has_type (TStruct fts) h v" and "(f, t) \<in> set fts" and "distinct (map fst fts)"
  shows "has_type t h (field_of v f)"
proof -
  from assms(1) obtain fvs where v: "v = Fields fvs" "length fvs = length fts"
    and f: "\<And>i. i < length fts \<Longrightarrow> fst (fvs ! i) = fst (fts ! i) \<and> has_type (snd (fts ! i)) h (snd (fvs ! i))"
    unfolding has_type_struct by blast
  from assms(2) obtain i where i: "i < length fts" "fts ! i = (f, t)" by (auto simp: in_set_conv_nth)
  have "map fst fvs = map fst fts" using f v(2) by (auto intro: nth_equalityI)
  with field_of_nth [of fvs i] f [OF i(1)] i v assms(3) show ?thesis by simp
qed

lemma set_field_type:
  assumes "has_type (TStruct fts) h v" and "(f, t) \<in> set fts" and "distinct (map fst fts)" and "has_type t h w"
  shows "has_type (TStruct fts) h (set_field f w v)"
proof -
  from assms(1) obtain fvs where v: "v = Fields fvs" "length fvs = length fts"
    and f: "\<And>i. i < length fts \<Longrightarrow> fst (fvs ! i) = fst (fts ! i) \<and> has_type (snd (fts ! i)) h (snd (fvs ! i))"
    unfolding has_type_struct by blast
  from assms(2) obtain i where i: "i < length fts" "fts ! i = (f, t)" by (auto simp: in_set_conv_nth)
  have "map fst fvs = map fst fts" using f v(2) by (auto intro: nth_equalityI)
  with set_field_nth [of fvs i w] f [OF i(1)] i v assms(3) have "set_field f w v = Fields (fvs[i := (f, w)])" by simp
  then show ?thesis using f v i assms(4) by (auto simp: has_type_struct nth_list_update)
qed

lemma zero_type: "has_type t h (zero_value t)"
proof (induction t rule: ty_induct)
  case (TStruct fts)
  have "has_type (snd (fts ! i)) h (zero_value (snd (fts ! i)))" if "i < length fts" for i
    by (rule TStruct.IH [of "fst (fts ! i)"]) (use that in simp)
  then show ?case by (auto simp: has_type_struct)
qed simp_all

section \<open>The master of a calculated specification\<close>

lemma master_field: "has_type (T_JenkinsSpec X) h spec \<Longrightarrow> has_type (TPtr (T_JenkinsMaster X)) h (field_of spec ''Master'')"
  unfolding T_JenkinsSpec_def by (erule field_type) simp_all

lemma containers_field: "has_type (T_JenkinsMaster X) h m \<Longrightarrow> has_type (TSlice (T_Container X)) h (field_of m ''Containers'')"
  unfolding T_JenkinsMaster_def by (erule field_type) simp_all

text \<open>The elements of a slice.\<close>

definition elements :: "heap \<Rightarrow> gval \<Rightarrow> gval list" where
  "elements h v = (case v of SliceOf a i n \<Rightarrow> (case slice_at h a i n of Some ws \<Rightarrow> ws | None \<Rightarrow> []) | _ \<Rightarrow> [])"

lemma write_first_cases:
  assumes "has_type (TSlice t) h v"
  shows "if elements h v = [] then write_first (h @ k) v w = None
    else \<exists>a x. a < length h \<and> write_first (h @ k) v w = Some ((h @ k)[a := x])"
proof (cases "v = NilRef")
  case True
  then show ?thesis by (simp add: elements_def write_first_def)
next
  case False
  with assms obtain a i n ws where v: "v = SliceOf a i n" "slice_at h a i n = Some ws"
    by (auto split: gval.splits option.splits)
  then obtain vs where a: "a < length h" "h ! a = Array vs" "ws = take n (drop i vs)" "i + n \<le> length vs"
    by (auto simp: slice_at_def split: if_splits cell.splits)
  have "ws = [] \<longleftrightarrow> n = 0" using a(3,4) by auto
  moreover have "(h @ k) ! a = Array vs" using a(1,2) by (simp add: nth_append)
  ultimately show ?thesis using a(1) v by (auto simp: elements_def write_first_def)
qed

section \<open>Properties\<close>

text \<open>
  C14. Every generated \<open>DeepCopyInto\<close> of the API types implements a deep copy: the heap only grows, the
  value written looks the same as the one read through all its pointers, and it leads to new cells
  only.
\<close>

theorem generated_copies:
  assumes "deep_externals X" and "(name, t, c) \<in> set (generated X)" and "has_type t h v"
  shows "\<exists>k v'. c h v = (h @ k, v') \<and> has_type t (h @ k) v' \<and> view t (h @ k) v' = view t h v \<and>
    (\<forall>a \<in> reach t (h @ k) v'. length h \<le> a)"
proof -
  from deep_externals.generated_deep [OF assms(1,2)] assms(3) obtain k v' where "c h v = (h @ k, v')" and "copied t h v (h @ k) v'"
    by (rule deepE)
  then show ?thesis by (intro exI [of _ k] exI [of _ v'] conjI ballI) (auto simp: copied_def)
qed

definition sample_configuration :: gval where
  "sample_configuration = Fields [(''Enabled'', Data ''true''), (''DefaultConfig'', Data ''false''),
     (''Secret'', Fields [(''Name'', Data [])]), (''Configurations'', SliceOf 0 0 1), (''EnableAutoReload'', Data ''false'')]"

theorem generated_copies_witness:
  "\<exists>k v'. DeepCopyInto_Configuration [Array [Fields [(''Name'', Data ''casc'')]]] sample_configuration =
      ([Array [Fields [(''Name'', Data ''casc'')]]] @ k, v') \<and>
    view T_Configuration ([Array [Fields [(''Name'', Data ''casc'')]]] @ k) v' =
      view T_Configuration [Array [Fields [(''Name'', Data ''casc'')]]] sample_configuration"
proof -
  have "(''Configuration'', T_Configuration, DeepCopyInto_Configuration) \<in> set (generated vendored)"
    by (simp add: generated_def)
  moreover have "has_type T_Configuration [Array [Fields [(''Name'', Data ''casc'')]]] sample_configuration"
    by (simp add: T_Configuration_def T_SecretRef_def T_ConfigMapRef_def sample_configuration_def has_type.simps(5) slice_at_def)
  ultimately show ?thesis using generated_copies [OF vendored.deep_externals_axioms] by blast
qed

text \<open>
  C15. What \<open>DeepCopy\<close> returns is nil exactly for nil, and a write to any cell that one of the two pointers
  leads to is not seen through the other.
\<close>

theorem copies_isolated:
  assumes "deep_externals X" and "(name, t, c) \<in> set (generated_new X)" and "has_type (TPtr t) h p"
  shows "\<exists>k q. c h p = (h @ k, q) \<and> (q = NilRef \<longleftrightarrow> p = NilRef) \<and>
    (\<forall>a x. a < length h \<longrightarrow> view (TPtr t) ((h @ k)[a := x]) q = view (TPtr t) h p) \<and>
    (\<forall>a x. length h \<le> a \<longrightarrow> view (TPtr t) ((h @ k)[a := x]) p = view (TPtr t) h p)"
proof -
  note c = deep_externals.generated_new_deep [OF assms(1,2)]
  from isolated [OF c assms(3)] obtain k q where run: "c h p = (h @ k, q)" and view: "view (TPtr t) (h @ k) q = view (TPtr t) h p"
    and writes: "\<forall>a x. a < length h \<longrightarrow> view (TPtr t) ((h @ k)[a := x]) q = view (TPtr t) h p"
      "\<forall>a x. length h \<le> a \<longrightarrow> view (TPtr t) ((h @ k)[a := x]) p = view (TPtr t) h p" by blast
  from c assms(3) have "has_type (TPtr t) (h @ k) q" using run by (auto elim!: deepE simp: copied_def)
  then have "q = NilRef \<longleftrightarrow> view (TPtr t) (h @ k) q = VNil" "p = NilRef \<longleftrightarrow> view (TPtr t) h p = VNil"
    using assms(3) by (auto split: gval.splits option.splits)
  with run view writes show ?thesis by auto
qed

theorem copies_isolated_witness:
  "\<exists>k q. DeepCopy_Configuration [Array [Fields [(''Name'', Data ''casc'')]], Var sample_configuration] (PtrTo 1) =
      ([Array [Fields [(''Name'', Data ''casc'')]], Var sample_configuration] @ k, q) \<and>
    (\<forall>x. view (TPtr T_Configuration) (([Array [Fields [(''Name'', Data ''casc'')]], Var sample_configuration] @ k)[0 := x]) q =
      view (TPtr T_Configuration) [Array [Fields [(''Name'', Data ''casc'')]], Var sample_configuration] (PtrTo 1))"
proof -
  let ?h = "[Array [Fields [(''Name'', Data ''casc'')]], Var sample_configuration]"
  have "(''Configuration'', T_Configuration, DeepCopy_Configuration) \<in> set (generated_new vendored)"
    by (simp add: generated_new_def)
  moreover have "has_type (TPtr T_Configuration) ?h (PtrTo 1)"
    by (simp add: T_Configuration_def T_SecretRef_def T_ConfigMapRef_def sample_configuration_def has_type.simps(5)
        slice_at_def var_at_def)
  ultimately obtain k q where run: "DeepCopy_Configuration ?h (PtrTo 1) = (?h @ k, q)"
    and writes: "\<forall>a x. a < length ?h \<longrightarrow> view (TPtr T_Configuration) ((?h @ k)[a := x]) q = view (TPtr T_Configuration) ?h (PtrTo 1)"
    using copies_isolated [OF vendored.deep_externals_axioms] by blast
  show ?thesis by (intro exI conjI allI, rule run, rule writes [rule_format], simp)
qed

text \<open>\<open>DeepCopyObject\<close> of a nil pointer is the nil interface.\<close>

lemma object_copies:
  assumes "deep_externals X" and "(name, t, c) \<in> set (generated_objects X)" and "has_type (TPtr t) h p"
  shows "\<exists>k q. c h p = (h @ k, if p = NilRef then None else Some q) \<and> view (TPtr t) (h @ k) q = view (TPtr t) h p"
proof -
  from assms(1,2) obtain d where d: "deep (TPtr t) d" "c = as_object d" by (rule deep_externals.generated_object_deep)
  from deepE [OF d(1) assms(3)] obtain k q where run: "d h p = (h @ k, q)" and cp: "copied (TPtr t) h p (h @ k) q" by metis
  from cp have "q = NilRef \<longleftrightarrow> p = NilRef"
    using assms(3) by (auto simp: copied_def split: gval.splits option.splits)
  with run have "c h p = (h @ k, if p = NilRef then None else Some q)" by (simp add: d(2) as_object_def)
  with cp show ?thesis unfolding copied_def by blast
qed

text \<open>
  C16. The master of the calculated specification on shared data: without a master it is new with the
  container as its only one; without containers the function panics; otherwise the master returned
  looks like the one requested, although the container is written to the first place of the
  original's containers, because the master returned is a deep copy.
\<close>

theorem calculated_master_isolated:
  assumes "deep_externals X" and "var_at h s = Some spec" and "has_type (T_JenkinsSpec X) h spec"
    and "has_type (T_Container X) h jc"
  shows "case field_of spec ''Master'' of
      NilRef \<Rightarrow> \<exists>k b w. calculated_master X h s jc = Some (h @ k, PtrTo b) \<and> var_at (h @ k) b = Some w \<and>
        view (TSlice (T_Container X)) (h @ k) (field_of w ''Containers'') = VSlice [view (T_Container X) h jc]
    | PtrTo m \<Rightarrow> \<exists>old. var_at h m = Some old \<and>
        (if elements h (field_of old ''Containers'') = [] then calculated_master X h s jc = None
         else \<exists>h' q. calculated_master X h s jc = Some (h', q) \<and>
           view (TPtr (T_JenkinsMaster X)) h' q = view (TPtr (T_JenkinsMaster X)) h (PtrTo m))
    | _ \<Rightarrow> False"
proof (cases "field_of spec ''Master''")
  case NilRef
  let ?w = "set_field ''Containers'' (SliceOf (length h) 0 1) (zero_value (T_JenkinsMaster X))"
  let ?k = "[Array [jc], Var ?w]"
  have "field_of ?w ''Containers'' = SliceOf (length h) 0 1"
    by (simp add: T_JenkinsMaster_def set_field_def field_of_def)
  moreover have "view (T_Container X) (h @ ?k) jc = view (T_Container X) h jc"
    using looks_same_extended [OF assms(4)] by (simp add: looks_same_def)
  ultimately have "view (TSlice (T_Container X)) (h @ ?k) (field_of ?w ''Containers'') = VSlice [view (T_Container X) h jc]"
    by (simp add: slice_at_def)
  moreover have "calculated_master X h s jc = Some (h @ ?k, PtrTo (Suc (length h)))"
    by (simp add: calculated_master_def assms(2) NilRef new_var_def Let_def)
  moreover have "var_at (h @ ?k) (Suc (length h)) = Some ?w" by (simp add: var_at_def nth_append)
  ultimately show ?thesis unfolding NilRef gval.case by blast
next
  case (PtrTo m)
  from master_field [OF assms(3)] PtrTo obtain old where old: "var_at h m = Some old" "has_type (T_JenkinsMaster X) h old"
    by (auto split: option.splits)
  have ptr: "has_type (TPtr (T_JenkinsMaster X)) h (PtrTo m)" using old by simp
  have "(''JenkinsMaster'', T_JenkinsMaster X, DeepCopy_JenkinsMaster X) \<in> set (generated_new X)" by (simp add: generated_new_def)
  from isolated [OF deep_externals.generated_new_deep [OF assms(1) this] ptr] obtain k q where
    run: "DeepCopy_JenkinsMaster X h (PtrTo m) = (h @ k, q)" and
    view: "\<And>a x. a < length h \<Longrightarrow> view (TPtr (T_JenkinsMaster X)) ((h @ k)[a := x]) q = view (TPtr (T_JenkinsMaster X)) h (PtrTo m)"
    by blast
  have "var_at (h @ k) m = Some old" using old(1) at_bound(1) [OF old(1)] by (simp add: var_at_def nth_append)
  then have eq: "calculated_master X h s jc =
      map_option (\<lambda>h. (h, q)) (write_first (h @ k) (field_of old ''Containers'') jc)"
    by (simp add: calculated_master_def assms(2) PtrTo run)
  from write_first_cases [OF containers_field [OF old(2)], of k jc] have "if elements h (field_of old ''Containers'') = []
    then calculated_master X h s jc = None
    else \<exists>h' q. calculated_master X h s jc = Some (h', q) \<and>
      view (TPtr (T_JenkinsMaster X)) h' q = view (TPtr (T_JenkinsMaster X)) h (PtrTo m)"
    unfolding eq using view by (auto split: if_splits)
  with old(1) show ?thesis unfolding PtrTo gval.case by blast
qed (use master_field [OF assms(3)] in simp_all)

definition shared_heap :: heap where
  "shared_heap = [Array [set_field ''Image'' (Data ''jenkins:lts'') (zero_value (T_Container vendored))],
     Var (set_field ''Containers'' (SliceOf 0 0 1) (zero_value (T_JenkinsMaster vendored))),
     Var (set_field ''Master'' (PtrTo 1) (zero_value (T_JenkinsSpec vendored)))]"

theorem calculated_master_isolated_witness:
  "\<exists>h' q. calculated_master vendored shared_heap 2 (zero_value (T_Container vendored)) = Some (h', q) \<and>
    view (TPtr (T_JenkinsMaster vendored)) h' q = view (TPtr (T_JenkinsMaster vendored)) shared_heap (PtrTo 1)"
proof -
  let ?c = "set_field ''Image'' (Data ''jenkins:lts'') (zero_value (T_Container vendored))"
  let ?m = "set_field ''Containers'' (SliceOf 0 0 1) (zero_value (T_JenkinsMaster vendored))"
  let ?s = "set_field ''Master'' (PtrTo 1) (zero_value (T_JenkinsSpec vendored))"
  have c: "has_type (T_Container vendored) shared_heap ?c"
    using zero_type [of "T_Container vendored"] unfolding T_Container_def
    by (rule set_field_type [where t = TData]) simp_all
  then have "has_type (TSlice (T_Container vendored)) shared_heap (SliceOf 0 0 1)"
    by (simp add: shared_heap_def slice_at_def)
  then have m: "has_type (T_JenkinsMaster vendored) shared_heap ?m"
    using zero_type [of "T_JenkinsMaster vendored" shared_heap] unfolding T_JenkinsMaster_def
    by (intro set_field_type [where t = "TSlice (T_Container vendored)"]) simp_all
  have at: "var_at shared_heap 1 = Some ?m" "var_at shared_heap 2 = Some ?s" by (simp_all add: shared_heap_def var_at_def)
  from m have "has_type (TPtr (T_JenkinsMaster vendored)) shared_heap (PtrTo 1)"
    unfolding has_type.simps gval.case at option.case .
  then have s: "has_type (T_JenkinsSpec vendored) shared_heap ?s"
    using zero_type [of "T_JenkinsSpec vendored" shared_heap] unfolding T_JenkinsSpec_def
    by (intro set_field_type [where t = "TPtr (T_JenkinsMaster vendored)"]) simp_all
  have master: "field_of ?s ''Master'' = PtrTo 1" by (simp add: T_JenkinsSpec_def set_field_def field_of_def)
  have containers: "field_of ?m ''Containers'' = SliceOf 0 0 1" by (simp add: T_JenkinsMaster_def set_field_def field_of_def)
  have "elements shared_heap (SliceOf 0 0 1) = [?c]" by (simp add: elements_def slice_at_def shared_heap_def)
  then have full: "elements shared_heap (field_of ?m ''Containers'') \<noteq> []" unfolding containers by simp
  from calculated_master_isolated [OF vendored.deep_externals_axioms at(2) s zero_type] full
  show ?thesis unfolding master gval.case at(1) by auto
qed

end
